(* ===== verification/Prelude.thy ===== *)
theory Prelude
  imports Main "HOL-Library.Char_ord" "HOL-Library.List_Lexorder" "HOL-Library.Word"
    "HOL-Library.Multiset" "HOL-Library.Monad_Syntax"
begin

text \<open>
  Shared ground of the development: the Go types and the parts of the Go standard library
  that every component uses.

  \<^item> A Go \<^verbatim>\<open>string\<close> is a byte sequence and is modelled by \<^typ>\<open>string\<close> (a list of 8-bit
    characters).  Comparison is bytewise, which is the lexicographic order of the library.
  \<^item> \<^verbatim>\<open>strings.ToLower\<close>, \<^verbatim>\<open>strings.ToUpper\<close> and \<^verbatim>\<open>strings.EqualFold\<close> are written for the ASCII
    letters; every other byte is kept, which is what Go does on ASCII text and on text in
    caseless scripts.
  \<^item> \<^verbatim>\<open>strings.TrimSpace\<close> is exact: it removes the UTF-8 encodings of all white space code points.
  \<^item> \<^verbatim>\<open>time.Duration\<close> and \<^verbatim>\<open>int64\<close> values are \<^typ>\<open>int\<close>, with the wrap-around written out where a
    computation can leave the 64-bit range.
  \<^item> \<^verbatim>\<open>time.Time\<close> is the number of nanoseconds since the zero time, so the zero time is 0.
\<close>

section \<open>Names of the model's types\<close>

type_synonym duration = int
type_synonym gotime = int

text \<open>A call that returns a value or an error: \<^term>\<open>Inl e\<close> is the error.\<close>

type_synonym ('e, 'a) result = "'e + 'a"

named_theorems go_string "evaluation of the modelled string functions"
named_theorems bounds "bounds of values computed by the program"

section \<open>Strings\<close>

definition has_prefix :: "string \<Rightarrow> string \<Rightarrow> bool" where
  "has_prefix s p = (take (length p) s = p)"

definition has_suffix :: "string \<Rightarrow> string \<Rightarrow> bool" where
  "has_suffix s p = (length p \<le> length s \<and> drop (length s - length p) s = p)"

definition trim_prefix :: "string \<Rightarrow> string \<Rightarrow> string" where
  "trim_prefix s p = (if has_prefix s p then drop (length p) s else s)"

definition trim_suffix :: "string \<Rightarrow> string \<Rightarrow> string" where
  "trim_suffix s p = (if has_suffix s p then take (length s - length p) s else s)"

fun contains :: "string \<Rightarrow> string \<Rightarrow> bool" where
  "contains [] sub = (sub = [])"
| "contains (c # s) sub = (has_prefix (c # s) sub \<or> contains s sub)"

text \<open>\<^verbatim>\<open>strings.Split\<close> on a one-character separator, and \<^verbatim>\<open>strings.Join\<close>.\<close>

fun split_on :: "char \<Rightarrow> string \<Rightarrow> string list" where
  "split_on sep [] = [[]]"
| "split_on sep (c # s) =
     (if c = sep then [] # split_on sep s
      else (case split_on sep s of [] \<Rightarrow> [[c]] | w # ws \<Rightarrow> (c # w) # ws))"

fun join_with :: "string \<Rightarrow> string list \<Rightarrow> string" where
  "join_with sep [] = []"
| "join_with sep [w] = w"
| "join_with sep (w # v # ws) = w @ sep @ join_with sep (v # ws)"

definition lower_char :: "char \<Rightarrow> char" where
  "lower_char c = (if CHR ''A'' \<le> c \<and> c \<le> CHR ''Z'' then char_of ((of_char c :: nat) + 32) else c)"

definition upper_char :: "char \<Rightarrow> char" where
  "upper_char c = (if CHR ''a'' \<le> c \<and> c \<le> CHR ''z'' then char_of ((of_char c :: nat) - 32) else c)"

definition to_lower :: "string \<Rightarrow> string" where
  "to_lower s = map lower_char s"

definition to_upper :: "string \<Rightarrow> string" where
  "to_upper s = map upper_char s"

definition equal_fold :: "string \<Rightarrow> string \<Rightarrow> bool" where
  "equal_fold a b = (to_lower a = to_lower b)"

definition is_digit :: "char \<Rightarrow> bool" where
  "is_digit c = (CHR ''0'' \<le> c \<and> c \<le> CHR ''9'')"

definition is_lower_letter :: "char \<Rightarrow> bool" where
  "is_lower_letter c = (CHR ''a'' \<le> c \<and> c \<le> CHR ''z'')"

definition digit_val :: "char \<Rightarrow> nat" where
  "digit_val c = of_char c - 48"

definition digit_char :: "nat \<Rightarrow> char" where
  "digit_char n = char_of (n + 48)"

section \<open>White space\<close>

text \<open>
  \<^verbatim>\<open>unicode.IsSpace\<close> on the UTF-8 encoding: one byte for the ASCII spaces, two bytes for U+0085
  and U+00A0, three bytes for U+1680, U+2000 to U+200A, U+2028, U+2029, U+202F, U+205F, U+3000.
\<close>

definition space1 :: "char \<Rightarrow> bool" where
  "space1 a = (let n = (of_char a :: nat) in 9 \<le> n \<and> n \<le> 13 \<or> n = 32)"

definition space2 :: "char \<Rightarrow> char \<Rightarrow> bool" where
  "space2 a b = ((of_char a :: nat) = 0xC2 \<and> ((of_char b :: nat) = 0x85 \<or> (of_char b :: nat) = 0xA0))"

definition space3 :: "char \<Rightarrow> char \<Rightarrow> char \<Rightarrow> bool" where
  "space3 a b c = (let x = (of_char a :: nat); y = (of_char b :: nat); z = (of_char c :: nat) in
     x = 0xE1 \<and> y = 0x9A \<and> z = 0x80 \<or>
     x = 0xE2 \<and> y = 0x80 \<and> (0x80 \<le> z \<and> z \<le> 0x8A \<or> z = 0xA8 \<or> z = 0xA9 \<or> z = 0xAF) \<or>
     x = 0xE2 \<and> y = 0x81 \<and> z = 0x9F \<or>
     x = 0xE3 \<and> y = 0x80 \<and> z = 0x80)"

fun trim_left_space :: "string \<Rightarrow> string" where
  "trim_left_space [] = []"
| "trim_left_space [a] = (if space1 a then [] else [a])"
| "trim_left_space [a, b] =
     (if space1 a then trim_left_space [b] else if space2 a b then [] else [a, b])"
| "trim_left_space (a # b # c # s) =
     (if space1 a then trim_left_space (b # c # s)
      else if space2 a b then trim_left_space (c # s)
      else if space3 a b c then trim_left_space s
      else a # b # c # s)"

text \<open>The same on the reversed string, where the bytes of a code point come last byte first.\<close>

fun trim_right_rev :: "string \<Rightarrow> string" where
  "trim_right_rev [] = []"
| "trim_right_rev [a] = (if space1 a then [] else [a])"
| "trim_right_rev [b, a] =
     (if space1 b then trim_right_rev [a] else if space2 a b then [] else [b, a])"
| "trim_right_rev (c # b # a # s) =
     (if space1 c then trim_right_rev (b # a # s)
      else if space2 b c then trim_right_rev (a # s)
      else if space3 a b c then trim_right_rev s
      else c # b # a # s)"

definition trim_space :: "string \<Rightarrow> string" where
  "trim_space s = rev (trim_right_rev (rev (trim_left_space s)))"

section \<open>Machine integers and time\<close>

definition max_int64 :: int where "max_int64 = 9223372036854775807"
definition min_int64 :: int where "min_int64 = -9223372036854775808"

definition int64_range :: "int \<Rightarrow> bool" where
  "int64_range x = (min_int64 \<le> x \<and> x \<le> max_int64)"

text \<open>Two's complement wrap-around of the 64-bit signed operations.\<close>

definition wrap64 :: "int \<Rightarrow> int" where
  "wrap64 x = (x + 9223372036854775808) mod 18446744073709551616 - 9223372036854775808"

text \<open>\<^verbatim>\<open>time.Time.Sub\<close> saturates at the ends of the 64-bit range.\<close>

definition clamp64 :: "int \<Rightarrow> int" where
  "clamp64 x = (if x < min_int64 then min_int64 else if x > max_int64 then max_int64 else x)"

definition time_sub :: "gotime \<Rightarrow> gotime \<Rightarrow> duration" where
  "time_sub a b = clamp64 (a - b)"

abbreviation millisecond :: duration where "millisecond \<equiv> 1000000"
abbreviation second :: duration where "second \<equiv> 1000000000"
abbreviation minute :: duration where "minute \<equiv> 60000000000"
abbreviation hour :: duration where "hour \<equiv> 3600000000000"

text \<open>Decimal text of a number, as \<^verbatim>\<open>strconv.Itoa\<close> and \<^verbatim>\<open>%d\<close> print it.\<close>

fun nat_string :: "nat \<Rightarrow> string" where
  "nat_string n = (if n < 10 then [digit_char n] else nat_string (n div 10) @ [digit_char (n mod 10)])"

declare nat_string.simps [simp del]

definition int_string :: "int \<Rightarrow> string" where
  "int_string i = (if i < 0 then ''-'' @ nat_string (nat (- i)) else nat_string (nat i))"

text \<open>\<^verbatim>\<open>strconv.Quote\<close>, on printable ASCII text.\<close>

definition go_quote :: "string \<Rightarrow> string" where
  "go_quote s = [CHR 0x22] @
     concat (map (\<lambda>c. if c = CHR 0x22 \<or> c = CHR 0x5C then [CHR 0x5C, c] else [c]) s) @ [CHR 0x22]"

definition digits_val :: "string \<Rightarrow> nat" where
  "digits_val s = foldl (\<lambda>acc c. acc * 10 + digit_val c) 0 s"

section \<open>Lists and options\<close>

text \<open>Keeps the first occurrence of every element, the way the code fills a \<^verbatim>\<open>seen\<close> map.\<close>

fun keep_first :: "'a list \<Rightarrow> 'a set \<Rightarrow> 'a list" where
  "keep_first [] seen = []"
| "keep_first (x # xs) seen =
     (if x \<in> seen then keep_first xs seen else x # keep_first xs (insert x seen))"

text \<open>\<^verbatim>\<open>slices.Compact\<close>: removes the repetitions of consecutive equal elements.\<close>

fun compact :: "'a list \<Rightarrow> 'a list" where
  "compact [] = []"
| "compact [x] = [x]"
| "compact (x # y # ys) = (if x = y then compact (y # ys) else x # compact (y # ys))"

section \<open>Lemmas\<close>

lemma wrap64_id [simp]: "int64_range x \<Longrightarrow> wrap64 x = x"
  by (simp add: wrap64_def int64_range_def min_int64_def max_int64_def)

lemma wrap64_range [bounds]: "int64_range (wrap64 x)"
proof -
  have "0 \<le> (x + 9223372036854775808) mod 18446744073709551616"
    "(x + 9223372036854775808) mod 18446744073709551616 < 18446744073709551616" by simp_all
  then show ?thesis unfolding wrap64_def int64_range_def min_int64_def max_int64_def by linarith
qed

lemma clamp64_id [simp]: "int64_range x \<Longrightarrow> clamp64 x = x"
  by (auto simp: clamp64_def int64_range_def)

lemma clamp64_range [bounds]: "int64_range (clamp64 x)"
  by (auto simp: clamp64_def int64_range_def min_int64_def max_int64_def)

lemma set_keep_first [simp]: "set (keep_first xs seen) = set xs - seen"
  by (induction xs seen rule: keep_first.induct) auto

lemma distinct_keep_first [simp]: "distinct (keep_first xs seen)"
  by (induction xs seen rule: keep_first.induct) auto

lemma keep_first_distinct: "distinct xs \<Longrightarrow> set xs \<inter> seen = {} \<Longrightarrow> keep_first xs seen = xs"
  by (induction xs seen rule: keep_first.induct) auto

lemma set_compact [simp]: "set (compact xs) = set xs"
  by (induction xs rule: compact.induct) auto

lemma compact_sorted_distinct: "sorted xs \<Longrightarrow> distinct (compact (xs :: 'a :: linorder list))"
  by (induction xs rule: compact.induct) (auto simp: order.order_iff_strict)

lemma split_on_not_Nil [simp]: "split_on sep s \<noteq> []"
  by (induction s) (auto split: list.splits)

lemma lower_char_idem [simp]: "lower_char (lower_char c) = lower_char c"
proof (cases "CHR ''A'' \<le> c \<and> c \<le> CHR ''Z''")
  case True
  let ?n = "of_char c :: nat"
  have n: "65 \<le> ?n" "?n \<le> 90" using True by (auto simp: less_eq_char_def)
  then have "of_char (char_of (?n + 32) :: char) = ?n + 32" by simp
  then show ?thesis using n True by (simp add: lower_char_def less_eq_char_def)
qed (auto simp: lower_char_def)

lemma to_lower_idem [simp]: "to_lower (to_lower s) = to_lower s"
  by (simp add: to_lower_def comp_def)

lemma length_to_lower [simp]: "length (to_lower s) = length s"
  by (simp add: to_lower_def)

lemma to_lower_eq_Nil [simp]: "to_lower s = [] \<longleftrightarrow> s = []"
  by (simp add: to_lower_def)

lemma to_lower_append [simp]: "to_lower (a @ b) = to_lower a @ to_lower b"
  by (simp add: to_lower_def)

lemma digit_char_eval [simp]:
  "digit_char 0 = CHR ''0''" "digit_char (Suc 0) = CHR ''1''" "digit_char 1 = CHR ''1''"
  "digit_char 2 = CHR ''2''" "digit_char 3 = CHR ''3''" "digit_char 4 = CHR ''4''"
  "digit_char 5 = CHR ''5''" "digit_char 6 = CHR ''6''" "digit_char 7 = CHR ''7''"
  "digit_char 8 = CHR ''8''" "digit_char 9 = CHR ''9''"
  by (simp_all add: digit_char_def char_of_def bit_0)

lemma has_suffix_append [simp]: "has_suffix (a @ b) b"
  by (simp add: has_suffix_def)

lemma has_prefix_append [simp]: "has_prefix (a @ b) a"
  by (simp add: has_prefix_def)

lemma trim_suffix_append [simp]: "trim_suffix (a @ b) b = a"
  by (simp add: trim_suffix_def)

text \<open>Text of printable ASCII characters has nothing to trim.\<close>

lemma trim_space_id:
  assumes "list_all (\<lambda>c. 32 < (of_char c :: nat) \<and> (of_char c :: nat) < 128) s"
  shows "trim_space s = s"
proof -
  have left: "trim_left_space t = t" if "list_all (\<lambda>c. 32 < (of_char c :: nat) \<and> (of_char c :: nat) < 128) t" for t
    using that by (cases t rule: trim_left_space.cases) (auto simp: space1_def space2_def space3_def Let_def)
  have right: "trim_right_rev t = t" if "list_all (\<lambda>c. 32 < (of_char c :: nat) \<and> (of_char c :: nat) < 128) t" for t
    using that by (cases t rule: trim_right_rev.cases) (auto simp: space1_def space2_def space3_def Let_def)
  show ?thesis using left [of s] right [of "rev s"] assms by (simp add: trim_space_def list_all_iff)
qed

lemmas string_eval = has_prefix_def has_suffix_def trim_prefix_def trim_suffix_def lower_char_def
  upper_char_def to_lower_def to_upper_def equal_fold_def is_digit_def is_lower_letter_def
  space1_def space2_def space3_def trim_space_def less_eq_char_def less_char_def char_of_def bit_0

declare string_eval [go_string]

end
