(* ===== verification/Netip.thy ===== *)
theory Netip
  imports Prelude
begin

text \<open>
  The parts of the Go standard library packages \<^verbatim>\<open>net/netip\<close>, \<^verbatim>\<open>net\<close> and \<^verbatim>\<open>strconv\<close> that the checkers
  use: IP addresses with their textual forms and classes, prefixes, and host:port pairs.
\<close>

datatype addr = InvalidAddr | V4 "32 word" | V6 "128 word" string

datatype prefix = Prefix4 "32 word" nat | Prefix6 "128 word" nat

definition ip4 :: "nat \<Rightarrow> nat \<Rightarrow> nat \<Rightarrow> nat \<Rightarrow> 32 word" where
  "ip4 a b c d = of_nat (((a * 256 + b) * 256 + c) * 256 + d)"

definition ip6 :: "nat list \<Rightarrow> 128 word" where
  "ip6 groups = of_nat (foldl (\<lambda>acc g. acc * 65536 + g) 0 groups)"

section \<open>Address classes\<close>

fun Unmap :: "addr \<Rightarrow> addr" where
  "Unmap (V6 w z) = (if drop_bit 32 w = 0xFFFF then V4 (ucast w) else V6 w z)"
| "Unmap a = a"

fun IsLoopback :: "addr \<Rightarrow> bool" where
  "IsLoopback (V4 w) = (drop_bit 24 w = 127)"
| "IsLoopback (V6 w z) = (w = 1)"
| "IsLoopback InvalidAddr = False"

fun IsPrivate :: "addr \<Rightarrow> bool" where
  "IsPrivate (V4 w) = (drop_bit 24 w = 10 \<or> drop_bit 20 w = 0xAC1 \<or> drop_bit 16 w = 0xC0A8)"
| "IsPrivate (V6 w z) = (drop_bit 121 w = 0x7E)"
| "IsPrivate InvalidAddr = False"

fun IsLinkLocalUnicast :: "addr \<Rightarrow> bool" where
  "IsLinkLocalUnicast (V4 w) = (drop_bit 16 w = 0xA9FE)"
| "IsLinkLocalUnicast (V6 w z) = (drop_bit 118 w = 0x3FA)"
| "IsLinkLocalUnicast InvalidAddr = False"

fun IsMulticast :: "addr \<Rightarrow> bool" where
  "IsMulticast (V4 w) = (drop_bit 28 w = 0xE)"
| "IsMulticast (V6 w z) = (drop_bit 120 w = 0xFF)"
| "IsMulticast InvalidAddr = False"

fun IsLinkLocalMulticast :: "addr \<Rightarrow> bool" where
  "IsLinkLocalMulticast (V4 w) = (drop_bit 8 w = 0xE00000)"
| "IsLinkLocalMulticast (V6 w z) = (drop_bit 120 w = 0xFF \<and> take_bit 4 (drop_bit 112 w) = 2)"
| "IsLinkLocalMulticast InvalidAddr = False"

fun IsUnspecified :: "addr \<Rightarrow> bool" where
  "IsUnspecified (V4 w) = (w = 0)"
| "IsUnspecified (V6 w z) = (w = 0 \<and> z = '''')"
| "IsUnspecified InvalidAddr = False"

fun IsGlobalUnicast :: "addr \<Rightarrow> bool" where
  "IsGlobalUnicast (V4 w) = (w \<noteq> 0 \<and> w \<noteq> 0xFFFFFFFF \<and> \<not> IsLoopback (V4 w) \<and>
     \<not> IsMulticast (V4 w) \<and> \<not> IsLinkLocalUnicast (V4 w))"
| "IsGlobalUnicast (V6 w z) = (\<not> (w = 0 \<and> z = '''') \<and> \<not> IsLoopback (V6 w z) \<and>
     \<not> IsMulticast (V6 w z) \<and> \<not> IsLinkLocalUnicast (V6 w z))"
| "IsGlobalUnicast InvalidAddr = False"

definition IsValid :: "addr \<Rightarrow> bool" where
  "IsValid a = (a \<noteq> InvalidAddr)"

fun prefix_Contains :: "prefix \<Rightarrow> addr \<Rightarrow> bool" where
  "prefix_Contains (Prefix4 p n) (V4 w) = (drop_bit (32 - n) w = drop_bit (32 - n) p)"
| "prefix_Contains (Prefix6 p n) (V6 w z) = (z = '''' \<and> drop_bit (128 - n) w = drop_bit (128 - n) p)"
| "prefix_Contains _ _ = False"

section \<open>Reading addresses\<close>

text \<open>One field of a dotted quad: decimal digits, no leading zero, at most 255.\<close>

definition quad_field :: "string \<Rightarrow> nat option" where
  "quad_field s =
    (if s = [] \<or> \<not> list_all is_digit s \<or> (hd s = CHR ''0'' \<and> length s > 1) \<or> digits_val s > 255
     then None else Some (digits_val s))"

definition parse_quad :: "string \<Rightarrow> (32 word) option" where
  "parse_quad s =
    (case map quad_field (split_on (CHR ''.'') s) of
       [Some a, Some b, Some c, Some d] \<Rightarrow> Some (ip4 a b c d)
     | _ \<Rightarrow> None)"

definition hex_val :: "char \<Rightarrow> nat option" where
  "hex_val c =
    (if is_digit c then Some (digit_val c)
     else if CHR ''a'' \<le> c \<and> c \<le> CHR ''f'' then Some (of_char c - 87)
     else if CHR ''A'' \<le> c \<and> c \<le> CHR ''F'' then Some (of_char c - 55)
     else None)"

definition hex_run :: "string \<Rightarrow> string" where
  "hex_run s = takeWhile (\<lambda>c. hex_val c \<noteq> None) s"

definition hex_value :: "string \<Rightarrow> nat" where
  "hex_value s = foldl (\<lambda>acc c. acc * 16 + (case hex_val c of None \<Rightarrow> 0 | Some v \<Rightarrow> v)) 0 s"

text \<open>
  The loop of \<^verbatim>\<open>parseIPv6\<close>: \<open>left\<close> groups may still follow, \<open>groups\<close> are those read so far and
  \<open>ellipsis\<close> is the position of the \<^verbatim>\<open>::\<close>.  The result is the groups with the ellipsis position.
\<close>

fun parse6_loop :: "nat \<Rightarrow> nat list \<Rightarrow> nat option \<Rightarrow> string \<Rightarrow> (nat list \<times> nat option) option" where
  "parse6_loop 0 groups ellipsis s = (if s = [] then Some (groups, ellipsis) else None)"
| "parse6_loop (Suc left) groups ellipsis s =
    (let run = hex_run s; off = length run; rest = drop off s in
     if off = 0 \<or> off > 4 then None
     else if rest \<noteq> [] \<and> hd rest = CHR ''.'' then
       (if (ellipsis = None \<and> length groups \<noteq> 6) \<or> length groups > 6 then None
        else (case parse_quad s of
            None \<Rightarrow> None
          | Some w \<Rightarrow> Some (groups @ [unat (drop_bit 16 w), unat (take_bit 16 w)], ellipsis)))
     else let groups = groups @ [hex_value run] in
       (case rest of
          [] \<Rightarrow> Some (groups, ellipsis)
        | [c] \<Rightarrow> None
        | c # d # s' \<Rightarrow>
            if c \<noteq> CHR '':'' then None
            else if d = CHR '':'' then
              (if ellipsis \<noteq> None then None
               else if s' = [] then Some (groups, Some (length groups))
               else parse6_loop left groups (Some (length groups)) s')
            else parse6_loop left groups ellipsis (d # s')))"

definition expand_groups :: "nat list \<Rightarrow> nat option \<Rightarrow> nat list option" where
  "expand_groups groups ellipsis =
    (case ellipsis of
       None \<Rightarrow> if length groups = 8 then Some groups else None
     | Some k \<Rightarrow> if length groups < 8
                 then Some (take k groups @ replicate (8 - length groups) 0 @ drop k groups)
                 else None)"

definition split_zone :: "string \<Rightarrow> (string \<times> string) option" where
  "split_zone s =
    (let addr = takeWhile (\<lambda>c. c \<noteq> CHR ''%'') s in
     if length addr = length s then Some (s, '''')
     else let zone = drop (length addr + 1) s in if zone = '''' then None else Some (addr, zone))"

definition parse_ipv6 :: "string \<Rightarrow> addr option" where
  "parse_ipv6 input =
    (case split_zone input of
       None \<Rightarrow> None
     | Some (s, zone) \<Rightarrow>
         let start = has_prefix s ''::''; body = (if start then drop 2 s else s) in
         if start \<and> body = [] then Some (V6 0 zone)
         else (case parse6_loop 8 [] (if start then Some 0 else None) body of
             None \<Rightarrow> None
           | Some (groups, ellipsis) \<Rightarrow>
               map_option (\<lambda>gs. V6 (ip6 gs) zone) (expand_groups groups ellipsis)))"

definition ParseAddr :: "string \<Rightarrow> addr option" where
  "ParseAddr s =
    (case find (\<lambda>c. c = CHR ''.'' \<or> c = CHR '':'' \<or> c = CHR ''%'') s of
       None \<Rightarrow> None
     | Some c \<Rightarrow>
         if c = CHR ''.'' then map_option V4 (parse_quad s)
         else if c = CHR '':'' then parse_ipv6 s
         else None)"

section \<open>Printing addresses\<close>

definition quad_string :: "32 word \<Rightarrow> string" where
  "quad_string w = join_with ''.''
     (map (\<lambda>k. nat_string (unat (take_bit 8 (drop_bit k w)))) [24, 16, 8, 0])"

definition hex_char :: "nat \<Rightarrow> char" where
  "hex_char n = (if n < 10 then digit_char n else char_of (n + 87))"

fun hex_string :: "nat \<Rightarrow> string" where
  "hex_string n = (if n < 16 then [hex_char n] else hex_string (n div 16) @ [hex_char (n mod 16)])"

declare hex_string.simps [simp del]

definition addr_groups :: "128 word \<Rightarrow> nat list" where
  "addr_groups w = map (\<lambda>k. unat (take_bit 16 (drop_bit k w))) [112, 96, 80, 64, 48, 32, 16, 0]"

text \<open>Start and length of the leftmost longest run of at least two zero groups.\<close>

definition zero_run_at :: "nat list \<Rightarrow> nat \<Rightarrow> nat" where
  "zero_run_at gs i = length (takeWhile (\<lambda>g. g = 0) (drop i gs))"

definition best_zero_run :: "nat list \<Rightarrow> (nat \<times> nat) option" where
  "best_zero_run gs =
    foldl (\<lambda>best i. let l = zero_run_at gs i in
             if l \<ge> 2 \<and> (case best of None \<Rightarrow> True | Some (_, l0) \<Rightarrow> l > l0) then Some (i, l) else best)
      None [0, 1, 2, 3, 4, 5, 6, 7]"

definition groups_string :: "nat list \<Rightarrow> string" where
  "groups_string gs =
    (case best_zero_run gs of
       None \<Rightarrow> join_with '':'' (map hex_string gs)
     | Some (i, l) \<Rightarrow> join_with '':'' (map hex_string (take i gs)) @ ''::'' @
                     join_with '':'' (map hex_string (drop (i + l) gs)))"

fun addr_String :: "addr \<Rightarrow> string" where
  "addr_String InvalidAddr = ''invalid IP''"
| "addr_String (V4 w) = quad_string w"
| "addr_String (V6 w z) =
     (if drop_bit 32 w = 0xFFFF then ''::ffff:'' @ quad_string (ucast w) else groups_string (addr_groups w)) @
     (if z = '''' then '''' else ''%'' @ z)"

section \<open>Hosts and ports\<close>

definition last_index :: "char \<Rightarrow> string \<Rightarrow> nat option" where
  "last_index c s =
    (let tail = length (takeWhile (\<lambda>x. x \<noteq> c) (rev s)) in
     if tail = length s then None else Some (length s - tail - 1))"

definition first_index :: "char \<Rightarrow> string \<Rightarrow> nat option" where
  "first_index c s =
    (let k = length (takeWhile (\<lambda>x. x \<noteq> c) s) in if k = length s then None else Some k)"

text \<open>\<^verbatim>\<open>net.SplitHostPort\<close>; the left result is the text of the error.\<close>

definition SplitHostPort :: "string \<Rightarrow> string + (string \<times> string)" where
  "SplitHostPort hostport =
    (let fail = (\<lambda>why. Inl (if hostport = '''' then why else ''address '' @ hostport @ '': '' @ why)) in
     case last_index (CHR '':'') hostport of
       None \<Rightarrow> fail ''missing port in address''
     | Some i \<Rightarrow>
         let finish = (\<lambda>host j k.
               if first_index (CHR ''['') (drop j hostport) \<noteq> None then fail ''unexpected '[' in address''
               else if first_index (CHR '']'') (drop k hostport) \<noteq> None then fail ''unexpected ']' in address''
               else Inr (host, drop (i + 1) hostport)) in
         if hd hostport = CHR ''['' then
           (case first_index (CHR '']'') hostport of
              None \<Rightarrow> fail ''missing ']' in address''
            | Some e \<Rightarrow>
                if e + 1 = length hostport then fail ''missing port in address''
                else if e + 1 = i then finish (drop 1 (take e hostport)) 1 (e + 1)
                else if hostport ! (e + 1) = CHR '':'' then fail ''too many colons in address''
                else fail ''missing port in address'')
         else if CHR '':'' \<in> set (take i hostport) then fail ''too many colons in address''
         else finish (take i hostport) 0 0)"

definition JoinHostPort :: "string \<Rightarrow> string \<Rightarrow> string" where
  "JoinHostPort host port =
    (if CHR '':'' \<in> set host then ''['' @ host @ '']:'' @ port else host @ '':'' @ port)"

text \<open>\<^verbatim>\<open>strconv.ParseUint(s, 10, bits)\<close>: \<^const>\<open>None\<close> for a syntax or range error.\<close>

definition ParseUint :: "nat \<Rightarrow> string \<Rightarrow> nat option" where
  "ParseUint bits s =
    (if s = [] \<or> \<not> list_all is_digit s \<or> digits_val s \<ge> 2 ^ bits then None else Some (digits_val s))"

section \<open>Lemmas\<close>

lemma Unmap_idem [simp]: "Unmap (Unmap a) = Unmap a"
  by (cases a) auto

lemma quad_field_bound: "quad_field s = Some n \<Longrightarrow> n \<le> 255"
  by (auto simp: quad_field_def split: if_splits)

lemma ParseUint_bound [bounds]: "ParseUint bits s = Some n \<Longrightarrow> n < 2 ^ bits"
  by (auto simp: ParseUint_def split: if_splits)

lemma length_parse6_loop:
  "parse6_loop left groups ellipsis s = Some (gs, e) \<Longrightarrow> length groups + left = 8 \<Longrightarrow> length gs \<le> 8"
proof (induction left groups ellipsis s rule: parse6_loop.induct)
  case (2 left groups ellipsis s)
  show ?case
    using 2 by (auto simp: Let_def split: if_splits option.splits list.splits)
qed (auto split: if_splits)

text \<open>Evaluation of the functions above on literals.\<close>

lemmas netip_eval = SplitHostPort_def JoinHostPort_def last_index_def first_index_def ParseUint_def
  digits_val_def digit_val_def ParseAddr_def parse_quad_def quad_field_def parse_ipv6_def
  split_zone_def hex_run_def hex_value_def hex_val_def expand_groups_def quad_string_def
  groups_string_def addr_groups_def best_zero_run_def zero_run_at_def nat_string.simps
  hex_string.simps hex_char_def ip4_def ip6_def Let_def string_eval

end
