(* ===== verification/Netcheck.thy ===== *)
theory Netcheck
  imports Prelude
begin

text \<open>
  \<^verbatim>\<open>internal/netcheck/errors.go\<close>: the codes of failed checks, the error type that carries them
  and the classification of context and transport errors.  Go's error values are modelled by
  \<open>go_error\<close>, a tree of the wrapping types the code distinguishes with \<^verbatim>\<open>errors.Is\<close> and
  \<^verbatim>\<open>errors.As\<close>.
\<close>

section \<open>Error values\<close>

datatype sentinel = Canceled | DeadlineExceeded | ECONNREFUSED | ECONNRESET | ECONNABORTED | EPIPE

text \<open>
  \<open>Leaf text is net\<close> is an error that wraps nothing: the sentinels \<^verbatim>\<open>errors.Is\<close> equates with it
  and, for a \<^verbatim>\<open>net.Error\<close>, the results of \<^verbatim>\<open>Timeout()\<close> and \<^verbatim>\<open>Temporary()\<close>.  The other
  constructors keep the text they put before the wrapped error; \<open>CheckErr\<close> is the package's own
  \<^verbatim>\<open>*Error\<close>.
\<close>

datatype go_error =
    Leaf string "sentinel list" "(bool \<times> bool) option"
  | OpError string string go_error
  | SyscallError string go_error
  | UrlError string go_error
  | Wrapped string go_error
  | CheckErr check_error
and check_error =
  Error (err_Code: string) (err_Stage: string) (err_Operation: string) (err_Retryable: bool)
    (err_Cause: "go_error option")

abbreviation context_Canceled :: go_error where
  "context_Canceled \<equiv> Leaf ''context canceled'' [Canceled] None"

abbreviation context_DeadlineExceeded :: go_error where
  "context_DeadlineExceeded \<equiv> Leaf ''context deadline exceeded'' [DeadlineExceeded] (Some (True, True))"

abbreviation plain_error :: "string \<Rightarrow> go_error" where
  "plain_error text \<equiv> Leaf text [] None"

abbreviation NormalizationInvalid :: string where "NormalizationInvalid \<equiv> ''NORMALIZATION_INVALID''"
abbreviation DNSNXDomain :: string where "DNSNXDomain \<equiv> ''DNS_NXDOMAIN''"
abbreviation DNSServFail :: string where "DNSServFail \<equiv> ''DNS_SERVFAIL''"
abbreviation DNSRefused :: string where "DNSRefused \<equiv> ''DNS_REFUSED''"
abbreviation DNSTimeout :: string where "DNSTimeout \<equiv> ''DNS_TIMEOUT''"
abbreviation DNSNetworkError :: string where "DNSNetworkError \<equiv> ''DNS_NETWORK_ERROR''"
abbreviation DNSMalformedResponse :: string where "DNSMalformedResponse \<equiv> ''DNS_MALFORMED_RESPONSE''"
abbreviation DNSCNAMELoop :: string where "DNSCNAMELoop \<equiv> ''DNS_CNAME_LOOP''"
abbreviation DNSCNAMELimit :: string where "DNSCNAMELimit \<equiv> ''DNS_CNAME_LIMIT''"
abbreviation TCPTimeout :: string where "TCPTimeout \<equiv> ''TCP_TIMEOUT''"
abbreviation TCPRefused :: string where "TCPRefused \<equiv> ''TCP_REFUSED''"
abbreviation TCPReset :: string where "TCPReset \<equiv> ''TCP_RESET''"
abbreviation TCPNetworkError :: string where "TCPNetworkError \<equiv> ''TCP_NETWORK_ERROR''"
abbreviation TLSErrorExpired :: string where "TLSErrorExpired \<equiv> ''TLS_EXPIRED''"
abbreviation TLSErrorHostname :: string where "TLSErrorHostname \<equiv> ''TLS_HOSTNAME''"
abbreviation TLSErrorUnknownAuthority :: string where "TLSErrorUnknownAuthority \<equiv> ''TLS_UNKNOWN_AUTHORITY''"
abbreviation TLSErrorHandshake :: string where "TLSErrorHandshake \<equiv> ''TLS_HANDSHAKE''"
abbreviation HTTPTimeout :: string where "HTTPTimeout \<equiv> ''HTTP_TIMEOUT''"
abbreviation HTTPBodyRead :: string where "HTTPBodyRead \<equiv> ''HTTP_BODY_READ''"
abbreviation HTTPClientError :: string where "HTTPClientError \<equiv> ''HTTP_4XX''"
abbreviation HTTPServerError :: string where "HTTPServerError \<equiv> ''HTTP_5XX''"
abbreviation HTTPRedirectLoop :: string where "HTTPRedirectLoop \<equiv> ''HTTP_REDIRECT_LOOP''"
abbreviation HTTPRedirectLimit :: string where "HTTPRedirectLimit \<equiv> ''HTTP_REDIRECT_LIMIT''"
abbreviation HTTPMalformedLocation :: string where "HTTPMalformedLocation \<equiv> ''HTTP_MALFORMED_LOCATION''"
abbreviation HTTPHTTPSDowngrade :: string where "HTTPHTTPSDowngrade \<equiv> ''HTTP_HTTPS_DOWNGRADE''"
abbreviation ContentEmpty :: string where "ContentEmpty \<equiv> ''CONTENT_EMPTY''"
abbreviation ContentTooSmall :: string where "ContentTooSmall \<equiv> ''CONTENT_TOO_SMALL''"
abbreviation ContentNotMeaningful :: string where "ContentNotMeaningful \<equiv> ''CONTENT_NOT_MEANINGFUL''"
abbreviation ContentTooLarge :: string where "ContentTooLarge \<equiv> ''CONTENT_TOO_LARGE''"
abbreviation ContentUnsupported :: string where "ContentUnsupported \<equiv> ''CONTENT_UNSUPPORTED''"
abbreviation SSRFBlockedAddress :: string where "SSRFBlockedAddress \<equiv> ''SSRF_BLOCKED_ADDRESS''"
abbreviation SSRFBlockedPort :: string where "SSRFBlockedPort \<equiv> ''SSRF_BLOCKED_PORT''"
abbreviation RunCancelled :: string where "RunCancelled \<equiv> ''RUN_CANCELLED''"
abbreviation RunDeadlineExceeded :: string where "RunDeadlineExceeded \<equiv> ''RUN_DEADLINE_EXCEEDED''"

section \<open>Walking an error chain\<close>

text \<open>The error and everything \<^verbatim>\<open>Unwrap\<close> reaches from it, outermost first.\<close>

fun chain :: "go_error \<Rightarrow> go_error list" where
  "chain (Leaf t is n) = [Leaf t is n]"
| "chain (OpError op t e) = OpError op t e # chain e"
| "chain (SyscallError t e) = SyscallError t e # chain e"
| "chain (UrlError t e) = UrlError t e # chain e"
| "chain (Wrapped t e) = Wrapped t e # chain e"
| "chain (CheckErr (Error code stage op r None)) = [CheckErr (Error code stage op r None)]"
| "chain (CheckErr (Error code stage op r (Some e))) = CheckErr (Error code stage op r (Some e)) # chain e"

fun matches :: "sentinel \<Rightarrow> go_error \<Rightarrow> bool" where
  "matches s (Leaf t is n) = (s \<in> set is)"
| "matches s _ = False"

definition errors_Is :: "go_error option \<Rightarrow> sentinel \<Rightarrow> bool" where
  "errors_Is err s = (case err of None \<Rightarrow> False | Some e \<Rightarrow> list_ex (matches s) (chain e))"

fun go_Timeout :: "go_error \<Rightarrow> bool" where
  "go_Timeout (Leaf t is n) = (case n of None \<Rightarrow> False | Some (timeout, _) \<Rightarrow> timeout)"
| "go_Timeout (OpError op t e) = go_Timeout e"
| "go_Timeout (SyscallError t e) = go_Timeout e"
| "go_Timeout (UrlError t e) = go_Timeout e"
| "go_Timeout _ = False"

fun go_Temporary :: "go_error \<Rightarrow> bool" where
  "go_Temporary (Leaf t is n) = (case n of None \<Rightarrow> False | Some (_, temporary) \<Rightarrow> temporary)"
| "go_Temporary (OpError op t (SyscallError u e)) = go_Temporary e"
| "go_Temporary (OpError op t e) =
     (op = ''accept'' \<and> (matches ECONNRESET e \<or> matches ECONNABORTED e) \<or> go_Temporary e)"
| "go_Temporary (UrlError t e) = go_Temporary e"
| "go_Temporary _ = False"

fun is_net_error :: "go_error \<Rightarrow> bool" where
  "is_net_error (Leaf t is n) = (n \<noteq> None)"
| "is_net_error (OpError op t e) = True"
| "is_net_error (UrlError t e) = True"
| "is_net_error _ = False"

fun is_op_error :: "go_error \<Rightarrow> bool" where
  "is_op_error (OpError op t e) = True"
| "is_op_error _ = False"

fun is_syscall_error :: "go_error \<Rightarrow> bool" where
  "is_syscall_error (SyscallError t e) = True"
| "is_syscall_error _ = False"

fun as_check_error :: "go_error \<Rightarrow> check_error option" where
  "as_check_error (CheckErr c) = Some c"
| "as_check_error _ = None"

definition errors_As :: "(go_error \<Rightarrow> bool) \<Rightarrow> go_error \<Rightarrow> go_error option" where
  "errors_As P e = find P (chain e)"

text \<open>\<^verbatim>\<open>errors.As(err, &networkError) && networkError.Timeout()\<close>.\<close>

definition is_timeout_error :: "go_error \<Rightarrow> bool" where
  "is_timeout_error e = (case errors_As is_net_error e of None \<Rightarrow> False | Some n \<Rightarrow> go_Timeout n)"

section \<open>The package's functions\<close>

abbreviation New :: "string \<Rightarrow> string \<Rightarrow> string \<Rightarrow> bool \<Rightarrow> go_error option \<Rightarrow> check_error" where
  "New \<equiv> Error"

text \<open>\<^verbatim>\<open>Error()\<close>: the text of an error value and of the package's own error.\<close>

fun error_text :: "go_error \<Rightarrow> string" where
  "error_text (Leaf t is n) = t"
| "error_text (OpError op t e) = t @ error_text e"
| "error_text (SyscallError t e) = t @ error_text e"
| "error_text (UrlError t e) = t @ error_text e"
| "error_text (Wrapped t e) = t @ error_text e"
| "error_text (CheckErr (Error code stage op r None)) =
     code @ (if op \<noteq> '''' then '' during '' @ op else '''')"
| "error_text (CheckErr (Error code stage op r (Some e))) =
     code @ (if op \<noteq> '''' then '' during '' @ op else '''') @ '': '' @ error_text e"

definition As :: "go_error \<Rightarrow> check_error option" where
  "As e = (case errors_As (\<lambda>x. as_check_error x \<noteq> None) e of
     None \<Rightarrow> None | Some x \<Rightarrow> as_check_error x)"

definition IsRetryable :: "go_error \<Rightarrow> bool" where
  "IsRetryable e = (case As e of None \<Rightarrow> False | Some c \<Rightarrow> err_Retryable c)"

definition FromContext ::
  "go_error option \<Rightarrow> string \<Rightarrow> string \<Rightarrow> string \<Rightarrow> go_error option \<Rightarrow> check_error option" where
  "FromContext ctx_Err stage operation timeoutCode err =
    (if errors_Is err Canceled \<or> errors_Is ctx_Err Canceled then
       Some (New RunCancelled stage operation False (Some context_Canceled))
     else if errors_Is err DeadlineExceeded then
       Some (New timeoutCode stage operation True (Some context_DeadlineExceeded))
     else if errors_Is ctx_Err DeadlineExceeded then
       Some (New RunDeadlineExceeded stage operation False (Some context_DeadlineExceeded))
     else None)"

definition ClassifyTCP :: "go_error option \<Rightarrow> string \<Rightarrow> go_error \<Rightarrow> check_error" where
  "ClassifyTCP ctx_Err operation err =
    (case FromContext ctx_Err ''tcp'' operation TCPTimeout (Some err) of
       Some classified \<Rightarrow> classified
     | None \<Rightarrow>
       if errors_Is (Some err) ECONNREFUSED then New TCPRefused ''tcp'' operation True (Some err)
       else if errors_Is (Some err) ECONNRESET \<or> errors_Is (Some err) EPIPE then
         New TCPReset ''tcp'' operation True (Some err)
       else if is_timeout_error err then New TCPTimeout ''tcp'' operation True (Some err)
       else (case errors_As is_op_error err of
           Some operationError \<Rightarrow>
             New TCPNetworkError ''tcp'' operation (go_Temporary operationError) (Some err)
         | None \<Rightarrow>
             if errors_As is_syscall_error err \<noteq> None then
               New TCPNetworkError ''tcp'' operation True (Some err)
             else New TCPNetworkError ''tcp'' operation False
                    (Some (Wrapped ''transport failure: '' err))))"

section \<open>Lemmas\<close>

lemma chain_hd: "\<exists>rest. chain e = e # rest"
  by (cases e rule: chain.cases) auto

lemma chain_not_Nil [simp]: "chain e \<noteq> []"
  using chain_hd [of e] by auto

lemma As_CheckErr [simp]: "As (CheckErr c) = Some c"
  using chain_hd [of "CheckErr c"] by (auto simp: As_def errors_As_def)

lemma IsRetryable_CheckErr [simp]: "IsRetryable (CheckErr c) = err_Retryable c"
  by (simp add: IsRetryable_def)

lemma FromContext_codes:
  "FromContext ctx stage op timeoutCode err = Some c \<Longrightarrow>
     err_Code c \<in> {RunCancelled, timeoutCode, RunDeadlineExceeded} \<and> err_Stage c = stage"
  by (auto simp: FromContext_def split: if_splits)

text \<open>
  A classified transport error carries a code of the TCP family or the reason the run ended, and
  is retried only when it was not the run itself that was cancelled or ran out of time.
\<close>

lemma ClassifyTCP_codes:
  "err_Code (ClassifyTCP ctx op err) \<in>
     {RunCancelled, RunDeadlineExceeded, TCPTimeout, TCPRefused, TCPReset, TCPNetworkError}"
  by (auto simp: ClassifyTCP_def FromContext_def split: option.splits)

lemma ClassifyTCP_run_over:
  "errors_Is ctx Canceled \<Longrightarrow> \<not> err_Retryable (ClassifyTCP ctx op err)"
  "errors_Is ctx DeadlineExceeded \<Longrightarrow> \<not> errors_Is (Some err) DeadlineExceeded \<Longrightarrow>
     \<not> err_Retryable (ClassifyTCP ctx op err)"
  by (auto simp: ClassifyTCP_def FromContext_def)

end
