(* ===== verification/Retry.thy ===== *)
theory Retry
  imports Netcheck
begin

text \<open>
  \<^verbatim>\<open>internal/retry/policy.go\<close>: exponential backoff with jitter.  The random generator of
  \<^verbatim>\<open>math/rand/v2\<close> is the argument \<open>rnd\<close>: \<open>rnd n\<close> is the number \<^verbatim>\<open>rand.Int64N(n)\<close> draws.  A panic is
  \<^const>\<open>None\<close>.
\<close>

record retry_policy =
  MaxAttempts :: int
  BaseDelay :: duration
  MaxDelay :: duration
  Jitter :: "(duration \<Rightarrow> duration) option"

text \<open>\<^verbatim>\<open>rand.Int64N\<close> draws from \<open>[0, n)\<close> for a positive \<open>n\<close>.\<close>

definition draws_below :: "(int \<Rightarrow> int) \<Rightarrow> bool" where
  "draws_below rnd = (\<forall>n > 0. 0 \<le> rnd n \<and> rnd n < n)"

text \<open>The delays of a policy are 64-bit durations other than the largest one.\<close>

definition safe_delays :: "retry_policy \<Rightarrow> bool" where
  "safe_delays p = (min_int64 \<le> BaseDelay p \<and> BaseDelay p < max_int64 \<and>
     min_int64 \<le> MaxDelay p \<and> MaxDelay p < max_int64)"

text \<open>\<^verbatim>\<open>Normalized\<close>, apart from the default jitter: a nil \<^verbatim>\<open>Jitter\<close> stays \<^const>\<open>None\<close> and stands for
  \<^verbatim>\<open>fullJitter\<close>, which \<open>Delay\<close> calls in that case.\<close>

definition Normalized :: "retry_policy \<Rightarrow> retry_policy" where
  "Normalized p =
    (let p = (if MaxAttempts p < 1 then p\<lparr>MaxAttempts := 3\<rparr> else p);
         p = (if BaseDelay p \<le> 0 then p\<lparr>BaseDelay := 100 * millisecond\<rparr> else p);
         p = (if MaxDelay p \<le> 0 then p\<lparr>MaxDelay := 2 * second\<rparr> else p);
         p = (if MaxDelay p < BaseDelay p then p\<lparr>MaxDelay := BaseDelay p\<rparr> else p)
     in p)"

text \<open>The argument of the jitter in \<^verbatim>\<open>Delay\<close>.\<close>

definition delay_ceiling :: "retry_policy \<Rightarrow> int \<Rightarrow> duration" where
  "delay_ceiling p afterAttempt =
    (let p = Normalized p;
         afterAttempt = (if afterAttempt < 1 then 1 else afterAttempt);
         exponent = afterAttempt - 1;
         exponent = (if exponent > 30 then 30 else exponent);
         factor = 2 ^ nat exponent;
         ceiling = (if BaseDelay p \<le> MaxDelay p div factor then wrap64 (BaseDelay p * factor)
                    else MaxDelay p)
     in if ceiling > MaxDelay p then MaxDelay p else ceiling)"

definition fullJitter :: "(int \<Rightarrow> int) \<Rightarrow> duration \<Rightarrow> duration option" where
  "fullJitter rnd limit =
    (if limit \<le> 0 then Some 0
     else let n = wrap64 (limit + 1) in if n \<le> 0 then None else Some (rnd n))"

definition Delay :: "(int \<Rightarrow> int) \<Rightarrow> retry_policy \<Rightarrow> int \<Rightarrow> duration option" where
  "Delay rnd p afterAttempt =
    (let ceiling = delay_ceiling p afterAttempt in
     case Jitter p of None \<Rightarrow> fullJitter rnd ceiling | Some jitter \<Rightarrow> Some (jitter ceiling))"

text \<open>
  \<open>ctx_within d\<close> is the context's error if it is done before \<open>d\<close> has elapsed; the outer option is
  \<^const>\<open>None\<close> when \<open>Delay\<close> panics.
\<close>

definition Wait ::
  "(int \<Rightarrow> int) \<Rightarrow> retry_policy \<Rightarrow> (duration \<Rightarrow> go_error option) \<Rightarrow> int \<Rightarrow> go_error option option" where
  "Wait rnd p ctx_within afterAttempt =
    (case Delay rnd p afterAttempt of
       None \<Rightarrow> None
     | Some delay \<Rightarrow> Some (if delay \<le> 0 then ctx_within 0 else ctx_within delay))"

section \<open>Lemmas\<close>

lemma Normalized_bounds [bounds]:
  "1 \<le> MaxAttempts (Normalized p)" "0 < BaseDelay (Normalized p)"
  "BaseDelay (Normalized p) \<le> MaxDelay (Normalized p)" "0 < MaxDelay (Normalized p)"
  by (auto simp: Normalized_def Let_def)

lemma Normalized_idem [simp]: "Normalized (Normalized p) = Normalized p"
  by (auto simp: Normalized_def Let_def)

lemma Normalized_Jitter [simp]: "Jitter (Normalized p) = Jitter p"
  by (auto simp: Normalized_def Let_def)

lemma Normalized_MaxAttempts: "1 \<le> MaxAttempts p \<Longrightarrow> MaxAttempts (Normalized p) = MaxAttempts p"
  by (auto simp: Normalized_def Let_def)

lemma Normalized_range:
  "int64_range (MaxDelay p) \<Longrightarrow> int64_range (BaseDelay p) \<Longrightarrow> int64_range (MaxDelay (Normalized p))"
  by (auto simp: Normalized_def Let_def int64_range_def min_int64_def max_int64_def)

lemma le_div_iff_mult_le: "0 < (f :: int) \<Longrightarrow> b \<le> m div f \<longleftrightarrow> b * f \<le> m"
proof
  assume f: "0 < f" and "b \<le> m div f"
  then have "b * f \<le> (m div f) * f" by (simp add: mult_right_mono)
  also have "\<dots> \<le> m" using f pos_mod_sign [of f m] minus_mod_eq_div_mult [of m f] by linarith
  finally show "b * f \<le> m" .
next
  assume f: "0 < f" and "b * f \<le> m"
  then have "(b * f) div f \<le> m div f" by (intro zdiv_mono1)
  then show "b \<le> m div f" using f by simp
qed

lemma fullJitter_bounds:
  assumes "draws_below rnd" "0 \<le> limit" "limit < max_int64"
  shows "\<exists>d. fullJitter rnd limit = Some d \<and> 0 \<le> d \<and> d \<le> limit"
proof (cases "limit = 0")
  case False
  with assms have w: "wrap64 (limit + 1) = limit + 1"
    by (intro wrap64_id) (simp add: int64_range_def min_int64_def max_int64_def)
  have "0 \<le> rnd (limit + 1) \<and> rnd (limit + 1) < limit + 1" using assms(1,2) unfolding draws_below_def by (metis add_nonneg_pos zero_less_one)
  then show ?thesis using assms False w by (auto simp: fullJitter_def Let_def)
qed (simp add: fullJitter_def)


lemma delay_ceiling_spec:
  assumes "int64_range (BaseDelay p)" "int64_range (MaxDelay p)"
  shows "delay_ceiling p n =
    min (MaxDelay (Normalized p)) (BaseDelay (Normalized p) * 2 ^ nat (min 30 (max 1 n - 1)))"
proof -
  let ?q = "Normalized p" and ?f = "2 ^ nat (min 30 (max 1 n - 1)) :: int"
  have e: "(if (if n < 1 then 1 else n) - 1 > 30 then 30 else (if n < 1 then 1 else n) - 1) =
      min 30 (max 1 n - 1)" by auto
  have c: "delay_ceiling p n =
      (let c = if BaseDelay ?q \<le> MaxDelay ?q div ?f then wrap64 (BaseDelay ?q * ?f) else MaxDelay ?q
       in if c > MaxDelay ?q then MaxDelay ?q else c)"
    unfolding delay_ceiling_def Let_def e ..
  have iff: "BaseDelay ?q \<le> MaxDelay ?q div ?f \<longleftrightarrow> BaseDelay ?q * ?f \<le> MaxDelay ?q"
    by (rule le_div_iff_mult_le) simp
  have range: "int64_range (MaxDelay ?q)" using assms by (intro Normalized_range)
  have "wrap64 (BaseDelay ?q * ?f) = BaseDelay ?q * ?f" if "BaseDelay ?q * ?f \<le> MaxDelay ?q"
  proof (rule wrap64_id)
    have "0 \<le> BaseDelay ?q * ?f" using Normalized_bounds(2) [of p] by simp
    with that range show "int64_range (BaseDelay ?q * ?f)"
      unfolding int64_range_def min_int64_def by linarith
  qed
  then show ?thesis unfolding c iff by (auto simp: Let_def)
qed

lemma Delay_spec:
  assumes "draws_below rnd" "Jitter p = None" "safe_delays p"
  shows "\<exists>d. Delay rnd p n = Some d \<and> 0 \<le> d \<and> d \<le> MaxDelay (Normalized p)"
proof -
  have range: "int64_range (BaseDelay p)" "int64_range (MaxDelay p)"
    using assms(3) by (auto simp: safe_delays_def int64_range_def)
  have c: "0 \<le> delay_ceiling p n" "delay_ceiling p n \<le> MaxDelay (Normalized p)"
    using delay_ceiling_spec [OF range] Normalized_bounds [of p] by (auto simp: min_def)
  have "MaxDelay (Normalized p) < max_int64"
    using assms(3) by (auto simp: safe_delays_def Normalized_def Let_def max_int64_def)
  then obtain d where "fullJitter rnd (delay_ceiling p n) = Some d" "0 \<le> d" "d \<le> delay_ceiling p n"
    using fullJitter_bounds [OF assms(1), of "delay_ceiling p n"] c by auto
  then show ?thesis using c assms(2) by (auto simp: Delay_def Let_def)
qed

lemma safe_delays_Normalized: "safe_delays p \<Longrightarrow> safe_delays (Normalized p)"
  by (auto simp: safe_delays_def Normalized_def Let_def min_int64_def max_int64_def)

lemma Wait_total:
  assumes "draws_below rnd" "Jitter p = None" "safe_delays p"
  shows "Wait rnd p ctx n \<noteq> None"
  using Delay_spec [OF assms, of n] by (auto simp: Wait_def)

section \<open>Retry loops\<close>

text \<open>
  The contract of the loops that use the policy: attempts are numbered from 1, the loop never makes
  more than \<open>limit\<close> of them, and it goes on after an attempt exactly when \<open>again\<close> says so (\<^const>\<open>None\<close>
  when the backoff panics).
\<close>

locale retrying =
  fixes limit :: int
    and attempt :: "int \<Rightarrow> 'r"
    and again :: "int \<Rightarrow> 'r \<Rightarrow> bool option"
    and loop :: "int \<Rightarrow> 'r list option"
  assumes loop_unfold:
    "loop n = (if n > limit then Some []
       else if n \<ge> limit then Some [attempt n]
       else case again n (attempt n) of
           None \<Rightarrow> None
         | Some goon \<Rightarrow> if goon then map_option (\<lambda>rest. attempt n # rest) (loop (n + 1)) else Some [attempt n])"
begin

text \<open>Every appended result is the one of its attempt number.\<close>

lemma loop_numbered: "loop n = Some rs \<Longrightarrow> i < length rs \<Longrightarrow> rs ! i = attempt (n + int i)"
proof (induction rs arbitrary: n i)
  case (Cons r rs)
  from Cons.prems(1) show ?case
    using Cons.IH [of "n + 1"] Cons.prems(2)
    by (subst (asm) loop_unfold) (auto simp: nth_Cons add.assoc split: if_splits option.splits nat.splits)
qed simp

lemma loop_length: "loop n = Some rs \<Longrightarrow> n \<le> limit \<Longrightarrow> rs \<noteq> [] \<and> int (length rs) \<le> limit - n + 1"
proof (induction rs arbitrary: n)
  case Nil
  then show ?case by (subst (asm) loop_unfold) (auto split: if_splits option.splits)
next
  case (Cons r rs)
  from Cons.prems show ?case
    using Cons.IH [of "n + 1"]
    by (subst (asm) loop_unfold) (fastforce split: if_splits option.splits)
qed

text \<open>An attempt is followed by another one exactly when it may be repeated.\<close>

lemma loop_again: "loop n = Some rs \<Longrightarrow> Suc i < length rs \<Longrightarrow> again (n + int i) (rs ! i) = Some True"
proof (induction rs arbitrary: n i)
  case (Cons r rs)
  from Cons.prems(1) show ?case
    using Cons.IH [of "n + 1"] Cons.prems(2)
    by (subst (asm) loop_unfold) (auto simp: nth_Cons add.assoc split: if_splits option.splits nat.splits)
qed simp

lemma loop_stops:
  "loop n = Some rs \<Longrightarrow> n \<le> limit \<Longrightarrow> int (length rs) \<noteq> limit - n + 1 \<Longrightarrow>
     again (n + int (length rs) - 1) (last rs) = Some False"
proof (induction rs arbitrary: n)
  case Nil
  then show ?case by (subst (asm) loop_unfold) (auto split: if_splits option.splits)
next
  case (Cons r rs)
  from Cons.prems show ?case
    using Cons.IH [of "n + 1"] loop_length [of "n + 1" rs]
    by (subst (asm) loop_unfold) (auto split: if_splits option.splits)
qed

lemma loop_total:
  assumes "\<And>k r. again k r \<noteq> None"
  shows "\<exists>rs. loop n = Some rs"
proof (induction "nat (limit + 1 - n)" arbitrary: n)
  case (Suc k)
  then have "\<exists>rs. loop (n + 1) = Some rs" by simp
  then show ?case using assms [of n "attempt n"] by (subst loop_unfold) (auto split: option.splits)
qed (subst loop_unfold, simp)

end

section \<open>Properties\<close>

text \<open>C17. The ceiling of the backoff before the jitter is exactly \<open>BaseDelay * 2 ^ (n - 1)\<close> capped by
  \<open>MaxDelay\<close>, with the exponent capped at 30: the guard by division decides the product's overflow
  correctly for every 64-bit policy, and no multiplication wraps.\<close>

theorem delay_ceiling_exact:
  assumes "int64_range (BaseDelay p)" "int64_range (MaxDelay p)"
  shows "delay_ceiling p n =
    min (MaxDelay (Normalized p)) (BaseDelay (Normalized p) * 2 ^ nat (min 30 (max 1 n - 1)))"
  using assms by (rule delay_ceiling_spec)

theorem delay_ceiling_exact_witness:
  "int64_range (100 * millisecond) \<and> int64_range (250 * millisecond) \<and>
   delay_ceiling \<lparr>MaxAttempts = 3, BaseDelay = 100 * millisecond, MaxDelay = 250 * millisecond, Jitter = None\<rparr> 2
     = 200 * millisecond"
  using delay_ceiling_exact
    [of "\<lparr>MaxAttempts = 3, BaseDelay = 100 * millisecond, MaxDelay = 250 * millisecond, Jitter = None\<rparr>" 2]
  by (simp add: int64_range_def min_int64_def max_int64_def Normalized_def)

text \<open>With the default full jitter the code waits between nothing and the ceiling, and it panics
  in no case, provided the configured delays stay below the largest 64-bit duration.\<close>

theorem Delay_bounded:
  assumes "draws_below rnd" "Jitter p = None" "safe_delays p"
  shows "\<exists>d. Delay rnd p n = Some d \<and> 0 \<le> d \<and> d \<le> MaxDelay (Normalized p)"
  using assms by (rule Delay_spec)

theorem Delay_bounded_witness:
  "\<exists>d. Delay (\<lambda>n. n - 1) \<lparr>MaxAttempts = 0, BaseDelay = 0, MaxDelay = 0, Jitter = None\<rparr> 9 = Some d \<and>
     0 \<le> d \<and> d \<le> 2 * second"
  using Delay_bounded [of "\<lambda>n. n - 1" "\<lparr>MaxAttempts = 0, BaseDelay = 0, MaxDelay = 0, Jitter = None\<rparr>" 9]
  by (simp add: draws_below_def safe_delays_def min_int64_def max_int64_def Normalized_def)

end
