(* ===== verification/Dnscheck.thy ===== *)
theory Dnscheck
  imports Netip Retry
begin

text \<open>
  \<^verbatim>\<open>internal/dnscheck\<close>: DNS queries with retries, CNAME tracing, the two resolvers and the comparison
  of the answers of two resolvers.  The package \<^verbatim>\<open>github.com/miekg/dns\<close> is the argument \<open>dns_lib\<close>;
  what the network answers, what the clock shows and when the context ends is read from an
  environment indexed by query name, wire type and attempt number.
\<close>

section \<open>Types\<close>

abbreviation TypeA :: string where "TypeA \<equiv> ''A''"
abbreviation TypeAAAA :: string where "TypeAAAA \<equiv> ''AAAA''"
abbreviation TypeCNAME :: string where "TypeCNAME \<equiv> ''CNAME''"
abbreviation TypeNS :: string where "TypeNS \<equiv> ''NS''"

record dns_answer =
  ans_Name :: string
  ans_Type :: string
  ans_Value :: string
  ans_TTL :: nat

record dns_result =
  res_Resolver :: string
  res_Endpoint :: string
  res_QueryName :: string
  res_QueryType :: string
  res_Attempt :: int
  res_RCode :: string
  res_Authoritative :: bool
  res_Truncated :: bool
  res_Transport :: string
  res_Duration :: duration
  res_Answers :: "dns_answer list"
  res_ErrorCode :: string
  res_ErrorMessage :: string
  res_CheckedAt :: gotime

text \<open>Resource records as the DNS library decodes them; a record may lack its address.\<close>

datatype rr =
    RR_A string nat "32 word option"
  | RR_AAAA string nat "128 word option"
  | RR_CNAME string nat string
  | RR_NS string nat string
  | RR_other string nat

record dns_msg =
  msg_Rcode :: int
  msg_Authoritative :: bool
  msg_Truncated :: bool
  msg_Answer :: "rr list"

record exchange_result =
  ex_Message :: "dns_msg option"
  ex_Duration :: duration
  ex_Transport :: string
  ex_Truncated :: bool

record comparison =
  cmp_Discrepancy :: bool
  cmp_NSDiscrepancy :: bool
  cmp_Reasons :: "string list"

record cname_trace =
  tr_Chain :: "string list"
  tr_Queries :: "dns_result list"
  tr_Loop :: bool
  tr_LimitReached :: bool
  tr_ErrorCode :: string

definition retryableCode :: "string \<Rightarrow> bool" where
  "retryableCode code = (code = DNSTimeout \<or> code = DNSNetworkError \<or> code = DNSServFail)"

definition result_Err :: "dns_result \<Rightarrow> check_error option" where
  "result_Err r =
    (if res_ErrorCode r = '''' then None
     else Some (New (res_ErrorCode r) ''dns'' ''query'' (retryableCode (res_ErrorCode r))
       (if res_ErrorMessage r = '''' then None else Some (plain_error (res_ErrorMessage r)))))"

section \<open>Comparison of two resolvers\<close>

definition latestByType :: "dns_result list \<Rightarrow> string \<rightharpoonup> dns_result" where
  "latestByType results =
    foldl (\<lambda>latest result.
       case latest (res_QueryType result) of
         None \<Rightarrow> latest(res_QueryType result \<mapsto> result)
       | Some current \<Rightarrow>
           if res_Attempt result \<ge> res_Attempt current then latest(res_QueryType result \<mapsto> result)
           else latest)
     Map.empty results"

definition canonical_value :: "dns_answer \<Rightarrow> string" where
  "canonical_value answer =
    (let value = to_lower (trim_suffix (trim_space (ans_Value answer)) ''.'') in
     ans_Type answer @ '':'' @
       (case ParseAddr value of None \<Rightarrow> value | Some parsed \<Rightarrow> addr_String (Unmap parsed)))"

definition compared :: "string \<Rightarrow> dns_answer \<Rightarrow> bool" where
  "compared queryType answer =
    (let includeCNAME = ((queryType = TypeA \<or> queryType = TypeAAAA) \<and> ans_Type answer = TypeCNAME) in
     ans_Type answer = queryType \<or> includeCNAME)"

definition canonicalValues :: "dns_answer list \<Rightarrow> string \<Rightarrow> string list" where
  "canonicalValues answers queryType =
    sort (remdups (map canonical_value (filter (compared queryType) answers)))"

definition equalAnswerSets :: "dns_answer list \<Rightarrow> dns_answer list \<Rightarrow> string \<Rightarrow> bool" where
  "equalAnswerSets left right queryType =
    (canonicalValues left queryType = canonicalValues right queryType)"

definition addReason :: "comparison \<Rightarrow> string \<Rightarrow> comparison" where
  "addReason c reason =
    (if reason \<in> set (cmp_Reasons c) then c else c\<lparr>cmp_Reasons := cmp_Reasons c @ [reason]\<rparr>)"

definition compare_type ::
  "(string \<rightharpoonup> dns_result) \<Rightarrow> (string \<rightharpoonup> dns_result) \<Rightarrow> comparison \<Rightarrow> string \<Rightarrow> comparison" where
  "compare_type localLatest alternateLatest c queryType =
    (case (localLatest queryType, alternateLatest queryType) of
       (Some left, Some right) \<Rightarrow>
         if res_RCode left \<noteq> res_RCode right \<or> res_ErrorCode left \<noteq> res_ErrorCode right then
           (if queryType = TypeNS then addReason (c\<lparr>cmp_NSDiscrepancy := True\<rparr>) ''DNS_NS_DISCREPANCY''
            else addReason (c\<lparr>cmp_Discrepancy := True\<rparr>) ''DNS_RCODE_DISCREPANCY'')
         else if \<not> equalAnswerSets (res_Answers left) (res_Answers right) queryType then
           (if queryType = TypeNS then addReason (c\<lparr>cmp_NSDiscrepancy := True\<rparr>) ''DNS_NS_DISCREPANCY''
            else addReason (c\<lparr>cmp_Discrepancy := True\<rparr>) ''DNS_ANSWER_DISCREPANCY'')
         else c
     | _ \<Rightarrow> c)"

definition Compare :: "dns_result list \<Rightarrow> dns_result list \<Rightarrow> comparison" where
  "Compare local alternate =
    foldl (compare_type (latestByType local) (latestByType alternate))
      \<lparr>cmp_Discrepancy = False, cmp_NSDiscrepancy = False, cmp_Reasons = []\<rparr>
      [TypeA, TypeAAAA, TypeCNAME, TypeNS]"

section \<open>Queries\<close>

record dns_lib =
  lib_IsDomainName :: "string \<Rightarrow> bool"
  lib_Fqdn :: "string \<Rightarrow> string"
  lib_RcodeToString :: "int \<Rightarrow> string"

record dns_checker =
  chk_AttemptTimeout :: duration
  chk_Retry :: retry_policy

record dns_resolver =
  rs_Type :: string
  rs_Endpoint :: string

text \<open>
  What happens during one attempt: the exchange, the errors of the attempt's and of the caller's
  context after it, whether the caller's context ends within a waiting time, and the clock.
\<close>

record attempt_env =
  env_exchange :: exchange_result
  env_err :: "go_error option"
  env_attempt_ctx :: "go_error option"
  env_ctx :: "go_error option"
  env_ctx_within :: "duration \<Rightarrow> go_error option"
  env_now :: gotime

type_synonym dns_env = "string \<Rightarrow> nat \<Rightarrow> int \<Rightarrow> attempt_env"

definition wireType :: "string \<Rightarrow> nat option" where
  "wireType queryType =
    (if queryType = TypeA then Some 1 else if queryType = TypeAAAA then Some 28
     else if queryType = TypeCNAME then Some 5 else if queryType = TypeNS then Some 2 else None)"

definition classifyExchangeError ::
  "go_error option \<Rightarrow> go_error option \<Rightarrow> go_error \<Rightarrow> check_error" where
  "classifyExchangeError parent_Err attemptErr err =
    (case As err of
       Some existing \<Rightarrow> existing
     | None \<Rightarrow>
         if errors_Is parent_Err Canceled then
           New RunCancelled ''dns'' ''query'' False (Some context_Canceled)
         else if errors_Is parent_Err DeadlineExceeded then
           New RunDeadlineExceeded ''dns'' ''query'' False (Some context_DeadlineExceeded)
         else if errors_Is attemptErr DeadlineExceeded \<or> errors_Is (Some err) DeadlineExceeded then
           New DNSTimeout ''dns'' ''query'' True (Some context_DeadlineExceeded)
         else if is_timeout_error err then New DNSTimeout ''dns'' ''query'' True (Some err)
         else New DNSNetworkError ''dns'' ''query'' True (Some err))"

definition classifyRCode :: "dns_lib \<Rightarrow> int \<Rightarrow> check_error option" where
  "classifyRCode L rcode =
    (if rcode = 0 then None
     else if rcode = 3 then
       Some (New DNSNXDomain ''dns'' ''query'' False (Some (plain_error ''DNS response code NXDOMAIN'')))
     else if rcode = 2 then
       Some (New DNSServFail ''dns'' ''query'' True (Some (plain_error ''DNS response code SERVFAIL'')))
     else if rcode = 5 then
       Some (New DNSRefused ''dns'' ''query'' False (Some (plain_error ''DNS response code REFUSED'')))
     else Some (New DNSNetworkError ''dns'' ''query'' False
       (Some (plain_error (''DNS response code '' @ lib_RcodeToString L rcode)))))"

definition ip_text :: "addr option \<Rightarrow> string" where
  "ip_text ip = (case ip of None \<Rightarrow> ''<nil>'' | Some a \<Rightarrow> addr_String (Unmap a))"

fun parse_record :: "rr \<Rightarrow> dns_answer list" where
  "parse_record (RR_A name ttl ip) =
     [\<lparr>ans_Name = to_lower name, ans_Type = TypeA, ans_Value = ip_text (map_option V4 ip), ans_TTL = ttl\<rparr>]"
| "parse_record (RR_AAAA name ttl ip) =
     [\<lparr>ans_Name = to_lower name, ans_Type = TypeAAAA, ans_Value = ip_text (map_option (\<lambda>w. V6 w '''') ip), ans_TTL = ttl\<rparr>]"
| "parse_record (RR_CNAME name ttl target) =
     [\<lparr>ans_Name = to_lower name, ans_Type = TypeCNAME, ans_Value = to_lower target, ans_TTL = ttl\<rparr>]"
| "parse_record (RR_NS name ttl ns) =
     [\<lparr>ans_Name = to_lower name, ans_Type = TypeNS, ans_Value = to_lower ns, ans_TTL = ttl\<rparr>]"
| "parse_record (RR_other name ttl) = []"

definition parseAnswers :: "rr list \<Rightarrow> dns_answer list" where
  "parseAnswers records = concat (map parse_record records)"

text \<open>One turn of the loop in \<^verbatim>\<open>Query\<close>: the result it appends and whether it may be retried.\<close>

definition query_attempt ::
  "dns_lib \<Rightarrow> dns_resolver \<Rightarrow> attempt_env \<Rightarrow> string \<Rightarrow> string \<Rightarrow> int \<Rightarrow> dns_result \<times> bool" where
  "query_attempt L resolver e name queryType attempt =
    (let exchange = env_exchange e;
         result = \<lparr>res_Resolver = rs_Type resolver, res_Endpoint = rs_Endpoint resolver,
           res_QueryName = name, res_QueryType = queryType, res_Attempt = attempt, res_RCode = '''',
           res_Authoritative = False, res_Truncated = ex_Truncated exchange,
           res_Transport = ex_Transport exchange, res_Duration = ex_Duration exchange,
           res_Answers = [], res_ErrorCode = '''', res_ErrorMessage = '''', res_CheckedAt = env_now e\<rparr> in
     case env_err e of
       Some err \<Rightarrow>
         let classified = classifyExchangeError (env_ctx e) (env_attempt_ctx e) err in
         (result\<lparr>res_ErrorCode := err_Code classified, res_ErrorMessage := error_text (CheckErr classified)\<rparr>,
          err_Retryable classified)
     | None \<Rightarrow>
         (case ex_Message exchange of
            None \<Rightarrow>
              let classified = New DNSMalformedResponse ''dns'' ''query'' False
                    (Some (plain_error ''resolver returned no message'')) in
              (result\<lparr>res_ErrorCode := err_Code classified, res_ErrorMessage := error_text (CheckErr classified)\<rparr>, False)
          | Some message \<Rightarrow>
              let result = result\<lparr>res_RCode := lib_RcodeToString L (msg_Rcode message),
                    res_Authoritative := msg_Authoritative message,
                    res_Truncated := res_Truncated result \<or> msg_Truncated message,
                    res_Answers := parseAnswers (msg_Answer message)\<rparr> in
              (case classifyRCode L (msg_Rcode message) of
                 None \<Rightarrow> (result, False)
               | Some rcodeError \<Rightarrow>
                   (result\<lparr>res_ErrorCode := err_Code rcodeError, res_ErrorMessage := error_text (CheckErr rcodeError)\<rparr>,
                    err_Retryable rcodeError))))"

text \<open>Whether the loop goes on after an attempt: \<^const>\<open>None\<close> when the backoff panics.\<close>

definition query_again ::
  "(int \<Rightarrow> int) \<Rightarrow> retry_policy \<Rightarrow> (int \<Rightarrow> attempt_env) \<Rightarrow> int \<Rightarrow> dns_result \<times> bool \<Rightarrow> bool option" where
  "query_again rnd policy envs attempt outcome =
    (if snd outcome then
       map_option (\<lambda>waitErr. waitErr = None) (Wait rnd policy (env_ctx_within (envs attempt)) attempt)
     else Some False)"

function query_loop ::
  "dns_lib \<Rightarrow> (int \<Rightarrow> int) \<Rightarrow> retry_policy \<Rightarrow> dns_resolver \<Rightarrow> (int \<Rightarrow> attempt_env) \<Rightarrow> string \<Rightarrow> string \<Rightarrow> int \<Rightarrow>
   (dns_result \<times> bool) list option" where
  "query_loop L rnd policy resolver envs name queryType attempt =
    (if attempt > MaxAttempts policy then Some []
     else
       let outcome = query_attempt L resolver (envs attempt) name queryType attempt in
       if attempt \<ge> MaxAttempts policy then Some [outcome]
       else (case query_again rnd policy envs attempt outcome of
           None \<Rightarrow> None
         | Some again \<Rightarrow>
             if again then map_option (\<lambda>rest. outcome # rest)
               (query_loop L rnd policy resolver envs name queryType (attempt + 1))
             else Some [outcome]))"
  by pat_completeness auto
termination
  by (relation "measure (\<lambda>(L, rnd, policy, resolver, envs, name, queryType, attempt).
        nat (MaxAttempts policy + 1 - attempt))") auto

declare query_loop.simps [simp del]

definition invalid_query :: "dns_resolver \<Rightarrow> string \<Rightarrow> string \<Rightarrow> gotime \<Rightarrow> string \<Rightarrow> dns_result" where
  "invalid_query resolver name queryType now why =
    \<lparr>res_Resolver = rs_Type resolver, res_Endpoint = rs_Endpoint resolver, res_QueryName = name,
     res_QueryType = queryType, res_Attempt = 1, res_RCode = '''', res_Authoritative = False,
     res_Truncated = False, res_Transport = '''', res_Duration = 0, res_Answers = [],
     res_ErrorCode = NormalizationInvalid, res_ErrorMessage = why, res_CheckedAt = now\<rparr>"

definition Query ::
  "dns_lib \<Rightarrow> (int \<Rightarrow> int) \<Rightarrow> dns_checker \<Rightarrow> dns_resolver \<Rightarrow> dns_env \<Rightarrow> string \<Rightarrow> string \<Rightarrow>
   dns_result list option" where
  "Query L rnd c resolver env name0 queryType =
    (let policy = Normalized (chk_Retry c); name = to_lower (trim_space name0) in
     if \<not> lib_IsDomainName L name \<or> name = ''.'' then
       Some [invalid_query resolver name queryType (env_now (env name 0 1)) ''invalid DNS query name'']
     else (case wireType queryType of
         None \<Rightarrow> Some [invalid_query resolver name queryType (env_now (env name 0 1)) ''unsupported DNS query type'']
       | Some dnsType \<Rightarrow>
           map_option (map fst)
             (query_loop L rnd policy resolver (env (lib_Fqdn L name) dnsType) (lib_Fqdn L name) queryType 1)))"

text \<open>
  \<^verbatim>\<open>QueryAll\<close> runs the four queries concurrently and joins the groups in the order of the types, so
  the interleaving does not show in the result.
\<close>

fun query_types ::
  "dns_lib \<Rightarrow> (int \<Rightarrow> int) \<Rightarrow> dns_checker \<Rightarrow> dns_resolver \<Rightarrow> dns_env \<Rightarrow> string \<Rightarrow> string list \<Rightarrow>
   dns_result list option" where
  "query_types L rnd c resolver env name [] = Some []"
| "query_types L rnd c resolver env name (queryType # rest) =
    (case (Query L rnd c resolver env name queryType, query_types L rnd c resolver env name rest) of
       (Some results, Some others) \<Rightarrow> Some (results @ others)
     | _ \<Rightarrow> None)"

definition QueryAll ::
  "dns_lib \<Rightarrow> (int \<Rightarrow> int) \<Rightarrow> dns_checker \<Rightarrow> dns_resolver \<Rightarrow> dns_env \<Rightarrow> string \<Rightarrow> dns_result list option" where
  "QueryAll L rnd c resolver env name =
    query_types L rnd c resolver env name [TypeA, TypeAAAA, TypeCNAME, TypeNS]"

section \<open>CNAME tracing\<close>

definition cname_target :: "dns_lib \<Rightarrow> dns_answer list \<Rightarrow> string \<Rightarrow> string" where
  "cname_target L answers current =
    (case find (\<lambda>a. ans_Type a = TypeCNAME \<and> equal_fold (ans_Name a) current) answers of
       None \<Rightarrow> ''''
     | Some a \<Rightarrow> lib_Fqdn L (to_lower (ans_Value a)))"

fun trace_loop ::
  "dns_lib \<Rightarrow> (int \<Rightarrow> int) \<Rightarrow> dns_checker \<Rightarrow> dns_resolver \<Rightarrow> dns_env \<Rightarrow> nat \<Rightarrow> string \<Rightarrow> string set \<Rightarrow>
   cname_trace \<Rightarrow> cname_trace option" where
  "trace_loop L rnd c resolver env 0 current seen trace =
     Some (trace\<lparr>tr_LimitReached := True, tr_ErrorCode := DNSCNAMELimit\<rparr>)"
| "trace_loop L rnd c resolver env (Suc depth) current seen trace =
    (case Query L rnd c resolver env current TypeCNAME of
       None \<Rightarrow> None
     | Some results \<Rightarrow>
         let trace = trace\<lparr>tr_Queries := tr_Queries trace @ results\<rparr> in
         if results = [] then Some trace
         else let latest = last results in
           if res_ErrorCode latest \<noteq> '''' then Some (trace\<lparr>tr_ErrorCode := res_ErrorCode latest\<rparr>)
           else let target = cname_target L (res_Answers latest) current in
             if target = '''' then Some trace
             else let trace = trace\<lparr>tr_Chain := tr_Chain trace @ [target]\<rparr> in
               if target \<in> seen then Some (trace\<lparr>tr_Loop := True, tr_ErrorCode := DNSCNAMELoop\<rparr>)
               else trace_loop L rnd c resolver env depth target (insert target seen) trace)"

definition TraceCNAME ::
  "dns_lib \<Rightarrow> (int \<Rightarrow> int) \<Rightarrow> dns_checker \<Rightarrow> dns_resolver \<Rightarrow> dns_env \<Rightarrow> string \<Rightarrow> int \<Rightarrow> cname_trace option" where
  "TraceCNAME L rnd c resolver env name maxDepth0 =
    (let maxDepth = (if maxDepth0 < 1 then 8 else maxDepth0);
         current = lib_Fqdn L (to_lower (trim_space name)) in
     trace_loop L rnd c resolver env (nat maxDepth) current {current}
       \<lparr>tr_Chain = [current], tr_Queries = [], tr_Loop = False, tr_LimitReached = False, tr_ErrorCode = ''''\<rparr>)"

section \<open>The two resolvers\<close>

text \<open>
  \<^verbatim>\<open>WireResolver.Exchange\<close>: \<open>udp\<close> and \<open>tcp\<close> are the replies of the DNS client (a missing message is
  \<^const>\<open>None\<close>) and the durations are those measured at the two return points.
\<close>

record wire_env =
  we_udp :: "(go_error, dns_msg option) result"
  we_tcp :: "(go_error, dns_msg option) result"
  we_udp_elapsed :: duration
  we_tcp_elapsed :: duration

definition Wire_Exchange :: "wire_env \<Rightarrow> exchange_result \<times> go_error option" where
  "Wire_Exchange e =
    (let udp_result = \<lparr>ex_Message = None, ex_Duration = we_udp_elapsed e, ex_Transport = ''udp'', ex_Truncated = False\<rparr>;
         tcp_result = \<lparr>ex_Message = None, ex_Duration = we_tcp_elapsed e, ex_Transport = ''udp+tcp'', ex_Truncated = True\<rparr> in
     case we_udp e of
       Inl err \<Rightarrow> (udp_result, Some err)
     | Inr None \<Rightarrow>
         (udp_result, Some (CheckErr (New DNSMalformedResponse ''dns'' ''udp exchange'' False
            (Some (plain_error ''empty DNS response'')))))
     | Inr (Some response) \<Rightarrow>
         if \<not> msg_Truncated response then (udp_result\<lparr>ex_Message := Some response\<rparr>, None)
         else (case we_tcp e of
             Inl err \<Rightarrow> (tcp_result, Some err)
           | Inr None \<Rightarrow>
               (tcp_result, Some (CheckErr (New DNSMalformedResponse ''dns'' ''tcp retry'' False
                  (Some (plain_error ''empty DNS response'')))))
           | Inr (Some tcpResponse) \<Rightarrow> (tcp_result\<lparr>ex_Message := Some tcpResponse\<rparr>, None)))"

text \<open>
  \<^verbatim>\<open>DoHResolver.Exchange\<close>.  The reply carries the result of \<^verbatim>\<open>mime.ParseMediaType\<close> on its content type;
  \<open>dr_Body\<close> are the bytes that can be read and \<open>dr_ReadErr\<close> the error after them.  \<open>de_unpack\<close> is the
  decoder of the DNS library, which also yields the QR flag and the ID of the message.
\<close>

record doh_response =
  dr_Status :: int
  dr_ContentType :: string
  dr_MediaType :: "string option"
  dr_Body :: string
  dr_ReadErr :: "go_error option"

record doh_env =
  de_pack_err :: "go_error option"
  de_request_err :: "go_error option"
  de_do :: "(go_error, doh_response) result"
  de_elapsed :: duration
  de_ctx :: "go_error option"
  de_query_Id :: nat
  de_unpack :: "string \<Rightarrow> (go_error, dns_msg \<times> bool \<times> nat) result"

definition NewDoHResolver_maxBytes :: "int \<Rightarrow> int" where
  "NewDoHResolver_maxBytes maxResponseBytes = (if maxResponseBytes \<le> 0 then 65536 else maxResponseBytes)"

definition DoH_Exchange :: "int \<Rightarrow> doh_env \<Rightarrow> exchange_result \<times> go_error option" where
  "DoH_Exchange maxBytes e =
    (let none = \<lparr>ex_Message = None, ex_Duration = 0, ex_Transport = '''', ex_Truncated = False\<rparr>;
         base = \<lparr>ex_Message = None, ex_Duration = de_elapsed e, ex_Transport = ''doh'', ex_Truncated = False\<rparr>;
         fail = (\<lambda>code operation retryable cause.
           (base, Some (CheckErr (New code ''dns'' operation retryable (Some cause))))) in
     case de_pack_err e of
       Some err \<Rightarrow> (none, Some (CheckErr (New DNSMalformedResponse ''dns'' ''pack DoH query'' False (Some err))))
     | None \<Rightarrow>
     (case de_request_err e of
       Some err \<Rightarrow> (none, Some (CheckErr (New DNSNetworkError ''dns'' ''create DoH request'' False (Some err))))
     | None \<Rightarrow>
     (case de_do e of
       Inl err \<Rightarrow>
         (case FromContext (de_ctx e) ''dns'' ''DoH request'' DNSTimeout (Some err) of
            Some classified \<Rightarrow> (base, Some (CheckErr classified))
          | None \<Rightarrow> fail DNSNetworkError ''DoH request'' True err)
     | Inr response \<Rightarrow>
         if dr_Status response \<noteq> 200 then
           fail (if dr_Status response = 504 then DNSTimeout else DNSNetworkError) ''DoH response''
             (dr_Status response = 429 \<or> dr_Status response \<ge> 500)
             (plain_error (''unexpected HTTP status '' @ int_string (dr_Status response)))
         else if (case dr_MediaType response of None \<Rightarrow> True
                  | Some mediaType \<Rightarrow> \<not> equal_fold mediaType ''application/dns-message'') then
           fail DNSMalformedResponse ''DoH response'' False
             (plain_error (''unexpected content type '' @ go_quote (dr_ContentType response)))
         else if int (length (dr_Body response)) \<le> maxBytes \<and> dr_ReadErr response \<noteq> None then
           fail DNSNetworkError ''read DoH response'' True (the (dr_ReadErr response))
         else if int (length (dr_Body response)) > maxBytes then
           fail DNSMalformedResponse ''read DoH response'' False
             (plain_error (''DNS response exceeds '' @ int_string maxBytes @ '' bytes''))
         else (case de_unpack e (dr_Body response) of
             Inl err \<Rightarrow> fail DNSMalformedResponse ''unpack DoH response'' False err
           | Inr (decoded, is_response, reply_Id) \<Rightarrow>
               if \<not> is_response \<or> reply_Id \<noteq> de_query_Id e then
                 fail DNSMalformedResponse ''validate DoH response'' False
                   (plain_error ''response ID or QR flag mismatch'')
               else (base\<lparr>ex_Message := Some decoded, ex_Truncated := msg_Truncated decoded\<rparr>, None)))))"

section \<open>Specification\<close>

text \<open>The latest results of both resolvers for a type exist and differ.\<close>

definition disagree :: "dns_result list \<Rightarrow> dns_result list \<Rightarrow> string \<Rightarrow> bool" where
  "disagree local alternate t =
    (\<exists>x y. latestByType local t = Some x \<and> latestByType alternate t = Some y \<and>
       (res_RCode x \<noteq> res_RCode y \<or> res_ErrorCode x \<noteq> res_ErrorCode y \<or>
        canonical_value ` {a \<in> set (res_Answers x). compared t a} \<noteq>
        canonical_value ` {a \<in> set (res_Answers y). compared t a}))"

text \<open>An error that a resolver has classified as retryable carries a retryable code.\<close>

definition honest_error :: "go_error \<Rightarrow> bool" where
  "honest_error err = (case As err of None \<Rightarrow> True | Some c \<Rightarrow> err_Retryable c \<longrightarrow> retryableCode (err_Code c))"

text \<open>The DNS client and the DNS decoder return errors of their own packages.\<close>

definition foreign_errors :: "wire_env \<Rightarrow> bool" where
  "foreign_errors e = (\<forall>err. we_udp e = Inl err \<or> we_tcp e = Inl err \<longrightarrow> As err = None)"

text \<open>A chain repeats no name, except that a detected loop ends with the repeated one.\<close>

definition chain_ok :: "cname_trace \<Rightarrow> bool" where
  "chain_ok t = (if tr_Loop t then distinct (butlast (tr_Chain t)) \<and> last (tr_Chain t) \<in> set (butlast (tr_Chain t))
                 else distinct (tr_Chain t))"

section \<open>A sample environment\<close>

text \<open>A resolver that answers SERVFAIL to the first attempt and a CNAME record to the later ones.\<close>

definition sample_lib :: dns_lib where
  "sample_lib = \<lparr>lib_IsDomainName = (\<lambda>_. True),
     lib_Fqdn = (\<lambda>s. if has_suffix s ''.'' then s else s @ ''.''),
     lib_RcodeToString = (\<lambda>r. if r = 0 then ''NOERROR'' else ''SERVFAIL'')\<rparr>"

definition sample_env :: dns_env where
  "sample_env name k n =
    \<lparr>env_exchange = \<lparr>ex_Message = Some \<lparr>msg_Rcode = (if n = 1 then 2 else 0), msg_Authoritative = False,
        msg_Truncated = False, msg_Answer = [RR_CNAME name 60 ''b.example'']\<rparr>,
        ex_Duration = 5, ex_Transport = ''udp'', ex_Truncated = False\<rparr>,
     env_err = None, env_attempt_ctx = None, env_ctx = None, env_ctx_within = (\<lambda>_. None), env_now = 0\<rparr>"

definition sample_checker :: dns_checker where
  "sample_checker = \<lparr>chk_AttemptTimeout = 0, chk_Retry = \<lparr>MaxAttempts = 3, BaseDelay = 0, MaxDelay = 0, Jitter = None\<rparr>\<rparr>"

definition sample_resolver :: dns_resolver where
  "sample_resolver = \<lparr>rs_Type = ''LOCAL_SYSTEM'', rs_Endpoint = ''127.0.0.1:53''\<rparr>"

section \<open>Lemmas: retries\<close>

text \<open>The query loop keeps the contract of retry loops.\<close>

interpretation dns_retry: retrying
  "MaxAttempts policy" "\<lambda>n. query_attempt L resolver (envs n) name queryType n"
  "query_again rnd policy envs" "query_loop L rnd policy resolver envs name queryType"
  for L rnd policy resolver envs name queryType
  by unfold_locales (subst query_loop.simps, simp add: Let_def)

lemma query_attempt_fields [simp]:
  "res_Attempt (fst (query_attempt L resolver e name queryType n)) = n"
  "res_QueryName (fst (query_attempt L resolver e name queryType n)) = name"
  "res_QueryType (fst (query_attempt L resolver e name queryType n)) = queryType"
  by (simp_all add: query_attempt_def Let_def split: option.splits)

text \<open>An attempt that may be repeated failed; its code tells why.\<close>

lemma query_attempt_retryable:
  assumes "snd (query_attempt L resolver e name queryType n)" "\<And>err. env_err e = Some err \<Longrightarrow> honest_error err"
  shows "retryableCode (res_ErrorCode (fst (query_attempt L resolver e name queryType n)))"
  using assms
  by (auto simp: query_attempt_def Let_def classifyExchangeError_def classifyRCode_def retryableCode_def
      honest_error_def split: option.splits if_splits)

section \<open>Lemmas: resolvers\<close>

text \<open>
  What \<^verbatim>\<open>Query\<close> relies on: a resolver that reports no error delivers a message, and the errors it
  classifies are honest about being retryable, in every environment \<open>ok\<close> admits.
\<close>

locale exchanging =
  fixes Exchange :: "'e \<Rightarrow> exchange_result \<times> go_error option"
    and ok :: "'e \<Rightarrow> bool"
  assumes message_without_error: "Exchange x = (r, None) \<Longrightarrow> ex_Message r \<noteq> None"
    and honest: "ok x \<Longrightarrow> Exchange x = (r, Some err) \<Longrightarrow> honest_error err"
begin

lemma retried_attempt_failed:
  assumes "(env_exchange e, env_err e) = Exchange x" "ok x"
    and "snd (query_attempt L resolver e name queryType n)"
  shows "retryableCode (res_ErrorCode (fst (query_attempt L resolver e name queryType n)))"
proof (rule query_attempt_retryable [OF assms(3)])
  fix err assume "env_err e = Some err"
  with assms(1) have "Exchange x = (env_exchange e, Some err)" by simp
  with assms(2) show "honest_error err" by (rule honest)
qed

lemma attempt_without_error_has_rcode:
  assumes "(env_exchange e, env_err e) = Exchange x" "env_err e = None"
  shows "\<exists>m. ex_Message (env_exchange e) = Some m \<and>
    res_RCode (fst (query_attempt L resolver e name queryType n)) = lib_RcodeToString L (msg_Rcode m) \<and>
    res_Answers (fst (query_attempt L resolver e name queryType n)) = parseAnswers (msg_Answer m)"
proof -
  obtain m where m: "ex_Message (env_exchange e) = Some m"
    using message_without_error [of x "env_exchange e"] assms by auto
  with assms(2) show ?thesis by (simp add: query_attempt_def Let_def split: option.splits)
qed

end

interpretation wire: exchanging Wire_Exchange foreign_errors
  by unfold_locales
    (auto simp: Wire_Exchange_def Let_def foreign_errors_def honest_error_def
      split: sum.splits option.splits if_splits)

interpretation doh: exchanging "DoH_Exchange maxBytes" "\<lambda>_. True" for maxBytes
  by unfold_locales
    (auto simp: DoH_Exchange_def FromContext_def Let_def honest_error_def retryableCode_def
      split: sum.splits option.splits if_splits)

section \<open>Lemmas: comparison\<close>

lemma latestByType_snoc:
  "latestByType (rs @ [r]) =
    (case latestByType rs (res_QueryType r) of
       None \<Rightarrow> (latestByType rs)(res_QueryType r \<mapsto> r)
     | Some current \<Rightarrow>
         if res_Attempt r \<ge> res_Attempt current then (latestByType rs)(res_QueryType r \<mapsto> r)
         else latestByType rs)"
  unfolding latestByType_def by simp

lemma latestByType_None: "latestByType rs t = None \<longleftrightarrow> (\<forall>x \<in> set rs. res_QueryType x \<noteq> t)"
proof (induction rs rule: rev_induct)
  case (snoc x rs)
  then show ?case by (auto simp: latestByType_snoc split: option.splits)
qed (simp add: latestByType_def)

lemma latestByType_Some:
  "latestByType rs t = Some r \<Longrightarrow>
     r \<in> set rs \<and> res_QueryType r = t \<and> (\<forall>x \<in> set rs. res_QueryType x = t \<longrightarrow> res_Attempt x \<le> res_Attempt r)"
proof (induction rs arbitrary: r rule: rev_induct)
  case (snoc x rs)
  from snoc.prems show ?case
    using snoc.IH latestByType_None [of rs t]
    by (fastforce simp: latestByType_snoc split: option.splits if_splits)
qed (simp add: latestByType_def)

lemma sort_remdups_eq_iff: "sort (remdups xs) = sort (remdups ys) \<longleftrightarrow> set xs = set (ys :: 'a :: linorder list)"
  by (metis set_remdups set_sort sorted_list_of_set_sort_remdups)

lemma equalAnswerSets_iff:
  "equalAnswerSets left right t \<longleftrightarrow>
     canonical_value ` {a \<in> set left. compared t a} = canonical_value ` {a \<in> set right. compared t a}"
  by (simp add: equalAnswerSets_def canonicalValues_def sort_remdups_eq_iff)

lemma compare_type_Discrepancy:
  "cmp_Discrepancy (compare_type (latestByType l) (latestByType r) c t) \<longleftrightarrow>
     cmp_Discrepancy c \<or> t \<noteq> TypeNS \<and> disagree l r t"
  by (auto simp: compare_type_def disagree_def addReason_def equalAnswerSets_iff split: option.splits)

lemma compare_type_NSDiscrepancy:
  "cmp_NSDiscrepancy (compare_type (latestByType l) (latestByType r) c t) \<longleftrightarrow>
     cmp_NSDiscrepancy c \<or> t = TypeNS \<and> disagree l r t"
  by (auto simp: compare_type_def disagree_def addReason_def equalAnswerSets_iff split: option.splits)

lemma compare_type_commute: "compare_type l r = compare_type r l"
  by (rule ext)+ (auto simp: compare_type_def equalAnswerSets_def split: option.splits)

section \<open>Lemmas: CNAME chains\<close>

lemma trace_loop_sound:
  assumes "trace_loop L rnd c resolver env depth current seen trace = Some t"
    and "seen = set (tr_Chain trace)" "tr_Chain trace \<noteq> []" "distinct (tr_Chain trace)" "\<not> tr_Loop trace"
    and "\<not> tr_LimitReached trace"
  shows "chain_ok t \<and> length (tr_Chain t) \<le> length (tr_Chain trace) + depth \<and>
    (tr_LimitReached t \<longrightarrow> length (tr_Chain t) = length (tr_Chain trace) + depth)"
  using assms
proof (induction depth arbitrary: current seen trace)
  case (Suc depth)
  from Suc.prems(1) obtain results where results: "Query L rnd c resolver env current TypeCNAME = Some results"
    by (auto split: option.splits)
  let ?trace = "trace\<lparr>tr_Queries := tr_Queries trace @ results\<rparr>"
  let ?target = "cname_target L (res_Answers (last results)) current"
  consider "t = ?trace" | code where "t = ?trace\<lparr>tr_ErrorCode := code\<rparr>"
    | "?target \<in> seen" "t = ?trace\<lparr>tr_Chain := tr_Chain trace @ [?target], tr_Loop := True, tr_ErrorCode := DNSCNAMELoop\<rparr>"
    | "?target \<notin> seen" "trace_loop L rnd c resolver env depth ?target (insert ?target seen)
        (?trace\<lparr>tr_Chain := tr_Chain trace @ [?target]\<rparr>) = Some t"
    using Suc.prems(1) results by (auto simp: Let_def split: if_splits)
  then show ?case
  proof cases
    case 4
    then show ?thesis using Suc.IH [OF 4(2)] Suc.prems(2-) by auto
  qed (use Suc.prems(2-) in \<open>auto simp: chain_ok_def\<close>)
qed (auto simp: chain_ok_def)

lemma Query_total:
  assumes "draws_below rnd" "Jitter (chk_Retry c) = None" "safe_delays (chk_Retry c)"
  shows "\<exists>rs. Query L rnd c resolver env name t = Some rs"
proof -
  have "query_again rnd (Normalized (chk_Retry c)) envs n r \<noteq> None" for envs n r
    using Wait_total [of rnd "Normalized (chk_Retry c)"] assms safe_delays_Normalized
    by (cases "snd r") (simp_all add: query_again_def)
  from dns_retry.loop_total [OF this] show ?thesis
    by (auto simp: Query_def Let_def split: option.splits)
qed

lemma trace_loop_total:
  assumes "draws_below rnd" "Jitter (chk_Retry c) = None" "safe_delays (chk_Retry c)"
  shows "\<exists>t. trace_loop L rnd c resolver env depth current seen trace = Some t"
proof (induction depth arbitrary: current seen trace)
  case (Suc depth)
  obtain rs where "Query L rnd c resolver env current TypeCNAME = Some rs"
    using Query_total [OF assms] by blast
  then show ?case using Suc.IH by (auto simp: Let_def)
qed simp

lemma query_loop_spec:
  assumes "query_loop L rnd (Normalized p) resolver envs name t 1 = Some os"
    and "\<And>n err. env_err (envs n) = Some err \<Longrightarrow> honest_error err"
  shows "1 \<le> length os \<and> int (length os) \<le> MaxAttempts (Normalized p) \<and>
    (\<forall>i < length os. res_Attempt (fst (os ! i)) = int i + 1 \<and> res_QueryType (fst (os ! i)) = t) \<and>
    (\<forall>i. Suc i < length os \<longrightarrow> retryableCode (res_ErrorCode (fst (os ! i))))"
proof -
  note num = dns_retry.loop_numbered [OF assms(1)]
  have len: "os \<noteq> [] \<and> int (length os) \<le> MaxAttempts (Normalized p)"
    using dns_retry.loop_length [OF assms(1)] Normalized_bounds(1) [of p] by simp
  have "retryableCode (res_ErrorCode (fst (os ! i)))" if i: "Suc i < length os" for i
  proof -
    have "query_again rnd (Normalized p) envs (1 + int i) (os ! i) = Some True"
      using dns_retry.loop_again [OF assms(1) i] .
    then have "snd (os ! i)" by (simp add: query_again_def split: if_splits)
    then show ?thesis using num [of i] i query_attempt_retryable [OF _ assms(2)] by auto
  qed
  moreover have "res_Attempt (fst (os ! i)) = int i + 1 \<and> res_QueryType (fst (os ! i)) = t"
    if "i < length os" for i using num [OF that] by simp
  ultimately show ?thesis using len by (auto simp: Suc_le_eq)
qed

section \<open>Properties\<close>

text \<open>C20. A DNS query always returns, with at least one and at most \<open>MaxAttempts\<close> results numbered from 1;
  whatever the network does, an attempt is repeated only after a timeout, a network error or a
  SERVFAIL, never after an answer, NXDOMAIN or REFUSED.\<close>

theorem Query_attempts:
  assumes "draws_below rnd" "Jitter (chk_Retry c) = None" "safe_delays (chk_Retry c)"
    and "\<And>n k q err. env_err (env n k q) = Some err \<Longrightarrow> honest_error err"
  shows "\<exists>rs. Query L rnd c resolver env name t = Some rs \<and>
    1 \<le> length rs \<and> int (length rs) \<le> MaxAttempts (Normalized (chk_Retry c)) \<and>
    (\<forall>i < length rs. res_Attempt (rs ! i) = int i + 1 \<and> res_QueryType (rs ! i) = t) \<and>
    (\<forall>i. Suc i < length rs \<longrightarrow> retryableCode (res_ErrorCode (rs ! i)))"
proof -
  let ?p = "Normalized (chk_Retry c)" and ?name = "to_lower (trim_space name)"
  obtain rs where rs: "Query L rnd c resolver env name t = Some rs"
    using Query_total [OF assms(1-3)] by blast
  have max: "1 \<le> MaxAttempts ?p" by (rule Normalized_bounds)
  show ?thesis
  proof (cases "wireType t")
    case (Some dnsType)
    show ?thesis
    proof (cases "\<not> lib_IsDomainName L ?name \<or> ?name = ''.''")
      case False
      then obtain os where os: "query_loop L rnd ?p resolver (env (lib_Fqdn L ?name) dnsType) (lib_Fqdn L ?name) t 1 = Some os"
        "rs = map fst os"
        using rs Some by (auto simp: Query_def Let_def)
      show ?thesis using rs os(2) query_loop_spec [OF os(1) assms(4)] by auto
    qed (use rs max in \<open>auto simp: Query_def Let_def invalid_query_def\<close>)
  qed (use rs max in \<open>auto simp: Query_def Let_def invalid_query_def split: if_splits\<close>)
qed

theorem Query_attempts_witness:
  "\<exists>rs. Query sample_lib (\<lambda>n. n - 1) sample_checker sample_resolver sample_env ''a.example'' TypeCNAME = Some rs \<and>
    1 \<le> length rs \<and> int (length rs) \<le> 3 \<and> (\<forall>i < length rs. res_Attempt (rs ! i) = int i + 1)"
proof -
  have "draws_below (\<lambda>n. n - 1)" by (simp add: draws_below_def)
  moreover have "Jitter (chk_Retry sample_checker) = None" "safe_delays (chk_Retry sample_checker)"
    "MaxAttempts (Normalized (chk_Retry sample_checker)) = 3"
    by (simp_all add: sample_checker_def safe_delays_def min_int64_def max_int64_def Normalized_def)
  moreover have "env_err (sample_env n k q) = None" for n k q by (simp add: sample_env_def)
  ultimately show ?thesis
    using Query_attempts [of "\<lambda>n. n - 1" sample_checker sample_env sample_lib sample_resolver "''a.example''" TypeCNAME]
    by force
qed

text \<open>C21. Tracing a CNAME chain always ends; the chain has at most one name more than the depth limit, it
  repeats no name except the one that closes a detected loop, and the limit is reported only when
  the chain has reached it.\<close>

theorem TraceCNAME_sound:
  assumes "draws_below rnd" "Jitter (chk_Retry c) = None" "safe_delays (chk_Retry c)"
  shows "\<exists>t. TraceCNAME L rnd c resolver env name maxDepth = Some t \<and> chain_ok t \<and>
    int (length (tr_Chain t)) \<le> 1 + (if maxDepth < 1 then 8 else maxDepth) \<and>
    (tr_LimitReached t \<longrightarrow> int (length (tr_Chain t)) = 1 + (if maxDepth < 1 then 8 else maxDepth))"
proof -
  obtain t where t: "TraceCNAME L rnd c resolver env name maxDepth = Some t"
    using trace_loop_total [OF assms] unfolding TraceCNAME_def Let_def by blast
  from trace_loop_sound [OF t [unfolded TraceCNAME_def Let_def]] t show ?thesis by auto
qed

theorem TraceCNAME_sound_witness:
  "\<exists>t. TraceCNAME sample_lib (\<lambda>n. n - 1) sample_checker sample_resolver sample_env ''a.example'' 4 = Some t \<and>
    chain_ok t \<and> int (length (tr_Chain t)) \<le> 5"
proof -
  have "draws_below (\<lambda>n. n - 1)" by (simp add: draws_below_def)
  moreover have "Jitter (chk_Retry sample_checker) = None" "safe_delays (chk_Retry sample_checker)"
    by (simp_all add: sample_checker_def safe_delays_def min_int64_def max_int64_def)
  ultimately show ?thesis
    using TraceCNAME_sound [of "\<lambda>n. n - 1" sample_checker sample_lib sample_resolver sample_env "''a.example''" 4]
    by force
qed

text \<open>C22. The comparison of two resolvers is exact and symmetric: it reports a discrepancy of the addresses or
  aliases if and only if, for A, AAAA or CNAME, the latest results of both sides exist and differ in
  code or in their canonical answer sets, and a name server discrepancy likewise for NS; the order
  and multiplicity of answers, letter case, a trailing dot and the spelling of IP addresses never
  matter.\<close>

theorem Compare_exact:
  "(cmp_Discrepancy (Compare l r) \<longleftrightarrow> disagree l r TypeA \<or> disagree l r TypeAAAA \<or> disagree l r TypeCNAME) \<and>
   (cmp_NSDiscrepancy (Compare l r) \<longleftrightarrow> disagree l r TypeNS) \<and>
   Compare l r = Compare r l"
proof -
  have "cmp_Discrepancy (Compare l r) \<longleftrightarrow> disagree l r TypeA \<or> disagree l r TypeAAAA \<or> disagree l r TypeCNAME"
    by (simp add: Compare_def compare_type_Discrepancy disj.assoc)
  moreover have "cmp_NSDiscrepancy (Compare l r) \<longleftrightarrow> disagree l r TypeNS"
    by (simp add: Compare_def compare_type_NSDiscrepancy)
  moreover have "Compare l r = Compare r l"
    unfolding Compare_def by (subst compare_type_commute) simp
  ultimately show ?thesis by blast
qed

end
