(* ===== verification/Tlscheck.thy ===== *)
theory Tlscheck
  imports Netip Netcheck
begin

text \<open>
  \<^verbatim>\<open>internal/tlscheck/inspector.go\<close>: what a TLS connection state says about the server certificate, and
  the inspection of a server with a diagnostic second handshake.  The handshakes, the SHA-256
  function and the verification of names against a certificate (package \<^verbatim>\<open>crypto\<close>) are arguments.
  The number of days left is the floor of the remaining time over 24 hours; Go computes it in
  floating point, which can differ only within a nanosecond of a day boundary.
\<close>

section \<open>Types\<close>

record certificate =
  crt_Subject :: string
  crt_Issuer :: string
  crt_SerialBytes :: "string option"
  crt_NotBefore :: gotime
  crt_NotAfter :: gotime
  crt_DNSNames :: "string list"
  crt_IPAddresses :: "string list"
  crt_VerifyHostname :: "string \<Rightarrow> bool"

record connection_state =
  cs_VersionName :: string
  cs_CipherSuiteName :: string
  cs_PeerCertificates :: "certificate list"
  cs_VerifiedChains :: nat

record tls_result =
  tls_ServerName :: string
  tls_RemoteAddress :: string
  tls_TLSVersion :: string
  tls_CipherSuite :: string
  tls_CertificateSubject :: string
  tls_CertificateIssuer :: string
  tls_SerialHash :: "string option"
  tls_SANs :: "string list"
  tls_ValidFrom :: "gotime option"
  tls_ValidUntil :: "gotime option"
  tls_ExpirationDays :: "int option"
  tls_HostnameValid :: "bool option"
  tls_ChainValid :: bool
  tls_Status :: string
  tls_DiagnosticOnly :: bool
  tls_ErrorCode :: string
  tls_ErrorMessage :: string
  tls_CheckedAt :: gotime

record inspector =
  ins_HandshakeTimeout :: duration
  ins_ExpiringSoon :: duration
  ins_MinVersion :: nat
  ins_MaxSANs :: int

abbreviation days30 :: duration where "days30 \<equiv> 30 * 24 * hour"

definition inspector_normalized :: "inspector \<Rightarrow> inspector" where
  "inspector_normalized i =
    (let i = (if ins_HandshakeTimeout i \<le> 0 then i\<lparr>ins_HandshakeTimeout := 7 * second\<rparr> else i);
         i = (if ins_ExpiringSoon i \<le> 0 then i\<lparr>ins_ExpiringSoon := days30\<rparr> else i);
         i = (if ins_MinVersion i = 0 then i\<lparr>ins_MinVersion := 0x0303\<rparr> else i);
         i = (if ins_MaxSANs i \<le> 0 then i\<lparr>ins_MaxSANs := 100\<rparr> else i)
     in i)"

section \<open>Certificates\<close>

text \<open>The two loops of \<^verbatim>\<open>certificateSANs\<close>: names, then addresses, cut at \<open>limit\<close> after each append.\<close>

fun append_until :: "int \<Rightarrow> string list \<Rightarrow> string list \<Rightarrow> string list \<times> bool" where
  "append_until limit vals [] = (vals, False)"
| "append_until limit vals (x # xs) =
    (let vals = vals @ [x] in
     if int (length vals) \<ge> limit then (vals, True) else append_until limit vals xs)"

definition certificateSANs :: "certificate \<Rightarrow> int \<Rightarrow> string list" where
  "certificateSANs crt limit =
    (case append_until limit [] (map to_lower (crt_DNSNames crt)) of
       (vals, True) \<Rightarrow> vals
     | (vals, False) \<Rightarrow> fst (append_until limit vals (crt_IPAddresses crt)))"

definition FromConnectionState ::
  "(string \<Rightarrow> string) \<Rightarrow> connection_state \<Rightarrow> string \<Rightarrow> duration \<Rightarrow> gotime \<Rightarrow> int \<Rightarrow> tls_result" where
  "FromConnectionState sha256 state serverName expiringSoon0 now maxSANs0 =
    (let expiringSoon = (if expiringSoon0 \<le> 0 then days30 else expiringSoon0);
         maxSANs = (if maxSANs0 \<le> 0 then 100 else maxSANs0);
         result = \<lparr>tls_ServerName = serverName, tls_RemoteAddress = '''', tls_TLSVersion = cs_VersionName state,
           tls_CipherSuite = cs_CipherSuiteName state, tls_CertificateSubject = '''', tls_CertificateIssuer = '''',
           tls_SerialHash = None, tls_SANs = [], tls_ValidFrom = None, tls_ValidUntil = None,
           tls_ExpirationDays = None, tls_HostnameValid = None, tls_ChainValid = cs_VerifiedChains state > 0,
           tls_Status = ''VALID'', tls_DiagnosticOnly = (cs_VerifiedChains state = 0), tls_ErrorCode = '''',
           tls_ErrorMessage = '''', tls_CheckedAt = now\<rparr> in
     case cs_PeerCertificates state of
       [] \<Rightarrow> result\<lparr>tls_Status := ''ERROR'', tls_ErrorCode := TLSErrorHandshake,
               tls_ErrorMessage := ''TLS peer did not present a certificate''\<rparr>
     | crt # _ \<Rightarrow>
         let hostnameValid = crt_VerifyHostname crt serverName;
             result = result\<lparr>tls_CertificateSubject := crt_Subject crt, tls_CertificateIssuer := crt_Issuer crt,
               tls_SerialHash := map_option sha256 (crt_SerialBytes crt),
               tls_ValidFrom := Some (crt_NotBefore crt), tls_ValidUntil := Some (crt_NotAfter crt),
               tls_ExpirationDays := Some (time_sub (crt_NotAfter crt) now div (24 * hour)),
               tls_HostnameValid := Some hostnameValid, tls_SANs := certificateSANs crt maxSANs\<rparr> in
         if now > crt_NotAfter crt then result\<lparr>tls_Status := ''EXPIRED'', tls_ErrorCode := TLSErrorExpired\<rparr>
         else if \<not> hostnameValid then
           result\<lparr>tls_Status := ''HOSTNAME_MISMATCH'', tls_ErrorCode := TLSErrorHostname\<rparr>
         else if time_sub (crt_NotAfter crt) now \<le> expiringSoon then result\<lparr>tls_Status := ''EXPIRING''\<rparr>
         else result)"

section \<open>Inspection\<close>

text \<open>
  A failed handshake: the error and what \<^verbatim>\<open>errors.As\<close> finds in it of the verification errors of
  \<^verbatim>\<open>crypto/x509\<close> that the code tells apart.  An invalid certificate carries whether its reason is
  \<^verbatim>\<open>x509.Expired\<close> and, if known, the end of its validity.
\<close>

record handshake_failure =
  hf_err :: go_error
  hf_hostname :: bool
  hf_invalid :: "(bool \<times> gotime option) option"
  hf_authority :: bool

definition classifyTLSFailure ::
  "go_error option \<Rightarrow> go_error option \<Rightarrow> handshake_failure \<Rightarrow> gotime \<Rightarrow> check_error \<times> string" where
  "classifyTLSFailure parent_Err handshake_Err f now =
    (if errors_Is parent_Err Canceled then
       (New RunCancelled ''tls'' ''handshake'' False (Some context_Canceled), ''ERROR'')
     else if errors_Is parent_Err DeadlineExceeded then
       (New RunDeadlineExceeded ''tls'' ''handshake'' False (Some context_DeadlineExceeded), ''ERROR'')
     else if errors_Is handshake_Err DeadlineExceeded \<or> errors_Is (Some (hf_err f)) DeadlineExceeded then
       (New TLSErrorHandshake ''tls'' ''handshake'' True (Some context_DeadlineExceeded), ''ERROR'')
     else if hf_hostname f then
       (New TLSErrorHostname ''tls'' ''verify hostname'' False (Some (hf_err f)), ''HOSTNAME_MISMATCH'')
     else case hf_invalid f of
       Some (expired, notAfter) \<Rightarrow>
         (if expired \<and> (case notAfter of None \<Rightarrow> False | Some t \<Rightarrow> now > t) then
            (New TLSErrorExpired ''tls'' ''verify certificate'' False (Some (hf_err f)), ''EXPIRED'')
          else (New TLSErrorHandshake ''tls'' ''verify certificate'' False (Some (hf_err f)), ''INVALID''))
     | None \<Rightarrow>
         if hf_authority f then
           (New TLSErrorUnknownAuthority ''tls'' ''verify chain'' False (Some (hf_err f)), ''INVALID'')
         else (New TLSErrorHandshake ''tls'' ''handshake'' True (Some (hf_err f)), ''ERROR''))"

text \<open>
  \<open>ie_dial\<close> is the result of the safe dialer with the remote address of the connection, \<open>ie_handshake\<close> the
  verified handshake and \<open>ie_diagnostic\<close> the state of the unverified one, if dialing the same remote
  address again and that handshake succeed.
\<close>

record inspect_env =
  ie_dial :: "(go_error, string) result"
  ie_handshake :: "(handshake_failure, connection_state) result"
  ie_diagnostic :: "connection_state option"
  ie_ctx :: "go_error option"
  ie_handshake_ctx :: "go_error option"
  ie_now :: gotime

definition empty_tls_result :: "string \<Rightarrow> string \<Rightarrow> bool \<Rightarrow> gotime \<Rightarrow> tls_result" where
  "empty_tls_result serverName remoteAddress diagnosticOnly checkedAt =
    \<lparr>tls_ServerName = serverName, tls_RemoteAddress = remoteAddress, tls_TLSVersion = '''',
     tls_CipherSuite = '''', tls_CertificateSubject = '''', tls_CertificateIssuer = '''', tls_SerialHash = None,
     tls_SANs = [], tls_ValidFrom = None, tls_ValidUntil = None, tls_ExpirationDays = None,
     tls_HostnameValid = None, tls_ChainValid = False, tls_Status = ''UNKNOWN'',
     tls_DiagnosticOnly = diagnosticOnly, tls_ErrorCode = '''', tls_ErrorMessage = '''', tls_CheckedAt = checkedAt\<rparr>"

definition diagnostic ::
  "(string \<Rightarrow> string) \<Rightarrow> inspector \<Rightarrow> inspect_env \<Rightarrow> string \<Rightarrow> string \<Rightarrow> gotime \<Rightarrow> tls_result" where
  "diagnostic sha256 i e serverName remoteAddress checkedAt =
    (case ie_diagnostic e of
       None \<Rightarrow> empty_tls_result serverName remoteAddress True checkedAt
     | Some state \<Rightarrow>
         (FromConnectionState sha256 state serverName (ins_ExpiringSoon i) checkedAt (ins_MaxSANs i))
           \<lparr>tls_RemoteAddress := remoteAddress, tls_DiagnosticOnly := True, tls_ChainValid := False,
            tls_Status := ''INVALID''\<rparr>)"

definition Inspect :: "(string \<Rightarrow> string) \<Rightarrow> inspector \<Rightarrow> inspect_env \<Rightarrow> string \<Rightarrow> tls_result" where
  "Inspect sha256 i0 e serverName =
    (let i = inspector_normalized i0; checkedAt = ie_now e;
         result = empty_tls_result serverName '''' False checkedAt in
     case ie_dial e of
       Inl err \<Rightarrow>
         let classified = ClassifyTCP (ie_handshake_ctx e) ''TLS dial'' err in
         result\<lparr>tls_Status := ''ERROR'', tls_ErrorCode := err_Code classified,
           tls_ErrorMessage := error_text (CheckErr classified)\<rparr>
     | Inr remoteAddress \<Rightarrow>
         let result = result\<lparr>tls_RemoteAddress := remoteAddress\<rparr> in
         (case ie_handshake e of
            Inr state \<Rightarrow>
              (FromConnectionState sha256 state serverName (ins_ExpiringSoon i) checkedAt (ins_MaxSANs i))
                \<lparr>tls_RemoteAddress := remoteAddress, tls_CheckedAt := checkedAt\<rparr>
          | Inl f \<Rightarrow>
              let (classified, status) = classifyTLSFailure (ie_ctx e) (ie_handshake_ctx e) f checkedAt;
                  result = result\<lparr>tls_Status := status, tls_ErrorCode := err_Code classified,
                    tls_ErrorMessage := error_text (CheckErr classified)\<rparr>;
                  diag = diagnostic sha256 i e serverName remoteAddress checkedAt in
              if tls_Status diag \<noteq> ''UNKNOWN'' then
                diag\<lparr>tls_ErrorCode := tls_ErrorCode result, tls_ErrorMessage := tls_ErrorMessage result,
                  tls_Status := tls_Status result, tls_ChainValid := False, tls_DiagnosticOnly := True\<rparr>
              else result))"

section \<open>Lemmas\<close>

lemma inspector_normalized_bounds [bounds]:
  "0 < ins_HandshakeTimeout (inspector_normalized i)" "0 < ins_ExpiringSoon (inspector_normalized i)"
  "0 < ins_MaxSANs (inspector_normalized i)"
  by (auto simp: inspector_normalized_def Let_def)

lemma append_until_take:
  "int (length vals) < limit \<Longrightarrow>
     append_until limit vals xs = (take (nat limit) (vals @ xs), int (length (vals @ xs)) \<ge> limit)"
proof (induction limit vals xs rule: append_until.induct)
  case (2 limit vals x xs)
  show ?case
  proof (cases "int (length (vals @ [x])) \<ge> limit")
    case True
    with 2(2) have "nat limit = Suc (length vals)" by simp
    with True show ?thesis by simp
  qed (use 2 in auto)
qed auto

text \<open>The loops cut the list of all names of a certificate at \<open>limit\<close>.\<close>

lemma certificateSANs_take:
  "0 < limit \<Longrightarrow> certificateSANs crt limit = take (nat limit) (map to_lower (crt_DNSNames crt) @ crt_IPAddresses crt)"
  by (auto simp: certificateSANs_def append_until_take split: bool.splits)

section \<open>Properties\<close>

text \<open>C23. A certificate is reported VALID only while it is unexpired, matches the server name and stays valid
  longer than the warning period; EXPIRED takes precedence over a wrong name, which takes precedence
  over EXPIRING, and an error code is set exactly for the unusable certificates.\<close>

theorem FromConnectionState_status:
  fixes expiringSoon now maxSANs :: int and sha256 :: "string \<Rightarrow> string"
    and state :: connection_state and name :: string
  assumes "cs_PeerCertificates state = crt # rest"
  defines "soon \<equiv> (if expiringSoon \<le> 0 then days30 else expiringSoon)"
  defines "r \<equiv> FromConnectionState sha256 state name expiringSoon now maxSANs"
  shows "(tls_Status r = ''EXPIRED'' \<longleftrightarrow> now > crt_NotAfter crt) \<and>
    (tls_Status r = ''HOSTNAME_MISMATCH'' \<longleftrightarrow> now \<le> crt_NotAfter crt \<and> \<not> crt_VerifyHostname crt name) \<and>
    (tls_Status r = ''EXPIRING'' \<longleftrightarrow> now \<le> crt_NotAfter crt \<and> crt_VerifyHostname crt name \<and>
       time_sub (crt_NotAfter crt) now \<le> soon) \<and>
    (tls_Status r = ''VALID'' \<longleftrightarrow> now \<le> crt_NotAfter crt \<and> crt_VerifyHostname crt name \<and>
       time_sub (crt_NotAfter crt) now > soon) \<and>
    (tls_ErrorCode r \<noteq> '''' \<longleftrightarrow> tls_Status r \<in> {''EXPIRED'', ''HOSTNAME_MISMATCH''}) \<and>
    tls_ChainValid r = (cs_VerifiedChains state > 0) \<and> length (tls_SANs r) \<le> nat (if maxSANs \<le> 0 then 100 else maxSANs)"
  using assms(1) certificateSANs_take [of "if maxSANs \<le> 0 then 100 else maxSANs" crt]
  unfolding soon_def r_def by (auto simp: FromConnectionState_def Let_def)

theorem FromConnectionState_status_witness:
  "tls_Status (FromConnectionState (\<lambda>s. s)
     \<lparr>cs_VersionName = ''TLS 1.3'', cs_CipherSuiteName = ''TLS_AES_128_GCM_SHA256'',
      cs_PeerCertificates = [\<lparr>crt_Subject = ''CN=a'', crt_Issuer = ''CN=ca'', crt_SerialBytes = None, crt_NotBefore = 0,
        crt_NotAfter = 40 * 24 * hour, crt_DNSNames = [''A.example''], crt_IPAddresses = [], crt_VerifyHostname = (\<lambda>n. n = ''a.example'')\<rparr>],
      cs_VerifiedChains = 1\<rparr> ''a.example'' 0 (9 * 24 * hour) 0) = ''VALID''"
  by (subst FromConnectionState_status [THEN conjunct2, THEN conjunct2, THEN conjunct2, THEN conjunct1])
    (rule connection_state.select_convs, simp add: time_sub_def clamp64_def min_int64_def max_int64_def)

text \<open>C24. A server whose certificate failed verification is never reported with a valid chain: whatever the
  second, unverified handshake shows is marked as diagnostic and keeps the status and the error of
  the failed verification.\<close>

theorem Inspect_failed_handshake:
  fixes sha256 :: "string \<Rightarrow> string" and i :: inspector and e :: inspect_env and name :: string
  assumes "ie_dial e = Inr remote" "ie_handshake e = Inl f"
  defines "r \<equiv> Inspect sha256 i e name"
  shows "\<not> tls_ChainValid r \<and> tls_Status r = snd (classifyTLSFailure (ie_ctx e) (ie_handshake_ctx e) f (ie_now e)) \<and>
    tls_ErrorCode r = err_Code (fst (classifyTLSFailure (ie_ctx e) (ie_handshake_ctx e) f (ie_now e))) \<and>
    tls_RemoteAddress r = remote \<and> (tls_ValidUntil r \<noteq> None \<longrightarrow> tls_DiagnosticOnly r)"
  using assms(1,2) unfolding r_def
  by (auto simp: Inspect_def diagnostic_def empty_tls_result_def Let_def split: prod.splits option.splits)

theorem Inspect_failed_handshake_witness:
  "\<not> tls_ChainValid (Inspect (\<lambda>s. s)
     \<lparr>ins_HandshakeTimeout = 0, ins_ExpiringSoon = 0, ins_MinVersion = 0, ins_MaxSANs = 0\<rparr>
     \<lparr>ie_dial = Inr ''93.184.216.34:443'',
      ie_handshake = Inl \<lparr>hf_err = plain_error ''x509'', hf_hostname = True, hf_invalid = None, hf_authority = False\<rparr>,
      ie_diagnostic = None, ie_ctx = None, ie_handshake_ctx = None, ie_now = 0\<rparr> ''a.example'')"
  by (rule Inspect_failed_handshake [THEN conjunct1]) simp_all

end
