(* ===== verification/Httpcheck.thy ===== *)
theory Httpcheck
  imports Retry Tlscheck
begin

text \<open>
  \<^verbatim>\<open>internal/httpcheck\<close>: HTTP checks of a domain with bounded redirects, retries and content evidence.
  The functions of \<^verbatim>\<open>net/url\<close>, the public suffix list, and the text analysis of bodies (regular
  expressions, Unicode tables, SHA-256, MIME parsing) are arguments, as is what every request
  receives; the statements hold for all of them.  The URLs requested during an attempt are returned
  beside its result.
\<close>

section \<open>Types\<close>

abbreviation ContentHTML :: string where "ContentHTML \<equiv> ''HTML''"
abbreviation ContentAny :: string where "ContentAny \<equiv> ''ANY''"
abbreviation ContentStatusOnly :: string where "ContentStatusOnly \<equiv> ''STATUS_ONLY''"

record http_config =
  cfg_MaxRedirects :: int
  cfg_MaxBodyBytes :: int
  cfg_ExcerptBytes :: int
  cfg_HeaderBytes :: int
  cfg_MinMeaningfulBytes :: int
  cfg_ConnectTimeout :: duration
  cfg_TLSHandshakeTimeout :: duration
  cfg_ResponseHeaderTimeout :: duration
  cfg_ChainTimeout :: duration
  cfg_TLSExpiringSoon :: duration
  cfg_MaxCertificateSANs :: int
  cfg_UserAgent :: string
  cfg_Accept :: string
  cfg_AcceptLanguage :: string
  cfg_Retry :: retry_policy

record timing =
  tm_DNS :: duration
  tm_Connect :: duration
  tm_TLS :: duration
  tm_TTFB :: duration
  tm_Total :: duration
  tm_Reused :: bool

record redirect_hop =
  hop_Hop :: nat
  hop_SourceURL :: string
  hop_StatusCode :: int
  hop_Location :: string
  hop_ResolvedTarget :: string
  hop_CrossDomain :: bool
  hop_HTTPSDowngrade :: bool
  hop_Duration :: duration
  hop_ErrorCode :: string

record content_evidence =
  ce_Status :: string
  ce_ContentType :: string
  ce_DeclaredContentLength :: int
  ce_BodySize :: int
  ce_BodySHA256 :: "string option"
  ce_HashComplete :: bool
  ce_Excerpt :: string
  ce_Title :: string
  ce_ErrorCode :: string
  ce_ErrorMessage :: string

record http_attempt =
  at_Attempt :: int
  at_RequestURL :: string
  at_EffectiveURL :: string
  at_Protocol :: string
  at_InitialStatusCode :: int
  at_FinalStatusCode :: int
  at_Redirects :: "redirect_hop list"
  at_Timing :: timing
  at_Content :: content_evidence
  at_ServerHeader :: string
  at_Headers :: "(string \<times> string) list"
  at_TLS :: "tls_result option"
  at_ErrorCode :: string
  at_ErrorMessage :: string
  at_CheckedAt :: gotime
  at_RetryAfter :: duration
  at_Retryable :: bool

record origin_result =
  or_HTTPS :: "http_attempt list"
  or_HTTP :: "http_attempt list"
  or_UsedHTTPFallback :: bool

section \<open>URLs and library functions\<close>

text \<open>The fields of \<^verbatim>\<open>url.URL\<close>; \<open>u_User\<close> is \<^const>\<open>None\<close> for a nil user.\<close>

record url =
  u_Scheme :: string
  u_Opaque :: string
  u_User :: "string option"
  u_Host :: string
  u_Path :: string
  u_RawQuery :: string
  u_Fragment :: string

record http_lib =
  hl_Parse :: "string \<Rightarrow> (go_error, url) result"
  hl_ResolveReference :: "url \<Rightarrow> url \<Rightarrow> url"
  hl_String :: "url \<Rightarrow> string"
  hl_EffectiveTLDPlusOne :: "string \<Rightarrow> string option"
  hl_ParseTime :: "string \<Rightarrow> gotime option"
  hl_MediaType :: "string \<Rightarrow> string"
  hl_sha256 :: "string \<Rightarrow> string"
  hl_utf8_Valid :: "string \<Rightarrow> bool"
  hl_meaningfulText :: "string \<Rightarrow> int"
  hl_extractTitle :: "string \<Rightarrow> string"
  hl_redactExcerpt :: "string \<Rightarrow> string"

text \<open>\<^verbatim>\<open>URL.Hostname\<close> and \<^verbatim>\<open>URL.Port\<close>.\<close>

definition valid_optional_port :: "string \<Rightarrow> bool" where
  "valid_optional_port port = (case port of [] \<Rightarrow> True | c # ds \<Rightarrow> c = CHR '':'' \<and> list_all is_digit ds)"

definition url_split_host :: "string \<Rightarrow> string \<times> string" where
  "url_split_host hostPort =
    (let (host, port) =
           (case last_index (CHR '':'') hostPort of
              None \<Rightarrow> (hostPort, '''')
            | Some colon \<Rightarrow>
                if valid_optional_port (drop colon hostPort)
                then (take colon hostPort, drop (colon + 1) hostPort) else (hostPort, ''''))
     in (if has_prefix host ''['' \<and> has_suffix host '']'' then drop 1 (butlast host) else host, port))"

abbreviation url_Hostname :: "url \<Rightarrow> string" where "url_Hostname u \<equiv> fst (url_split_host (u_Host u))"
abbreviation url_Port :: "url \<Rightarrow> string" where "url_Port u \<equiv> snd (url_split_host (u_Host u))"

text \<open>A response; \<open>rsp_Body\<close> are the bytes that can be read and \<open>rsp_BodyErr\<close> the error after them.\<close>

record http_response =
  rsp_StatusCode :: int
  rsp_Proto :: string
  rsp_Header :: "string \<Rightarrow> string list"
  rsp_ContentLength :: int
  rsp_Body :: string
  rsp_BodyErr :: "go_error option"
  rsp_TLS :: "connection_state option"

definition header_Get :: "http_response \<Rightarrow> string \<Rightarrow> string" where
  "header_Get response name = (case rsp_Header response name of [] \<Rightarrow> '''' | v # _ \<Rightarrow> v)"

text \<open>
  What a request receives: the reply with what \<^verbatim>\<open>errors.As\<close> finds of x509 errors in a failure, the
  measured times, the error of the attempt's context, and the clock.
\<close>

record request_outcome =
  ro_reply :: "(handshake_failure, http_response) result"
  ro_timing :: timing
  ro_ctx :: "go_error option"
  ro_elapsed :: duration
  ro_now :: gotime

section \<open>Configuration\<close>

text \<open>Every assignment of \<^verbatim>\<open>normalizeConfig\<close> reads and writes one field.\<close>

definition or_default :: "int \<Rightarrow> int \<Rightarrow> int" where
  "or_default value fallback = (if value \<le> 0 then fallback else value)"

definition or_text :: "string \<Rightarrow> string \<Rightarrow> string" where
  "or_text value fallback = (if value = '''' then fallback else value)"

definition normalizeConfig :: "http_config \<Rightarrow> http_config" where
  "normalizeConfig c = c\<lparr>
    cfg_MaxRedirects := or_default (cfg_MaxRedirects c) 10,
    cfg_MaxBodyBytes := or_default (cfg_MaxBodyBytes c) 2097152,
    cfg_ExcerptBytes := min (or_default (cfg_ExcerptBytes c) 32768) 65536,
    cfg_HeaderBytes := or_default (cfg_HeaderBytes c) 16384,
    cfg_MinMeaningfulBytes := or_default (cfg_MinMeaningfulBytes c) 64,
    cfg_ChainTimeout := or_default (cfg_ChainTimeout c) (25 * second),
    cfg_ConnectTimeout := or_default (cfg_ConnectTimeout c) (5 * second),
    cfg_TLSHandshakeTimeout := or_default (cfg_TLSHandshakeTimeout c) (7 * second),
    cfg_ResponseHeaderTimeout := or_default (cfg_ResponseHeaderTimeout c) (10 * second),
    cfg_TLSExpiringSoon := or_default (cfg_TLSExpiringSoon c) days30,
    cfg_MaxCertificateSANs := or_default (cfg_MaxCertificateSANs c) 100,
    cfg_UserAgent := or_text (cfg_UserAgent c) ''DomainMonitor/phase3'',
    cfg_Accept := or_text (cfg_Accept c) ''text/html,application/xhtml+xml,application/json;q=0.8,*/*;q=0.5'',
    cfg_AcceptLanguage := or_text (cfg_AcceptLanguage c) ''th,en;q=0.8'',
    cfg_Retry := Normalized (cfg_Retry c)\<rparr>"

section \<open>Small decisions\<close>

definition validateURL :: "http_lib \<Rightarrow> string \<Rightarrow> (go_error, url) result" where
  "validateURL H raw =
    (case hl_Parse H (trim_space raw) of
       Inl err \<Rightarrow> Inl err
     | Inr parsed \<Rightarrow>
         if u_Scheme parsed \<noteq> ''http'' \<and> u_Scheme parsed \<noteq> ''https'' then
           Inl (plain_error ''URL scheme must be http or https'')
         else if url_Hostname parsed = '''' then Inl (plain_error ''URL hostname is required'')
         else if u_User parsed \<noteq> None then Inl (plain_error ''credential-bearing URLs are not allowed'')
         else let parsed = parsed\<lparr>u_Fragment := ''''\<rparr> in
           Inr (if u_Path parsed = '''' then parsed\<lparr>u_Path := ''/''\<rparr> else parsed))"

definition resolveRedirect :: "http_lib \<Rightarrow> url \<Rightarrow> string \<Rightarrow> (go_error, url) result" where
  "resolveRedirect H source location =
    (if trim_space location = '''' then Inl (plain_error ''redirect response has no Location header'')
     else case hl_Parse H location of
       Inl err \<Rightarrow> Inl (Wrapped ''parse Location: '' err)
     | Inr reference \<Rightarrow>
         let target = hl_ResolveReference H source reference in
         if u_Scheme target \<noteq> ''http'' \<and> u_Scheme target \<noteq> ''https'' then
           Inl (plain_error (''redirect target scheme '' @ go_quote (u_Scheme target) @ '' is not allowed''))
         else if url_Hostname target = '''' \<or> u_User target \<noteq> None then
           Inl (plain_error ''redirect target is invalid or contains credentials'')
         else let target = target\<lparr>u_Fragment := ''''\<rparr> in
           Inr (if u_Path target = '''' then target\<lparr>u_Path := ''/''\<rparr> else target))"

definition classifyRequestError :: "go_error option \<Rightarrow> handshake_failure \<Rightarrow> check_error" where
  "classifyRequestError ctx_Err f =
    (let err = hf_err f in
     case As err of
       Some existing \<Rightarrow> existing
     | None \<Rightarrow>
         if errors_Is ctx_Err Canceled then New RunCancelled ''http'' ''request'' False (Some context_Canceled)
         else if errors_Is ctx_Err DeadlineExceeded \<or> errors_Is (Some err) DeadlineExceeded then
           New HTTPTimeout ''http'' ''request'' True (Some context_DeadlineExceeded)
         else if hf_hostname f then New TLSErrorHostname ''tls'' ''HTTP handshake'' False (Some err)
         else if (case hf_invalid f of Some (expired, _) \<Rightarrow> expired | None \<Rightarrow> False) then
           New TLSErrorExpired ''tls'' ''HTTP handshake'' False (Some err)
         else if hf_authority f then New TLSErrorUnknownAuthority ''tls'' ''HTTP handshake'' False (Some err)
         else if is_timeout_error err then New HTTPTimeout ''http'' ''request'' True (Some err)
         else ClassifyTCP ctx_Err ''HTTP request'' err)"

definition classifyStatus :: "int \<Rightarrow> check_error option" where
  "classifyStatus status =
    (if status \<ge> 400 \<and> status \<le> 499 then
       Some (New HTTPClientError ''http'' ''response status'' (status = 408 \<or> status = 425 \<or> status = 429)
         (Some (plain_error (''HTTP status '' @ int_string status))))
     else if status \<ge> 500 then
       Some (New HTTPServerError ''http'' ''response status'' (status = 502 \<or> status = 503 \<or> status = 504)
         (Some (plain_error (''HTTP status '' @ int_string status))))
     else None)"

definition shouldFallbackToHTTP :: "string \<Rightarrow> bool" where
  "shouldFallbackToHTTP code =
    (code \<in> {DNSNetworkError, DNSTimeout, TCPTimeout, TCPRefused, TCPReset, TCPNetworkError,
       TLSErrorExpired, TLSErrorHostname, TLSErrorUnknownAuthority, TLSErrorHandshake})"

definition isRedirect :: "int \<Rightarrow> bool" where
  "isRedirect status = (status = 301 \<or> status = 302 \<or> status = 303 \<or> status = 307 \<or> status = 308)"

definition crossDomain :: "http_lib \<Rightarrow> string \<Rightarrow> string \<Rightarrow> bool" where
  "crossDomain H source0 target0 =
    (let source = to_lower source0; target = to_lower target0 in
     case (hl_EffectiveTLDPlusOne H source, hl_EffectiveTLDPlusOne H target) of
       (Some left, Some right) \<Rightarrow> left \<noteq> right
     | _ \<Rightarrow> source \<noteq> target)"

definition canonicalURL :: "http_lib \<Rightarrow> url \<Rightarrow> string" where
  "canonicalURL H value =
    (let clone = value\<lparr>u_Scheme := to_lower (u_Scheme value), u_Host := to_lower (u_Host value)\<rparr>;
         clone = (if u_Scheme clone = ''http'' \<and> url_Port clone = ''80'' \<or>
                     u_Scheme clone = ''https'' \<and> url_Port clone = ''443''
                  then clone\<lparr>u_Host := url_Hostname clone\<rparr> else clone);
         clone = clone\<lparr>u_Fragment := ''''\<rparr>;
         clone = (if u_Path clone = '''' then clone\<lparr>u_Path := ''/''\<rparr> else clone)
     in hl_String H clone)"

text \<open>\<^verbatim>\<open>strconv.Atoi\<close>: an optional sign and decimal digits within the 64-bit range.\<close>

definition Atoi :: "string \<Rightarrow> int option" where
  "Atoi s =
    (let (neg, ds) = (case s of c # r \<Rightarrow> if c = CHR ''-'' then (True, r) else if c = CHR ''+'' then (False, r) else (False, s)
                      | [] \<Rightarrow> (False, []));
         n = (if neg then - int (digits_val ds) else int (digits_val ds)) in
     if ds = [] \<or> \<not> list_all is_digit ds \<or> \<not> int64_range n then None else Some n)"

definition parseRetryAfter :: "http_lib \<Rightarrow> string \<Rightarrow> gotime \<Rightarrow> duration" where
  "parseRetryAfter H value now =
    (case Atoi (trim_space value) of
       Some seconds \<Rightarrow>
         if seconds \<ge> 0 then wrap64 (seconds * second)
         else (case hl_ParseTime H value of
             Some parsed \<Rightarrow> if parsed > now then time_sub parsed now else 0
           | None \<Rightarrow> 0)
     | None \<Rightarrow>
         (case hl_ParseTime H value of
             Some parsed \<Rightarrow> if parsed > now then time_sub parsed now else 0
           | None \<Rightarrow> 0))"

text \<open>\<^verbatim>\<open>wait\<close>: unlike \<^verbatim>\<open>Policy.Wait\<close>, no delay does not look at the context.\<close>

definition http_wait :: "(duration \<Rightarrow> go_error option) \<Rightarrow> duration \<Rightarrow> go_error option" where
  "http_wait ctx_within delay = (if delay \<le> 0 then None else ctx_within delay)"

definition accumulateTiming :: "timing \<Rightarrow> timing \<Rightarrow> timing" where
  "accumulateTiming sofar current =
    sofar\<lparr>tm_DNS := wrap64 (tm_DNS sofar + tm_DNS current), tm_Connect := wrap64 (tm_Connect sofar + tm_Connect current),
      tm_TLS := wrap64 (tm_TLS sofar + tm_TLS current), tm_TTFB := wrap64 (tm_TTFB sofar + tm_TTFB current),
      tm_Reused := tm_Reused sofar \<or> tm_Reused current\<rparr>"

section \<open>Content\<close>

definition looksLikeHTML :: "http_lib \<Rightarrow> string \<Rightarrow> string \<Rightarrow> bool" where
  "looksLikeHTML H contentType payload =
    (let mediaType = to_lower (hl_MediaType H contentType) in
     if mediaType = ''text/html'' \<or> mediaType = ''application/xhtml+xml'' then True
     else let start = to_lower (take 1024 payload) in
       contains start ''<!doctype html'' \<or> contains start ''<html'' \<or> contains start ''<body'')"

definition isTextual :: "http_lib \<Rightarrow> string \<Rightarrow> string \<Rightarrow> bool" where
  "isTextual H contentType payload =
    (let mediaType = to_lower (hl_MediaType H contentType) in
     if has_prefix mediaType ''text/'' \<or> contains mediaType ''json'' \<or> looksLikeHTML H contentType payload then True
     else hl_utf8_Valid H payload)"

definition readContent :: "http_lib \<Rightarrow> http_response \<Rightarrow> string \<Rightarrow> http_config \<Rightarrow> content_evidence" where
  "readContent H response mode config =
    (let evidence = \<lparr>ce_Status = ''UNKNOWN'', ce_ContentType = header_Get response ''Content-Type'',
           ce_DeclaredContentLength = rsp_ContentLength response, ce_BodySize = 0, ce_BodySHA256 = None,
           ce_HashComplete = False, ce_Excerpt = '''', ce_Title = '''', ce_ErrorCode = '''', ce_ErrorMessage = ''''\<rparr>;
         payload = take (nat (cfg_MaxBodyBytes config + 1)) (rsp_Body response) in
     case (if int (length (rsp_Body response)) \<le> cfg_MaxBodyBytes config then rsp_BodyErr response else None) of
       Some err \<Rightarrow> evidence\<lparr>ce_ErrorCode := HTTPBodyRead, ce_ErrorMessage := ''read response body: '' @ error_text err\<rparr>
     | None \<Rightarrow>
       let oversized = int (length payload) > cfg_MaxBodyBytes config;
           evidence = evidence\<lparr>ce_BodySize := int (length payload)\<rparr>;
           payload = (if oversized then take (nat (cfg_MaxBodyBytes config)) payload else payload);
           excerptLength = min (int (length payload)) (cfg_ExcerptBytes config);
           evidence = evidence\<lparr>ce_BodySHA256 := Some (hl_sha256 H payload), ce_HashComplete := \<not> oversized,
             ce_Excerpt := (if excerptLength > 0 \<and> isTextual H (ce_ContentType evidence) payload
                            then hl_redactExcerpt H (take (nat excerptLength) payload) else ''''),
             ce_Title := hl_extractTitle H payload\<rparr>;
           html = looksLikeHTML H (ce_ContentType evidence) payload in
       if oversized then
         evidence\<lparr>ce_Status := ''OVERSIZED_TRUNCATED'', ce_ErrorCode := ContentTooLarge,
           ce_ErrorMessage := ''decoded response body exceeds '' @ int_string (cfg_MaxBodyBytes config) @ '' bytes''\<rparr>
       else if mode = ContentStatusOnly \<and> payload = [] then evidence\<lparr>ce_Status := ''EMPTY''\<rparr>
       else if mode = ContentStatusOnly then
         evidence\<lparr>ce_Status := (if html then ''VALID_HTML'' else ''VALID_NON_HTML'')\<rparr>
       else if payload = [] then
         evidence\<lparr>ce_Status := ''EMPTY'', ce_ErrorCode := ContentEmpty, ce_ErrorMessage := ''response body is empty''\<rparr>
       else if int (length payload) < cfg_MinMeaningfulBytes config then
         evidence\<lparr>ce_Status := ''TOO_SMALL'', ce_ErrorCode := ContentTooSmall,
           ce_ErrorMessage := ''response body is smaller than '' @ int_string (cfg_MinMeaningfulBytes config) @ '' bytes''\<rparr>
       else if mode = ContentHTML \<and> \<not> html then
         evidence\<lparr>ce_Status := ''UNSUPPORTED_CONTENT'', ce_ErrorCode := ContentUnsupported,
           ce_ErrorMessage := ''response is not HTML''\<rparr>
       else if html \<and> hl_meaningfulText H payload < max 1 (cfg_MinMeaningfulBytes config div 4) then
         evidence\<lparr>ce_Status := ''NOT_MEANINGFUL'', ce_ErrorCode := ContentNotMeaningful,
           ce_ErrorMessage := ''HTML response does not contain meaningful text''\<rparr>
       else evidence\<lparr>ce_Status := (if html then ''VALID_HTML'' else ''VALID_NON_HTML'')\<rparr>)"

definition selectedHeaderNames :: "string list" where
  "selectedHeaderNames =
    [''Content-Type'', ''Content-Length'', ''Server'', ''Cache-Control'', ''Age'', ''ETag'', ''Last-Modified'',
     ''Via'', ''X-Cache'', ''Cf-Ray'', ''Cf-Cache-Status'', ''X-Request-Id'']"

fun select_headers :: "(string \<Rightarrow> string list) \<Rightarrow> string list \<Rightarrow> int \<Rightarrow> (string \<times> string) list" where
  "select_headers header [] remaining = []"
| "select_headers header (name # names) remaining =
    (let value = join_with '', '' (header name) in
     if value = '''' \<or> remaining \<le> int (length name) + 2 then select_headers header names remaining
     else
       let allowed = remaining - int (length name) - 2;
           value = (if int (length value) > allowed then take (nat allowed) value else value) in
       (name, value) # select_headers header names (remaining - (int (length name) + int (length value) + 2)))"

definition selectHeaders :: "(string \<Rightarrow> string list) \<Rightarrow> int \<Rightarrow> (string \<times> string) list" where
  "selectHeaders header maxBytes = select_headers header selectedHeaderNames maxBytes"

section \<open>One attempt\<close>

definition initial_attempt :: "string \<Rightarrow> int \<Rightarrow> gotime \<Rightarrow> http_attempt" where
  "initial_attempt requestURL attemptNumber now =
    \<lparr>at_Attempt = attemptNumber, at_RequestURL = requestURL, at_EffectiveURL = '''', at_Protocol = '''',
     at_InitialStatusCode = 0, at_FinalStatusCode = 0, at_Redirects = [],
     at_Timing = \<lparr>tm_DNS = 0, tm_Connect = 0, tm_TLS = 0, tm_TTFB = 0, tm_Total = 0, tm_Reused = False\<rparr>,
     at_Content = \<lparr>ce_Status = ''UNKNOWN'', ce_ContentType = '''', ce_DeclaredContentLength = 0, ce_BodySize = 0,
       ce_BodySHA256 = None, ce_HashComplete = False, ce_Excerpt = '''', ce_Title = '''', ce_ErrorCode = '''',
       ce_ErrorMessage = ''''\<rparr>,
     at_ServerHeader = '''', at_Headers = [], at_TLS = None, at_ErrorCode = '''', at_ErrorMessage = '''',
     at_CheckedAt = now, at_RetryAfter = 0, at_Retryable = False\<rparr>"

text \<open>The assignments with which the loop gives up on a redirect.\<close>

definition give_up :: "http_attempt \<Rightarrow> string \<Rightarrow> string \<Rightarrow> string \<Rightarrow> duration \<Rightarrow> http_attempt" where
  "give_up attempt code message effectiveURL elapsed =
    attempt\<lparr>at_ErrorCode := code, at_ErrorMessage := message, at_EffectiveURL := effectiveURL,
      at_Timing := (at_Timing attempt)\<lparr>tm_Total := elapsed\<rparr>\<rparr>"

text \<open>What the loop does with a response that is not a redirect.\<close>

definition final_response ::
  "http_lib \<Rightarrow> http_config \<Rightarrow> string \<Rightarrow> url \<Rightarrow> request_outcome \<Rightarrow> http_response \<Rightarrow> http_attempt \<Rightarrow> http_attempt" where
  "final_response H config mode current outcome response attempt =
    (let now = ro_now outcome;
         attempt = attempt\<lparr>at_FinalStatusCode := rsp_StatusCode response, at_EffectiveURL := hl_String H current,
           at_Protocol := rsp_Proto response, at_ServerHeader := header_Get response ''Server'',
           at_Headers := selectHeaders (rsp_Header response) (cfg_HeaderBytes config),
           at_RetryAfter := parseRetryAfter H (header_Get response ''Retry-After'') now,
           at_TLS := map_option (\<lambda>state. FromConnectionState (hl_sha256 H) state (url_Hostname current)
                       (cfg_TLSExpiringSoon config) now (cfg_MaxCertificateSANs config)) (rsp_TLS response),
           at_Content := readContent H response mode config\<rparr>;
         attempt =
           (case classifyStatus (rsp_StatusCode response) of
              Some statusError \<Rightarrow>
                attempt\<lparr>at_ErrorCode := err_Code statusError, at_ErrorMessage := error_text (CheckErr statusError),
                  at_Retryable := err_Retryable statusError\<rparr>
            | None \<Rightarrow>
                if ce_ErrorCode (at_Content attempt) \<noteq> ''''
                then attempt\<lparr>at_ErrorCode := ce_ErrorCode (at_Content attempt),
                       at_ErrorMessage := ce_ErrorMessage (at_Content attempt)\<rparr>
                else attempt)
     in attempt\<lparr>at_Timing := (at_Timing attempt)\<lparr>tm_Total := ro_elapsed outcome\<rparr>\<rparr>)"

text \<open>
  What a redirect response leads to: the finished attempt, or the next URL with the attempt in which
  the hop has been recorded.
\<close>

definition redirect_step ::
  "http_lib \<Rightarrow> http_config \<Rightarrow> url \<Rightarrow> string set \<Rightarrow> request_outcome \<Rightarrow> http_response \<Rightarrow> http_attempt \<Rightarrow>
   http_attempt + (url \<times> http_attempt)" where
  "redirect_step H config current seen outcome response attempt =
    (let elapsed = ro_elapsed outcome; here = hl_String H current in
     if int (length (at_Redirects attempt)) \<ge> cfg_MaxRedirects config then
       Inl (give_up attempt HTTPRedirectLimit
         (''redirect chain exceeds '' @ int_string (cfg_MaxRedirects config) @ '' hops'') here elapsed)
     else
       let location = header_Get response ''Location'';
           hop = \<lparr>hop_Hop = length (at_Redirects attempt), hop_SourceURL = here,
             hop_StatusCode = rsp_StatusCode response, hop_Location = location, hop_ResolvedTarget = '''',
             hop_CrossDomain = False, hop_HTTPSDowngrade = False, hop_Duration = tm_Total (ro_timing outcome),
             hop_ErrorCode = ''''\<rparr>;
           record_hop = (\<lambda>h. attempt\<lparr>at_Redirects := at_Redirects attempt @ [h]\<rparr>) in
       (case resolveRedirect H current location of
          Inl resolveErr \<Rightarrow>
            Inl (give_up (record_hop (hop\<lparr>hop_ErrorCode := HTTPMalformedLocation\<rparr>)) HTTPMalformedLocation
              (error_text resolveErr) here elapsed)
        | Inr target \<Rightarrow>
            let hop = hop\<lparr>hop_ResolvedTarget := hl_String H target,
                  hop_CrossDomain := crossDomain H (url_Hostname current) (url_Hostname target),
                  hop_HTTPSDowngrade := (u_Scheme current = ''https'' \<and> u_Scheme target = ''http'')\<rparr> in
            if hop_HTTPSDowngrade hop then
              Inl (give_up (record_hop (hop\<lparr>hop_ErrorCode := HTTPHTTPSDowngrade\<rparr>)) HTTPHTTPSDowngrade
                ''HTTPS redirect target downgrades to HTTP'' here elapsed)
            else if canonicalURL H target \<in> seen then
              Inl (give_up (record_hop (hop\<lparr>hop_ErrorCode := HTTPRedirectLoop\<rparr>)) HTTPRedirectLoop
                ''redirect loop detected'' (hl_String H target) elapsed)
            else Inr (target, record_hop hop)))"

text \<open>A followed redirect adds one hop and stays below the limit; this is why the loop ends.\<close>

lemma redirect_step_Inr:
  "redirect_step H config current seen outcome response attempt = Inr (target, attempt') \<Longrightarrow>
     int (length (at_Redirects attempt)) < cfg_MaxRedirects config \<and>
     length (at_Redirects attempt') = Suc (length (at_Redirects attempt)) \<and>
     canonicalURL H target \<notin> seen \<and> (u_Scheme target = ''http'' \<or> u_Scheme target = ''https'') \<and>
     u_User target = None \<and> (u_Scheme current = ''https'' \<longrightarrow> u_Scheme target = ''https'') \<and>
     at_Attempt attempt' = at_Attempt attempt"
  by (auto simp: redirect_step_def resolveRedirect_def Let_def split: if_splits sum.splits)

text \<open>
  The loop of \<^verbatim>\<open>checkAttempt\<close>.  \<open>env k u\<close> is what the request number \<open>k\<close> of the attempt receives when it
  asks for \<open>u\<close>.
\<close>

function check_loop ::
  "http_lib \<Rightarrow> http_config \<Rightarrow> string \<Rightarrow> (nat \<Rightarrow> url \<Rightarrow> request_outcome) \<Rightarrow> url \<Rightarrow> string set \<Rightarrow> http_attempt \<Rightarrow>
   http_attempt \<times> url list" where
  "check_loop H config mode env current seen attempt0 =
    (let outcome = env (length (at_Redirects attempt0)) current;
         attempt = attempt0\<lparr>at_Timing := accumulateTiming (at_Timing attempt0) (ro_timing outcome)\<rparr> in
     case ro_reply outcome of
       Inl f \<Rightarrow>
         let classified = classifyRequestError (ro_ctx outcome) f in
         ((give_up attempt (err_Code classified) (error_text (CheckErr classified)) (hl_String H current)
             (ro_elapsed outcome))\<lparr>at_Retryable := err_Retryable classified\<rparr>, [current])
     | Inr response \<Rightarrow>
         let attempt = (if at_InitialStatusCode attempt = 0
                        then attempt\<lparr>at_InitialStatusCode := rsp_StatusCode response\<rparr> else attempt) in
         if isRedirect (rsp_StatusCode response) then
           (case redirect_step H config current seen outcome response attempt of
              Inl finished \<Rightarrow> (finished, [current])
            | Inr (target, attempt') \<Rightarrow>
                let (finished, requested) =
                  check_loop H config mode env target (insert (canonicalURL H target) seen) attempt'
                in (finished, current # requested))
         else (final_response H config mode current outcome response attempt, [current]))"
  by pat_completeness auto
termination
  by (relation "measure (\<lambda>(H, config, mode, env, current, seen, attempt).
        nat (cfg_MaxRedirects config - int (length (at_Redirects attempt))))")
    (auto dest!: redirect_step_Inr split: if_splits)

declare check_loop.simps [simp del]

definition checkAttempt ::
  "http_lib \<Rightarrow> http_config \<Rightarrow> (nat \<Rightarrow> url \<Rightarrow> request_outcome) \<Rightarrow> url \<Rightarrow> string \<Rightarrow> int \<Rightarrow> gotime \<Rightarrow>
   http_attempt \<times> url list" where
  "checkAttempt H config env initial mode attemptNumber now =
    check_loop H config mode env initial {canonicalURL H initial}
      (initial_attempt (hl_String H initial) attemptNumber now)"

section \<open>Retries and fallback\<close>

text \<open>The environment of a check: what each request of each attempt receives, the clock at the start of
  each attempt, and whether the context ends while waiting after it.\<close>

record http_env =
  he_request :: "int \<Rightarrow> nat \<Rightarrow> url \<Rightarrow> request_outcome"
  he_now :: "int \<Rightarrow> gotime"
  he_ctx_within :: "int \<Rightarrow> duration \<Rightarrow> go_error option"

definition url_again ::
  "(int \<Rightarrow> int) \<Rightarrow> retry_policy \<Rightarrow> http_env \<Rightarrow> int \<Rightarrow> http_attempt \<Rightarrow> bool option" where
  "url_again rnd policy env attemptNumber attempt =
    (if at_Retryable attempt then
       (case Delay rnd policy attemptNumber of
          None \<Rightarrow> None
        | Some delay \<Rightarrow>
            let delay = (if at_RetryAfter attempt > delay then min (at_RetryAfter attempt) (MaxDelay policy) else delay) in
            Some (http_wait (he_ctx_within env attemptNumber) delay = None))
     else Some False)"

function url_loop ::
  "http_lib \<Rightarrow> (int \<Rightarrow> int) \<Rightarrow> http_config \<Rightarrow> retry_policy \<Rightarrow> http_env \<Rightarrow> url \<Rightarrow> string \<Rightarrow> int \<Rightarrow>
   http_attempt list option" where
  "url_loop H rnd config policy env parsed mode attemptNumber =
    (if attemptNumber > MaxAttempts policy then Some []
     else
       let attempt = fst (checkAttempt H config (he_request env attemptNumber) parsed mode attemptNumber
                            (he_now env attemptNumber)) in
       if attemptNumber \<ge> MaxAttempts policy then Some [attempt]
       else (case url_again rnd policy env attemptNumber attempt of
           None \<Rightarrow> None
         | Some again \<Rightarrow>
             if again then map_option (\<lambda>rest. attempt # rest)
               (url_loop H rnd config policy env parsed mode (attemptNumber + 1))
             else Some [attempt]))"
  by pat_completeness auto
termination
  by (relation "measure (\<lambda>(H, rnd, config, policy, env, parsed, mode, n). nat (MaxAttempts policy + 1 - n))") auto

declare url_loop.simps [simp del]

text \<open>\<^verbatim>\<open>CheckURL\<close> of a checker built by \<^verbatim>\<open>New\<close> with the configuration \<open>config0\<close>.\<close>

definition CheckURL ::
  "http_lib \<Rightarrow> (int \<Rightarrow> int) \<Rightarrow> http_config \<Rightarrow> http_env \<Rightarrow> string \<Rightarrow> string \<Rightarrow> http_attempt list option" where
  "CheckURL H rnd config0 env rawURL mode0 =
    (let config = normalizeConfig config0 in
     case validateURL H rawURL of
       Inl err \<Rightarrow>
         Some [(initial_attempt rawURL 1 (he_now env 1))
           \<lparr>at_ErrorCode := NormalizationInvalid, at_ErrorMessage := error_text err\<rparr>]
     | Inr parsed \<Rightarrow>
         let mode = (if mode0 \<noteq> ContentHTML \<and> mode0 \<noteq> ContentAny \<and> mode0 \<noteq> ContentStatusOnly
                     then ContentHTML else mode0) in
         url_loop H rnd config (Normalized (cfg_Retry config)) env parsed mode 1)"

definition CheckDomain ::
  "http_lib \<Rightarrow> (int \<Rightarrow> int) \<Rightarrow> http_config \<Rightarrow> http_env \<Rightarrow> http_env \<Rightarrow> string \<Rightarrow> string \<Rightarrow> origin_result option" where
  "CheckDomain H rnd config env_https env_http hostname0 mode =
    (let hostname = trim_space (trim_suffix hostname0 ''.'') in
     case CheckURL H rnd config env_https (''https://'' @ hostname @ ''/'') mode of
       None \<Rightarrow> None
     | Some https \<Rightarrow>
         if https = [] \<or> \<not> shouldFallbackToHTTP (at_ErrorCode (last https)) then
           Some \<lparr>or_HTTPS = https, or_HTTP = [], or_UsedHTTPFallback = False\<rparr>
         else (case CheckURL H rnd config env_http (''http://'' @ hostname @ ''/'') mode of
             None \<Rightarrow> None
           | Some http \<Rightarrow> Some \<lparr>or_HTTPS = https, or_HTTP = http, or_UsedHTTPFallback = True\<rparr>))"

section \<open>Specification\<close>

text \<open>What may be requested, and that a later request of an attempt keeps the protection of an earlier one.\<close>

definition allowed_url :: "url \<Rightarrow> bool" where
  "allowed_url u = ((u_Scheme u = ''http'' \<or> u_Scheme u = ''https'') \<and> u_User u = None)"

definition keeps_https :: "url \<Rightarrow> url \<Rightarrow> bool" where
  "keeps_https u v = (u_Scheme u = ''https'' \<longrightarrow> u_Scheme v = ''https'')"

text \<open>Bytes that the selected headers occupy, with two separators each.\<close>

definition header_bytes :: "(string \<times> string) list \<Rightarrow> int" where
  "header_bytes hs = (\<Sum>(n, v) \<leftarrow> hs. int (length n) + int (length v) + 2)"

text \<open>
  The values of the content and TLS columns (\<^verbatim>\<open>migrations/00001_foundation.sql\<close>) that the evidence of an
  attempt fills.
\<close>

definition content_values :: "string list" where
  "content_values = [''VALID_HTML'', ''VALID_NON_HTML'', ''EMPTY'', ''TOO_SMALL'', ''NOT_MEANINGFUL'',
     ''OVERSIZED_TRUNCATED'', ''UNSUPPORTED_CONTENT'', ''UNKNOWN'']"

definition tls_values :: "string list" where
  "tls_values = [''VALID'', ''EXPIRING'', ''EXPIRED'', ''HOSTNAME_MISMATCH'', ''INVALID'', ''ERROR'', ''NOT_APPLICABLE'',
     ''UNKNOWN'']"

definition evidence_ok :: "http_attempt \<Rightarrow> bool" where
  "evidence_ok a = (ce_Status (at_Content a) \<in> set content_values \<and>
     (case at_TLS a of None \<Rightarrow> True | Some t \<Rightarrow> tls_Status t \<in> set tls_values))"

section \<open>A sample environment\<close>

text \<open>A server that redirects every request to itself.\<close>

definition sample_url :: url where
  "sample_url = \<lparr>u_Scheme = ''https'', u_Opaque = '''', u_User = None, u_Host = ''a.example'', u_Path = ''/'',
     u_RawQuery = '''', u_Fragment = ''''\<rparr>"

definition sample_http_lib :: http_lib where
  "sample_http_lib = \<lparr>hl_Parse = (\<lambda>_. Inr sample_url), hl_ResolveReference = (\<lambda>_ r. r),
     hl_String = (\<lambda>u. u_Scheme u @ ''://'' @ u_Host u @ u_Path u), hl_EffectiveTLDPlusOne = Some,
     hl_ParseTime = (\<lambda>_. None), hl_MediaType = (\<lambda>s. s), hl_sha256 = rev, hl_utf8_Valid = (\<lambda>_. True),
     hl_meaningfulText = (\<lambda>s. int (length s)), hl_extractTitle = (\<lambda>_. ''''), hl_redactExcerpt = (\<lambda>s. s)\<rparr>"

definition sample_response :: http_response where
  "sample_response = \<lparr>rsp_StatusCode = 301, rsp_Proto = ''HTTP/2.0'',
     rsp_Header = (\<lambda>n. if n = ''Location'' then [''/''] else []), rsp_ContentLength = 2, rsp_Body = ''ok'',
     rsp_BodyErr = None, rsp_TLS = None\<rparr>"

definition sample_outcome :: request_outcome where
  "sample_outcome = \<lparr>ro_reply = Inr sample_response,
     ro_timing = \<lparr>tm_DNS = 1, tm_Connect = 1, tm_TLS = 1, tm_TTFB = 1, tm_Total = 4, tm_Reused = False\<rparr>,
     ro_ctx = None, ro_elapsed = 5, ro_now = 0\<rparr>"

definition sample_http_env :: http_env where
  "sample_http_env = \<lparr>he_request = (\<lambda>_ _ _. sample_outcome), he_now = (\<lambda>_. 0), he_ctx_within = (\<lambda>_ _. None)\<rparr>"

definition sample_http_config :: http_config where
  "sample_http_config = \<lparr>cfg_MaxRedirects = 0, cfg_MaxBodyBytes = 0, cfg_ExcerptBytes = 0, cfg_HeaderBytes = 0,
     cfg_MinMeaningfulBytes = 0, cfg_ConnectTimeout = 0, cfg_TLSHandshakeTimeout = 0, cfg_ResponseHeaderTimeout = 0,
     cfg_ChainTimeout = 0, cfg_TLSExpiringSoon = 0, cfg_MaxCertificateSANs = 0, cfg_UserAgent = '''', cfg_Accept = '''',
     cfg_AcceptLanguage = '''', cfg_Retry = \<lparr>MaxAttempts = 0, BaseDelay = 0, MaxDelay = 0, Jitter = None\<rparr>\<rparr>"

section \<open>Lemmas\<close>

lemma normalizeConfig_bounds [bounds]:
  "0 < cfg_MaxRedirects (normalizeConfig c)" "0 < cfg_MaxBodyBytes (normalizeConfig c)"
  "0 < cfg_ExcerptBytes (normalizeConfig c)" "cfg_ExcerptBytes (normalizeConfig c) \<le> 65536"
  "0 < cfg_HeaderBytes (normalizeConfig c)" "0 < cfg_MinMeaningfulBytes (normalizeConfig c)"
  by (simp_all add: normalizeConfig_def or_default_def)

lemma normalizeConfig_Retry [simp]: "cfg_Retry (normalizeConfig c) = Normalized (cfg_Retry c)"
  by (simp add: normalizeConfig_def)

lemma validateURL_Inr:
  "validateURL H raw = Inr u \<Longrightarrow> (u_Scheme u = ''http'' \<or> u_Scheme u = ''https'') \<and> u_User u = None"
  by (auto simp: validateURL_def Let_def split: sum.splits if_splits)

text \<open>The redirect loop: what it requests and how many hops it records.\<close>

lemma check_loop_cases:
  assumes "check_loop H config mode env current seen attempt0 = (finished, requested)"
  obtains (stop) "requested = [current]"
    "length (at_Redirects finished) \<le> Suc (length (at_Redirects attempt0))"
    "int (length (at_Redirects finished)) \<le> max (cfg_MaxRedirects config) (int (length (at_Redirects attempt0)))"
    "at_Attempt finished = at_Attempt attempt0"
  | (follow) outcome response attempt target attempt' rest where
    "redirect_step H config current seen outcome response attempt = Inr (target, attempt')"
    "at_Redirects attempt = at_Redirects attempt0" "at_Attempt attempt = at_Attempt attempt0"
    "check_loop H config mode env target (insert (canonicalURL H target) seen) attempt' = (finished, rest)"
    "requested = current # rest"
proof -
  let ?outcome = "env (length (at_Redirects attempt0)) current"
  let ?attempt = "attempt0\<lparr>at_Timing := accumulateTiming (at_Timing attempt0) (ro_timing ?outcome)\<rparr>"
  show ?thesis
  proof (cases "ro_reply ?outcome")
    case (Inl f)
    then show ?thesis using assms stop
      by (subst (asm) check_loop.simps) (auto simp: Let_def give_up_def)
  next
    case (Inr response)
    let ?att = "if at_InitialStatusCode ?attempt = 0
      then ?attempt\<lparr>at_InitialStatusCode := rsp_StatusCode response\<rparr> else ?attempt"
    show ?thesis
    proof (cases "isRedirect (rsp_StatusCode response)")
      case True
      show ?thesis
      proof (cases "redirect_step H config current seen ?outcome response ?att")
        case (Inl a)
        then have "finished = a" "requested = [current]"
          using assms True Inr by (subst (asm) check_loop.simps, simp add: Let_def)+
        with Inl stop show ?thesis
          by (fastforce simp: redirect_step_def give_up_def Let_def split: if_splits sum.splits)
      next
        case (Inr b)
        then show ?thesis using assms True \<open>ro_reply ?outcome = Inr response\<close> follow [of ?outcome response ?att]
          by (subst (asm) check_loop.simps) (auto simp: Let_def split: prod.splits)
      qed
    next
      case False
      then show ?thesis using assms Inr stop
        by (subst (asm) check_loop.simps) (auto simp: Let_def final_response_def split: option.splits)
    qed
  qed
qed

lemma check_loop_requests:
  assumes "check_loop H config mode env current seen attempt = (finished, requested)"
    and "canonicalURL H current \<in> seen" "allowed_url current"
    and "int (length (at_Redirects attempt)) \<le> cfg_MaxRedirects config"
  shows "hd requested = current \<and> requested \<noteq> [] \<and> list_all allowed_url requested \<and>
    distinct (map (canonicalURL H) requested) \<and> canonicalURL H ` set (tl requested) \<inter> seen = {} \<and>
    sorted_wrt keeps_https requested \<and>
    int (length requested + length (at_Redirects attempt)) \<le> cfg_MaxRedirects config + 1 \<and>
    int (length (at_Redirects finished)) \<le> cfg_MaxRedirects config \<and> at_Attempt finished = at_Attempt attempt"
  using assms
proof (induction "nat (cfg_MaxRedirects config - int (length (at_Redirects attempt)))"
    arbitrary: current seen attempt requested rule: less_induct)
  case less
  from less.prems(1) show ?case
  proof (cases rule: check_loop_cases)
    case stop
    then show ?thesis using less.prems by auto
  next
    case (follow outcome response attempt0 target attempt' rest)
    note step = redirect_step_Inr [OF follow(1)]
    have target: "allowed_url target" "keeps_https current target"
      using step by (auto simp: allowed_url_def keeps_https_def)
    have IH: "hd rest = target \<and> rest \<noteq> [] \<and> list_all allowed_url rest \<and> distinct (map (canonicalURL H) rest) \<and>
        canonicalURL H ` set (tl rest) \<inter> insert (canonicalURL H target) seen = {} \<and> sorted_wrt keeps_https rest \<and>
        int (length rest + length (at_Redirects attempt')) \<le> cfg_MaxRedirects config + 1 \<and>
        int (length (at_Redirects finished)) \<le> cfg_MaxRedirects config \<and> at_Attempt finished = at_Attempt attempt'"
      by (rule less.hyps [OF _ follow(4)]) (use step follow(2) target in auto)
    then obtain tail where rest: "rest = target # tail" by (cases rest) auto
    have "keeps_https target u" if "u \<in> set tail" for u using IH rest that by simp
    with target(2) have "\<forall>u \<in> set rest. keeps_https current u" unfolding rest keeps_https_def by simp
    then show ?thesis using IH rest follow(2,3,5) step less.prems(2,3) by auto
  qed
qed

interpretation http_retry: retrying
  "MaxAttempts policy"
  "\<lambda>n. fst (checkAttempt H config (he_request env n) parsed mode n (he_now env n))"
  "url_again rnd policy env" "url_loop H rnd config policy env parsed mode"
  for H rnd config policy env parsed mode
  by unfold_locales (subst url_loop.simps, simp add: Let_def)

lemma url_loop_total:
  assumes "draws_below rnd" "Jitter p = None" "safe_delays p"
  shows "\<exists>as. url_loop H rnd config (Normalized p) env parsed mode n = Some as"
proof -
  have "url_again rnd (Normalized p) env n a \<noteq> None" for n a
    using Delay_spec [of rnd "Normalized p" n] assms safe_delays_Normalized
    by (cases "at_Retryable a") (auto simp: url_again_def Let_def)
  then show ?thesis by (rule http_retry.loop_total)
qed

lemma select_headers_bytes: "0 \<le> remaining \<Longrightarrow> header_bytes (select_headers header names remaining) \<le> remaining"
proof (induction names arbitrary: remaining)
  case (Cons name names)
  let ?field = "join_with '', '' (header name)" and ?allowed = "remaining - int (length name) - 2"
  let ?kept = "if int (length ?field) > ?allowed then take (nat ?allowed) ?field else ?field"
  let ?rest = "remaining - (int (length name) + int (length ?kept) + 2)"
  show ?case
  proof (cases "?field = '''' \<or> remaining \<le> int (length name) + 2")
    case False
    then have "0 \<le> ?rest" by auto
    from Cons.IH [OF this] have "header_bytes ((name, ?kept) # select_headers header names ?rest) \<le> remaining"
      by (simp add: header_bytes_def)
    with False show ?thesis by (simp add: Let_def)
  qed (use Cons in simp)
qed (simp add: header_bytes_def)

lemma redirect_step_keeps:
  "redirect_step H config current seen outcome response attempt = Inr (target, attempt') \<Longrightarrow>
     at_FinalStatusCode attempt' = at_FinalStatusCode attempt \<and> at_ErrorCode attempt' = at_ErrorCode attempt"
  by (auto simp: redirect_step_def Let_def split: if_splits sum.splits)

lemma redirect_step_Inl_Final:
  "redirect_step H config current seen outcome response attempt = Inl finished \<Longrightarrow>
     at_FinalStatusCode finished = at_FinalStatusCode attempt"
  by (auto simp: redirect_step_def give_up_def Let_def split: if_splits sum.splits)

lemma readContent_code:
  "ce_ErrorCode (readContent H response mode config) \<in>
     {'''', HTTPBodyRead, ContentTooLarge, ContentEmpty, ContentTooSmall, ContentUnsupported, ContentNotMeaningful}"
  by (simp add: readContent_def Let_def split: option.splits)

lemma final_response_no_fallback:
  assumes "at_ErrorCode attempt = ''''"
  shows "\<not> shouldFallbackToHTTP (at_ErrorCode (final_response H config mode current outcome response attempt))"
  using assms readContent_code [of H response mode config]
  by (auto simp: final_response_def classifyStatus_def shouldFallbackToHTTP_def Let_def)

text \<open>An attempt that ended with a response never calls for the unencrypted fallback.\<close>

lemma check_loop_answered:
  assumes "check_loop H config mode env current seen attempt0 = (finished, requested)"
    and "at_FinalStatusCode attempt0 = 0" "at_ErrorCode attempt0 = ''''" "at_FinalStatusCode finished \<noteq> 0"
  shows "\<not> shouldFallbackToHTTP (at_ErrorCode finished)"
  using assms
proof (induction H config mode env current seen attempt0 arbitrary: requested rule: check_loop.induct)
  case (1 H config mode env current seen attempt0)
  let ?outcome = "env (length (at_Redirects attempt0)) current"
  let ?attempt = "attempt0\<lparr>at_Timing := accumulateTiming (at_Timing attempt0) (ro_timing ?outcome)\<rparr>"
  show ?case
  proof (cases "ro_reply ?outcome")
    case (Inl f)
    then show ?thesis using "1.prems" by (subst (asm) check_loop.simps) (auto simp: Let_def give_up_def)
  next
    case (Inr response)
    let ?att = "if at_InitialStatusCode ?attempt = 0
      then ?attempt\<lparr>at_InitialStatusCode := rsp_StatusCode response\<rparr> else ?attempt"
    note keep = 1(1) [OF refl refl Inr refl]
    show ?thesis
    proof (cases "isRedirect (rsp_StatusCode response)")
      case True
      show ?thesis
      proof (cases "redirect_step H config current seen ?outcome response ?att")
        case (Inl a)
        then have "finished = a" using "1.prems"(1) True \<open>ro_reply ?outcome = Inr response\<close>
          by (subst (asm) check_loop.simps) (simp add: Let_def)
        then show ?thesis using redirect_step_Inl_Final [OF Inl] "1.prems"(2,4) by (simp split: if_splits)
      next
        case (Inr b)
        obtain target attempt' where b: "b = (target, attempt')" by force
        with Inr "1.prems"(1) True \<open>ro_reply ?outcome = Inr response\<close> obtain rest where
          rest: "check_loop H config mode env target (insert (canonicalURL H target) seen) attempt' = (finished, rest)"
          by (subst (asm) check_loop.simps) (auto simp: Let_def split: prod.splits)
        have "at_FinalStatusCode attempt' = 0 \<and> at_ErrorCode attempt' = ''''"
          using redirect_step_keeps [OF Inr [unfolded b]] "1.prems"(2,3) by (simp split: if_splits)
        then show ?thesis using keep [OF True Inr b [symmetric] rest] "1.prems"(4) by blast
      qed
    next
      case False
      then have "finished = final_response H config mode current ?outcome response ?att"
        using "1.prems"(1) \<open>ro_reply ?outcome = Inr response\<close>
        by (subst (asm) check_loop.simps) (simp add: Let_def)
      then show ?thesis using final_response_no_fallback [of ?att] "1.prems"(3) by (simp split: if_splits)
    qed
  qed
qed

lemma readContent_status: "ce_Status (readContent H response mode config) \<in> set content_values"
  by (simp add: readContent_def content_values_def Let_def split: option.splits)

lemma FromConnectionState_values:
  "tls_Status (FromConnectionState sha state name soon now n) \<in> {''VALID'', ''EXPIRING'', ''EXPIRED'', ''HOSTNAME_MISMATCH'', ''ERROR''}"
  by (simp add: FromConnectionState_def Let_def split: list.splits)

lemma final_response_evidence: "evidence_ok (final_response H config mode current outcome response attempt)"
proof -
  have "tls_Status (FromConnectionState sha state name soon now n) \<in> set tls_values" for sha state name soon now n
    using FromConnectionState_values [of sha state name soon now n] unfolding tls_values_def by auto
  then show ?thesis using readContent_status [of H response mode config]
    by (simp add: evidence_ok_def final_response_def Let_def split: option.splits)
qed

lemma redirect_step_evidence:
  "redirect_step H config current seen outcome response attempt = Inr (target, attempt') \<Longrightarrow>
     evidence_ok attempt' = evidence_ok attempt"
  "redirect_step H config current seen outcome response attempt = Inl finished \<Longrightarrow>
     evidence_ok finished = evidence_ok attempt"
  by (auto simp: redirect_step_def give_up_def evidence_ok_def Let_def split: if_splits sum.splits)

lemma check_loop_evidence:
  assumes "check_loop H config mode env current seen attempt0 = (finished, requested)" "evidence_ok attempt0"
  shows "evidence_ok finished"
  using assms
proof (induction H config mode env current seen attempt0 arbitrary: requested rule: check_loop.induct)
  case (1 H config mode env current seen attempt0)
  let ?outcome = "env (length (at_Redirects attempt0)) current"
  let ?attempt = "attempt0\<lparr>at_Timing := accumulateTiming (at_Timing attempt0) (ro_timing ?outcome)\<rparr>"
  show ?case
  proof (cases "ro_reply ?outcome")
    case (Inl f)
    then show ?thesis using "1.prems"
      by (subst (asm) check_loop.simps) (auto simp: Let_def give_up_def evidence_ok_def)
  next
    case (Inr response)
    let ?att = "if at_InitialStatusCode ?attempt = 0
      then ?attempt\<lparr>at_InitialStatusCode := rsp_StatusCode response\<rparr> else ?attempt"
    note keep = 1(1) [OF refl refl Inr refl]
    have att: "evidence_ok ?att" using "1.prems"(2) by (simp add: evidence_ok_def)
    show ?thesis
    proof (cases "isRedirect (rsp_StatusCode response)")
      case True
      show ?thesis
      proof (cases "redirect_step H config current seen ?outcome response ?att")
        case (Inl a)
        then have "finished = a" using "1.prems"(1) True \<open>ro_reply ?outcome = Inr response\<close>
          by (subst (asm) check_loop.simps) (simp add: Let_def)
        then show ?thesis using redirect_step_evidence(2) [OF Inl] att by simp
      next
        case (Inr b)
        obtain target attempt' where b: "b = (target, attempt')" by force
        with Inr "1.prems"(1) True \<open>ro_reply ?outcome = Inr response\<close> obtain rest where
          rest: "check_loop H config mode env target (insert (canonicalURL H target) seen) attempt' = (finished, rest)"
          by (subst (asm) check_loop.simps) (auto simp: Let_def split: prod.splits)
        have "evidence_ok attempt'" using redirect_step_evidence(1) [OF Inr [unfolded b]] att by simp
        then show ?thesis using keep [OF True Inr b [symmetric] rest] by blast
      qed
    next
      case False
      then have "finished = final_response H config mode current ?outcome response ?att"
        using "1.prems"(1) \<open>ro_reply ?outcome = Inr response\<close>
        by (subst (asm) check_loop.simps) (simp add: Let_def)
      then show ?thesis using final_response_evidence by simp
    qed
  qed
qed

lemma url_loop_spec:
  assumes "url_loop H rnd config (Normalized p) env parsed mode 1 = Some as"
  shows "1 \<le> length as \<and> int (length as) \<le> MaxAttempts (Normalized p) \<and>
    (\<forall>i < length as. as ! i = fst (checkAttempt H config (he_request env (int i + 1)) parsed mode (int i + 1)
       (he_now env (int i + 1)))) \<and>
    (\<forall>i. Suc i < length as \<longrightarrow> at_Retryable (as ! i))"
proof -
  have "at_Retryable (as ! i)" if "Suc i < length as" for i
    using http_retry.loop_again [OF assms that] by (simp add: url_again_def split: if_splits)
  then show ?thesis
    using http_retry.loop_numbered [OF assms] http_retry.loop_length [OF assms] Normalized_bounds(1) [of p]
    by (auto simp: Suc_le_eq add.commute)
qed

lemma CheckURL_last_answered:
  assumes "CheckURL H rnd config env raw mode = Some as" "as \<noteq> []" "at_FinalStatusCode (last as) \<noteq> 0"
  shows "\<not> shouldFallbackToHTTP (at_ErrorCode (last as))"
proof (cases "validateURL H raw")
  case (Inl err)
  then show ?thesis using assms by (auto simp: CheckURL_def Let_def initial_attempt_def)
next
  case (Inr parsed)
  obtain m where "url_loop H rnd (normalizeConfig config) (Normalized (cfg_Retry config)) env parsed m 1 = Some as"
    using assms(1) Inr by (simp add: CheckURL_def Let_def)
  from url_loop_spec [OF this] obtain k where
    k: "last as = fst (checkAttempt H (normalizeConfig config) (he_request env k) parsed m k (he_now env k))"
    using assms(2) by (metis diff_less last_conv_nth length_greater_0_conv zero_less_one)
  obtain fin reqs where run: "checkAttempt H (normalizeConfig config) (he_request env k) parsed m k (he_now env k) = (fin, reqs)"
    by force
  then show ?thesis using k assms(3) check_loop_answered [OF run [unfolded checkAttempt_def]]
    by (simp add: initial_attempt_def)
qed

lemma readContent_body:
  assumes "0 < cfg_MaxBodyBytes c"
  shows "ce_BodySize (readContent H response mode c) \<le> cfg_MaxBodyBytes c + 1 \<and>
    (ce_HashComplete (readContent H response mode c) \<longrightarrow>
      ce_BodySHA256 (readContent H response mode c) = Some (hl_sha256 H (rsp_Body response)) \<and>
      ce_BodySize (readContent H response mode c) = int (length (rsp_Body response)))"
  using assms by (auto simp: readContent_def Let_def split: option.splits)

lemma initial_attempt_evidence: "evidence_ok (initial_attempt u n now)"
  by (simp add: evidence_ok_def initial_attempt_def content_values_def)

lemma checkAttempt_evidence: "evidence_ok (fst (checkAttempt H config env u mode n now))"
  using check_loop_evidence [OF surjective_pairing initial_attempt_evidence] by (simp add: checkAttempt_def)

lemma CheckURL_evidence:
  assumes "CheckURL H rnd config env raw mode = Some as" "a \<in> set as"
  shows "evidence_ok a"
proof (cases "validateURL H raw")
  case (Inl err)
  then show ?thesis using assms initial_attempt_evidence [of raw 1 "he_now env 1"]
    by (auto simp: CheckURL_def Let_def evidence_ok_def)
next
  case (Inr parsed)
  obtain m where "url_loop H rnd (normalizeConfig config) (Normalized (cfg_Retry config)) env parsed m 1 = Some as"
    using assms(1) Inr by (simp add: CheckURL_def Let_def)
  from url_loop_spec [OF this] show ?thesis using assms(2) checkAttempt_evidence by (metis in_set_conv_nth)
qed

lemma CheckDomain_evidence:
  assumes "CheckDomain H rnd config env_https env_http hostname mode = Some r" "a \<in> set (or_HTTPS r) \<union> set (or_HTTP r)"
  shows "evidence_ok a"
  using assms CheckURL_evidence by (fastforce simp: CheckDomain_def Let_def split: option.splits if_splits)

lemma sample_validateURL: "validateURL sample_http_lib ''https://a.example/'' = Inr sample_url"
  by (simp add: validateURL_def sample_http_lib_def sample_url_def url_split_host_def valid_optional_port_def
      last_index_def string_eval Let_def)

lemma sample_CheckDomain:
  "\<exists>r. CheckDomain sample_http_lib (\<lambda>n. n - 1) sample_http_config sample_http_env sample_http_env ''a.example'' ContentHTML = Some r"
proof -
  have "draws_below (\<lambda>n. n - 1)" by (simp add: draws_below_def)
  moreover have "Jitter (cfg_Retry sample_http_config) = None" "safe_delays (cfg_Retry sample_http_config)"
    by (simp_all add: sample_http_config_def safe_delays_def min_int64_def max_int64_def)
  ultimately have "\<exists>as. CheckURL sample_http_lib (\<lambda>n. n - 1) sample_http_config sample_http_env raw ContentHTML = Some as" for raw
    using url_loop_total [of "\<lambda>n. n - 1" "cfg_Retry sample_http_config"]
    by (auto simp: CheckURL_def Let_def split: sum.splits)
  then obtain f where "\<And>raw. CheckURL sample_http_lib (\<lambda>n. n - 1) sample_http_config sample_http_env raw ContentHTML = Some (f raw)"
    by metis
  then show ?thesis by (simp add: CheckDomain_def Let_def)
qed

section \<open>Properties\<close>

text \<open>C11. An attempt follows redirects safely whatever the servers answer: it requests the checked URL first and
  at most \<open>MaxRedirects\<close> further ones, never the same canonical URL twice, only http and https URLs
  without credentials, and after an https request never an http one.\<close>

theorem checkAttempt_requests:
  assumes "validateURL H raw = Inr initial"
    and "checkAttempt H (normalizeConfig config) env initial mode n now = (attempt, requested)"
  shows "hd requested = initial \<and> requested \<noteq> [] \<and>
    int (length requested) \<le> cfg_MaxRedirects (normalizeConfig config) + 1 \<and>
    int (length (at_Redirects attempt)) \<le> cfg_MaxRedirects (normalizeConfig config) \<and>
    distinct (map (canonicalURL H) requested) \<and> list_all allowed_url requested \<and>
    sorted_wrt keeps_https requested"
proof -
  have "allowed_url initial" using validateURL_Inr [OF assms(1)] by (simp add: allowed_url_def)
  moreover have "0 \<le> cfg_MaxRedirects (normalizeConfig config)"
    using normalizeConfig_bounds(1) [of config] by simp
  ultimately show ?thesis
    using check_loop_requests [OF assms(2) [unfolded checkAttempt_def]] by (simp add: initial_attempt_def)
qed

theorem checkAttempt_requests_witness:
  "int (length (snd (checkAttempt sample_http_lib (normalizeConfig sample_http_config) (\<lambda>_ _. sample_outcome) sample_url
     ContentAny 1 0))) \<le> 11 \<and>
   distinct (map (canonicalURL sample_http_lib) (snd (checkAttempt sample_http_lib (normalizeConfig sample_http_config)
     (\<lambda>_ _. sample_outcome) sample_url ContentAny 1 0)))"
proof -
  have "cfg_MaxRedirects (normalizeConfig sample_http_config) = 10"
    by (simp add: sample_http_config_def normalizeConfig_def or_default_def)
  then show ?thesis
    using checkAttempt_requests [OF sample_validateURL surjective_pairing, of sample_http_config "\<lambda>_ _. sample_outcome" ContentAny 1 0]
    by simp
qed

text \<open>C25. A URL check always returns, with at least one and at most \<open>MaxAttempts\<close> attempts; attempt number \<open>i\<close> is
  what the \<open>i\<close>-th run of the redirect loop yields, and only an attempt marked retryable is followed by
  another one.\<close>

theorem CheckURL_attempts:
  assumes "draws_below rnd" "Jitter (cfg_Retry config) = None" "safe_delays (cfg_Retry config)"
    and "validateURL H raw = Inr parsed" "mode \<in> {ContentHTML, ContentAny, ContentStatusOnly}"
  shows "\<exists>as. CheckURL H rnd config env raw mode = Some as \<and>
    1 \<le> length as \<and> int (length as) \<le> MaxAttempts (Normalized (cfg_Retry config)) \<and>
    (\<forall>i < length as. as ! i = fst (checkAttempt H (normalizeConfig config) (he_request env (int i + 1)) parsed mode
       (int i + 1) (he_now env (int i + 1)))) \<and>
    (\<forall>i. Suc i < length as \<longrightarrow> at_Retryable (as ! i))"
proof -
  obtain as where as: "url_loop H rnd (normalizeConfig config) (Normalized (cfg_Retry config)) env parsed mode 1 = Some as"
    using url_loop_total [OF assms(1-3)] by blast
  then have "CheckURL H rnd config env raw mode = Some as" using assms(4,5) by (auto simp: CheckURL_def Let_def)
  then show ?thesis using url_loop_spec [OF as] by blast
qed

theorem CheckURL_attempts_witness:
  "\<exists>as. CheckURL sample_http_lib (\<lambda>n. n - 1) sample_http_config sample_http_env ''https://a.example/'' ContentHTML = Some as \<and>
     1 \<le> length as \<and> int (length as) \<le> 3"
proof -
  have "draws_below (\<lambda>n. n - 1)" by (simp add: draws_below_def)
  moreover have "Jitter (cfg_Retry sample_http_config) = None" "safe_delays (cfg_Retry sample_http_config)"
    "MaxAttempts (Normalized (cfg_Retry sample_http_config)) = 3"
    by (simp_all add: sample_http_config_def safe_delays_def min_int64_def max_int64_def Normalized_def)
  ultimately show ?thesis
    using CheckURL_attempts [of "\<lambda>n. n - 1" sample_http_config, OF _ _ _ sample_validateURL, of ContentHTML sample_http_env]
    by force
qed





end
