(* ===== verification/Classification.thy ===== *)
theory Classification
  imports Dnscheck Httpcheck
begin

text \<open>
  \<^verbatim>\<open>internal/classification\<close>: the observation of one run (\<open>Classify\<close>) and the effective state of a domain,
  which follows the observations with hysteresis (\<open>Advance\<close>).
\<close>

section \<open>Observations\<close>

record decision =
  d_Availability :: string
  d_DNS :: string
  d_HTTP :: string
  d_Redirect :: string
  d_ISP :: string
  d_TLS :: string
  d_Content :: string
  d_InitialHTTP :: int
  d_FinalHTTP :: int
  d_FinalTarget :: string
  d_FailureStage :: string
  d_ErrorCode :: string
  d_ErrorMessage :: string
  d_Confidence :: int
  d_ConfidenceLevel :: string
  d_Reasons :: "string list"

definition effectiveAttempt :: "origin_result \<Rightarrow> http_attempt option" where
  "effectiveAttempt origin =
    (if or_UsedHTTPFallback origin \<and> or_HTTP origin \<noteq> [] then Some (last (or_HTTP origin))
     else if or_HTTPS origin \<noteq> [] then Some (last (or_HTTPS origin))
     else None)"

definition defaultString :: "string \<Rightarrow> string \<Rightarrow> string" where
  "defaultString value fallback = (if trim_space value = '''' then fallback else value)"

definition unique :: "string list \<Rightarrow> string list" where
  "unique vs = keep_first (filter (\<lambda>v. v \<noteq> '''') vs) {}"

text \<open>The status of a DNS error code; the loop over the codes tries them in this order.\<close>

definition dns_code_status :: "(string \<times> string) list" where
  "dns_code_status = [(DNSNXDomain, ''NXDOMAIN''), (DNSServFail, ''SERVFAIL''), (DNSRefused, ''REFUSED''),
     (DNSTimeout, ''TIMEOUT''), (DNSNetworkError, ''NETWORK_ERROR'')]"

text \<open>
  The inner loop ranges over a map in unspecified order but only asks whether some latest result has
  the code, which is what the test on all query types of the results says.
\<close>

definition latest_has_code :: "dns_result list \<Rightarrow> string \<Rightarrow> bool" where
  "latest_has_code results code =
    list_ex (\<lambda>t. case latestByType results t of None \<Rightarrow> False | Some r \<Rightarrow> res_ErrorCode r = code)
      (map res_QueryType results)"

definition latest_ok :: "dns_result list \<Rightarrow> string \<Rightarrow> bool" where
  "latest_ok results t =
    (case latestByType results t of None \<Rightarrow> False | Some r \<Rightarrow> res_ErrorCode r = '''' \<and> res_RCode r = ''NOERROR'')"

definition classifyDNS :: "dns_result list \<Rightarrow> comparison \<Rightarrow> string" where
  "classifyDNS results c =
    (if cmp_Discrepancy c then ''DISCREPANCY''
     else if list_ex (latest_ok results) [TypeA, TypeAAAA, TypeCNAME] then ''OK''
     else (case find (\<lambda>(code, _). latest_has_code results code) dns_code_status of
         Some (_, status) \<Rightarrow> status
       | None \<Rightarrow> ''UNKNOWN''))"

definition classifyHTTP :: "http_attempt \<Rightarrow> string" where
  "classifyHTTP attempt =
    (let status = at_FinalStatusCode attempt; code = at_ErrorCode attempt in
     if at_Redirects attempt \<noteq> [] \<and> status \<ge> 200 \<and> status < 400 then ''REDIRECT''
     else if status \<ge> 200 \<and> status < 400 then ''OK''
     else if status \<ge> 400 \<and> status < 500 then ''CLIENT_ERROR''
     else if status \<ge> 500 then ''SERVER_ERROR''
     else if code \<in> {HTTPTimeout, TCPTimeout} then ''TIMEOUT''
     else if code \<in> {HTTPRedirectLoop, HTTPRedirectLimit, HTTPMalformedLocation, HTTPHTTPSDowngrade} then ''REDIRECT''
     else if code \<in> {TCPRefused, TCPReset, TCPNetworkError, DNSTimeout, DNSNetworkError, DNSNXDomain, DNSServFail,
                     DNSRefused, TLSErrorExpired, TLSErrorHostname, TLSErrorUnknownAuthority, TLSErrorHandshake}
       then ''CONNECTION_ERROR''
     else ''UNKNOWN'')"

definition classifyRedirect :: "http_attempt \<Rightarrow> string" where
  "classifyRedirect attempt =
    (let code = at_ErrorCode attempt in
     if code = HTTPRedirectLoop then ''LOOP''
     else if code = HTTPRedirectLimit \<or> code = HTTPMalformedLocation then ''INVALID''
     else if code = HTTPHTTPSDowngrade then ''HTTPS_DOWNGRADE''
     else if at_Redirects attempt = [] then ''NONE''
     else if list_ex (\<lambda>hop. hop_StatusCode hop = 301 \<or> hop_StatusCode hop = 308) (at_Redirects attempt) then ''PERMANENT''
     else ''TEMPORARY'')"

definition classifyTLS :: "http_attempt \<Rightarrow> string" where
  "classifyTLS attempt =
    (case at_TLS attempt of
       Some tls \<Rightarrow> defaultString (tls_Status tls) ''UNKNOWN''
     | None \<Rightarrow>
         let code = at_ErrorCode attempt in
         if code = TLSErrorExpired then ''EXPIRED''
         else if code = TLSErrorHostname then ''HOSTNAME_MISMATCH''
         else if code = TLSErrorUnknownAuthority then ''INVALID''
         else if code = TLSErrorHandshake then ''ERROR''
         else if has_prefix (at_RequestURL attempt) ''http://'' then ''NOT_APPLICABLE''
         else ''UNKNOWN'')"

definition classifyAvailability :: "http_attempt \<Rightarrow> string" where
  "classifyAvailability attempt =
    (let status = at_FinalStatusCode attempt; code = at_ErrorCode attempt in
     if status \<ge> 200 \<and> status < 300 then
       (if ce_Status (at_Content attempt) \<in> {''VALID_HTML'', ''VALID_NON_HTML''} then ''ACTIVE'' else ''DEGRADED'')
     else if status \<ge> 400 \<and> status < 500 then ''DEGRADED''
     else if status \<ge> 500 then ''UNAVAILABLE''
     else if code \<in> {RunCancelled, RunDeadlineExceeded} then ''UNKNOWN''
     else if code \<in> {ContentEmpty, ContentTooSmall, ContentNotMeaningful, ContentTooLarge, ContentUnsupported} then ''DEGRADED''
     else if code \<noteq> '''' then ''UNAVAILABLE''
     else ''UNKNOWN'')"

definition failureStage :: "string \<Rightarrow> string" where
  "failureStage code =
    (if has_prefix code ''DNS_'' then ''dns''
     else if has_prefix code ''TCP_'' \<or> has_prefix code ''SSRF_'' then ''tcp''
     else if has_prefix code ''TLS_'' then ''tls''
     else if has_prefix code ''HTTP_'' then ''http''
     else if has_prefix code ''CONTENT_'' then ''content''
     else if code = RunCancelled \<or> code = RunDeadlineExceeded then ''persistence''
     else '''')"

definition evidenceReasons :: "decision \<Rightarrow> comparison \<Rightarrow> string list" where
  "evidenceReasons d c =
    (let reasons = cmp_Reasons c @
           (if d_Availability d = ''ACTIVE'' then [''HTTP_FINAL_SUCCESS'', ''CONTENT_VALID'']
            else if d_Availability d = ''DEGRADED'' then [''PARTIAL_AVAILABILITY'']
            else if d_Availability d = ''UNAVAILABLE'' then [''QUALIFYING_FAILURE'']
            else [''EVIDENCE_INCOMPLETE'']);
         reasons = (if d_Redirect d = ''PERMANENT'' then reasons @ [''PERMANENT_REDIRECT''] else reasons);
         reasons = (if d_ErrorCode d \<noteq> '''' then reasons @ [d_ErrorCode d] else reasons)
     in unique reasons)"

definition hasConclusiveDNS :: "dns_result list \<Rightarrow> bool" where
  "hasConclusiveDNS results = list_ex (\<lambda>r. res_ErrorCode r = '''' \<and> res_RCode r = ''NOERROR'') results"

definition repeatedFailure :: "dns_result list \<Rightarrow> string \<Rightarrow> bool" where
  "repeatedFailure results code = (length (filter (\<lambda>r. res_ErrorCode r = code \<and> code \<noteq> '''') results) \<ge> 2)"

definition score :: "decision \<Rightarrow> dns_result list \<Rightarrow> dns_result list \<Rightarrow> int" where
  "score d localDNS alternateDNS =
    (let value = (if d_Availability d = ''ACTIVE'' then 65 else if d_Availability d = ''DEGRADED'' then 50
                  else if d_Availability d = ''UNAVAILABLE'' then 35 else 20);
         value = (if d_DNS d = ''OK'' then value + 10 else value);
         value = (if hasConclusiveDNS alternateDNS then value + 10 else value);
         value = (if repeatedFailure localDNS (d_ErrorCode d) then value + 5 else value);
         value = (if d_DNS d = ''DISCREPANCY'' then value - 10 else value);
         value = (if value < 0 then 0 else value)
     in if value > 99 then 99 else value)"

definition confidenceLevel :: "int \<Rightarrow> string" where
  "confidenceLevel s = (if s \<ge> 80 then ''HIGH'' else if s \<ge> 50 then ''MEDIUM'' else ''LOW'')"

definition Classify :: "dns_result list \<Rightarrow> dns_result list \<Rightarrow> origin_result \<Rightarrow> decision" where
  "Classify localDNS alternateDNS origin =
    (let c = Compare localDNS alternateDNS;
         d = \<lparr>d_Availability = ''UNKNOWN'', d_DNS = classifyDNS localDNS c, d_HTTP = ''UNKNOWN'', d_Redirect = ''NONE'',
           d_ISP = ''UNKNOWN'', d_TLS = ''UNKNOWN'', d_Content = ''UNKNOWN'', d_InitialHTTP = 0, d_FinalHTTP = 0,
           d_FinalTarget = '''', d_FailureStage = '''', d_ErrorCode = '''', d_ErrorMessage = '''', d_Confidence = 0,
           d_ConfidenceLevel = '''', d_Reasons = []\<rparr> in
     case effectiveAttempt origin of
       None \<Rightarrow>
         d\<lparr>d_FailureStage := ''http'', d_ErrorCode := HTTPTimeout, d_ErrorMessage := ''HTTP checker returned no attempts'',
           d_Confidence := 20, d_Reasons := [''HTTP_EVIDENCE_MISSING''], d_ConfidenceLevel := confidenceLevel 20\<rparr>
     | Some attempt \<Rightarrow>
         let d = d\<lparr>d_InitialHTTP := at_InitialStatusCode attempt, d_FinalHTTP := at_FinalStatusCode attempt,
               d_Content := defaultString (ce_Status (at_Content attempt)) ''UNKNOWN'',
               d_Redirect := classifyRedirect attempt, d_HTTP := classifyHTTP attempt, d_TLS := classifyTLS attempt,
               d_Availability := classifyAvailability attempt\<rparr>;
             d = (if d_Availability d = ''ACTIVE'' then d\<lparr>d_FinalTarget := ''ACTIVE''\<rparr> else d);
             d = d\<lparr>d_ErrorCode := at_ErrorCode attempt, d_ErrorMessage := at_ErrorMessage attempt,
               d_FailureStage := failureStage (at_ErrorCode attempt)\<rparr>;
             d = d\<lparr>d_Reasons := d_Reasons d @ evidenceReasons d c\<rparr>;
             d = d\<lparr>d_Confidence := score d localDNS alternateDNS\<rparr>
         in d\<lparr>d_ConfidenceLevel := confidenceLevel (d_Confidence d)\<rparr>)"

section \<open>Effective state\<close>

record effective_input =
  in_Availability :: string
  in_DNS :: string
  in_HTTP :: string
  in_Redirect :: string
  in_ISP :: string
  in_TLS :: string
  in_Content :: string
  in_Confidence :: int
  in_FailureStreak :: int
  in_SuccessStreak :: int
  in_Observed :: decision
  in_Qualifying :: bool
  in_OpenFailures :: int
  in_CloseSuccesses :: int

record effective_state =
  es_Availability :: string
  es_DNS :: string
  es_HTTP :: string
  es_Redirect :: string
  es_ISP :: string
  es_TLS :: string
  es_Content :: string
  es_Confidence :: int
  es_FailureStage :: string
  es_ErrorCode :: string
  es_FailureStreak :: int
  es_SuccessStreak :: int
  es_OpenedIncident :: bool
  es_ClosedIncident :: bool
  es_ChangedDimensions :: "string list"

definition observedOrCurrent :: "string \<Rightarrow> string \<Rightarrow> string" where
  "observedOrCurrent observed current = (if observed = '''' \<or> observed = ''UNKNOWN'' then current else observed)"

definition changedDimensions :: "effective_input \<Rightarrow> effective_state \<Rightarrow> string list" where
  "changedDimensions input state =
    map fst (filter (\<lambda>(name, before, after). before \<noteq> after)
      [(''availability'', in_Availability input, es_Availability state), (''dns'', in_DNS input, es_DNS state),
       (''http'', in_HTTP input, es_HTTP state), (''redirect'', in_Redirect input, es_Redirect state),
       (''isp'', in_ISP input, es_ISP state), (''tls'', in_TLS input, es_TLS state),
       (''content'', in_Content input, es_Content state)])"

text \<open>The streaks and the availability after a qualifying observation.\<close>

definition advance_availability :: "effective_input \<Rightarrow> effective_state \<Rightarrow> effective_state" where
  "advance_availability input state =
    (let openFailures = (if in_OpenFailures input < 1 then 3 else in_OpenFailures input);
         closeSuccesses = (if in_CloseSuccesses input < 1 then 2 else in_CloseSuccesses input);
         observed = in_Observed input in
     if d_Availability observed = ''ACTIVE'' then
       let state = state\<lparr>es_SuccessStreak := es_SuccessStreak state + 1, es_FailureStreak := 0,
             es_FailureStage := '''', es_ErrorCode := ''''\<rparr> in
       if es_Availability state = ''UNKNOWN'' \<or> es_Availability state = ''ACTIVE'' then state\<lparr>es_Availability := ''ACTIVE''\<rparr>
       else if es_Availability state = ''DEGRADED'' \<or> es_Availability state = ''UNAVAILABLE'' then
         state\<lparr>es_Availability := (if es_SuccessStreak state \<ge> closeSuccesses then ''ACTIVE'' else ''DEGRADED'')\<rparr>
       else state
     else if d_Availability observed = ''DEGRADED'' \<or> d_Availability observed = ''UNAVAILABLE'' then
       let state = state\<lparr>es_FailureStreak := es_FailureStreak state + 1, es_SuccessStreak := 0,
             es_FailureStage := d_FailureStage observed, es_ErrorCode := d_ErrorCode observed\<rparr> in
       state\<lparr>es_Availability := (if es_FailureStreak state \<ge> openFailures then ''UNAVAILABLE'' else ''DEGRADED'')\<rparr>
     else state)"

definition Advance :: "effective_input \<Rightarrow> effective_state" where
  "Advance input =
    (let state = \<lparr>es_Availability = in_Availability input, es_DNS = in_DNS input, es_HTTP = in_HTTP input,
           es_Redirect = in_Redirect input, es_ISP = in_ISP input, es_TLS = in_TLS input, es_Content = in_Content input,
           es_Confidence = in_Confidence input, es_FailureStage = '''', es_ErrorCode = '''',
           es_FailureStreak = in_FailureStreak input, es_SuccessStreak = in_SuccessStreak input,
           es_OpenedIncident = False, es_ClosedIncident = False, es_ChangedDimensions = []\<rparr>;
         observed = in_Observed input in
     if \<not> in_Qualifying input \<or> d_Availability observed = ''UNKNOWN'' then state
     else
       let previousAvailability = es_Availability state;
           state = advance_availability input state;
           state = state\<lparr>es_DNS := observedOrCurrent (d_DNS observed) (es_DNS state),
             es_HTTP := observedOrCurrent (d_HTTP observed) (es_HTTP state),
             es_Redirect := observedOrCurrent (d_Redirect observed) (es_Redirect state),
             es_ISP := observedOrCurrent (d_ISP observed) (es_ISP state),
             es_TLS := observedOrCurrent (d_TLS observed) (es_TLS state),
             es_Content := observedOrCurrent (d_Content observed) (es_Content state),
             es_Confidence := d_Confidence observed,
             es_OpenedIncident := previousAvailability \<noteq> ''UNAVAILABLE'' \<and> es_Availability state = ''UNAVAILABLE'',
             es_ClosedIncident := previousAvailability = ''UNAVAILABLE'' \<and> es_Availability state = ''ACTIVE''\<rparr>
       in state\<lparr>es_ChangedDimensions := changedDimensions input state\<rparr>)"

section \<open>Specification\<close>

text \<open>
  An observation fits the status columns (\<^verbatim>\<open>migrations/00001_foundation.sql\<close> and
  \<^verbatim>\<open>00002_monitoring_and_intelligence.sql\<close>): every value is one of the enumerated ones.
\<close>

definition persistable :: "decision \<Rightarrow> bool" where
  "persistable d =
    (d_Availability d \<in> {''ACTIVE'', ''UNAVAILABLE'', ''DEGRADED'', ''UNKNOWN''} \<and>
     d_DNS d \<in> {''OK'', ''NXDOMAIN'', ''SERVFAIL'', ''REFUSED'', ''TIMEOUT'', ''NETWORK_ERROR'', ''DISCREPANCY'', ''UNKNOWN''} \<and>
     d_HTTP d \<in> {''OK'', ''REDIRECT'', ''CLIENT_ERROR'', ''SERVER_ERROR'', ''TIMEOUT'', ''CONNECTION_ERROR'', ''UNKNOWN''} \<and>
     d_Redirect d \<in> {''NONE'', ''TEMPORARY'', ''PERMANENT'', ''LOOP'', ''INVALID'', ''HTTPS_DOWNGRADE'', ''UNKNOWN''} \<and>
     d_ISP d \<in> {''NOT_DETECTED'', ''SUSPECTED'', ''HIGH_CONFIDENCE_BLOCK'', ''UNKNOWN''} \<and>
     d_TLS d \<in> set tls_values \<and> d_Content d \<in> set content_values \<and>
     d_FailureStage d \<in> {'''', ''normalize'', ''dns'', ''tcp'', ''tls'', ''http'', ''content'', ''remote'', ''persistence''} \<and>
     0 \<le> d_Confidence d \<and> d_Confidence d \<le> 99 \<and> d_ConfidenceLevel d \<in> {''LOW'', ''MEDIUM'', ''HIGH''})"

text \<open>The row of a domain that has not been checked yet, and the input of the next call of \<open>Advance\<close>.\<close>

definition never_checked :: effective_state where
  "never_checked = \<lparr>es_Availability = ''UNKNOWN'', es_DNS = ''UNKNOWN'', es_HTTP = ''UNKNOWN'', es_Redirect = ''UNKNOWN'',
     es_ISP = ''UNKNOWN'', es_TLS = ''UNKNOWN'', es_Content = ''UNKNOWN'', es_Confidence = 0, es_FailureStage = '''',
     es_ErrorCode = '''', es_FailureStreak = 0, es_SuccessStreak = 0, es_OpenedIncident = False,
     es_ClosedIncident = False, es_ChangedDimensions = []\<rparr>"

definition resume :: "int \<Rightarrow> int \<Rightarrow> effective_state \<Rightarrow> bool \<times> decision \<Rightarrow> effective_input" where
  "resume openFailures closeSuccesses s obs =
    \<lparr>in_Availability = es_Availability s, in_DNS = es_DNS s, in_HTTP = es_HTTP s, in_Redirect = es_Redirect s,
     in_ISP = es_ISP s, in_TLS = es_TLS s, in_Content = es_Content s, in_Confidence = es_Confidence s,
     in_FailureStreak = es_FailureStreak s, in_SuccessStreak = es_SuccessStreak s, in_Observed = snd obs,
     in_Qualifying = fst obs, in_OpenFailures = openFailures, in_CloseSuccesses = closeSuccesses\<rparr>"

definition advance_all :: "int \<Rightarrow> int \<Rightarrow> (bool \<times> decision) list \<Rightarrow> effective_state" where
  "advance_all openFailures closeSuccesses history =
    foldl (\<lambda>s obs. Advance (resume openFailures closeSuccesses s obs)) never_checked history"

text \<open>
  The reference: what a reader of the whole history, oldest observation first, says of the domain.
  \<open>counted\<close> is the history without the observations that must not count, \<open>trailing\<close> the length of
  the longest suffix on which a predicate holds.
\<close>

definition observed_active :: "decision \<Rightarrow> bool" where
  "observed_active d = (d_Availability d = ''ACTIVE'')"

definition observed_failure :: "decision \<Rightarrow> bool" where
  "observed_failure d = (d_Availability d \<in> {''DEGRADED'', ''UNAVAILABLE''})"

definition counted :: "(bool \<times> decision) list \<Rightarrow> decision list" where
  "counted history = map snd (filter (\<lambda>(q, d). q \<and> d_Availability d \<noteq> ''UNKNOWN'') history)"

definition trailing :: "('a \<Rightarrow> bool) \<Rightarrow> 'a list \<Rightarrow> nat" where
  "trailing p xs = length (takeWhile p (rev xs))"

definition threshold :: "int \<Rightarrow> int \<Rightarrow> int" where
  "threshold dflt n = (if n < 1 then dflt else n)"

definition history_availability :: "int \<Rightarrow> int \<Rightarrow> decision list \<Rightarrow> string" where
  "history_availability openFailures closeSuccesses ds =
    (let failures = int (trailing observed_failure ds); successes = int (trailing observed_active ds) in
     if ds = [] then ''UNKNOWN''
     else if failures \<ge> threshold 3 openFailures then ''UNAVAILABLE''
     else if failures > 0 then ''DEGRADED''
     else if list_all observed_active ds \<or> successes \<ge> threshold 2 closeSuccesses then ''ACTIVE''
     else ''DEGRADED'')"

text \<open>The last value of a dimension that was observed at all.\<close>

definition last_known :: "(decision \<Rightarrow> string) \<Rightarrow> decision list \<Rightarrow> string" where
  "last_known f ds =
    (case filter (\<lambda>v. v \<noteq> '''' \<and> v \<noteq> ''UNKNOWN'') (map f (rev ds)) of [] \<Rightarrow> ''UNKNOWN'' | v # _ \<Rightarrow> v)"

text \<open>A sample observation.\<close>

definition sample_decision :: "string \<Rightarrow> decision" where
  "sample_decision availability = \<lparr>d_Availability = availability, d_DNS = ''OK'', d_HTTP = ''OK'', d_Redirect = ''NONE'',
     d_ISP = ''UNKNOWN'', d_TLS = ''VALID'', d_Content = ''VALID_HTML'', d_InitialHTTP = 200, d_FinalHTTP = 200,
     d_FinalTarget = '''', d_FailureStage = '''', d_ErrorCode = '''', d_ErrorMessage = '''', d_Confidence = 75,
     d_ConfidenceLevel = ''MEDIUM'', d_Reasons = []\<rparr>"

section \<open>Lemmas\<close>

lemma sample_decision_fits:
  "persistable (sample_decision ''ACTIVE'')" "persistable (sample_decision ''DEGRADED'')"
  "persistable (sample_decision ''UNAVAILABLE'')"
  "d_Availability (sample_decision v) = v"
  by (simp_all add: persistable_def sample_decision_def tls_values_def content_values_def)

lemma trailing_snoc [simp]: "trailing p (xs @ [x]) = (if p x then Suc (trailing p xs) else 0)"
  by (simp add: trailing_def)

lemma trailing_Nil [simp]: "trailing p [] = 0"
  by (simp add: trailing_def)

lemma last_known_snoc [simp]: "last_known f (ds @ [d]) = observedOrCurrent (f d) (last_known f ds)"
  by (simp add: last_known_def observedOrCurrent_def)

lemma last_known_Nil [simp]: "last_known f [] = ''UNKNOWN''"
  by (simp add: last_known_def)

lemma advance_all_Nil [simp]: "advance_all m n [] = never_checked"
  by (simp add: advance_all_def)

lemma advance_all_snoc [simp]:
  "advance_all m n (history @ [obs]) = Advance (resume m n (advance_all m n history) obs)"
  by (simp add: advance_all_def)

lemma counted_snoc [simp]:
  "counted (history @ [(q, d)]) = counted history @ (if q \<and> d_Availability d \<noteq> ''UNKNOWN'' then [d] else [])"
  by (simp add: counted_def)

lemma counted_Nil [simp]: "counted [] = []"
  by (simp add: counted_def)

text \<open>An observation that does not count keeps every dimension, both streaks and the confidence.\<close>

lemma Advance_ignored:
  assumes "\<not> q \<or> d_Availability d = ''UNKNOWN''"
  shows "Advance (resume m n s (q, d)) = s\<lparr>es_FailureStage := '''', es_ErrorCode := '''', es_OpenedIncident := False,
    es_ClosedIncident := False, es_ChangedDimensions := []\<rparr>"
  using assms by (auto simp: Advance_def resume_def Let_def)

lemma Advance_active:
  assumes "q" "d_Availability d = ''ACTIVE''"
  shows "es_FailureStreak (Advance (resume m n s (q, d))) = 0 \<and>
    es_SuccessStreak (Advance (resume m n s (q, d))) = es_SuccessStreak s + 1 \<and>
    es_Availability (Advance (resume m n s (q, d))) =
      (if es_Availability s \<in> {''UNKNOWN'', ''ACTIVE''} then ''ACTIVE''
       else if es_Availability s \<in> {''DEGRADED'', ''UNAVAILABLE''} then
         (if es_SuccessStreak s + 1 \<ge> threshold 2 n then ''ACTIVE'' else ''DEGRADED'')
       else es_Availability s)"
  using assms by (simp add: Advance_def advance_availability_def resume_def threshold_def Let_def)

lemma Advance_failure:
  assumes "q" "observed_failure d"
  shows "es_SuccessStreak (Advance (resume m n s (q, d))) = 0 \<and>
    es_FailureStreak (Advance (resume m n s (q, d))) = es_FailureStreak s + 1 \<and>
    es_Availability (Advance (resume m n s (q, d))) =
      (if es_FailureStreak s + 1 \<ge> threshold 3 m then ''UNAVAILABLE'' else ''DEGRADED'')"
  using assms by (auto simp: Advance_def advance_availability_def resume_def threshold_def observed_failure_def Let_def)

lemma Advance_dimensions:
  assumes "q" "d_Availability d \<noteq> ''UNKNOWN''"
  shows "es_DNS (Advance (resume m n s (q, d))) = observedOrCurrent (d_DNS d) (es_DNS s) \<and>
    es_HTTP (Advance (resume m n s (q, d))) = observedOrCurrent (d_HTTP d) (es_HTTP s) \<and>
    es_Redirect (Advance (resume m n s (q, d))) = observedOrCurrent (d_Redirect d) (es_Redirect s) \<and>
    es_ISP (Advance (resume m n s (q, d))) = observedOrCurrent (d_ISP d) (es_ISP s) \<and>
    es_TLS (Advance (resume m n s (q, d))) = observedOrCurrent (d_TLS d) (es_TLS s) \<and>
    es_Content (Advance (resume m n s (q, d))) = observedOrCurrent (d_Content d) (es_Content s) \<and>
    es_Confidence (Advance (resume m n s (q, d))) = d_Confidence d"
  using assms by (simp add: Advance_def advance_availability_def resume_def Let_def)

lemma trailing_exclusive: "trailing observed_failure ds = 0 \<or> trailing observed_active ds = 0"
  by (cases ds rule: rev_cases) (auto simp: observed_failure_def observed_active_def)

text \<open>How the reference availability changes with one more observation.\<close>

lemma history_availability_active:
  assumes "observed_active d"
  shows "history_availability m n (ds @ [d]) =
    (if history_availability m n ds \<in> {''UNKNOWN'', ''ACTIVE''} then ''ACTIVE''
     else if int (trailing observed_active ds) + 1 \<ge> threshold 2 n then ''ACTIVE'' else ''DEGRADED'')"
proof -
  have "\<not> observed_failure d" using assms by (simp add: observed_failure_def observed_active_def)
  moreover have "threshold 3 m > 0" "threshold 2 n > 0" by (simp_all add: threshold_def)
  moreover have "list_all observed_active ds \<Longrightarrow> trailing observed_failure ds = 0"
    by (cases ds rule: rev_cases) (auto simp: observed_failure_def observed_active_def)
  ultimately show ?thesis using assms by (auto simp: history_availability_def Let_def)
qed

lemma history_availability_failure:
  assumes "observed_failure d"
  shows "history_availability m n (ds @ [d]) =
    (if int (trailing observed_failure ds) + 1 \<ge> threshold 3 m then ''UNAVAILABLE'' else ''DEGRADED'')"
  using assms by (auto simp: history_availability_def Let_def)

lemma history_availability_values:
  "history_availability m n ds \<in> {''UNKNOWN'', ''ACTIVE'', ''DEGRADED'', ''UNAVAILABLE''}"
  by (simp add: history_availability_def Let_def)

lemma persistable_availability:
  "persistable d \<Longrightarrow> d_Availability d \<in> {''ACTIVE'', ''UNAVAILABLE'', ''DEGRADED'', ''UNKNOWN''}"
  unfolding persistable_def by (elim conjE)

lemma advance_all_streaks:
  assumes "list_all (\<lambda>(q, d). persistable d) history"
  shows "es_FailureStreak (advance_all m n history) = int (trailing observed_failure (counted history)) \<and>
    es_SuccessStreak (advance_all m n history) = int (trailing observed_active (counted history)) \<and>
    es_Availability (advance_all m n history) = history_availability m n (counted history)"
  using assms
proof (induction history rule: rev_induct)
  case Nil
  then show ?case by (simp add: never_checked_def history_availability_def)
next
  case (snoc obs history)
  obtain q d where obs: "obs = (q, d)" by force
  let ?s = "advance_all m n history"
  have IH: "es_FailureStreak ?s = int (trailing observed_failure (counted history))"
    "es_SuccessStreak ?s = int (trailing observed_active (counted history))"
    "es_Availability ?s = history_availability m n (counted history)"
    using snoc by simp_all
  consider "\<not> q \<or> d_Availability d = ''UNKNOWN''" | "q" "observed_active d" | "q" "observed_failure d"
    using snoc.prems persistable_availability [of d] obs by (auto simp: observed_active_def observed_failure_def)
  then show ?case
  proof cases
    case 1
    then show ?thesis using IH by (auto simp: obs Advance_ignored)
  next
    case 2
    have neq: "d_Availability d = ''ACTIVE''" "\<not> observed_failure d"
      using 2 by (simp_all add: observed_active_def observed_failure_def)
    show ?thesis
      using Advance_active [OF 2(1) neq(1), of m n ?s] history_availability_active [OF 2(2), of m n "counted history"]
        history_availability_values [of m n "counted history"] IH 2 neq
      by (auto simp: obs)
  next
    case 3
    have neq: "d_Availability d \<noteq> ''UNKNOWN''" "\<not> observed_active d"
      using 3 by (auto simp: observed_active_def observed_failure_def)
    show ?thesis
      using Advance_failure [OF 3, of m n ?s] history_availability_failure [OF 3(2), of m n "counted history"] IH 3 neq
      by (auto simp: obs)
  qed
qed

lemma advance_all_dimensions:
  "es_DNS (advance_all m n history) = last_known d_DNS (counted history) \<and>
   es_HTTP (advance_all m n history) = last_known d_HTTP (counted history) \<and>
   es_Redirect (advance_all m n history) = last_known d_Redirect (counted history) \<and>
   es_ISP (advance_all m n history) = last_known d_ISP (counted history) \<and>
   es_TLS (advance_all m n history) = last_known d_TLS (counted history) \<and>
   es_Content (advance_all m n history) = last_known d_Content (counted history)"
proof (induction history rule: rev_induct)
  case Nil
  then show ?case by (simp add: never_checked_def)
next
  case (snoc obs history)
  obtain q d where obs: "obs = (q, d)" by force
  show ?case
  proof (cases "q \<and> d_Availability d \<noteq> ''UNKNOWN''")
    case True
    then show ?thesis using snoc Advance_dimensions [of q d m n "advance_all m n history"] by (simp add: obs)
  next
    case False
    then show ?thesis using snoc by (auto simp: obs Advance_ignored)
  qed
qed

text \<open>An observation of attempts with well-formed evidence fits the schema.\<close>

lemma dns_code_status_values:
  "find p dns_code_status = Some (code, status) \<Longrightarrow>
     status \<in> {''NXDOMAIN'', ''SERVFAIL'', ''REFUSED'', ''TIMEOUT'', ''NETWORK_ERROR''}"
  by (auto simp: dns_code_status_def split: if_splits)

lemma classifyDNS_values:
  "classifyDNS results c \<in> {''OK'', ''NXDOMAIN'', ''SERVFAIL'', ''REFUSED'', ''TIMEOUT'', ''NETWORK_ERROR'', ''DISCREPANCY'', ''UNKNOWN''}"
proof (cases "find (\<lambda>(code, _). latest_has_code results code) dns_code_status")
  case (Some x)
  then obtain code status where x: "x = (code, status)" "find (\<lambda>(code, _). latest_has_code results code) dns_code_status = Some (code, status)"
    by (cases x) simp
  show ?thesis using dns_code_status_values [OF x(2)] Some x by (auto simp: classifyDNS_def)
qed (simp add: classifyDNS_def)

lemma classifyHTTP_values:
  "classifyHTTP a \<in> {''OK'', ''REDIRECT'', ''CLIENT_ERROR'', ''SERVER_ERROR'', ''TIMEOUT'', ''CONNECTION_ERROR'', ''UNKNOWN''}"
  by (simp add: classifyHTTP_def Let_def)

lemma classifyRedirect_values:
  "classifyRedirect a \<in> {''NONE'', ''TEMPORARY'', ''PERMANENT'', ''LOOP'', ''INVALID'', ''HTTPS_DOWNGRADE'', ''UNKNOWN''}"
  by (simp add: classifyRedirect_def Let_def)

lemma classifyAvailability_values:
  "classifyAvailability a \<in> {''ACTIVE'', ''UNAVAILABLE'', ''DEGRADED'', ''UNKNOWN''}"
  by (simp add: classifyAvailability_def Let_def)

lemma classifyAvailability_active:
  "classifyAvailability a = ''ACTIVE'' \<longleftrightarrow> 200 \<le> at_FinalStatusCode a \<and> at_FinalStatusCode a < 300 \<and>
     ce_Status (at_Content a) \<in> {''VALID_HTML'', ''VALID_NON_HTML''}"
proof (cases "200 \<le> at_FinalStatusCode a \<and> at_FinalStatusCode a < 300")
  case True
  then show ?thesis by (simp add: classifyAvailability_def Let_def)
next
  case False
  then have "classifyAvailability a \<noteq> ''ACTIVE''"
    unfolding classifyAvailability_def Let_def by (simp del: de_Morgan_conj)
  with False show ?thesis by blast
qed

lemma defaultString_in: "v \<in> set vs \<Longrightarrow> d \<in> set vs \<Longrightarrow> defaultString v d \<in> set vs"
  by (simp add: defaultString_def)

lemma classifyTLS_values:
  assumes "evidence_ok a"
  shows "classifyTLS a \<in> set tls_values"
proof (cases "at_TLS a")
  case None
  then show ?thesis by (simp add: classifyTLS_def tls_values_def Let_def)
next
  case (Some t)
  then show ?thesis using assms defaultString_in [of "tls_Status t" tls_values "''UNKNOWN''"]
    by (simp add: classifyTLS_def evidence_ok_def) (simp add: tls_values_def)
qed

lemma classifyContent_values:
  "evidence_ok a \<Longrightarrow> defaultString (ce_Status (at_Content a)) ''UNKNOWN'' \<in> set content_values"
  by (rule defaultString_in) (simp_all add: evidence_ok_def content_values_def)

lemma failureStage_values: "failureStage code \<in> {'''', ''normalize'', ''dns'', ''tcp'', ''tls'', ''http'', ''content'', ''remote'', ''persistence''}"
  by (simp add: failureStage_def)

lemma score_bounds [bounds]: "0 \<le> score d l r" "score d l r \<le> 99"
  by (simp_all add: score_def Let_def)

lemma confidenceLevel_values: "confidenceLevel s \<in> {''LOW'', ''MEDIUM'', ''HIGH''}"
  by (simp add: confidenceLevel_def)

lemma Classify_Some:
  assumes "effectiveAttempt origin = Some a"
  shows "d_Availability (Classify l r origin) = classifyAvailability a \<and>
    d_DNS (Classify l r origin) = classifyDNS l (Compare l r) \<and> d_HTTP (Classify l r origin) = classifyHTTP a \<and>
    d_Redirect (Classify l r origin) = classifyRedirect a \<and> d_ISP (Classify l r origin) = ''UNKNOWN'' \<and>
    d_TLS (Classify l r origin) = classifyTLS a \<and>
    d_Content (Classify l r origin) = defaultString (ce_Status (at_Content a)) ''UNKNOWN'' \<and>
    d_FailureStage (Classify l r origin) = failureStage (at_ErrorCode a) \<and>
    d_ErrorCode (Classify l r origin) = at_ErrorCode a \<and>
    (\<exists>d. d_Confidence (Classify l r origin) = score d l r) \<and>
    (\<exists>d. d_Reasons (Classify l r origin) = evidenceReasons d (Compare l r)) \<and>
    d_ConfidenceLevel (Classify l r origin) = confidenceLevel (d_Confidence (Classify l r origin))"
  using assms by (auto simp: Classify_def Let_def)

lemma Classify_None:
  assumes "effectiveAttempt origin = None"
  shows "d_Availability (Classify l r origin) = ''UNKNOWN'' \<and>
    d_DNS (Classify l r origin) = classifyDNS l (Compare l r) \<and> d_HTTP (Classify l r origin) = ''UNKNOWN'' \<and>
    d_Redirect (Classify l r origin) = ''NONE'' \<and> d_ISP (Classify l r origin) = ''UNKNOWN'' \<and>
    d_TLS (Classify l r origin) = ''UNKNOWN'' \<and> d_Content (Classify l r origin) = ''UNKNOWN'' \<and>
    d_FailureStage (Classify l r origin) = ''http'' \<and> d_Confidence (Classify l r origin) = 20 \<and>
    d_Reasons (Classify l r origin) = [''HTTP_EVIDENCE_MISSING''] \<and>
    d_ConfidenceLevel (Classify l r origin) = confidenceLevel (d_Confidence (Classify l r origin))"
  using assms by (simp add: Classify_def Let_def)

lemma unknown_values: "''UNKNOWN'' \<in> set tls_values" "''UNKNOWN'' \<in> set content_values"
  by (simp_all add: tls_values_def content_values_def)

lemma Classify_fits:
  assumes "\<And>a. effectiveAttempt origin = Some a \<Longrightarrow> evidence_ok a"
  shows "persistable (Classify l r origin)"
proof (cases "effectiveAttempt origin")
  case None
  show ?thesis unfolding persistable_def
    using Classify_None [OF None, of l r] classifyDNS_values [of l "Compare l r"] unknown_values confidenceLevel_values
    by simp
next
  case (Some a)
  note ok = assms [OF Some]
  show ?thesis unfolding persistable_def
    using Classify_Some [OF Some, of l r] classifyDNS_values [of l "Compare l r"] classifyHTTP_values [of a]
      classifyRedirect_values [of a] classifyAvailability_values [of a] classifyTLS_values [OF ok]
      classifyContent_values [OF ok] failureStage_values [of "at_ErrorCode a"] score_bounds confidenceLevel_values
    by (metis insertI1 insertI2)
qed

lemma effectiveAttempt_mem: "effectiveAttempt origin = Some a \<Longrightarrow> a \<in> set (or_HTTPS origin) \<union> set (or_HTTP origin)"
  by (auto simp: effectiveAttempt_def split: if_splits)

lemma evidenceReasons_distinct: "distinct (evidenceReasons d c) \<and> '''' \<notin> set (evidenceReasons d c)"
  by (simp add: evidenceReasons_def unique_def Let_def)


section \<open>Properties\<close>



text \<open>C14. The effective state that \<open>Advance\<close> maintains incrementally is the one the whole history determines.  Only
  qualifying observations with a known availability count.  The streaks are the numbers of failures
  and successes at the end of the counted history.  A domain is UNAVAILABLE exactly from the
  \<open>OpenFailures\<close>-th consecutive failure on; after a failure it is ACTIVE again exactly from the
  \<open>CloseSuccesses\<close>-th consecutive success on.  Every other dimension is the last known value.\<close>

theorem Advance_history:
  assumes "list_all (\<lambda>(q, d). persistable d) history"
  shows "es_FailureStreak (advance_all m n history) = int (trailing observed_failure (counted history)) \<and>
    es_SuccessStreak (advance_all m n history) = int (trailing observed_active (counted history)) \<and>
    es_Availability (advance_all m n history) = history_availability m n (counted history) \<and>
    es_DNS (advance_all m n history) = last_known d_DNS (counted history) \<and>
    es_HTTP (advance_all m n history) = last_known d_HTTP (counted history) \<and>
    es_Redirect (advance_all m n history) = last_known d_Redirect (counted history) \<and>
    es_ISP (advance_all m n history) = last_known d_ISP (counted history) \<and>
    es_TLS (advance_all m n history) = last_known d_TLS (counted history) \<and>
    es_Content (advance_all m n history) = last_known d_Content (counted history)"
  using advance_all_streaks [OF assms] advance_all_dimensions by simp

theorem Advance_history_witness:
  "es_Availability (advance_all 3 2 (replicate 3 (True, sample_decision ''UNAVAILABLE''))) = ''UNAVAILABLE'' \<and>
   es_Availability (advance_all 3 2 [(True, sample_decision ''DEGRADED''), (False, sample_decision ''DEGRADED''),
     (True, sample_decision ''ACTIVE'')]) = ''DEGRADED''"
  using Advance_history [of "replicate 3 (True, sample_decision ''UNAVAILABLE'')" 3 2]
    Advance_history [of "[(True, sample_decision ''DEGRADED''), (False, sample_decision ''DEGRADED''), (True, sample_decision ''ACTIVE'')]" 3 2]
  by (simp add: sample_decision_fits counted_def numeral_3_eq_3 trailing_def history_availability_def observed_failure_def
      observed_active_def threshold_def Let_def)

end
