(* ===== verification/Safedial.thy ===== *)
theory Safedial
  imports Netip Netcheck
begin

text \<open>
  \<^verbatim>\<open>internal/safedial\<close>: the dialer through which every check connects.  It resolves the host itself,
  refuses addresses of special-purpose ranges and ports outside the policy, and dials only the
  addresses it has validated.  The name resolver and the operating system's dialer are arguments;
  the dialed host:port strings are returned beside the result so that statements can speak about
  them.
\<close>

record dial_policy =
  AllowedPorts :: "nat list"
  AllowedPrefixes :: "prefix list"
  ConnectTimeout :: duration

type_synonym lookup = "string \<Rightarrow> (go_error, addr list) result"

text \<open>\<^verbatim>\<open>New\<close>: the policy with its defaults; the default resolver is the caller's argument.\<close>

definition safedial_New :: "dial_policy \<Rightarrow> dial_policy" where
  "safedial_New policy =
    (let policy = (if AllowedPorts policy = [] then policy\<lparr>AllowedPorts := [80, 443]\<rparr> else policy);
         policy = (if ConnectTimeout policy \<le> 0 then policy\<lparr>ConnectTimeout := 5 * second\<rparr> else policy)
     in policy)"

definition blockedPrefixes :: "prefix list" where
  "blockedPrefixes =
    [Prefix4 (ip4 0 0 0 0) 8, Prefix4 (ip4 100 64 0 0) 10, Prefix4 (ip4 192 0 0 0) 24,
     Prefix4 (ip4 192 0 2 0) 24, Prefix4 (ip4 198 18 0 0) 15, Prefix4 (ip4 198 51 100 0) 24,
     Prefix4 (ip4 203 0 113 0) 24, Prefix4 (ip4 240 0 0 0) 4,
     Prefix6 (ip6 [0x64, 0xFF9B, 1, 0, 0, 0, 0, 0]) 48, Prefix6 (ip6 [0x100, 0, 0, 0, 0, 0, 0, 0]) 64,
     Prefix6 (ip6 [0x2001, 0xDB8, 0, 0, 0, 0, 0, 0]) 32]"

definition blocked :: "addr \<Rightarrow> check_error" where
  "blocked address = New SSRFBlockedAddress ''tcp'' ''validate target'' False
     (Some (plain_error (''address '' @ addr_String address @ '' is blocked by policy'')))"

definition validate :: "dial_policy \<Rightarrow> addr \<Rightarrow> check_error option" where
  "validate policy address0 =
    (let address = Unmap address0 in
     if list_ex (\<lambda>allowed. prefix_Contains allowed address) (AllowedPrefixes policy) then None
     else if \<not> IsValid address \<or> \<not> IsGlobalUnicast address \<or> IsPrivate address \<or> IsLoopback address \<or>
             IsLinkLocalUnicast address \<or> IsLinkLocalMulticast address \<or> IsMulticast address \<or>
             IsUnspecified address then Some (blocked address)
     else if list_ex (\<lambda>prefix. prefix_Contains prefix address) blockedPrefixes then Some (blocked address)
     else None)"

definition resolve :: "lookup \<Rightarrow> string \<Rightarrow> (go_error, addr list) result" where
  "resolve LookupNetIP host0 =
    (let host = trim_suffix (trim_space host0) ''.'' in
     case ParseAddr host of
       Some parsed \<Rightarrow> Inr [Unmap parsed]
     | None \<Rightarrow>
         (case LookupNetIP host of
            Inl err \<Rightarrow> Inl err
          | Inr addresses \<Rightarrow> Inr (keep_first (map Unmap addresses) {})))"

text \<open>The loop over the validated addresses: the connection or the last error, with what was dialed.\<close>

fun dial_candidates ::
  "(string \<Rightarrow> (go_error, 'conn) result) \<Rightarrow> string \<Rightarrow> addr list \<Rightarrow> go_error \<Rightarrow>
   (go_error, 'conn) result \<times> string list" where
  "dial_candidates dial rawPort [] lastError = (Inl lastError, [])"
| "dial_candidates dial rawPort (candidate # rest) lastError =
    (let target = JoinHostPort (addr_String candidate) rawPort in
     case dial target of
       Inr connection \<Rightarrow> (Inr connection, [target])
     | Inl dialErr \<Rightarrow>
         let (outcome, dialed) = dial_candidates dial rawPort rest dialErr in (outcome, target # dialed))"

text \<open>
  \<^verbatim>\<open>DialContext\<close> of a dialer built by \<^verbatim>\<open>New\<close>.  \<open>dial network hostport\<close> is the operating system's
  dialer and \<open>ctx_Err\<close> the context's error when the last attempt has failed.
\<close>

definition DialContext ::
  "lookup \<Rightarrow> (string \<Rightarrow> string \<Rightarrow> (go_error, 'conn) result) \<Rightarrow> go_error option \<Rightarrow> dial_policy \<Rightarrow>
   string \<Rightarrow> string \<Rightarrow> (check_error, 'conn) result \<times> string list" where
  "DialContext LookupNetIP dial ctx_Err policy network address =
    (if network \<noteq> ''tcp'' \<and> network \<noteq> ''tcp4'' \<and> network \<noteq> ''tcp6'' then
       (Inl (New SSRFBlockedAddress ''tcp'' ''dial'' False
          (Some (plain_error (''network '' @ go_quote network @ '' is not allowed'')))), [])
     else case SplitHostPort address of
       Inl text \<Rightarrow> (Inl (New SSRFBlockedPort ''tcp'' ''dial'' False (Some (Leaf text [] (Some (False, False))))), [])
     | Inr (host, rawPort) \<Rightarrow>
       (case ParseUint 16 rawPort of
          None \<Rightarrow> (Inl (New SSRFBlockedPort ''tcp'' ''dial'' False
                   (Some (plain_error (''strconv.ParseUint: parsing '' @ go_quote rawPort)))), [])
        | Some port \<Rightarrow>
            if port \<notin> set (AllowedPorts policy) then
              (Inl (New SSRFBlockedPort ''tcp'' ''dial'' False
                 (Some (plain_error (''port '' @ nat_string port @ '' is not allowed'')))), [])
            else (case resolve LookupNetIP host of
              Inl err \<Rightarrow>
                (Inl (case As err of
                    Some checkError \<Rightarrow> checkError
                  | None \<Rightarrow> New DNSNetworkError ''dns'' ''safe resolve'' True (Some err)), [])
            | Inr addresses \<Rightarrow>
                if addresses = [] then
                  (Inl (New DNSNetworkError ''dns'' ''safe resolve'' False
                     (Some (plain_error ''resolver returned no addresses''))), [])
                else (case List.map_filter (validate policy) addresses of
                  err # _ \<Rightarrow> (Inl err, [])
                | [] \<Rightarrow>
                    let (outcome, dialed) = dial_candidates (dial network) rawPort addresses (plain_error '''') in
                    (case outcome of
                       Inr connection \<Rightarrow> (Inr connection, dialed)
                     | Inl lastError \<Rightarrow> (Inl (ClassifyTCP ctx_Err (''dial '' @ host) lastError), dialed))))))"

section \<open>Pinned addresses\<close>

record pinned_resolver =
  Hosts :: "string \<rightharpoonup> addr list"
  Fallback :: "lookup option"

definition LookupNetIP :: "pinned_resolver \<Rightarrow> lookup" where
  "LookupNetIP r host =
    (let key = to_lower (trim_suffix (trim_space host) ''.'') in
     case Hosts r key of
       Some vals \<Rightarrow>
         if vals = [] then Inl (plain_error (''pinned resolver has no addresses for '' @ key))
         else Inr vals
     | None \<Rightarrow>
         (case Fallback r of
            None \<Rightarrow> Inl (plain_error (''host '' @ key @ '' is not in the pinned resolver set''))
          | Some lookup \<Rightarrow> lookup host))"

section \<open>What the policy excludes\<close>

text \<open>
  The special-purpose ranges that an unrestricted policy keeps out, listed independently of the
  tests in the code.
\<close>

definition special_purpose :: "prefix list" where
  "special_purpose =
    [Prefix4 (ip4 0 0 0 0) 8, Prefix4 (ip4 10 0 0 0) 8, Prefix4 (ip4 100 64 0 0) 10,
     Prefix4 (ip4 127 0 0 0) 8, Prefix4 (ip4 169 254 0 0) 16, Prefix4 (ip4 172 16 0 0) 12,
     Prefix4 (ip4 192 0 0 0) 24, Prefix4 (ip4 192 0 2 0) 24, Prefix4 (ip4 192 168 0 0) 16,
     Prefix4 (ip4 198 18 0 0) 15, Prefix4 (ip4 198 51 100 0) 24, Prefix4 (ip4 203 0 113 0) 24,
     Prefix4 (ip4 224 0 0 0) 4, Prefix4 (ip4 240 0 0 0) 4,
     Prefix6 0 128, Prefix6 1 128, Prefix6 (ip6 [0xFC00, 0, 0, 0, 0, 0, 0, 0]) 7,
     Prefix6 (ip6 [0xFE80, 0, 0, 0, 0, 0, 0, 0]) 10, Prefix6 (ip6 [0xFF00, 0, 0, 0, 0, 0, 0, 0]) 8,
     Prefix6 (ip6 [0x64, 0xFF9B, 1, 0, 0, 0, 0, 0]) 48, Prefix6 (ip6 [0x100, 0, 0, 0, 0, 0, 0, 0]) 64,
     Prefix6 (ip6 [0x2001, 0xDB8, 0, 0, 0, 0, 0, 0]) 32]"

fun zone_of :: "addr \<Rightarrow> string" where
  "zone_of (V6 w z) = z"
| "zone_of _ = ''''"

section \<open>Lemmas\<close>

lemma link_local_multicast_multicast: "IsLinkLocalMulticast a \<Longrightarrow> IsMulticast a"
proof (cases a)
  case (V4 w)
  assume "IsLinkLocalMulticast a"
  then have "drop_bit 20 (drop_bit 8 w) = drop_bit 20 (0xE00000 :: 32 word)" using V4 by simp
  then show ?thesis using V4 by simp
qed auto

lemma validate_None_iff:
  "validate policy a = None \<longleftrightarrow>
     list_ex (\<lambda>p. prefix_Contains p (Unmap a)) (AllowedPrefixes policy) \<or>
     IsGlobalUnicast (Unmap a) \<and> \<not> IsPrivate (Unmap a) \<and> \<not> IsUnspecified (Unmap a) \<and>
     \<not> list_ex (\<lambda>p. prefix_Contains p (Unmap a)) blockedPrefixes"
  using link_local_multicast_multicast [of "Unmap a"]
  by (cases "Unmap a") (auto simp: validate_def Let_def IsValid_def)

text \<open>The tests of the code and the list of ranges agree, address family by address family.\<close>

lemma public_V4:
  "IsGlobalUnicast (V4 w) \<and> \<not> IsPrivate (V4 w) \<and> \<not> IsUnspecified (V4 w) \<and>
     \<not> list_ex (\<lambda>p. prefix_Contains p (V4 w)) blockedPrefixes \<longleftrightarrow>
   \<not> list_ex (\<lambda>p. prefix_Contains p (V4 w)) special_purpose"
  by (auto simp: special_purpose_def blockedPrefixes_def ip4_def)

lemma public_V6:
  "IsGlobalUnicast (V6 w '''') \<and> \<not> IsPrivate (V6 w '''') \<and> \<not> IsUnspecified (V6 w '''') \<and>
     \<not> list_ex (\<lambda>p. prefix_Contains p (V6 w '''')) blockedPrefixes \<longleftrightarrow>
   \<not> list_ex (\<lambda>p. prefix_Contains p (V6 w '''')) special_purpose"
  by (auto simp: special_purpose_def blockedPrefixes_def ip6_def)

lemma dial_candidates_dialed:
  "dial_candidates dial rawPort as e = (outcome, dialed) \<Longrightarrow> target \<in> set dialed \<Longrightarrow>
     \<exists>a \<in> set as. target = JoinHostPort (addr_String a) rawPort"
proof (induction as arbitrary: e outcome dialed)
  case (Cons a as)
  show ?case
  proof (cases "dial (JoinHostPort (addr_String a) rawPort)")
    case (Inl err)
    obtain rest where rest: "dial_candidates dial rawPort as err = (outcome, rest)"
      "dialed = JoinHostPort (addr_String a) rawPort # rest"
      using Cons.prems(1) Inl by (auto simp: Let_def split: prod.splits)
    then show ?thesis using Cons.IH [OF rest(1)] Cons.prems(2) by auto
  qed (use Cons.prems in \<open>auto simp: Let_def\<close>)
qed simp

lemma map_filter_Nil_iff: "List.map_filter f xs = [] \<longleftrightarrow> (\<forall>x \<in> set xs. f x = None)"
  by (induction xs) (auto split: option.splits)

lemma DialContext_inv:
  assumes "DialContext lookup dial ctx policy network address = (outcome, dialed)" "dialed \<noteq> []"
  shows "\<exists>host rawPort port addresses.
    SplitHostPort address = Inr (host, rawPort) \<and> ParseUint 16 rawPort = Some port \<and>
    port \<in> set (AllowedPorts policy) \<and> resolve lookup host = Inr addresses \<and>
    (\<forall>a \<in> set addresses. validate policy a = None) \<and>
    (\<forall>target \<in> set dialed. \<exists>a \<in> set addresses. target = JoinHostPort (addr_String a) rawPort)"
  using assms
  by (auto simp: DialContext_def Let_def map_filter_Nil_iff
      split: if_splits sum.splits prod.splits option.splits list.splits
      dest: dial_candidates_dialed)

section \<open>Properties\<close>

text \<open>C18. Every address the dialer connects to passed the policy, its port is an allowed one, and all
  addresses the host resolved to passed as well: a single blocked answer stops the whole dial.\<close>

theorem DialContext_dials_validated:
  assumes "DialContext lookup dial ctx policy network address = (outcome, dialed)"
    and "target \<in> set dialed"
  shows "\<exists>host rawPort port addresses a.
    SplitHostPort address = Inr (host, rawPort) \<and> ParseUint 16 rawPort = Some port \<and>
    port \<in> set (AllowedPorts policy) \<and> resolve lookup host = Inr addresses \<and>
    (\<forall>b \<in> set addresses. validate policy b = None) \<and>
    a \<in> set addresses \<and> target = JoinHostPort (addr_String a) rawPort"
proof -
  have "dialed \<noteq> []" using assms(2) by auto
  from DialContext_inv [OF assms(1) this] assms(2) show ?thesis by blast
qed

theorem DialContext_dials_validated_witness:
  "DialContext (\<lambda>_. Inr [V4 (ip4 93 184 216 34)]) (\<lambda>_ _. Inr ()) None
     (safedial_New \<lparr>AllowedPorts = [], AllowedPrefixes = [], ConnectTimeout = 0\<rparr>) ''tcp'' ''example.com:443''
     = (Inr (), [''93.184.216.34:443'']) \<and>
   (\<exists>host rawPort port addresses a.
      SplitHostPort ''example.com:443'' = Inr (host, rawPort) \<and> ParseUint 16 rawPort = Some port \<and>
      port \<in> set (AllowedPorts (safedial_New \<lparr>AllowedPorts = [], AllowedPrefixes = [], ConnectTimeout = 0\<rparr>)) \<and>
      resolve (\<lambda>_. Inr [V4 (ip4 93 184 216 34)]) host = Inr addresses \<and>
      (\<forall>b \<in> set addresses. validate (safedial_New \<lparr>AllowedPorts = [], AllowedPrefixes = [], ConnectTimeout = 0\<rparr>) b = None) \<and>
      a \<in> set addresses \<and> ''93.184.216.34:443'' = JoinHostPort (addr_String a) rawPort)"
proof -
  let ?policy = "safedial_New \<lparr>AllowedPorts = [], AllowedPrefixes = [], ConnectTimeout = 0\<rparr>"
  let ?run = "DialContext (\<lambda>_. Inr [V4 (ip4 93 184 216 34)]) (\<lambda>_ _. Inr ()) None ?policy ''tcp'' ''example.com:443''"
  have parts: "SplitHostPort ''example.com:443'' = Inr (''example.com'', ''443'')"
    "ParseUint 16 ''443'' = Some 443"
    by (simp_all add: netip_eval)
  have address: "resolve (\<lambda>_. Inr [V4 (ip4 93 184 216 34)]) ''example.com'' = Inr [V4 (ip4 93 184 216 34)]"
    by (simp add: resolve_def netip_eval)
  have accepted: "validate ?policy (V4 (ip4 93 184 216 34)) = None"
    by (simp add: validate_None_iff blockedPrefixes_def netip_eval)
  have target: "JoinHostPort (addr_String (V4 (ip4 93 184 216 34))) ''443'' = ''93.184.216.34:443''"
    by (simp add: netip_eval)
  have run: "?run = (Inr (), [''93.184.216.34:443''])"
    using parts address accepted target by (simp add: DialContext_def safedial_New_def Let_def)
  show ?thesis by (rule conjI [OF run DialContext_dials_validated [OF run]]) simp
qed

text \<open>C10. Without an allow-list, an address that carries no IPv6 zone is accepted exactly when it is valid
  and lies in none of the special-purpose ranges; IPv4-mapped IPv6 addresses are judged as IPv4.\<close>

theorem validate_exact:
  assumes "AllowedPrefixes policy = []" "zone_of a = ''''"
  shows "validate policy a = None \<longleftrightarrow>
    a \<noteq> InvalidAddr \<and> \<not> list_ex (\<lambda>p. prefix_Contains p (Unmap a)) special_purpose"
proof (cases a)
  case (V6 w z)
  with assms have z: "z = ''''" by simp
  then show ?thesis
    using assms(1) V6 public_V4 [of "ucast w"] public_V6 [of w] by (simp add: validate_None_iff)
qed (use assms(1) public_V4 in \<open>simp_all add: validate_None_iff\<close>)

theorem validate_exact_witness:
  "validate \<lparr>AllowedPorts = [443], AllowedPrefixes = [], ConnectTimeout = 0\<rparr> (V6 (ip6 [0, 0, 0, 0, 0, 0xFFFF, 0x7F00, 1]) '''') \<noteq> None"
proof -
  let ?policy = "\<lparr>AllowedPorts = [443], AllowedPrefixes = [], ConnectTimeout = 0\<rparr>"
  let ?a = "V6 (ip6 [0, 0, 0, 0, 0, 0xFFFF, 0x7F00, 1]) ''''"
  have "list_ex (\<lambda>p. prefix_Contains p (Unmap ?a)) special_purpose"
    by (simp add: special_purpose_def netip_eval)
  then show ?thesis using validate_exact [of ?policy ?a] by simp
qed

text \<open>C19. An IPv6 zone defeats the address check: the unspecified address written with a zone passes the
  policy and is dialed on an allowed port, whatever the resolver and the allow-list are, although
  the same address without a zone is in a refused range.\<close>

theorem validate_zone_gap:
  "validate policy (V6 0 ''lo'') = None \<and>
   snd (DialContext lookup dial ctx (safedial_New \<lparr>AllowedPorts = [], AllowedPrefixes = [], ConnectTimeout = t\<rparr>)
     ''tcp'' ''[::%lo]:443'') = [''[::%lo]:443'']"
proof -
  let ?policy = "safedial_New \<lparr>AllowedPorts = [], AllowedPrefixes = [], ConnectTimeout = t\<rparr>"
  have accepted: "validate policy (V6 0 ''lo'') = None" for policy
    by (simp add: validate_None_iff blockedPrefixes_def)
  have parts: "SplitHostPort ''[::%lo]:443'' = Inr (''::%lo'', ''443'')" "ParseUint 16 ''443'' = Some 443"
    by (simp_all add: netip_eval)
  have address: "resolve lookup ''::%lo'' = Inr [V6 0 ''lo'']"
    by (simp add: resolve_def netip_eval)
  have target: "JoinHostPort (addr_String (V6 0 ''lo'')) ''443'' = ''[::%lo]:443''"
    by (simp add: netip_eval)
  have port: "443 \<in> set (AllowedPorts ?policy)" by (simp add: safedial_New_def Let_def)
  have "snd (DialContext lookup dial ctx ?policy ''tcp'' ''[::%lo]:443'') = [''[::%lo]:443'']"
    using accepted parts address target port by (simp add: DialContext_def Let_def split: sum.splits)
  with accepted show ?thesis by simp
qed

end
