(* ===== verification/Ispclass.thy ===== *)
theory Ispclass
  imports Prelude
begin

text \<open>
  \<^verbatim>\<open>internal/ispclass\<close>: whether the failures seen from the local network, together with the results of a
  remote probe, suggest that the local network path is blocked.
\<close>

abbreviation Unknown :: string where "Unknown \<equiv> ''UNKNOWN''"
abbreviation NotDetected :: string where "NotDetected \<equiv> ''NOT_DETECTED''"
abbreviation Suspected :: string where "Suspected \<equiv> ''SUSPECTED''"
abbreviation HighConfidenceBlock :: string where "HighConfidenceBlock \<equiv> ''HIGH_CONFIDENCE_BLOCK''"

record isp_input =
  LocalAvailability :: string
  LocalFailureCount :: int
  LocalFailureBuckets :: int
  LocalDNSDiscrepancy :: bool
  DoHStable :: bool
  PinnedAvailability :: string
  PinnedFailureStage :: string
  RemoteAvailability :: string
  RemoteSuccessCount :: int
  RemoteBodyHashStable :: bool
  RemoteFresh :: bool
  ProbeHealthy :: bool
  ClockHealthy :: bool
  PossibleGeoPolicy :: bool
  PossibleWAF :: bool
  MaintenanceWindow :: bool

record isp_decision =
  isp_Status :: string
  isp_Confidence :: int
  isp_Reasons :: "string list"

definition isp_decide :: "string \<Rightarrow> int \<Rightarrow> string list \<Rightarrow> isp_decision" where
  "isp_decide status confidence reasons =
    \<lparr>isp_Status = status, isp_Confidence = (if confidence > 99 then 99 else confidence), isp_Reasons = compact reasons\<rparr>"

definition isp_Classify :: "isp_input \<Rightarrow> isp_decision" where
  "isp_Classify input =
    (if LocalAvailability input = ''ACTIVE'' then isp_decide NotDetected 90 [''LOCAL_CONTENT_VALID'']
     else if \<not> RemoteFresh input then isp_decide Unknown 20 [''REMOTE_EVIDENCE_STALE'']
     else if \<not> ProbeHealthy input \<or> \<not> ClockHealthy input then isp_decide Unknown 20 [''REMOTE_PROBE_UNHEALTHY'']
     else if RemoteAvailability input \<noteq> ''ACTIVE'' then
       (if LocalAvailability input = ''UNAVAILABLE'' \<or> LocalAvailability input = ''DEGRADED''
        then isp_decide Unknown 55 [''ORIGIN_GLOBAL_FAILURE'']
        else isp_decide Unknown 25 [''REMOTE_EVIDENCE_INCONCLUSIVE''])
     else
       let reasons = [''REMOTE_SG_CONTENT_VALID'']
             @ (if LocalFailureCount input > 0 then [''LOCAL_SYSTEM_HTTP_FAILED''] else [])
             @ (if LocalDNSDiscrepancy input then [''LOCAL_DNS_ANSWER_SET_DIFFERS''] else [])
             @ (if DoHStable input then [''DOH_ORIGIN_IP_STABLE''] else []) in
       if PinnedAvailability input = ''ACTIVE'' \<and> LocalDNSDiscrepancy input then
         isp_decide Suspected 75 (reasons @ [''LOCAL_DOH_PINNED_HTTP_SUCCEEDED'', ''DNS_INTERFERENCE_SUSPECTED''])
       else
         let reasons = reasons @ (if PinnedAvailability input \<noteq> ''ACTIVE'' then [''LOCAL_DOH_PINNED_HTTP_FAILED''] else []) in
         if PossibleGeoPolicy input then isp_decide Unknown 45 (reasons @ [''POSSIBLE_GEO_POLICY''])
         else if PossibleWAF input then isp_decide Unknown 45 (reasons @ [''POSSIBLE_WAF_BLOCK''])
         else if MaintenanceWindow input then isp_decide Unknown 30 (reasons @ [''MAINTENANCE_WINDOW_ACTIVE''])
         else if LocalFailureCount input < 3 \<or> LocalFailureBuckets input < 2 then
           isp_decide Suspected 55 (reasons @ [''LOCAL_FAILURE_NOT_YET_REPEATED''])
         else if RemoteSuccessCount input < 2 \<or> \<not> RemoteBodyHashStable input then
           isp_decide Suspected 65 (reasons @ [''REMOTE_SUCCESS_NOT_YET_REPEATED''])
         else if \<not> DoHStable input then isp_decide Unknown 40 (reasons @ [''DOH_EVIDENCE_UNSTABLE''])
         else if PinnedFailureStage input = '''' then isp_decide Suspected 60 (reasons @ [''LOCAL_FAILURE_STAGE_INCONSISTENT''])
         else isp_decide HighConfidenceBlock 95
           (reasons @ [''LOCAL_FAILURE_REPEATED'', ''REMOTE_SG_BODY_HASH_STABLE'', ''NETWORK_SCOPED_HIGH_CONFIDENCE_BLOCK'']))"

section \<open>Specification\<close>

text \<open>
  The remote vantage point sees the site while the local one does not, and nothing but the local
  network explains it.
\<close>

definition remote_reaches :: "isp_input \<Rightarrow> bool" where
  "remote_reaches input =
    (LocalAvailability input \<noteq> ''ACTIVE'' \<and> RemoteFresh input \<and> ProbeHealthy input \<and> ClockHealthy input \<and>
     RemoteAvailability input = ''ACTIVE'')"

definition otherwise_explained :: "isp_input \<Rightarrow> bool" where
  "otherwise_explained input = (PossibleGeoPolicy input \<or> PossibleWAF input \<or> MaintenanceWindow input)"

definition block_evidence :: "isp_input \<Rightarrow> bool" where
  "block_evidence input =
    (LocalFailureCount input \<ge> 3 \<and> LocalFailureBuckets input \<ge> 2 \<and> RemoteSuccessCount input \<ge> 2 \<and>
     RemoteBodyHashStable input \<and> DoHStable input \<and> PinnedFailureStage input \<noteq> '''' \<and>
     \<not> (PinnedAvailability input = ''ACTIVE'' \<and> LocalDNSDiscrepancy input))"

definition sample_isp_input :: isp_input where
  "sample_isp_input = \<lparr>LocalAvailability = ''UNAVAILABLE'', LocalFailureCount = 3, LocalFailureBuckets = 2,
     LocalDNSDiscrepancy = False, DoHStable = True, PinnedAvailability = ''UNAVAILABLE'', PinnedFailureStage = ''tcp'',
     RemoteAvailability = ''ACTIVE'', RemoteSuccessCount = 2, RemoteBodyHashStable = True, RemoteFresh = True,
     ProbeHealthy = True, ClockHealthy = True, PossibleGeoPolicy = False, PossibleWAF = False, MaintenanceWindow = False\<rparr>"

section \<open>Lemmas\<close>

lemma isp_decide_fields [simp]:
  "isp_Status (isp_decide s c r) = s" "c \<le> 99 \<Longrightarrow> isp_Confidence (isp_decide s c r) = c"
  "set (isp_Reasons (isp_decide s c r)) = set r"
  by (simp_all add: isp_decide_def)

text \<open>The status and the confidence without the lists of reasons.\<close>

lemmas isp_status = isp_Classify_def Let_def if_distrib [of isp_Status] isp_decide_fields(1)

lemma isp_confidence: "isp_Confidence (isp_Classify input) \<in> {20, 25, 30, 40, 45, 55, 60, 65, 75, 90, 95}"
  unfolding isp_Classify_def Let_def if_distrib [of isp_Confidence] isp_decide_def isp_decision.select_convs by simp

lemma isp_reasons_not_Nil: "isp_Reasons (isp_Classify input) \<noteq> []"
proof -
  have "set r \<noteq> {} \<Longrightarrow> isp_Reasons (isp_decide s c r) \<noteq> []" for s c r
    by (metis isp_decide_fields(3) set_empty)
  then show ?thesis unfolding isp_Classify_def Let_def by (simp del: set_append)
qed

lemma isp_high_iff:
  "isp_Status (isp_Classify input) = HighConfidenceBlock \<longleftrightarrow>
     remote_reaches input \<and> \<not> otherwise_explained input \<and> block_evidence input"
  unfolding isp_status remote_reaches_def otherwise_explained_def block_evidence_def by auto

lemma isp_not_detected_iff: "isp_Status (isp_Classify input) = NotDetected \<longleftrightarrow> LocalAvailability input = ''ACTIVE''"
  unfolding isp_status by auto

lemma isp_suspected_reaches: "isp_Status (isp_Classify input) = Suspected \<Longrightarrow> remote_reaches input"
  unfolding isp_status remote_reaches_def by (auto split: if_splits)

lemma isp_explained:
  assumes "otherwise_explained input" "\<not> (PinnedAvailability input = ''ACTIVE'' \<and> LocalDNSDiscrepancy input)"
  shows "isp_Status (isp_Classify input) \<in> {Unknown, NotDetected}"
  using assms unfolding isp_status otherwise_explained_def by auto

text \<open>
  A suspicion does not need a local failure: if the local observation is inconclusive and no failure was
  counted, a remote success alone yields SUSPECTED.
\<close>

lemma isp_suspected_without_failure:
  assumes "remote_reaches input" "\<not> otherwise_explained input" "LocalFailureCount input = 0"
  shows "isp_Status (isp_Classify input) = Suspected"
  using assms unfolding isp_status remote_reaches_def otherwise_explained_def by auto

section \<open>Properties\<close>



end
