(* ===== verification/Database.thy ===== *)
theory Database
  imports Prelude
begin

text \<open>
  What the services use of PostgreSQL: a transaction is a function on the tables that yields the new
  tables or an error, in which case the tables are those before the transaction; a statement fails
  when it violates a constraint of the schema.  The library part holds what the services share: the
  error monad of the statements, labelled runs of a state machine, and leases.
\<close>

type_synonym uuid = nat

section \<open>Statements that may fail\<close>

definition bind_result :: "'e + 'a \<Rightarrow> ('a \<Rightarrow> 'e + 'b) \<Rightarrow> 'e + 'b" where
  "bind_result r f = (case r of Inl e \<Rightarrow> Inl e | Inr x \<Rightarrow> f x)"

text \<open>A value that must be present, and a condition that must hold.\<close>

definition require :: "'e \<Rightarrow> 'a option \<Rightarrow> 'e + 'a" where
  "require e v = (case v of None \<Rightarrow> Inl e | Some x \<Rightarrow> Inr x)"

definition ensure :: "'e \<Rightarrow> bool \<Rightarrow> 'e + unit" where
  "ensure e b = (if b then Inr () else Inl e)"

text \<open>A loop over rows that stops at the first error.\<close>

primrec each :: "('s \<Rightarrow> 'x \<Rightarrow> 'e + 's) \<Rightarrow> 's \<Rightarrow> 'x list \<Rightarrow> 'e + 's" where
  "each f s [] = Inr s"
| "each f s (x # xs) = bind_result (f s x) (\<lambda>s'. each f s' xs)"

lemma bind_result_simps [simp]: "bind_result (Inl e) f = Inl e" "bind_result (Inr x) f = f x"
  by (simp_all add: bind_result_def)

lemma bind_result_Inr: "bind_result r f = Inr y \<longleftrightarrow> (\<exists>x. r = Inr x \<and> f x = Inr y)"
  by (cases r) auto

lemma require_simps [simp]: "require e None = Inl e" "require e (Some x) = Inr x"
  by (simp_all add: require_def)

lemma require_Inr [simp]: "require e v = Inr x \<longleftrightarrow> v = Some x"
  by (cases v) auto

lemma ensure_simps [simp]: "ensure e True = Inr ()" "ensure e False = Inl e"
  by (simp_all add: ensure_def)

lemma ensure_Inr [simp]: "ensure e b = Inr u \<longleftrightarrow> b"
  by (simp add: ensure_def)

lemma each_append: "each f s (xs @ ys) = bind_result (each f s xs) (\<lambda>s'. each f s' ys)"
proof (induction xs arbitrary: s)
  case (Cons x xs)
  then show ?case by (cases "f s x") auto
qed simp

text \<open>An invariant that each iteration keeps holds after the loop.\<close>

lemma each_invariant:
  assumes "each f s xs = Inr s'" "P s" "\<And>s x s'. x \<in> set xs \<Longrightarrow> P s \<Longrightarrow> f s x = Inr s' \<Longrightarrow> P s'"
  shows "P s'"
  using assms
proof (induction xs arbitrary: s)
  case (Cons x xs)
  then obtain s1 where "f s x = Inr s1" "each f s1 xs = Inr s'" by (auto simp: bind_result_Inr)
  then show ?case using Cons.IH [of s1] Cons.prems(2,3) by (metis list.set_intros)
qed simp

section \<open>Text columns\<close>

text \<open>PostgreSQL accepts a text value when it is valid UTF-8 without the zero byte.\<close>

abbreviation continuation :: "int \<Rightarrow> bool" where "continuation b \<equiv> 0x80 \<le> b \<and> b \<le> 0xBF"

fun utf8_bytes :: "int list \<Rightarrow> bool" where
  "utf8_bytes [] = True"
| "utf8_bytes (b # bs) =
    (if b = 0 then False
     else if b < 0x80 then utf8_bytes bs
     else if 0xC2 \<le> b \<and> b \<le> 0xDF then
       (case bs of c # _ \<Rightarrow> continuation c \<and> utf8_bytes (drop 1 bs) | _ \<Rightarrow> False)
     else if 0xE0 \<le> b \<and> b \<le> 0xEF then
       (case bs of c # d # _ \<Rightarrow> continuation c \<and> continuation d \<and> (b = 0xE0 \<longrightarrow> 0xA0 \<le> c) \<and> (b = 0xED \<longrightarrow> c \<le> 0x9F) \<and>
          utf8_bytes (drop 2 bs) | _ \<Rightarrow> False)
     else if 0xF0 \<le> b \<and> b \<le> 0xF4 then
       (case bs of c # d # e # _ \<Rightarrow> continuation c \<and> continuation d \<and> continuation e \<and> (b = 0xF0 \<longrightarrow> 0x90 \<le> c) \<and>
          (b = 0xF4 \<longrightarrow> c \<le> 0x8F) \<and> utf8_bytes (drop 3 bs) | _ \<Rightarrow> False)
     else False)"

definition text_ok :: "string \<Rightarrow> bool" where
  "text_ok s = utf8_bytes (map of_char s)"

definition opt_text_ok :: "string option \<Rightarrow> bool" where
  "opt_text_ok v = (case v of None \<Rightarrow> True | Some s \<Rightarrow> text_ok s)"

lemma text_ok_ascii: "list_all (\<lambda>c. 0 < (of_char c :: int) \<and> (of_char c :: int) < 128) s \<Longrightarrow> text_ok s"
  by (induction s) (auto simp: text_ok_def)

lemma text_ok_Nil [simp]: "text_ok ''''"
  by (simp add: text_ok_def)

section \<open>Runs of a state machine\<close>

inductive runs :: "('e \<Rightarrow> 's \<Rightarrow> 's \<Rightarrow> bool) \<Rightarrow> 's \<Rightarrow> 'e list \<Rightarrow> 's \<Rightarrow> bool"
  for step :: "'e \<Rightarrow> 's \<Rightarrow> 's \<Rightarrow> bool" and s :: 's
where
  runs_Nil: "runs step s [] s"
| runs_snoc: "runs step s es s' \<Longrightarrow> step e s' s'' \<Longrightarrow> runs step s (es @ [e]) s''"

inductive_cases runs_NilE: "runs step s [] s'"
inductive_cases runs_snocE: "runs step s (es @ [e]) s'"

lemma runs_Nil_iff [simp]: "runs step s [] s' \<longleftrightarrow> s' = s"
  by (auto elim: runs_NilE intro: runs_Nil)

lemma runs_snoc_iff: "runs step s (es @ [e]) s'' \<longleftrightarrow> (\<exists>s'. runs step s es s' \<and> step e s' s'')"
  by (auto elim: runs_snocE intro: runs_snoc)

text \<open>An invariant of the steps is an invariant of the runs.\<close>

lemma runs_invariant:
  assumes "runs step s es s'" "P s" "\<And>e s s'. e \<in> set es \<Longrightarrow> P s \<Longrightarrow> step e s s' \<Longrightarrow> P s'"
  shows "P s'"
  using assms by (induction rule: runs.induct) auto

lemma runs_append: "runs step s es s' \<Longrightarrow> runs step s' es' s'' \<Longrightarrow> runs step s (es @ es') s''"
  by (rotate_tac 1, induction rule: runs.induct) (auto simp: runs_snoc simp flip: append_assoc)

section \<open>Leases\<close>

text \<open>
  A table of leases: \<open>holder s k\<close> is the worker that holds the entry \<open>k\<close> and the time since which it
  holds it.  A step happens at a time and is made by a worker.  The law of the table is that a step
  gives an entry only to its own worker, at its own time, and only if nobody else holds a live lease.
\<close>

definition live :: "int \<Rightarrow> int \<Rightarrow> ('w \<times> int) option \<Rightarrow> bool" where
  "live lease t h = (case h of None \<Rightarrow> False | Some (_, since) \<Rightarrow> t < since + lease)"

locale leasing =
  fixes step :: "'e \<Rightarrow> 's \<Rightarrow> 's \<Rightarrow> bool"
    and at_time :: "'e \<Rightarrow> int"
    and by_worker :: "'e \<Rightarrow> 'w"
    and holder :: "'s \<Rightarrow> 'k \<Rightarrow> ('w \<times> int) option"
    and lease :: int
  assumes acquired: "step e s s' \<Longrightarrow> holder s' k \<noteq> holder s k \<Longrightarrow> holder s' k \<noteq> None \<Longrightarrow>
    holder s' k = Some (by_worker e, at_time e) \<and> \<not> live lease (at_time e) (holder s k)"
begin

text \<open>While a lease is live nobody takes it over: within it the holder is the same unless the entry was released.\<close>

lemma no_takeover:
  assumes "step e s s'" "live lease (at_time e) (holder s k)"
  shows "holder s' k = holder s k \<or> holder s' k = None"
  using acquired [OF assms(1)] assms(2) by blast

lemma lease_exclusive:
  assumes "runs step s es s'" "holder s k = Some (w, since)" "\<forall>e \<in> set es. at_time e < since + lease"
  shows "holder s' k = Some (w, since) \<or> (\<exists>m es1 es2. es = es1 @ es2 \<and> runs step s es1 m \<and> holder m k = None)"
  using assms
proof (induction rule: runs.induct)
  case (runs_snoc es s' e s'')
  consider (same) "holder s' k = Some (w, since)"
    | (free) m es1 es2 where "es = es1 @ es2" "runs step s es1 m" "holder m k = None"
    using runs_snoc by auto
  then show ?case
  proof cases
    case same
    have "live lease (at_time e) (holder s' k)" using same runs_snoc.prems(2) by (simp add: live_def)
    from no_takeover [OF runs_snoc.hyps(2) this] show ?thesis
      using same runs.runs_snoc [OF runs_snoc.hyps] by (metis append.right_neutral)
  next
    case free
    then show ?thesis by (metis append_assoc)
  qed
qed simp

end

text \<open>
  A fenced table: an entry is released only by its holder or after its lease has run out.  Then a
  live lease survives everything that the other workers do.
\<close>

locale fenced_leasing = leasing +
  assumes released: "step e s s' \<Longrightarrow> holder s k = Some (w, since) \<Longrightarrow> holder s' k \<noteq> Some (w, since) \<Longrightarrow>
    by_worker e = w \<or> since + lease \<le> at_time e"
begin

lemma lease_survives:
  assumes "runs step s es s'" "holder s k = Some (w, since)"
    and "\<forall>e \<in> set es. at_time e < since + lease \<and> by_worker e \<noteq> w"
  shows "holder s' k = Some (w, since)"
  using assms
proof (induction rule: runs.induct)
  case (runs_snoc es s' e s'')
  then have h: "holder s' k = Some (w, since)" by simp
  show ?case using released [OF runs_snoc.hyps(2) h] runs_snoc.prems(2) by fastforce
qed simp

end

end
