(* ===== verification/Queue.thy ===== *)
theory Queue
  imports Database "HOL-Library.Product_Lexorder"
begin

text \<open>
  \<^verbatim>\<open>internal/queue\<close>: the transactional outbox.  A service enqueues an event in the transaction that causes
  it; dispatchers claim pending events under a lease, add them to a Redis stream and mark them.  The
  table is the list of its rows; the stream is the list of the events added to it.
\<close>

section \<open>The table\<close>

datatype outbox_status = Pending | Dispatching | Dispatched | Failed

record outbox_row =
  ob_id :: uuid
  ob_key :: string
  ob_event_type :: string
  ob_stream :: string
  ob_payload :: string
  ob_status :: outbox_status
  ob_attempts :: int
  ob_available_at :: gotime
  ob_locked_at :: "gotime option"
  ob_locked_by :: "string option"
  ob_dispatched_at :: "gotime option"
  ob_last_error_code :: "string option"
  ob_last_error_message :: "string option"
  ob_created_at :: gotime

record event =
  ev_ID :: uuid
  ev_IdempotencyKey :: string
  ev_Type :: string
  ev_Stream :: string
  ev_Payload :: string
  ev_CreatedAt :: gotime

record dispatcher =
  dp_workerID :: string
  dp_batchSize :: nat
  dp_lease :: duration
  dp_maxAttempts :: int

abbreviation microsecond :: duration where "microsecond \<equiv> 1000"

text \<open>An interval given in milliseconds, as the statements compute it from a duration.\<close>

definition whole_milliseconds :: "duration \<Rightarrow> duration" where
  "whole_milliseconds d = (if d < 0 then - ((- d) div millisecond) else d div millisecond) * millisecond"

text \<open>\<^verbatim>\<open>length(trim(v)) > 0\<close>: PostgreSQL trims spaces only.\<close>

definition not_blank :: "string \<Rightarrow> bool" where
  "not_blank s = list_ex (\<lambda>c. c \<noteq> CHR '' '') s"

section \<open>Operations\<close>

text \<open>The payload arrives as encoded JSON; a failing encoding never reaches the table.\<close>

definition EnqueueTx ::
  "uuid \<Rightarrow> gotime \<Rightarrow> string \<Rightarrow> string \<Rightarrow> string \<Rightarrow> string \<Rightarrow> outbox_row list \<Rightarrow> string + outbox_row list" where
  "EnqueueTx newID now idempotencyKey eventType stream payload rows =
    (if newID \<in> set (map ob_id rows) \<or> idempotencyKey \<in> set (map ob_key rows) \<or>
        \<not> not_blank idempotencyKey \<or> \<not> not_blank eventType \<or> \<not> not_blank stream \<or>
        \<not> text_ok idempotencyKey \<or> \<not> text_ok eventType \<or> \<not> text_ok stream
     then Inl ''enqueue outbox event''
     else Inr (rows @ [\<lparr>ob_id = newID, ob_key = idempotencyKey, ob_event_type = eventType, ob_stream = stream,
       ob_payload = payload, ob_status = Pending, ob_attempts = 0, ob_available_at = now, ob_locked_at = None,
       ob_locked_by = None, ob_dispatched_at = None, ob_last_error_code = None, ob_last_error_message = None,
       ob_created_at = now\<rparr>]))"

definition stale :: "duration \<Rightarrow> gotime \<Rightarrow> outbox_row \<Rightarrow> bool" where
  "stale lease now r =
    (ob_status r = Dispatching \<and> (case ob_locked_at r of None \<Rightarrow> False | Some t \<Rightarrow> t < now - whole_milliseconds lease))"

definition requeue :: "duration \<Rightarrow> gotime \<Rightarrow> outbox_row \<Rightarrow> outbox_row" where
  "requeue lease now r =
    (if stale lease now r then r\<lparr>ob_status := Pending, ob_locked_at := None, ob_locked_by := None,
       ob_last_error_code := Some ''DISPATCH_LEASE_EXPIRED'',
       ob_last_error_message := Some ''Dispatch lease expired before completion.''\<rparr>
     else r)"

text \<open>
  The rows that the claim takes: \<open>skipped\<close> are the ids of the rows another transaction has locked at
  that moment (\<^verbatim>\<open>SKIP LOCKED\<close>).
\<close>

definition candidates :: "dispatcher \<Rightarrow> gotime \<Rightarrow> uuid set \<Rightarrow> outbox_row list \<Rightarrow> outbox_row list" where
  "candidates d now skipped rows =
    take (dp_batchSize d) (sort_key (\<lambda>r. (ob_available_at r, ob_created_at r))
      (filter (\<lambda>r. ob_status r = Pending \<and> ob_available_at r \<le> now \<and> ob_attempts r < dp_maxAttempts d \<and>
         ob_id r \<notin> skipped) rows))"

definition event_of :: "outbox_row \<Rightarrow> event" where
  "event_of r = \<lparr>ev_ID = ob_id r, ev_IdempotencyKey = ob_key r, ev_Type = ob_event_type r, ev_Stream = ob_stream r,
     ev_Payload = ob_payload r, ev_CreatedAt = ob_created_at r\<rparr>"

definition claim :: "dispatcher \<Rightarrow> gotime \<Rightarrow> uuid set \<Rightarrow> outbox_row list \<Rightarrow> event list \<times> outbox_row list" where
  "claim d now skipped rows =
    (let rows = map (requeue (dp_lease d) now) rows;
         chosen = map ob_id (candidates d now skipped rows);
         lock = (\<lambda>r. if ob_id r \<in> set chosen
                  then r\<lparr>ob_status := Dispatching, ob_locked_at := Some now, ob_locked_by := Some (dp_workerID d)\<rparr> else r)
     in (map event_of (filter (\<lambda>r. ob_id r \<in> set chosen) rows), map lock rows))"

definition locked_row :: "dispatcher \<Rightarrow> uuid \<Rightarrow> outbox_row \<Rightarrow> bool" where
  "locked_row d i r = (ob_id r = i \<and> ob_status r = Dispatching \<and> ob_locked_by r = Some (dp_workerID d))"

definition markDispatched :: "dispatcher \<Rightarrow> gotime \<Rightarrow> uuid \<Rightarrow> outbox_row list \<Rightarrow> string + outbox_row list" where
  "markDispatched d now i rows =
    (if length (filter (locked_row d i) rows) \<noteq> 1 then Inl ''mark outbox event dispatched: lease lost''
     else Inr (map (\<lambda>r. if locked_row d i r
       then r\<lparr>ob_status := Dispatched, ob_dispatched_at := Some now, ob_locked_at := None, ob_locked_by := None,
              ob_last_error_code := None, ob_last_error_message := None\<rparr>
       else r) rows))"

text \<open>
  The seconds of the backoff: \<^verbatim>\<open>LEAST(300, power(2, attempts + 1))\<close>; \<open>jitter\<close> is the draw of
  \<^verbatim>\<open>rand.IntN(1001)\<close>.
\<close>

definition backoff :: "int \<Rightarrow> int \<Rightarrow> duration" where
  "backoff attempts jitter = min 300 (2 ^ nat (attempts + 1)) * second + jitter * millisecond"

definition failure_message :: "string \<Rightarrow> string" where
  "failure_message dispatchErr = take 500 (trim_space dispatchErr)"

definition markFailure ::
  "dispatcher \<Rightarrow> gotime \<Rightarrow> int \<Rightarrow> uuid \<Rightarrow> string \<Rightarrow> outbox_row list \<Rightarrow> string + outbox_row list" where
  "markFailure d now jitter i dispatchErr rows =
    (let message = failure_message dispatchErr in
     if filter (locked_row d i) rows = [] \<or> \<not> text_ok message \<or>
        list_ex (\<lambda>r. locked_row d i r \<and> ob_attempts r + 1 > 100) rows
     then Inl ''mark outbox event failed''
     else Inr (map (\<lambda>r. if locked_row d i r
       then r\<lparr>ob_attempts := ob_attempts r + 1,
              ob_status := (if ob_attempts r + 1 \<ge> dp_maxAttempts d then Failed else Pending),
              ob_available_at := now + backoff (ob_attempts r) jitter, ob_locked_at := None, ob_locked_by := None,
              ob_last_error_code := Some ''REDIS_DISPATCH_FAILED'', ob_last_error_message := Some message\<rparr>
       else r) rows))"

text \<open>
  The environment of one pass: the outcome of each \<^verbatim>\<open>XADD\<close> (an error may be reported although the entry was
  added), the database clock and the random draws, by event.
\<close>

record dispatch_env =
  de_now :: gotime
  de_skipped :: "uuid set"
  de_added :: "uuid \<Rightarrow> bool"
  de_error :: "uuid \<Rightarrow> string option"
  de_marked_at :: "uuid \<Rightarrow> gotime"
  de_jitter :: "uuid \<Rightarrow> int"

text \<open>The loop of \<^verbatim>\<open>RunOnce\<close>: the number of dispatched events or the error, the table and what was added to the stream.\<close>

fun dispatch_loop ::
  "dispatcher \<Rightarrow> dispatch_env \<Rightarrow> event list \<Rightarrow> nat \<Rightarrow> outbox_row list \<Rightarrow> (string + nat) \<times> outbox_row list \<times> event list" where
  "dispatch_loop d env [] dispatched rows = (Inr dispatched, rows, [])"
| "dispatch_loop d env (event # events) dispatched rows =
    (let added = (if de_added env (ev_ID event) then [event] else []) in
     case de_error env (ev_ID event) of
       Some err \<Rightarrow>
         (case markFailure d (de_marked_at env (ev_ID event)) (de_jitter env (ev_ID event)) (ev_ID event) err rows of
            Inl e \<Rightarrow> (Inl e, rows, added)
          | Inr rows' \<Rightarrow> (let (r, final, more_added) = dispatch_loop d env events dispatched rows' in (r, final, added @ more_added)))
     | None \<Rightarrow>
         (case markDispatched d (de_marked_at env (ev_ID event)) (ev_ID event) rows of
            Inl e \<Rightarrow> (Inl e, rows, added)
          | Inr rows' \<Rightarrow>
              (let (r, final, more_added) = dispatch_loop d env events (Suc dispatched) rows' in (r, final, added @ more_added))))"

definition RunOnce :: "dispatcher \<Rightarrow> dispatch_env \<Rightarrow> outbox_row list \<Rightarrow> (string + nat) \<times> outbox_row list \<times> event list" where
  "RunOnce d env rows =
    (let (events, claimed) = claim d (de_now env) (de_skipped env) rows in dispatch_loop d env events 0 claimed)"

section \<open>Many dispatchers\<close>

text \<open>The steps of the table.  Each is one transaction; the dispatchers of all processes interleave freely.\<close>

datatype outbox_step =
    Enqueue uuid gotime string string string string
  | Claim dispatcher gotime "uuid set"
  | Mark_dispatched dispatcher gotime uuid
  | Mark_failure dispatcher gotime int uuid string

fun outbox_exec :: "outbox_step \<Rightarrow> outbox_row list \<Rightarrow> outbox_row list" where
  "outbox_exec (Enqueue i now key ty stream payload) rows =
    (case EnqueueTx i now key ty stream payload rows of Inl _ \<Rightarrow> rows | Inr rows' \<Rightarrow> rows')"
| "outbox_exec (Claim d now skipped) rows = snd (claim d now skipped rows)"
| "outbox_exec (Mark_dispatched d now i) rows = (case markDispatched d now i rows of Inl _ \<Rightarrow> rows | Inr rows' \<Rightarrow> rows')"
| "outbox_exec (Mark_failure d now jitter i err) rows =
    (case markFailure d now jitter i err rows of Inl _ \<Rightarrow> rows | Inr rows' \<Rightarrow> rows')"


text \<open>The dispatchers of one deployment share the lease and the attempt limit of its configuration.\<close>

fun step_dispatcher :: "outbox_step \<Rightarrow> dispatcher option" where
  "step_dispatcher (Enqueue _ _ _ _ _ _) = None"
| "step_dispatcher (Claim d _ _) = Some d"
| "step_dispatcher (Mark_dispatched d _ _) = Some d"
| "step_dispatcher (Mark_failure d _ _ _ _) = Some d"

fun step_time :: "outbox_step \<Rightarrow> gotime" where
  "step_time (Enqueue _ t _ _ _ _) = t"
| "step_time (Claim _ t _) = t"
| "step_time (Mark_dispatched _ t _) = t"
| "step_time (Mark_failure _ t _ _ _) = t"

definition step_worker :: "outbox_step \<Rightarrow> string" where
  "step_worker e = (case step_dispatcher e of None \<Rightarrow> '''' | Some d \<Rightarrow> dp_workerID d)"

definition configured :: "duration \<Rightarrow> int \<Rightarrow> outbox_step \<Rightarrow> bool" where
  "configured lease maxAttempts e =
    (case step_dispatcher e of None \<Rightarrow> True | Some d \<Rightarrow> dp_lease d = lease \<and> dp_maxAttempts d = maxAttempts)"

text \<open>The table is well formed: unique ids and keys, locks exactly on events being dispatched.\<close>

definition row_ok :: "int \<Rightarrow> outbox_row \<Rightarrow> bool" where
  "row_ok maxAttempts r =
    (0 \<le> ob_attempts r \<and> ob_attempts r \<le> maxAttempts \<and>
     (ob_status r = Failed \<longleftrightarrow> ob_attempts r = maxAttempts) \<and>
     (ob_status r = Dispatched \<longleftrightarrow> ob_dispatched_at r \<noteq> None) \<and>
     (ob_status r = Dispatching \<longleftrightarrow> ob_locked_at r \<noteq> None) \<and>
     (ob_status r = Dispatching \<longleftrightarrow> ob_locked_by r \<noteq> None))"

definition outbox_ok :: "int \<Rightarrow> outbox_row list \<Rightarrow> bool" where
  "outbox_ok maxAttempts rows =
    (distinct (map ob_id rows) \<and> distinct (map ob_key rows) \<and> list_all (row_ok maxAttempts) rows)"

definition outbox_trans :: "duration \<Rightarrow> int \<Rightarrow> outbox_step \<Rightarrow> outbox_row list \<Rightarrow> outbox_row list \<Rightarrow> bool" where
  "outbox_trans lease maxAttempts e rows rows' =
    (configured lease maxAttempts e \<and> outbox_ok maxAttempts rows \<and> rows' = outbox_exec e rows)"

text \<open>The row of an event and who holds it.\<close>

definition row_of :: "outbox_row list \<Rightarrow> uuid \<Rightarrow> outbox_row option" where
  "row_of rows i = find (\<lambda>r. ob_id r = i) rows"

definition row_holder :: "outbox_row \<Rightarrow> (string \<times> gotime) option" where
  "row_holder r =
    (if ob_status r = Dispatching then
       (case (ob_locked_by r, ob_locked_at r) of (Some w, Some t) \<Rightarrow> Some (w, t) | _ \<Rightarrow> None)
     else None)"

definition event_holder :: "outbox_row list \<Rightarrow> uuid \<Rightarrow> (string \<times> gotime) option" where
  "event_holder rows i = Option.bind (row_of rows i) row_holder"

section \<open>Lemmas\<close>

text \<open>Every operation but the insertion changes rows in place and keeps what identifies them.\<close>

definition keeps_identity :: "(outbox_row \<Rightarrow> outbox_row) \<Rightarrow> bool" where
  "keeps_identity f = (\<forall>r. ob_id (f r) = ob_id r \<and> ob_key (f r) = ob_key r)"

lemma row_of_map: "keeps_identity f \<Longrightarrow> row_of (map f rows) i = map_option f (row_of rows i)"
  by (induction rows) (auto simp: row_of_def keeps_identity_def)

lemma row_of_Some: "row_of rows i = Some r \<Longrightarrow> r \<in> set rows \<and> ob_id r = i"
  by (induction rows) (auto simp: row_of_def split: if_splits)

lemma row_of_mem: "distinct (map ob_id rows) \<Longrightarrow> r \<in> set rows \<Longrightarrow> row_of rows (ob_id r) = Some r"
  by (induction rows) (auto simp: row_of_def)

lemma row_of_append:
  "row_of (rows @ [r]) i = (case row_of rows i of None \<Rightarrow> if ob_id r = i then Some r else None | Some x \<Rightarrow> Some x)"
  by (induction rows) (auto simp: row_of_def)

lemma map_identity:
  assumes "keeps_identity f"
  shows "map ob_id (map f rows) = map ob_id rows" "map ob_key (map f rows) = map ob_key rows"
  using assms by (auto simp: keeps_identity_def)

definition lock_rows :: "dispatcher \<Rightarrow> gotime \<Rightarrow> uuid set \<Rightarrow> outbox_row list \<Rightarrow> outbox_row \<Rightarrow> outbox_row" where
  "lock_rows d now skipped rows r =
    (let r' = requeue (dp_lease d) now r in
     if ob_id r \<in> ob_id ` set (candidates d now skipped (map (requeue (dp_lease d) now) rows))
     then r'\<lparr>ob_status := Dispatching, ob_locked_at := Some now, ob_locked_by := Some (dp_workerID d)\<rparr> else r')"

lemma requeue_id [simp]: "ob_id (requeue lease now r) = ob_id r" "ob_key (requeue lease now r) = ob_key r"
  "ob_attempts (requeue lease now r) = ob_attempts r"
  by (simp_all add: requeue_def)

lemma claim_rows: "snd (claim d now skipped rows) = map (lock_rows d now skipped rows) rows"
  by (simp add: claim_def lock_rows_def Let_def)

lemma lock_rows_identity: "keeps_identity (lock_rows d now skipped rows)"
  by (simp add: keeps_identity_def lock_rows_def Let_def)

lemma set_candidates:
  "r \<in> set (candidates d now skipped rows) \<Longrightarrow>
     r \<in> set rows \<and> ob_status r = Pending \<and> ob_available_at r \<le> now \<and> ob_attempts r < dp_maxAttempts d"
  unfolding candidates_def by (auto dest: in_set_takeD)

text \<open>What a claim does with one row of a table with unique ids.\<close>

lemma claim_row:
  assumes "distinct (map ob_id rows)" "r \<in> set rows"
  shows "lock_rows d now skipped rows r = requeue (dp_lease d) now r \<or>
    ob_status (requeue (dp_lease d) now r) = Pending \<and> ob_attempts r < dp_maxAttempts d \<and>
    lock_rows d now skipped rows r = (requeue (dp_lease d) now r)
      \<lparr>ob_status := Dispatching, ob_locked_at := Some now, ob_locked_by := Some (dp_workerID d)\<rparr>"
proof (cases "ob_id r \<in> ob_id ` set (candidates d now skipped (map (requeue (dp_lease d) now) rows))")
  case True
  then obtain c where c: "c \<in> set (candidates d now skipped (map (requeue (dp_lease d) now) rows))" "ob_id c = ob_id r"
    by auto
  then obtain r0 where "r0 \<in> set rows" "c = requeue (dp_lease d) now r0" using set_candidates by fastforce
  with c(2) assms have "c = requeue (dp_lease d) now r" by (metis row_of_mem option.inject requeue_id(1))
  with set_candidates [OF c(1)] True show ?thesis by (simp add: lock_rows_def Let_def)
qed (simp add: lock_rows_def Let_def)

definition dispatched_row :: "dispatcher \<Rightarrow> gotime \<Rightarrow> uuid \<Rightarrow> outbox_row \<Rightarrow> outbox_row" where
  "dispatched_row d now i r = (if locked_row d i r
     then r\<lparr>ob_status := Dispatched, ob_dispatched_at := Some now, ob_locked_at := None, ob_locked_by := None,
            ob_last_error_code := None, ob_last_error_message := None\<rparr> else r)"

definition failed_row :: "dispatcher \<Rightarrow> gotime \<Rightarrow> int \<Rightarrow> uuid \<Rightarrow> string \<Rightarrow> outbox_row \<Rightarrow> outbox_row" where
  "failed_row d now jitter i err r = (if locked_row d i r
     then r\<lparr>ob_attempts := ob_attempts r + 1, ob_status := (if ob_attempts r + 1 \<ge> dp_maxAttempts d then Failed else Pending),
            ob_available_at := now + backoff (ob_attempts r) jitter, ob_locked_at := None, ob_locked_by := None,
            ob_last_error_code := Some ''REDIS_DISPATCH_FAILED'', ob_last_error_message := Some (failure_message err)\<rparr> else r)"

lemma mark_rows:
  "markDispatched d now i rows = Inr rows' \<Longrightarrow> rows' = map (dispatched_row d now i) rows"
  "markFailure d now jitter i err rows = Inr rows' \<Longrightarrow> rows' = map (failed_row d now jitter i err) rows"
  by (auto simp: markDispatched_def dispatched_row_def markFailure_def failed_row_def Let_def split: if_splits)

lemma mark_identity: "keeps_identity (dispatched_row d now i)" "keeps_identity (failed_row d now jitter i err)"
  by (simp_all add: keeps_identity_def dispatched_row_def failed_row_def)


lemma requeue_row_ok: "row_ok m r \<Longrightarrow> row_ok m (requeue lease now r)"
  by (auto simp: requeue_def row_ok_def stale_def)

lemma dispatched_row_ok: "row_ok m r \<Longrightarrow> row_ok m (dispatched_row d now i r)"
  by (auto simp: dispatched_row_def row_ok_def locked_row_def)

lemma failed_row_ok: "row_ok (dp_maxAttempts d) r \<Longrightarrow> row_ok (dp_maxAttempts d) (failed_row d now jitter i err r)"
  by (auto simp: failed_row_def row_ok_def locked_row_def)

lemma lock_rows_ok:
  assumes "outbox_ok (dp_maxAttempts d) rows" "r \<in> set rows"
  shows "row_ok (dp_maxAttempts d) (lock_rows d now skipped rows r)"
proof -
  have ok: "row_ok (dp_maxAttempts d) (requeue (dp_lease d) now r)"
    using assms requeue_row_ok by (auto simp: outbox_ok_def list_all_iff)
  from claim_row [of rows r d now skipped] assms show ?thesis
    using ok by (auto simp: outbox_ok_def row_ok_def)
qed

lemma map_outbox_ok:
  assumes "outbox_ok m rows" "keeps_identity f" "\<And>r. r \<in> set rows \<Longrightarrow> row_ok m (f r)"
  shows "outbox_ok m (map f rows)"
proof -
  have "distinct (map ob_id (map f rows))" "distinct (map ob_key (map f rows))"
    using assms(1) unfolding map_identity [OF assms(2)] outbox_ok_def by simp_all
  moreover have "list_all (row_ok m) (map f rows)" using assms(3) by (simp add: list_all_iff)
  ultimately show ?thesis unfolding outbox_ok_def by simp
qed

lemma enqueue_outbox_ok:
  assumes "0 < m" "outbox_ok m rows" "EnqueueTx i now key ty stream payload rows = Inr rows'"
  shows "outbox_ok m rows'"
  using assms by (auto simp: EnqueueTx_def outbox_ok_def row_ok_def split: if_splits)

lemma mark_outbox_ok:
  "outbox_ok m rows \<Longrightarrow> markDispatched d now i rows = Inr rows' \<Longrightarrow> outbox_ok m rows'"
  "outbox_ok (dp_maxAttempts d) rows \<Longrightarrow> markFailure d now jitter i err rows = Inr rows' \<Longrightarrow>
     outbox_ok (dp_maxAttempts d) rows'"
  using map_outbox_ok [OF _ mark_identity(1), of m rows] map_outbox_ok [OF _ mark_identity(2), of "dp_maxAttempts d" rows]
  by (metis dispatched_row_ok failed_row_ok list_all_iff mark_rows outbox_ok_def)+

lemma outbox_trans_ok:
  assumes "0 < m" "outbox_trans lease m e rows rows'"
  shows "outbox_ok m rows'"
proof (cases e)
  case (Enqueue i now key ty stream payload)
  then show ?thesis using assms enqueue_outbox_ok [OF assms(1)] by (auto simp: outbox_trans_def split: sum.splits)
next
  case (Claim d now skipped)
  then have "dp_maxAttempts d = m" using assms(2) by (simp add: outbox_trans_def configured_def)
  then show ?thesis
    using Claim assms map_outbox_ok [OF _ lock_rows_identity] lock_rows_ok by (auto simp: outbox_trans_def claim_rows)
next
  case (Mark_dispatched d now i)
  then show ?thesis using assms mark_outbox_ok(1) by (auto simp: outbox_trans_def split: sum.splits)
next
  case (Mark_failure d now jitter i err)
  then have "dp_maxAttempts d = m" using assms(2) by (simp add: outbox_trans_def configured_def)
  then show ?thesis using Mark_failure assms mark_outbox_ok(2) by (auto simp: outbox_trans_def split: sum.splits)
qed

text \<open>How a step changes the row of one event: by one of four functions, or it inserts the row.\<close>

lemma outbox_step_row:
  assumes "outbox_trans lease m e rows rows'" "row_of rows i = Some r"
  obtains (same) "row_of rows' i = Some r"
  | (requeued) d now skipped where "e = Claim d now skipped" "stale lease now r" "row_of rows' i = Some (requeue lease now r)"
  | (claimed) d now skipped where "e = Claim d now skipped" "ob_status (requeue lease now r) = Pending"
      "row_of rows' i = Some ((requeue lease now r)
         \<lparr>ob_status := Dispatching, ob_locked_at := Some now, ob_locked_by := Some (dp_workerID d)\<rparr>)"
  | (dispatched) d now where "e = Mark_dispatched d now i" "locked_row d i r" "row_of rows' i = Some (dispatched_row d now i r)"
  | (failed) d now jitter err where "e = Mark_failure d now jitter i err" "locked_row d i r"
      "row_of rows' i = Some (failed_row d now jitter i err r)"
proof -
  have ok: "distinct (map ob_id rows)" "configured lease m e" "rows' = outbox_exec e rows"
    using assms(1) by (simp_all add: outbox_trans_def outbox_ok_def)
  have r: "r \<in> set rows" "ob_id r = i" using row_of_Some [OF assms(2)] by auto
  show ?thesis
  proof (cases e)
    case (Enqueue j now key ty stream payload)
    then show ?thesis using ok(3) assms(2) same
      by (auto simp: EnqueueTx_def row_of_append split: if_splits)
  next
    case (Claim d now skipped)
    have lease: "dp_lease d = lease" using ok(2) Claim by (simp add: configured_def)
    have at: "row_of rows' i = Some (lock_rows d now skipped rows r)"
      using ok(3) Claim assms(2) by (simp add: claim_rows row_of_map [OF lock_rows_identity])
    from claim_row [OF ok(1) r(1), of d now skipped] at lease show ?thesis
      using same requeued [OF Claim] claimed [OF Claim] by (cases "stale lease now r") (auto simp: requeue_def)
  next
    case (Mark_dispatched d now j)
    show ?thesis
    proof (cases "markDispatched d now j rows")
      case (Inr b)
      have at: "row_of rows' i = Some (dispatched_row d now j r)"
        using ok(3) Mark_dispatched Inr mark_rows(1) [OF Inr] assms(2) by (simp add: row_of_map [OF mark_identity(1)])
      then show ?thesis using same dispatched Mark_dispatched r(2)
        by (cases "locked_row d j r") (auto simp: dispatched_row_def locked_row_def)
    qed (use Mark_dispatched ok(3) assms(2) same in auto)
  next
    case (Mark_failure d now jitter j err)
    show ?thesis
    proof (cases "markFailure d now jitter j err rows")
      case (Inr b)
      have at: "row_of rows' i = Some (failed_row d now jitter j err r)"
        using ok(3) Mark_failure Inr mark_rows(2) [OF Inr] assms(2) by (simp add: row_of_map [OF mark_identity(2)])
      then show ?thesis using same failed Mark_failure r(2)
        by (cases "locked_row d j r") (auto simp: failed_row_def locked_row_def)
    qed (use Mark_failure ok(3) assms(2) same in auto)
  qed
qed

lemma outbox_step_new:
  assumes "outbox_trans lease m e rows rows'" "row_of rows i = None"
  shows "event_holder rows' i = None"
  using assms
proof (cases e)
  case (Enqueue j now key ty stream payload)
  then show ?thesis using assms
    by (auto simp: outbox_trans_def EnqueueTx_def event_holder_def row_of_append row_holder_def split: if_splits)
qed (auto simp: outbox_trans_def event_holder_def claim_rows row_of_map lock_rows_identity mark_identity
    split: sum.splits dest!: mark_rows)


interpretation outbox_lease: fenced_leasing
  "outbox_trans lease m" step_time step_worker event_holder "whole_milliseconds lease"
  for lease m
proof (unfold_locales, goal_cases)
  case (1 e rows rows' i)
  show ?case
  proof (cases "row_of rows i")
    case None
    then show ?thesis using outbox_step_new [OF 1(1)] 1(3) by simp
  next
    case (Some r)
    from 1(1) Some show ?thesis
    proof (cases rule: outbox_step_row)
      case same
      then show ?thesis using Some 1(2) by (simp add: event_holder_def)
    next
      case (requeued d now skipped)
      then show ?thesis using 1(3) by (simp add: event_holder_def row_holder_def requeue_def)
    next
      case (claimed d now skipped)
      have "ob_status r = Pending \<or> stale lease now r" using claimed(2) by (metis requeue_def)
      then have "\<not> live (whole_milliseconds lease) now (event_holder rows i)"
        using Some by (auto simp: live_def event_holder_def row_holder_def stale_def split: option.splits)
      then show ?thesis using claimed by (simp add: event_holder_def row_holder_def step_worker_def)
    next
      case (dispatched d now)
      then show ?thesis using 1(3) by (simp add: event_holder_def row_holder_def dispatched_row_def)
    next
      case (failed d now jitter err)
      then show ?thesis using 1(3) by (simp add: event_holder_def row_holder_def failed_row_def split: if_splits)
    qed
  qed
next
  case (2 e rows rows' i w since)
  obtain r where r: "row_of rows i = Some r" using 2(2) by (auto simp: event_holder_def bind_eq_Some_conv)
  have held: "ob_status r = Dispatching" "ob_locked_by r = Some w" "ob_locked_at r = Some since"
    using 2(2) r by (auto simp: event_holder_def row_holder_def split: if_splits option.splits)
  from 2(1) r show ?case
  proof (cases rule: outbox_step_row)
    case same
    then show ?thesis using 2(2,3) r by (simp add: event_holder_def)
  next
    case (requeued d now skipped)
    then show ?thesis using held by (simp add: stale_def)
  next
    case (claimed d now skipped)
    then have "stale lease now r" using held(1) by (metis outbox_status.distinct(1) requeue_def)
    then show ?thesis using held claimed(1) by (simp add: stale_def)
  next
    case (dispatched d now)
    then show ?thesis using held by (simp add: locked_row_def step_worker_def)
  next
    case (failed d now jitter err)
    then show ?thesis using held by (simp add: locked_row_def step_worker_def)
  qed
qed

text \<open>Terminal rows stay as they are.\<close>

lemma outbox_terminal:
  assumes "outbox_trans lease m e rows rows'" "row_of rows i = Some r" "ob_status r = Dispatched \<or> ob_status r = Failed"
  shows "row_of rows' i = Some r"
  using assms(1,2)
proof (cases rule: outbox_step_row)
  case (claimed d now skipped)
  then have "ob_status r = Pending \<or> ob_status r = Dispatching" by (metis requeue_def stale_def)
  then show ?thesis using assms(3) by auto
qed (use assms(3) in \<open>simp_all add: stale_def locked_row_def\<close>)

lemma outbox_terminal_runs:
  assumes "runs (outbox_trans lease m) rows es rows'" "row_of rows i = Some r" "ob_status r = Dispatched \<or> ob_status r = Failed"
  shows "row_of rows' i = Some r"
  using assms by (induction rule: runs.induct) (auto intro: outbox_terminal)


text \<open>Sequences of steps from a well-formed table.\<close>

definition outbox_run :: "outbox_step list \<Rightarrow> outbox_row list \<Rightarrow> outbox_row list" where
  "outbox_run es rows = fold outbox_exec es rows"

lemma outbox_run_runs:
  assumes "0 < m" "outbox_ok m rows" "list_all (configured lease m) es"
  shows "runs (outbox_trans lease m) rows es (outbox_run es rows) \<and> outbox_ok m (outbox_run es rows)"
  using assms(3)
proof (induction es rule: rev_induct)
  case Nil
  then show ?case using assms(2) by (simp add: outbox_run_def)
next
  case (snoc e es)
  then have "runs (outbox_trans lease m) rows es (outbox_run es rows)" "outbox_ok m (outbox_run es rows)" by auto
  moreover have "outbox_trans lease m e (outbox_run es rows) (outbox_run (es @ [e]) rows)"
    using snoc calculation(2) by (simp add: outbox_trans_def outbox_run_def)
  ultimately show ?case using outbox_trans_ok [OF assms(1)] runs_snoc by metis
qed

text \<open>One pass of a dispatcher without interference.\<close>

definition outcome_row :: "dispatcher \<Rightarrow> dispatch_env \<Rightarrow> uuid set \<Rightarrow> outbox_row \<Rightarrow> outbox_row" where
  "outcome_row d env ids r =
    (if ob_id r \<in> ids then
       (case de_error env (ob_id r) of
          None \<Rightarrow> dispatched_row d (de_marked_at env (ob_id r)) (ob_id r) r
        | Some err \<Rightarrow> failed_row d (de_marked_at env (ob_id r)) (de_jitter env (ob_id r)) (ob_id r) err r)
     else r)"

definition reportable :: "dispatch_env \<Rightarrow> bool" where
  "reportable env = (\<forall>i err. de_error env i = Some err \<longrightarrow> text_ok (failure_message err))"

lemma distinct_singleton: "distinct xs \<Longrightarrow> set xs = {x} \<Longrightarrow> xs = [x]"
  by (cases xs; cases "tl xs") auto

lemma mark_succeeds:
  assumes "distinct (map ob_id rows)" "r \<in> set rows" "locked_row d (ob_id r) r"
  shows "markDispatched d now (ob_id r) rows = Inr (map (dispatched_row d now (ob_id r)) rows)"
    and "text_ok (failure_message err) \<Longrightarrow> ob_attempts r < 100 \<Longrightarrow>
      markFailure d now jitter (ob_id r) err rows = Inr (map (failed_row d now jitter (ob_id r) err) rows)"
proof -
  have only: "s = r" if "s \<in> set rows" "locked_row d (ob_id r) s" for s
    using assms(1,2) that by (metis locked_row_def option.inject row_of_mem)
  have all: "set (filter (locked_row d (ob_id r)) rows) = {r}" using only assms(2,3) by auto
  have "distinct (filter (locked_row d (ob_id r)) rows)" using assms(1) by (simp add: distinct_map)
  from distinct_singleton [OF this all] have one: "filter (locked_row d (ob_id r)) rows = [r]" .
  then show "markDispatched d now (ob_id r) rows = Inr (map (dispatched_row d now (ob_id r)) rows)"
    by (simp add: markDispatched_def dispatched_row_def)
  show "markFailure d now jitter (ob_id r) err rows = Inr (map (failed_row d now jitter (ob_id r) err) rows)"
    if "text_ok (failure_message err)" "ob_attempts r < 100"
    using one only that by (fastforce simp: markFailure_def failed_row_def Let_def list_ex_iff)
qed


lemma outcome_row_Cons:
  "outcome_row d env (insert i ids) r = outcome_row d env ids
     (case de_error env i of None \<Rightarrow> dispatched_row d (de_marked_at env i) i r
      | Some err \<Rightarrow> failed_row d (de_marked_at env i) (de_jitter env i) i err r)" if "i \<notin> ids"
  using that by (cases "ob_id r = i") (auto simp: outcome_row_def dispatched_row_def failed_row_def locked_row_def split: option.splits)

lemma dispatch_loop_result:
  assumes "reportable env" "distinct (map ev_ID events)" "distinct (map ob_id rows)"
    and "\<forall>e \<in> set events. \<exists>r \<in> set rows. ob_id r = ev_ID e \<and> locked_row d (ev_ID e) r \<and> ob_attempts r < 100"
  shows "dispatch_loop d env events n rows =
    (Inr (n + length (filter (\<lambda>e. de_error env (ev_ID e) = None) events)),
     map (outcome_row d env (ev_ID ` set events)) rows, filter (\<lambda>e. de_added env (ev_ID e)) events)"
  using assms(2-4)
proof (induction events arbitrary: n rows)
  case Nil
  then show ?case by (simp add: outcome_row_def)
next
  case (Cons e events)
  let ?i = "ev_ID e"
  let ?t = "de_marked_at env ?i" and ?j = "de_jitter env ?i"
  obtain r where r: "r \<in> set rows" "ob_id r = ?i" "locked_row d ?i r" "ob_attempts r < 100" using Cons.prems(3) by auto
  have new: "?i \<notin> ev_ID ` set events" "distinct (map ev_ID events)" using Cons.prems(1) by auto
  define f where "f = (case de_error env ?i of None \<Rightarrow> dispatched_row d ?t ?i | Some err \<Rightarrow> failed_row d ?t ?j ?i err)"
  have f: "keeps_identity f" "\<And>s. ob_id s \<noteq> ?i \<Longrightarrow> f s = s"
    using mark_identity by (auto simp: f_def dispatched_row_def failed_row_def locked_row_def split: option.splits)
  have ids: "distinct (map ob_id (map f rows))" using Cons.prems(2) by (simp only: map_identity(1) [OF f(1)])
  have rest: "\<forall>e' \<in> set events. \<exists>s \<in> set (map f rows). ob_id s = ev_ID e' \<and> locked_row d (ev_ID e') s \<and> ob_attempts s < 100"
  proof
    fix e' assume e': "e' \<in> set events"
    with Cons.prems(3) obtain s where "s \<in> set rows" "ob_id s = ev_ID e'" "locked_row d (ev_ID e') s" "ob_attempts s < 100" by auto
    moreover have "f s = s" by (rule f(2)) (use new(1) e' calculation(2) in \<open>metis image_eqI\<close>)
    ultimately show "\<exists>s \<in> set (map f rows). ob_id s = ev_ID e' \<and> locked_row d (ev_ID e') s \<and> ob_attempts s < 100" by force
  qed
  have final: "outcome_row d env (ev_ID ` set events) (f s) = outcome_row d env (ev_ID ` set (e # events)) s" for s
    using outcome_row_Cons [OF new(1), of d env s] by (simp add: f_def split: option.splits)
  show ?case
  proof (cases "de_error env ?i")
    case None
    have "markDispatched d ?t ?i rows = Inr (map f rows)"
      using mark_succeeds(1) [OF Cons.prems(2) r(1), of d ?t] r(2,3) None by (simp add: f_def)
    then show ?thesis using Cons.IH [OF new(2) ids rest] None final by (simp add: Let_def)
  next
    case (Some err)
    have "text_ok (failure_message err)" using assms(1) Some by (simp add: reportable_def)
    then have "markFailure d ?t ?j ?i err rows = Inr (map f rows)"
      using mark_succeeds(2) [OF Cons.prems(2) r(1), of d err ?t ?j] r(2-4) Some by (simp add: f_def)
    then show ?thesis using Cons.IH [OF new(2) ids rest] Some final by (simp add: Let_def)
  qed
qed

lemma claim_events:
  assumes "outbox_ok (dp_maxAttempts d) rows" "dp_maxAttempts d \<le> 100" "claim d now skipped rows = (events, claimed)"
  shows "distinct (map ev_ID events) \<and> distinct (map ob_id claimed) \<and>
    (\<forall>e \<in> set events. \<exists>r \<in> set claimed. ob_id r = ev_ID e \<and> locked_row d (ev_ID e) r \<and> ob_attempts r < 100)"
proof -
  let ?rows = "map (requeue (dp_lease d) now) rows"
  let ?chosen = "set (map ob_id (candidates d now skipped ?rows))"
  have ids: "distinct (map ob_id ?rows)" using assms(1) by (simp add: outbox_ok_def comp_def)
  have events: "events = map event_of (filter (\<lambda>r. ob_id r \<in> ?chosen) ?rows)"
    and claimed: "claimed = map (lock_rows d now skipped rows) rows"
    using assms(3) claim_rows [of d now skipped rows] by (auto simp: claim_def Let_def)
  have "map ev_ID events = map ob_id (filter (\<lambda>r. ob_id r \<in> ?chosen) ?rows)" by (simp add: events event_of_def)
  then have "distinct (map ev_ID events)" using ids by (simp add: distinct_map_filter)
  moreover have "distinct (map ob_id claimed)"
    using assms(1) unfolding claimed map_identity(1) [OF lock_rows_identity] outbox_ok_def by simp
  moreover have "\<exists>r \<in> set claimed. ob_id r = ev_ID e \<and> locked_row d (ev_ID e) r \<and> ob_attempts r < 100" if "e \<in> set events" for e
  proof -
    from that obtain r where r: "r \<in> set rows" "ob_id r \<in> ?chosen" "ev_ID e = ob_id r" by (auto simp: events event_of_def)
    obtain c where c: "c \<in> set (candidates d now skipped ?rows)" "ob_id c = ob_id r" using r(2) by auto
    obtain r0 where "r0 \<in> set rows" "c = requeue (dp_lease d) now r0" using set_candidates [OF c(1)] by auto
    then have "c = requeue (dp_lease d) now r" using c(2) r(1) assms(1) by (metis option.inject outbox_ok_def requeue_id(1) row_of_mem)
    then have "ob_attempts r < 100" using set_candidates [OF c(1)] assms(2) by simp
    then show ?thesis using r c unfolding claimed
      by (intro bexI [of _ "lock_rows d now skipped rows r"]) (auto simp: lock_rows_def locked_row_def Let_def image_iff)
  qed
  ultimately show ?thesis by blast
qed


lemma backoff_bound [bounds]:
  assumes "0 \<le> jitter \<and> jitter \<le> 1000"
  shows "backoff attempts jitter \<le> 301 * second"
proof -
  have "min 300 (2 ^ nat (attempts + 1)) * second \<le> 300 * second" by (rule mult_right_mono) simp_all
  then show ?thesis using assms unfolding backoff_def by linarith
qed

text \<open>A pass returns, and every claimed event is resolved.\<close>

lemma RunOnce_result:
  assumes "outbox_ok (dp_maxAttempts d) rows" "dp_maxAttempts d \<le> 100" "reportable env"
    and "claim d (de_now env) (de_skipped env) rows = (events, claimed)"
  shows "RunOnce d env rows =
    (Inr (length (filter (\<lambda>e. de_error env (ev_ID e) = None) events)),
     map (outcome_row d env (ev_ID ` set events)) claimed, filter (\<lambda>e. de_added env (ev_ID e)) events)"
  using dispatch_loop_result [OF assms(3), of events claimed d 0] claim_events [OF assms(1,2,4)] assms(4)
  by (simp add: RunOnce_def)

lemma outcome_row_identity: "keeps_identity (outcome_row d env ids)"
  using mark_identity by (auto simp: outcome_row_def keeps_identity_def split: option.splits)

definition sample_dispatcher :: dispatcher where
  "sample_dispatcher = \<lparr>dp_workerID = ''w'', dp_batchSize = 10, dp_lease = 30 * second, dp_maxAttempts = 10\<rparr>"

definition sample_outbox :: "outbox_row list" where
  "sample_outbox = [\<lparr>ob_id = 1, ob_key = ''k'', ob_event_type = ''e'', ob_stream = ''s'', ob_payload = '''', ob_status = Pending,
     ob_attempts = 0, ob_available_at = 0, ob_locked_at = None, ob_locked_by = None, ob_dispatched_at = None,
     ob_last_error_code = None, ob_last_error_message = None, ob_created_at = 0\<rparr>]"

definition sample_dispatch_env :: dispatch_env where
  "sample_dispatch_env = \<lparr>de_now = 5, de_skipped = {}, de_added = (\<lambda>_. True), de_error = (\<lambda>_. None),
     de_marked_at = (\<lambda>_. 6), de_jitter = (\<lambda>_. 0)\<rparr>"

lemma sample_outbox_ok: "outbox_ok 10 sample_outbox"
  by (simp add: outbox_ok_def row_ok_def sample_outbox_def)

lemma sample_claim:
  "claim sample_dispatcher 5 {} sample_outbox =
     (map event_of sample_outbox, map (\<lambda>r. r\<lparr>ob_status := Dispatching, ob_locked_at := Some 5, ob_locked_by := Some ''w''\<rparr>) sample_outbox)"
  by (simp add: claim_def candidates_def sample_outbox_def sample_dispatcher_def requeue_def stale_def Let_def)

section \<open>Properties\<close>

text \<open>C29. However the enqueuing services and any number of dispatchers interleave, the outbox stays well formed:
  ids and keys are unique, no event is tried more often than allowed, an event is failed exactly
  when its attempts are used up, and exactly the events in dispatch carry a lock.  An event that is dispatched or
  failed never changes again.\<close>

theorem outbox_invariant:
  assumes "0 < m" "outbox_ok m rows" "list_all (configured lease m) es"
  shows "outbox_ok m (outbox_run es rows) \<and>
    (\<forall>i r. row_of rows i = Some r \<and> (ob_status r = Dispatched \<or> ob_status r = Failed) \<longrightarrow>
       row_of (outbox_run es rows) i = Some r)"
  using outbox_run_runs [OF assms] outbox_terminal_runs by blast

theorem outbox_invariant_witness:
  "outbox_ok 10 (outbox_run [Claim sample_dispatcher 5 {}, Enqueue 2 6 ''k2'' ''e'' ''s'' '''', Mark_dispatched sample_dispatcher 7 1]
     sample_outbox)"
proof -
  have "list_all (configured (30 * second) 10)
    [Claim sample_dispatcher 5 {}, Enqueue 2 6 ''k2'' ''e'' ''s'' '''', Mark_dispatched sample_dispatcher 7 1]"
    by (simp add: configured_def sample_dispatcher_def)
  from outbox_invariant [OF _ sample_outbox_ok this] show ?thesis by simp
qed

text \<open>C9. A claimed event belongs to its dispatcher for the whole lease: whatever the other dispatchers and
  services do before the lease has run out, the event is still locked by the dispatcher that claimed it.\<close>

theorem outbox_lease_exclusive:
  assumes "0 < m" "outbox_ok m rows" "list_all (configured lease m) es" "event_holder rows i = Some (w, since)"
    and "\<forall>e \<in> set es. step_time e < since + whole_milliseconds lease \<and> step_worker e \<noteq> w"
  shows "event_holder (outbox_run es rows) i = Some (w, since)"
  using outbox_lease.lease_survives [OF conjunct1 [OF outbox_run_runs [OF assms(1-3)]] assms(4,5)] .

theorem outbox_lease_exclusive_witness:
  "event_holder (outbox_run [Claim (sample_dispatcher\<lparr>dp_workerID := ''v''\<rparr>) 9 {}, Mark_dispatched (sample_dispatcher\<lparr>dp_workerID := ''v''\<rparr>) 9 1]
     (snd (claim sample_dispatcher 5 {} sample_outbox))) 1 = Some (''w'', 5)"
proof -
  let ?v = "sample_dispatcher\<lparr>dp_workerID := ''v''\<rparr>"
  have ok: "outbox_ok 10 (snd (claim sample_dispatcher 5 {} sample_outbox))"
    unfolding sample_claim snd_conv by (simp add: sample_outbox_def outbox_ok_def row_ok_def)
  have conf: "list_all (configured (30 * second) 10) [Claim ?v 9 {}, Mark_dispatched ?v 9 1]"
    by (simp add: configured_def sample_dispatcher_def)
  have held: "event_holder (snd (claim sample_dispatcher 5 {} sample_outbox)) 1 = Some (''w'', 5)"
    unfolding sample_claim snd_conv by (simp add: sample_outbox_def event_holder_def row_of_def row_holder_def)
  have others: "\<forall>e \<in> set [Claim ?v 9 {}, Mark_dispatched ?v 9 1]. step_time e < 5 + whole_milliseconds (30 * second) \<and> step_worker e \<noteq> ''w''"
    by (simp add: step_worker_def whole_milliseconds_def)
  show ?thesis by (rule outbox_lease_exclusive [OF _ ok conf held others]) simp
qed

text \<open>C12. A pass of a dispatcher that no other dispatcher disturbs always succeeds, resolves every event it claimed and
  loses none: if adding the event to the stream succeeded, the event is in the stream and marked as
  dispatched; otherwise its attempts grow by one and it is tried again after a backoff of
  at most 301 seconds, or it is failed because the attempts are used up.\<close>

theorem RunOnce_resolves:
  assumes "outbox_ok (dp_maxAttempts d) rows" "dp_maxAttempts d \<le> 100" "reportable env"
    and "\<forall>i. de_error env i = None \<longrightarrow> de_added env i" "\<forall>i. 0 \<le> de_jitter env i \<and> de_jitter env i \<le> 1000"
    and "claim d (de_now env) (de_skipped env) rows = (events, claimed)" "e \<in> set events"
  shows "\<exists>n rows' added r r'. RunOnce d env rows = (Inr n, rows', added) \<and>
    row_of claimed (ev_ID e) = Some r \<and> row_of rows' (ev_ID e) = Some r' \<and>
    (if de_error env (ev_ID e) = None then ob_status r' = Dispatched \<and> e \<in> set added
     else ob_attempts r' = ob_attempts r + 1 \<and>
       ob_status r' = (if ob_attempts r' \<ge> dp_maxAttempts d then Failed else Pending) \<and>
       ob_available_at r' \<le> de_marked_at env (ev_ID e) + 301 * second)"
proof -
  have claimed: "distinct (map ob_id claimed)"
    "\<exists>r \<in> set claimed. ob_id r = ev_ID e \<and> locked_row d (ev_ID e) r \<and> ob_attempts r < 100"
    using claim_events [OF assms(1,2,6)] assms(7) by auto
  then obtain r where r: "r \<in> set claimed" "ob_id r = ev_ID e" "locked_row d (ev_ID e) r" by blast
  then have row: "row_of claimed (ev_ID e) = Some r" using row_of_mem [OF claimed(1)] by metis
  then have row': "row_of (map (outcome_row d env (ev_ID ` set events)) claimed) (ev_ID e) =
      Some (outcome_row d env (ev_ID ` set events) r)"
    by (simp add: row_of_map [OF outcome_row_identity])
  have "backoff (ob_attempts r) (de_jitter env (ev_ID e)) \<le> 301 * second"
    using assms(5) backoff_bound by blast
  then have "if de_error env (ev_ID e) = None then ob_status (outcome_row d env (ev_ID ` set events) r) = Dispatched
    else ob_attempts (outcome_row d env (ev_ID ` set events) r) = ob_attempts r + 1 \<and>
      ob_status (outcome_row d env (ev_ID ` set events) r) =
        (if ob_attempts (outcome_row d env (ev_ID ` set events) r) \<ge> dp_maxAttempts d then Failed else Pending) \<and>
      ob_available_at (outcome_row d env (ev_ID ` set events) r) \<le> de_marked_at env (ev_ID e) + 301 * second"
    using r assms(7) by (auto simp: outcome_row_def dispatched_row_def failed_row_def)
  then show ?thesis using RunOnce_result [OF assms(1-3,6)] row row' assms(4,7) by (auto split: if_splits)
qed

theorem RunOnce_resolves_witness:
  "\<exists>n rows' added r'. RunOnce sample_dispatcher sample_dispatch_env sample_outbox = (Inr n, rows', added) \<and>
     row_of rows' 1 = Some r' \<and> ob_status r' = Dispatched \<and> event_of (hd sample_outbox) \<in> set added"
proof -
  let ?e = "event_of (hd sample_outbox)"
  have ok: "outbox_ok (dp_maxAttempts sample_dispatcher) sample_outbox" "dp_maxAttempts sample_dispatcher \<le> 100"
    using sample_outbox_ok by (simp_all add: sample_dispatcher_def)
  have env: "reportable sample_dispatch_env" "\<forall>i. de_error sample_dispatch_env i = None \<longrightarrow> de_added sample_dispatch_env i"
    "\<forall>i. 0 \<le> de_jitter sample_dispatch_env i \<and> de_jitter sample_dispatch_env i \<le> 1000"
    "de_now sample_dispatch_env = 5" "de_skipped sample_dispatch_env = {}" "de_error sample_dispatch_env (ev_ID ?e) = None"
    by (simp_all add: sample_dispatch_env_def reportable_def)
  have e: "?e \<in> set (map event_of sample_outbox)" "ev_ID ?e = 1" by (simp_all add: sample_outbox_def event_of_def)
  show ?thesis
    using RunOnce_resolves [OF ok env(1-3), unfolded env(4,5), OF sample_claim e(1)] env(6) e(2) by auto
qed

end
