(* ===== verification/Auditlog.thy ===== *)
theory Auditlog
  imports Database "HOL-Library.Product_Lexorder"
begin

text \<open>
  \<^verbatim>\<open>internal/audit\<close>: the append-only audit log, whose entries are chained by hashes.  The JSON encoder, SHA-256,
  the textual forms of ids and times and the \<^verbatim>\<open>jsonb\<close> conversion of PostgreSQL are the argument \<open>audit_lib\<close>.
\<close>

section \<open>The log\<close>

text \<open>Snapshots are Go values of any type; \<^const>\<open>None\<close> is nil.\<close>

record 'j audit_entry =
  ActorUserID :: "uuid option"
  Action :: string
  ResourceType :: string
  ResourceID :: "uuid option"
  RequestID :: string
  Reason :: string
  Before :: "'j option"
  After :: "'j option"
  Metadata :: "'j option"

record hash_payload =
  hp_ID :: string
  hp_PreviousHash :: string
  hp_ActorUserID :: "uuid option"
  hp_Action :: string
  hp_ResourceType :: string
  hp_ResourceID :: "uuid option"
  hp_RequestID :: string
  hp_Reason :: string
  hp_Before :: string
  hp_After :: string
  hp_Metadata :: string
  hp_CreatedAt :: string

record audit_row =
  au_id :: uuid
  au_actor_user_id :: "uuid option"
  au_action :: string
  au_resource_type :: string
  au_resource_id :: "uuid option"
  au_request_id :: string
  au_reason :: string
  au_before :: string
  au_after :: string
  au_metadata :: string
  au_prev_hash :: string
  au_entry_hash :: string
  au_created_at :: gotime

record 'j audit_lib =
  al_marshal :: "'j \<Rightarrow> string option"
  al_canonical :: "hash_payload \<Rightarrow> string"
  al_sha256 :: "string \<Rightarrow> string"
  al_hex :: "string \<Rightarrow> string"
  al_uuid_string :: "uuid \<Rightarrow> string"
  al_rfc3339nano :: "gotime \<Rightarrow> string"
  al_jsonb :: "string \<Rightarrow> string option"

definition marshalSnapshot :: "'j audit_lib \<Rightarrow> 'j option \<Rightarrow> string option" where
  "marshalSnapshot L v = (case v of None \<Rightarrow> Some ''null'' | Some j \<Rightarrow> al_marshal L j)"

text \<open>\<^verbatim>\<open>timestamptz\<close> has a resolution of a microsecond; the driver cuts off the rest.\<close>

definition stored_time :: "gotime \<Rightarrow> gotime" where
  "stored_time t = (t div 1000) * 1000"

text \<open>The entry that \<^verbatim>\<open>ORDER BY created_at DESC, id DESC LIMIT 1\<close> selects.\<close>

definition newest :: "audit_row list \<Rightarrow> audit_row option" where
  "newest rows = (if rows = [] then None else Some (last (sort_key (\<lambda>r. (au_created_at r, au_id r)) rows)))"

definition previous_hash :: "audit_row list \<Rightarrow> string" where
  "previous_hash rows = (case newest rows of None \<Rightarrow> '''' | Some r \<Rightarrow> au_entry_hash r)"

definition payload_of ::
  "'j audit_lib \<Rightarrow> uuid \<Rightarrow> gotime \<Rightarrow> string \<Rightarrow> 'j audit_entry \<Rightarrow> string \<Rightarrow> string \<Rightarrow> string \<Rightarrow> hash_payload" where
  "payload_of L newID createdAt previousHash entry beforeJSON afterJSON metadataJSON =
    \<lparr>hp_ID = al_uuid_string L newID, hp_PreviousHash = al_hex L previousHash, hp_ActorUserID = ActorUserID entry,
     hp_Action = Action entry, hp_ResourceType = ResourceType entry, hp_ResourceID = ResourceID entry,
     hp_RequestID = RequestID entry, hp_Reason = Reason entry, hp_Before = beforeJSON, hp_After = afterJSON,
     hp_Metadata = metadataJSON, hp_CreatedAt = al_rfc3339nano L createdAt\<rparr>"

definition audit_row_ok :: "audit_row list \<Rightarrow> audit_row \<Rightarrow> bool" where
  "audit_row_ok rows r =
    (au_id r \<notin> au_id ` set rows \<and> au_entry_hash r \<notin> au_entry_hash ` set rows \<and>
     length (au_prev_hash r) \<in> {0, 32} \<and> length (au_entry_hash r) = 32 \<and>
     text_ok (au_action r) \<and> text_ok (au_resource_type r) \<and> text_ok (au_request_id r) \<and> text_ok (au_reason r))"

definition AppendTx ::
  "'j audit_lib \<Rightarrow> uuid \<Rightarrow> gotime \<Rightarrow> 'j audit_entry \<Rightarrow> audit_row list \<Rightarrow> string + audit_row list" where
  "AppendTx L newID createdAt entry rows =
    bind_result (require ''marshal audit before snapshot'' (marshalSnapshot L (Before entry))) (\<lambda>beforeJSON.
    bind_result (require ''marshal audit after snapshot'' (marshalSnapshot L (After entry))) (\<lambda>afterJSON.
    bind_result (require ''marshal audit metadata'' (marshalSnapshot L (Metadata entry))) (\<lambda>metadataJSON.
      let previousHash = previous_hash rows;
          entryHash = al_sha256 L (al_canonical L (payload_of L newID createdAt previousHash entry beforeJSON afterJSON metadataJSON)) in
      bind_result (require ''insert audit log'' (al_jsonb L beforeJSON)) (\<lambda>b.
      bind_result (require ''insert audit log'' (al_jsonb L afterJSON)) (\<lambda>a.
      bind_result (require ''insert audit log'' (al_jsonb L metadataJSON)) (\<lambda>meta.
        let r = \<lparr>au_id = newID, au_actor_user_id = ActorUserID entry, au_action = Action entry,
              au_resource_type = ResourceType entry, au_resource_id = ResourceID entry, au_request_id = RequestID entry,
              au_reason = Reason entry, au_before = b, au_after = a, au_metadata = meta, au_prev_hash = previousHash,
              au_entry_hash = entryHash, au_created_at = stored_time createdAt\<rparr> in
        if audit_row_ok rows r then Inr (rows @ [r]) else Inl ''insert audit log''))))))"

section \<open>Specification\<close>

text \<open>A call of \<open>AppendTx\<close>: the id it draws, the time it reads and the entry.  A failed call leaves the log as it is.\<close>

type_synonym 'j append = "uuid \<times> gotime \<times> 'j audit_entry"

definition append_one :: "'j audit_lib \<Rightarrow> audit_row list \<Rightarrow> 'j append \<Rightarrow> audit_row list" where
  "append_one L rows = (\<lambda>(newID, createdAt, entry).
     case AppendTx L newID createdAt entry rows of Inl _ \<Rightarrow> rows | Inr rows' \<Rightarrow> rows')"

definition audit_log :: "'j audit_lib \<Rightarrow> 'j append list \<Rightarrow> audit_row list" where
  "audit_log L calls = foldl (append_one L) [] calls"

text \<open>The log is one chain: each entry names the hash of the entry before it.\<close>

fun chained :: "string \<Rightarrow> audit_row list \<Rightarrow> bool" where
  "chained h [] = True"
| "chained h (r # rs) = (au_prev_hash r = h \<and> chained (au_entry_hash r) rs)"

text \<open>The calls read times that differ in the stored microseconds and never go back.\<close>

definition ticking :: "'j append list \<Rightarrow> bool" where
  "ticking calls = sorted_wrt (<) (map (\<lambda>(_, t, _). stored_time t) calls)"

text \<open>The payloads that a sequence of calls hashes.\<close>

definition append_payload :: "'j audit_lib \<Rightarrow> audit_row list \<Rightarrow> 'j append \<Rightarrow> hash_payload option" where
  "append_payload L rows = (\<lambda>(newID, createdAt, entry).
     case (marshalSnapshot L (Before entry), marshalSnapshot L (After entry), marshalSnapshot L (Metadata entry)) of
       (Some b, Some a, Some m) \<Rightarrow> Some (payload_of L newID createdAt (previous_hash rows) entry b a m)
     | _ \<Rightarrow> None)"

definition hashed_payloads :: "'j audit_lib \<Rightarrow> 'j append list \<Rightarrow> hash_payload set" where
  "hashed_payloads L calls =
    {p. \<exists>before call after. calls = before @ call # after \<and> append_payload L (audit_log L before) call = Some p}"

text \<open>What the hash of a row covers: its own columns and the hash of the entry before it.\<close>

definition covers :: "'j audit_lib \<Rightarrow> hash_payload set \<Rightarrow> audit_row \<Rightarrow> bool" where
  "covers L P r = (\<exists>newID t entry b a m. payload_of L newID t (au_prev_hash r) entry b a m \<in> P \<and>
     au_entry_hash r = al_sha256 L (al_canonical L (payload_of L newID t (au_prev_hash r) entry b a m)) \<and>
     au_id r = newID \<and> au_actor_user_id r = ActorUserID entry \<and> au_action r = Action entry \<and> au_resource_type r = ResourceType entry \<and>
     au_resource_id r = ResourceID entry \<and> au_request_id r = RequestID entry \<and> au_reason r = Reason entry \<and>
     al_jsonb L b = Some (au_before r) \<and> al_jsonb L a = Some (au_after r) \<and> al_jsonb L m = Some (au_metadata r) \<and>
     au_created_at r = stored_time t)"

text \<open>What is relied on: no two of the hashed payloads collide, and the textual forms are injective.\<close>

definition collision_free :: "'j audit_lib \<Rightarrow> hash_payload set \<Rightarrow> bool" where
  "collision_free L P = (inj_on (\<lambda>p. al_sha256 L (al_canonical L p)) P \<and>
     inj (al_hex L) \<and> inj (al_uuid_string L) \<and> inj (al_rfc3339nano L))"

section \<open>Lemmas\<close>

lemma AppendTx_Inr:
  assumes "AppendTx L newID t entry rows = Inr rows'"
  obtains r p where "rows' = rows @ [r]" "au_prev_hash r = previous_hash rows" "au_created_at r = stored_time t" "au_id r = newID"
    "audit_row_ok rows r"
    "append_payload L rows (newID, t, entry) = Some p" "covers L {p} r"
proof -
  obtain b a m b' a' m' where j: "marshalSnapshot L (Before entry) = Some b" "marshalSnapshot L (After entry) = Some a"
    "marshalSnapshot L (Metadata entry) = Some m" and k: "al_jsonb L b = Some b'" "al_jsonb L a = Some a'" "al_jsonb L m = Some m'"
    using assms by (auto simp: AppendTx_def Let_def bind_result_Inr)
  let ?r = "\<lparr>au_id = newID, au_actor_user_id = ActorUserID entry, au_action = Action entry,
               au_resource_type = ResourceType entry, au_resource_id = ResourceID entry, au_request_id = RequestID entry,
               au_reason = Reason entry, au_before = b', au_after = a', au_metadata = m', au_prev_hash = previous_hash rows,
               au_entry_hash = al_sha256 L (al_canonical L (payload_of L newID t (previous_hash rows) entry b a m)),
               au_created_at = stored_time t\<rparr>"
  have new: "rows' = rows @ [?r]" "audit_row_ok rows ?r"
    using assms j k by (auto simp: AppendTx_def Let_def split: if_splits)
  let ?p = "payload_of L newID t (previous_hash rows) entry b a m"
  have p: "append_payload L rows (newID, t, entry) = Some ?p" using j by (simp add: append_payload_def)
  have "covers L {?p} ?r"
    unfolding covers_def by (intro exI [of _ newID] exI [of _ t] exI [of _ entry] exI [of _ b] exI [of _ a] exI [of _ m]) (use k in simp)
  with new p that [of ?r ?p] show ?thesis by simp
qed

text \<open>If the times grow, the newest entry is the last one.\<close>

lemma newest_last:
  assumes "rows \<noteq> []" "sorted_wrt (<) (map au_created_at rows)"
  shows "newest rows = Some (last rows)"
proof -
  have "sorted_wrt (\<le>) (map (\<lambda>r. (au_created_at r, au_id r)) rows)"
    using assms(2) unfolding sorted_wrt_map by (rule sorted_wrt_mono_rel [rotated]) (simp add: less_eq_prod_def)
  then have "sort_key (\<lambda>r. (au_created_at r, au_id r)) rows = rows" by (simp add: sort_key_id_if_sorted)
  then show ?thesis using assms(1) by (simp add: newest_def)
qed

lemma chained_snoc:
  "chained h (rows @ [r]) \<longleftrightarrow> chained h rows \<and> au_prev_hash r = (if rows = [] then h else au_entry_hash (last rows))"
  by (induction rows arbitrary: h) auto

lemma previous_hash_last:
  assumes "sorted_wrt (<) (map au_created_at rows)"
  shows "previous_hash rows = (if rows = [] then '''' else au_entry_hash (last rows))"
  using newest_last [OF _ assms] by (simp add: previous_hash_def) (simp add: newest_def)

lemma covers_mono: "covers L P r \<Longrightarrow> P \<subseteq> Q \<Longrightarrow> covers L Q r"
  unfolding covers_def by blast

lemma audit_log_snoc:
  obtains (failed) "audit_log L (calls @ [(i, t, e)]) = audit_log L calls"
  | (appended) r where "audit_log L (calls @ [(i, t, e)]) = audit_log L calls @ [r]"
      "au_prev_hash r = previous_hash (audit_log L calls)" "au_created_at r = stored_time t" "au_id r = i"
      "audit_row_ok (audit_log L calls) r" "covers L (hashed_payloads L (calls @ [(i, t, e)])) r"
proof (cases "AppendTx L i t e (audit_log L calls)")
  case (Inl err)
  then show ?thesis using failed by (simp add: audit_log_def append_one_def)
next
  case (Inr rows')
  then obtain r p where r: "rows' = audit_log L calls @ [r]" "au_prev_hash r = previous_hash (audit_log L calls)"
    "au_created_at r = stored_time t" "au_id r = i" "audit_row_ok (audit_log L calls) r"
    "append_payload L (audit_log L calls) (i, t, e) = Some p" "covers L {p} r" by (rule AppendTx_Inr)
  have "p \<in> hashed_payloads L (calls @ [(i, t, e)])" using r(6) unfolding hashed_payloads_def
    by (intro CollectI exI [of _ calls] exI [of _ "(i, t, e)"] exI [of _ "[]"]) simp
  then have "covers L (hashed_payloads L (calls @ [(i, t, e)])) r" using covers_mono [OF r(7)] by simp
  then show ?thesis using appended [of r] r Inr by (simp add: audit_log_def append_one_def)
qed

lemma hashed_payloads_mono: "hashed_payloads L calls \<subseteq> hashed_payloads L (calls @ more_calls)"
  by (fastforce simp: hashed_payloads_def)

lemma audit_log_rows:
  "\<forall>r \<in> set (audit_log L calls). covers L (hashed_payloads L calls) r \<and> length (au_entry_hash r) = 32 \<and>
     (\<exists>(i, t, e) \<in> set calls. au_id r = i \<and> au_created_at r = stored_time t)"
proof (induction calls rule: rev_induct)
  case (snoc call calls)
  obtain i t e where call: "call = (i, t, e)" by (cases call)
  have old: "\<forall>r \<in> set (audit_log L calls). covers L (hashed_payloads L (calls @ [call])) r \<and> length (au_entry_hash r) = 32 \<and>
     (\<exists>(i, t, e) \<in> set (calls @ [call]). au_id r = i \<and> au_created_at r = stored_time t)"
    using snoc covers_mono [OF _ hashed_payloads_mono] by fastforce
  show ?case
  proof (cases rule: audit_log_snoc [of L calls i t e])
    case failed
    then show ?thesis using old by (simp add: call)
  next
    case (appended r)
    have "covers L (hashed_payloads L (calls @ [call])) r \<and> length (au_entry_hash r) = 32 \<and>
      (\<exists>(i, t, e) \<in> set (calls @ [call]). au_id r = i \<and> au_created_at r = stored_time t)"
      using appended by (auto simp: call audit_row_ok_def)
    then show ?thesis using old appended(1) by (simp add: call)
  qed
qed (simp add: audit_log_def)

lemma audit_log_chain:
  assumes "ticking calls"
  shows "chained '''' (audit_log L calls) \<and> sorted_wrt (<) (map au_created_at (audit_log L calls))"
  using assms
proof (induction calls rule: rev_induct)
  case Nil
  then show ?case by (simp add: audit_log_def)
next
  case (snoc call calls)
  obtain i t e where call: "call = (i, t, e)" by (cases call)
  have tick: "ticking calls" "\<forall>(_, t', _) \<in> set calls. stored_time t' < stored_time t"
    using snoc.prems by (auto simp: ticking_def sorted_wrt_append call)
  note IH = snoc.IH [OF tick(1)]
  show ?case
  proof (cases rule: audit_log_snoc [of L calls i t e])
    case failed
    then show ?thesis using IH by (simp add: call)
  next
    case (appended r)
    have "\<forall>q \<in> set (audit_log L calls). au_created_at q < au_created_at r"
      using audit_log_rows [of L calls] tick(2) appended(3) by fastforce
    then show ?thesis using IH appended previous_hash_last [OF conjunct2 [OF IH]]
      by (simp add: call chained_snoc sorted_wrt_append)
  qed
qed

text \<open>A hash commits to the row and to everything before it.\<close>

lemma covers_inj:
  assumes "collision_free L P" "covers L P r" "covers L P r'" "au_entry_hash r = au_entry_hash r'"
  shows "r = r'"
proof -
  obtain i t e b a m where P: "payload_of L i t (au_prev_hash r) e b a m \<in> P"
    and r: "au_entry_hash r = al_sha256 L (al_canonical L (payload_of L i t (au_prev_hash r) e b a m))"
    "au_id r = i" "au_actor_user_id r = ActorUserID e" "au_action r = Action e" "au_resource_type r = ResourceType e"
    "au_resource_id r = ResourceID e" "au_request_id r = RequestID e" "au_reason r = Reason e"
    "al_jsonb L b = Some (au_before r)" "al_jsonb L a = Some (au_after r)" "al_jsonb L m = Some (au_metadata r)"
    "au_created_at r = stored_time t"
    using assms(2) unfolding covers_def by blast
  obtain i' t' e' b' a' m' where P': "payload_of L i' t' (au_prev_hash r') e' b' a' m' \<in> P"
    and r': "au_entry_hash r' = al_sha256 L (al_canonical L (payload_of L i' t' (au_prev_hash r') e' b' a' m'))"
    "au_id r' = i'" "au_actor_user_id r' = ActorUserID e'" "au_action r' = Action e'" "au_resource_type r' = ResourceType e'"
    "au_resource_id r' = ResourceID e'" "au_request_id r' = RequestID e'" "au_reason r' = Reason e'"
    "al_jsonb L b' = Some (au_before r')" "al_jsonb L a' = Some (au_after r')" "al_jsonb L m' = Some (au_metadata r')"
    "au_created_at r' = stored_time t'"
    using assms(3) unfolding covers_def by blast
  have "payload_of L i t (au_prev_hash r) e b a m = payload_of L i' t' (au_prev_hash r') e' b' a' m'"
    using assms(1,4) r(1) r'(1) P P' unfolding collision_free_def inj_on_def by metis
  then have "i = i'" "t = t'" "au_prev_hash r = au_prev_hash r'" "ActorUserID e = ActorUserID e'" "Action e = Action e'"
    "ResourceType e = ResourceType e'" "ResourceID e = ResourceID e'" "RequestID e = RequestID e'" "Reason e = Reason e'"
    "b = b'" "a = a'" "m = m'"
    using assms(1) unfolding collision_free_def payload_of_def by (auto dest: injD)
  then show ?thesis using r r' assms(4) by (intro audit_row.equality) simp_all
qed

lemma chain_unique:
  assumes "collision_free L P" "chained '''' rows" "chained '''' rows'"
    and "\<forall>r \<in> set rows \<union> set rows'. covers L P r \<and> au_entry_hash r \<noteq> ''''"
    and "rows \<noteq> []" "rows' \<noteq> []" "au_entry_hash (last rows) = au_entry_hash (last rows')"
  shows "rows = rows'"
  using assms(2-7)
proof (induction rows arbitrary: rows' rule: rev_induct)
  case (snoc r rows)
  obtain q qs where rows': "rows' = qs @ [q]" using snoc.prems(5) by (cases rows' rule: rev_cases) auto
  have "r = q" using covers_inj [OF assms(1)] snoc.prems rows' by simp
  have prev: "au_prev_hash r = (if rows = [] then '''' else au_entry_hash (last rows))"
    "au_prev_hash q = (if qs = [] then '''' else au_entry_hash (last qs))"
    using snoc.prems(1,2) rows' by (simp_all add: chained_snoc)
  show ?case
  proof (cases "rows = [] \<or> qs = []")
    case True
    have "au_entry_hash (last qs) \<noteq> ''''" if "qs \<noteq> []" using snoc.prems(3) rows' that by simp
    moreover have "au_entry_hash (last rows) \<noteq> ''''" if "rows \<noteq> []" using snoc.prems(3) that by simp
    ultimately have "rows = [] \<and> qs = []" using prev \<open>r = q\<close> True by (auto split: if_splits)
    then show ?thesis using \<open>r = q\<close> rows' by simp
  next
    case False
    then have "rows = qs"
      using snoc.IH [of qs] snoc.prems prev \<open>r = q\<close> rows' by (simp add: chained_snoc)
    then show ?thesis using \<open>r = q\<close> rows' by simp
  qed
qed simp


lemma newest_max:
  assumes "r \<in> set rows" "\<forall>q \<in> set rows. q = r \<or> (au_created_at q, au_id q) < (au_created_at r, au_id r)"
  shows "newest rows = Some r"
proof -
  define k where "k = (\<lambda>r :: audit_row. (au_created_at r, au_id r))"
  define s where "s = sort_key k rows"
  have s: "set s = set rows" "sorted (map k s)" by (simp_all add: s_def)
  then obtain i where i: "i < length s" "s ! i = r" using assms(1) by (metis in_set_conv_nth)
  then have ne: "s \<noteq> []" by auto
  have "map k s ! i \<le> map k s ! (length s - 1)" by (rule sorted_nth_mono [OF s(2)]) (use i in auto)
  then have "k r \<le> k (last s)" using i ne by (simp add: last_conv_nth)
  moreover have "last s = r \<or> k (last s) < k r" using assms(2) s(1) last_in_set [OF ne] unfolding k_def by blast
  ultimately have "last s = r" by (meson leD)
  then show ?thesis using assms(1) unfolding newest_def s_def k_def by (metis empty_iff set_empty)
qed

text \<open>A small library and two calls.\<close>

definition sample_audit_lib :: "unit audit_lib" where
  "sample_audit_lib = \<lparr>al_marshal = (\<lambda>_. None), al_canonical = hp_ID,
     al_sha256 = (\<lambda>s. (if length s = 1 then CHR ''1'' else if length s = 2 then CHR ''2'' else CHR ''3'') # replicate 31 CHR ''0''), al_hex = (\<lambda>s. s), al_uuid_string = (\<lambda>n. replicate n CHR ''x''),
     al_rfc3339nano = (\<lambda>t. replicate (if t < 0 then 2 * nat (- t) + 1 else 2 * nat t) CHR ''x''),
     al_jsonb = Some\<rparr>"

definition sample_audit_entry :: "unit audit_entry" where
  "sample_audit_entry = \<lparr>ActorUserID = None, Action = ''A'', ResourceType = ''r'', ResourceID = None, RequestID = ''q'',
     Reason = '''', Before = None, After = None, Metadata = None\<rparr>"

definition sample_audit_row :: "uuid \<Rightarrow> string \<Rightarrow> gotime \<Rightarrow> audit_row" where
  "sample_audit_row i prev t = \<lparr>au_id = i, au_actor_user_id = None, au_action = ''A'', au_resource_type = ''r'',
     au_resource_id = None, au_request_id = ''q'', au_reason = '''', au_before = ''null'', au_after = ''null'', au_metadata = ''null'',
     au_prev_hash = prev, au_entry_hash = al_sha256 sample_audit_lib (replicate i CHR ''x''), au_created_at = t\<rparr>"

lemma sample_AppendTx:
  assumes "audit_row_ok rows (sample_audit_row i (previous_hash rows) (stored_time t))"
  shows "AppendTx sample_audit_lib i t sample_audit_entry rows =
    Inr (rows @ [sample_audit_row i (previous_hash rows) (stored_time t)])"
proof -
  have "marshalSnapshot sample_audit_lib None = Some ''null''" "al_jsonb sample_audit_lib ''null'' = Some ''null''"
    by (simp_all add: marshalSnapshot_def sample_audit_lib_def)
  moreover have "al_canonical sample_audit_lib (payload_of sample_audit_lib i t h sample_audit_entry b a m) = replicate i CHR ''x''" for h b a m
    by (simp add: payload_of_def sample_audit_lib_def)
  ultimately show ?thesis using assms by (simp add: AppendTx_def sample_audit_entry_def sample_audit_row_def Let_def)
qed

lemma sample_audit_texts:
  "inj (al_hex sample_audit_lib)" "inj (al_uuid_string sample_audit_lib)" "inj (al_rfc3339nano sample_audit_lib)"
proof -
  have "inj (\<lambda>t :: int. if t < 0 then 2 * nat (- t) + 1 else 2 * nat t)"
  proof (rule injI)
    fix x y :: int
    assume "(if x < 0 then 2 * nat (- x) + 1 else 2 * nat x) = (if y < 0 then 2 * nat (- y) + 1 else 2 * nat y)"
    then show "x = y" by (auto split: if_splits dest: arg_cong [of _ _ even])
  qed
  then show "inj (al_rfc3339nano sample_audit_lib)" unfolding sample_audit_lib_def by (simp add: inj_def)
qed (simp_all add: sample_audit_lib_def inj_def)

lemma sample_audit_rows:
  "audit_row_ok [] (sample_audit_row 1 '''' 1000)"
  "audit_row_ok [sample_audit_row 2 '''' 1000] (sample_audit_row 1 (au_entry_hash (sample_audit_row 2 '''' 1000)) 1000)"
  "audit_row_ok [sample_audit_row 2 '''' 1000, sample_audit_row 1 (au_entry_hash (sample_audit_row 2 '''' 1000)) 1000]
     (sample_audit_row 3 (au_entry_hash (sample_audit_row 2 '''' 1000)) 2000)"
  "audit_row_ok [] (sample_audit_row 2 '''' 1000)"
  by (simp_all add: audit_row_ok_def sample_audit_row_def sample_audit_lib_def text_ok_def numeral_2_eq_2 numeral_3_eq_3)

section \<open>Properties\<close>

text \<open>C6. If the clock advances by at least a microsecond between two appends, the audit log is one linear
  chain: every entry carries the hash of the entry before it, and the entries are in the order of
  their times.  Failed appends leave no trace.\<close>

theorem audit_chain:
  assumes "ticking calls"
  shows "chained '''' (audit_log L calls) \<and> sorted_wrt (<) (map au_created_at (audit_log L calls))"
  using audit_log_chain [OF assms] .

theorem audit_chain_witness:
  "chained '''' (audit_log sample_audit_lib [(1, 1000, sample_audit_entry), (2, 2500, sample_audit_entry)])"
proof -
  have "ticking [(1, 1000, sample_audit_entry), (2, 2500, sample_audit_entry)]"
    by (simp add: ticking_def stored_time_def)
  from audit_chain [OF this, of sample_audit_lib] show ?thesis ..
qed



text \<open>C31. The order of the entries is read from their times and ids, not from the order of the appends: if the clock
  shows the same microsecond for two appends and the second draws the smaller id, the next entry is
  chained to the first one, so that two entries name the same predecessor.\<close>

theorem audit_fork:
  assumes "\<forall>q \<in> set rows. au_created_at q < stored_time t" "stored_time t' = stored_time t" "i' < i"
    and "AppendTx L i t e rows = Inr (rows @ [r])" "AppendTx L i' t' e' (rows @ [r]) = Inr (rows @ [r, r'])"
    and "AppendTx L i'' t'' e'' (rows @ [r, r']) = Inr (rows @ [r, r', r''])"
  shows "au_prev_hash r' = au_entry_hash r \<and> au_prev_hash r'' = au_entry_hash r"
proof -
  have r: "au_created_at r = stored_time t" "au_id r = i"
    using assms(4) by (auto elim: AppendTx_Inr)
  have r': "au_created_at r' = stored_time t" "au_id r' = i'" "au_prev_hash r' = previous_hash (rows @ [r])"
    using assms(2,5) by (auto elim: AppendTx_Inr)
  have "au_prev_hash r'' = previous_hash (rows @ [r, r'])" using assms(6) by (auto elim: AppendTx_Inr)
  moreover have "\<forall>q \<in> set rows. (au_created_at q, au_id q) < (au_created_at r, au_id r)"
    "(au_created_at r', au_id r') < (au_created_at r, au_id r)"
    using assms(1,3) r r' by auto
  then have "newest (rows @ [r]) = Some r" "newest (rows @ [r, r']) = Some r"
    using newest_max [of r "rows @ [r]"] newest_max [of r "rows @ [r, r']"] by simp_all
  ultimately show ?thesis using r'(3) by (simp add: previous_hash_def)
qed


theorem audit_fork_witness:
  "au_prev_hash (sample_audit_row 1 (au_entry_hash (sample_audit_row 2 '''' 1000)) 1000) = au_entry_hash (sample_audit_row 2 '''' 1000) \<and>
   au_prev_hash (sample_audit_row 3 (au_entry_hash (sample_audit_row 2 '''' 1000)) 2000) = au_entry_hash (sample_audit_row 2 '''' 1000)"
proof -
  let ?r = "sample_audit_row 2 '''' 1000"
  let ?r' = "sample_audit_row 1 (au_entry_hash ?r) 1000"
  have prev: "previous_hash [] = ''''" "previous_hash [?r] = au_entry_hash ?r" "previous_hash [?r, ?r'] = au_entry_hash ?r"
    using newest_max [of ?r "[?r]"] newest_max [of ?r "[?r, ?r']"]
    by (simp_all add: previous_hash_def newest_def sample_audit_row_def)
  have times: "stored_time 1000 = 1000" "stored_time 1500 = 1000" "stored_time 2000 = 2000" by (simp_all add: stored_time_def)
  have calls: "AppendTx sample_audit_lib 2 1000 sample_audit_entry [] = Inr ([] @ [?r])"
    "AppendTx sample_audit_lib 1 1500 sample_audit_entry ([] @ [?r]) = Inr ([] @ [?r, ?r'])"
    "AppendTx sample_audit_lib 3 2000 sample_audit_entry ([] @ [?r, ?r']) = Inr ([] @ [?r, ?r', sample_audit_row 3 (au_entry_hash ?r) 2000])"
    using sample_audit_rows sample_AppendTx [of "[]" 2 1000] sample_AppendTx [of "[?r]" 1 1500] sample_AppendTx [of "[?r, ?r']" 3 2000]
    by (simp_all add: prev times del: One_nat_def)
  show ?thesis by (rule audit_fork [OF _ _ _ calls]) (simp_all add: times)
qed

end
