(* ===== verification/Finance.thy ===== *)
theory Finance
  imports Prelude Complex_Main
begin

text \<open>
  \<^verbatim>\<open>internal/finance\<close>, the arithmetic: exact decimals (\<^verbatim>\<open>decimal.go\<close>), the tax and annualisation engine and
  the currency conversion (\<^verbatim>\<open>engine.go\<close>).  A \<^verbatim>\<open>Decimal\<close> is a rational number, as in the code
  (\<^verbatim>\<open>big.Rat\<close>); it enters and leaves as text.
\<close>

type_synonym decimal = rat

section \<open>Decimals\<close>

definition unsigned_part :: "string \<Rightarrow> string" where
  "unsigned_part s = (case s of c # t \<Rightarrow> if c = CHR ''+'' \<or> c = CHR ''-'' then t else s | [] \<Rightarrow> [])"

definition integer_digits :: "string \<Rightarrow> string" where
  "integer_digits s = takeWhile is_digit (unsigned_part s)"

definition after_integer :: "string \<Rightarrow> string" where
  "after_integer s = dropWhile is_digit (unsigned_part s)"

text \<open>The pattern \<^verbatim>\<open>^[+-]?[0-9]+(?:\.[0-9]+)?$\<close>.\<close>

definition decimalPattern :: "string \<Rightarrow> bool" where
  "decimalPattern s = (integer_digits s \<noteq> [] \<and>
     (case after_integer s of [] \<Rightarrow> True | c # decimals \<Rightarrow> c = CHR ''.'' \<and> decimals \<noteq> [] \<and> list_all is_digit decimals))"

text \<open>\<^verbatim>\<open>big.Rat.SetString\<close> on text of that form.\<close>

definition rat_SetString :: "string \<Rightarrow> rat" where
  "rat_SetString s =
    (let decimals = drop 1 (after_integer s);
         magnitude = of_nat (digits_val (integer_digits s @ decimals)) / 10 ^ length decimals in
     if has_prefix s ''-'' then - magnitude else magnitude)"

definition ParseDecimal :: "string \<Rightarrow> nat \<Rightarrow> (string, decimal) result" where
  "ParseDecimal raw0 maxScale =
    (let raw = trim_space raw0 in
     if \<not> decimalPattern raw then Inl ''must be a plain decimal string''
     else if length (drop 1 (after_integer raw)) > maxScale then Inl ''decimal scale exceeds policy''
     else Inr (rat_SetString raw))"

text \<open>\<^verbatim>\<open>big.Rat.FloatString\<close>: rounded to \<open>scale\<close> digits, halves away from zero.\<close>

definition scaled :: "nat \<Rightarrow> rat \<Rightarrow> nat" where
  "scaled scale x = nat \<lfloor>\<bar>x\<bar> * 10 ^ scale + 1 / 2\<rfloor>"

definition decimal_String :: "decimal \<Rightarrow> nat \<Rightarrow> string" where
  "decimal_String d scale =
    (let k = scaled scale d; decimals = nat_string (k mod 10 ^ scale) in
     (if d < 0 then ''-'' else '''') @ nat_string (k div 10 ^ scale) @
     (if scale > 0 then CHR ''.'' # replicate (scale - length decimals) CHR ''0'' @ decimals else ''''))"

section \<open>The cost engine\<close>

definition TaxExclusive :: string where "TaxExclusive = ''exclusive''"
definition TaxInclusive :: string where "TaxInclusive = ''inclusive''"
definition TaxExempt :: string where "TaxExempt = ''exempt''"
definition TaxUnknown :: string where "TaxUnknown = ''unknown''"

record cost_input =
  ci_Amount :: string
  ci_Currency :: string
  ci_TaxRate :: "string option"
  ci_TaxMode :: string
  ci_BillingCycleMonths :: int

record cost_result =
  cr_Currency :: string
  cr_CycleAmount :: string
  cr_TaxAmount :: "string option"
  cr_CycleTotal :: "string option"
  cr_AnnualEstimate :: "string option"
  cr_BillingCycleMonths :: int
  cr_Formula :: string
  cr_Complete :: bool
  cr_Warnings :: "string list"

definition normalizeCurrency :: "string \<Rightarrow> string" where
  "normalizeCurrency s = to_upper (trim_space s)"

definition tax_mode :: "string \<Rightarrow> string" where
  "tax_mode s = (let mode = to_lower (trim_space s) in if mode = '''' then TaxUnknown else mode)"

definition parse_within :: "string \<Rightarrow> nat \<Rightarrow> (decimal \<Rightarrow> bool) \<Rightarrow> decimal option" where
  "parse_within raw maxScale ok = (case ParseDecimal raw maxScale of Inl _ \<Rightarrow> None | Inr d \<Rightarrow> if ok d then Some d else None)"

definition completed :: "decimal \<Rightarrow> int \<Rightarrow> string \<Rightarrow> decimal \<Rightarrow> decimal \<Rightarrow> cost_result" where
  "completed amount months currency tax gross =
    \<lparr>cr_Currency = currency, cr_CycleAmount = decimal_String amount 6, cr_TaxAmount = Some (decimal_String tax 6),
     cr_CycleTotal = Some (decimal_String gross 6),
     cr_AnnualEstimate = Some (decimal_String (gross * 12 / of_int months) 6), cr_BillingCycleMonths = months,
     cr_Formula = ''cycle_total * (12 / '' @ int_string months @ '')'', cr_Complete = True, cr_Warnings = []\<rparr>"

definition Calculate :: "cost_input \<Rightarrow> (string, cost_result) result" where
  "Calculate input =
    (case parse_within (ci_Amount input) 6 (\<lambda>d. 0 \<le> d) of
       None \<Rightarrow> Inl ''amount must be a non-negative decimal string with at most 6 decimal places''
     | Some amount \<Rightarrow>
       let currency = normalizeCurrency (ci_Currency input);
           months = (if ci_BillingCycleMonths input = 0 then 12 else ci_BillingCycleMonths input);
           mode = tax_mode (ci_TaxMode input);
           complete = completed amount months currency in
       if length currency \<noteq> 3 then Inl ''currency must be a three-letter code''
       else if months < 1 \<or> months > 120 then Inl ''billing cycle must be between 1 and 120 months''
       else if mode = TaxUnknown then
         (case ci_TaxRate input of
            Some _ \<Rightarrow> Inl ''tax_rate must be null when tax_mode is unknown''
          | None \<Rightarrow> 
              Inr \<lparr>cr_Currency = currency, cr_CycleAmount = decimal_String amount 6, cr_TaxAmount = None, cr_CycleTotal = None,
                cr_AnnualEstimate = None, cr_BillingCycleMonths = months,
                cr_Formula = ''cycle_total * (12 / '' @ int_string months @ '')'', cr_Complete = False,
                cr_Warnings = [''TAX_POLICY_UNKNOWN'']\<rparr>)
       else if mode = TaxExempt then
         (if case ci_TaxRate input of None \<Rightarrow> True | Some raw \<Rightarrow> parse_within raw 10 (\<lambda>d. d = 0) \<noteq> None
          then Inr (complete 0 amount)
          else Inl ''tax_rate must be null or zero when tax_mode is exempt'')
       else if mode \<noteq> TaxExclusive \<and> mode \<noteq> TaxInclusive then
         Inl ''tax_mode must be exclusive, inclusive, exempt, or unknown''
       else
         (case ci_TaxRate input of
            None \<Rightarrow> Inl ''tax_rate is required for inclusive or exclusive tax''
          | Some raw \<Rightarrow>
            (case parse_within raw 10 (\<lambda>d. 0 \<le> d \<and> d \<le> 1) of
               None \<Rightarrow> Inl ''tax_rate must be between 0 and 1 with at most 10 decimal places''
             | Some rate \<Rightarrow>
               if mode = TaxExclusive then Inr (complete (amount * rate) (amount + amount * rate))
               else Inr (complete (amount - amount / (1 + rate)) amount))))"

section \<open>Currency conversion\<close>

record fx_input =
  fi_Amount :: string
  fi_Rate :: string
  fi_FromCurrency :: string
  fi_ToCurrency :: string
  fi_ObservedAt :: gotime
  fi_Now :: gotime
  fi_MaxAge :: duration

record fx_result =
  fr_OriginalAmount :: string
  fr_OriginalCurrency :: string
  fr_ConvertedAmount :: "string option"
  fr_ReportingCurrency :: string
  fr_Rate :: "string option"
  fr_RateObservedAt :: "gotime option"
  fr_Complete :: bool
  fr_Warnings :: "string list"

text \<open>The wall clock is the argument \<open>clock\<close>.\<close>

definition Convert :: "gotime \<Rightarrow> fx_input \<Rightarrow> (string, fx_result) result" where
  "Convert clock input =
    (case parse_within (fi_Amount input) 6 (\<lambda>d. 0 \<le> d) of
       None \<Rightarrow> Inl ''amount must be a non-negative decimal string''
     | Some amount \<Rightarrow>
       let from = normalizeCurrency (fi_FromCurrency input);
           to = normalizeCurrency (fi_ToCurrency input);
           result = \<lparr>fr_OriginalAmount = decimal_String amount 6, fr_OriginalCurrency = from, fr_ConvertedAmount = None,
             fr_ReportingCurrency = to, fr_Rate = None, fr_RateObservedAt = None, fr_Complete = False, fr_Warnings = []\<rparr> in
       if from = to then Inr (result\<lparr>fr_ConvertedAmount := Some (decimal_String amount 6), fr_Complete := True\<rparr>)
       else
         (case parse_within (fi_Rate input) 10 (\<lambda>d. 0 < d) of
            None \<Rightarrow> Inr (result\<lparr>fr_Warnings := [''FX_RATE_MISSING'']\<rparr>)
          | Some rate \<Rightarrow>
            let now = (if fi_Now input = 0 then clock else fi_Now input) in
            if fi_ObservedAt input = 0 \<or> fi_MaxAge input \<le> 0 \<or> time_sub now (fi_ObservedAt input) > fi_MaxAge input \<or>
               fi_ObservedAt input > now + 5 * minute
            then Inr (result\<lparr>fr_Warnings := [''FX_RATE_STALE'']\<rparr>)
            else Inr (result\<lparr>fr_ConvertedAmount := Some (decimal_String (amount * rate) 6),
              fr_Rate := Some (decimal_String rate 10), fr_RateObservedAt := Some (fi_ObservedAt input), fr_Complete := True\<rparr>)))"

section \<open>Lemmas on decimal text\<close>

lemma is_digit_nat: "is_digit c \<longleftrightarrow> 48 \<le> (of_char c :: nat) \<and> (of_char c :: nat) \<le> 57"
  by (simp add: is_digit_def less_eq_char_def)

lemma digit_char_digit [simp]: "n < 10 \<Longrightarrow> is_digit (digit_char n)" "n < 10 \<Longrightarrow> digit_val (digit_char n) = n"
  by (simp_all add: is_digit_nat digit_char_def digit_val_def)

lemma digits_val_snoc [simp]: "digits_val (s @ [c]) = digits_val s * 10 + digit_val c"
  by (simp add: digits_val_def)

lemma digits_val_Nil [simp]: "digits_val [] = 0"
  by (simp add: digits_val_def)

lemma digits_val_append: "digits_val (a @ b) = digits_val a * 10 ^ length b + digits_val b"
  by (induction b rule: rev_induct) (simp_all add: algebra_simps flip: append_assoc)

lemma digits_val_zeros [simp]: "digits_val (replicate n CHR ''0'') = 0"
  by (induction n) (simp_all add: replicate_append_same [symmetric] digit_val_def del: replicate_Suc add: replicate_Suc)

lemma nat_string_val [simp]: "digits_val (nat_string n) = n"
  by (induction n rule: nat_string.induct) (subst nat_string.simps, simp add: digits_val_def)

lemma nat_string_digits [simp]: "list_all is_digit (nat_string n)"
  by (induction n rule: nat_string.induct) (subst nat_string.simps, simp)

lemma nat_string_not_Nil [simp]: "nat_string n \<noteq> []"
  by (subst nat_string.simps) simp

lemma nat_string_length: "n < 10 ^ s \<Longrightarrow> 0 < s \<Longrightarrow> length (nat_string n) \<le> s"
proof (induction n arbitrary: s rule: nat_string.induct)
  case (1 n)
  show ?case
  proof (cases "n < 10")
    case True
    then show ?thesis using "1.prems" by (subst nat_string.simps) simp
  next
    case False
    then obtain s' where s: "s = Suc s'" "0 < s'" using "1.prems" by (cases s; cases "s - 1") auto
    then have "n div 10 < 10 ^ s'" using "1.prems" by (simp add: less_mult_imp_div_less mult.commute)
    from "1.IH" [OF False this s(2)] show ?thesis using False s by (subst nat_string.simps) simp
  qed
qed

text \<open>The number that a text with \<open>scale\<close> digits stands for.\<close>

definition round_half :: "nat \<Rightarrow> rat \<Rightarrow> rat" where
  "round_half scale d = (if d < 0 then -1 else 1) * of_nat (scaled scale d) / 10 ^ scale"

definition padded :: "nat \<Rightarrow> nat \<Rightarrow> string" where
  "padded scale n = replicate (scale - length (nat_string n)) CHR ''0'' @ nat_string n"

lemma padded_digits:
  assumes "0 < scale" "n < 10 ^ scale"
  shows "length (padded scale n) = scale" "list_all is_digit (padded scale n)" "digits_val (padded scale n) = n"
proof -
  show "length (padded scale n) = scale" using nat_string_length [OF assms(2,1)] by (simp add: padded_def)
  have "list_all is_digit (replicate k CHR ''0'')" for k by (simp add: list_all_iff is_digit_nat)
  then show "list_all is_digit (padded scale n)" by (simp add: padded_def)
  show "digits_val (padded scale n) = n" by (simp add: padded_def digits_val_append)
qed

lemma digit_printable: "list_all is_digit s \<Longrightarrow> list_all (\<lambda>c. 32 < (of_char c :: nat) \<and> (of_char c :: nat) < 128) s"
  by (auto simp: list_all_iff is_digit_nat)

text \<open>How the parser takes a text of digits apart.\<close>

lemma parse_parts:
  assumes "list_all is_digit int_part" "int_part \<noteq> []" "list_all is_digit decimals" "sign_text = '''' \<or> sign_text = ''-''"
    and "tail = (if decimals = [] then '''' else CHR ''.'' # decimals)"
  shows "trim_space (sign_text @ int_part @ tail) = sign_text @ int_part @ tail" "integer_digits (sign_text @ int_part @ tail) = int_part"
    "drop 1 (after_integer (sign_text @ int_part @ tail)) = decimals" "decimalPattern (sign_text @ int_part @ tail)"
    "has_prefix (sign_text @ int_part @ tail) ''-'' \<longleftrightarrow> sign_text = ''-''"
proof -
  obtain c rest where ip: "int_part = c # rest" using assms(2) by (cases int_part) auto
  have c: "is_digit c" "c \<noteq> CHR ''+''" "c \<noteq> CHR ''-''" using assms(1) ip by (auto simp: is_digit_nat)
  have un: "unsigned_part (sign_text @ int_part @ tail) = int_part @ tail"
    using assms(4) c ip by (auto simp: unsigned_part_def)
  have digits: "\<forall>x \<in> set int_part. is_digit x" using assms(1) by (simp add: list_all_iff)
  have dot: "\<not> is_digit CHR ''.''" by (simp add: is_digit_nat)
  show int: "integer_digits (sign_text @ int_part @ tail) = int_part"
    unfolding integer_digits_def un using digits dot assms(5) by auto
  have after: "after_integer (sign_text @ int_part @ tail) = tail"
    unfolding after_integer_def un using digits dot assms(5) by auto
  then show "drop 1 (after_integer (sign_text @ int_part @ tail)) = decimals" using assms(5) by simp
  show "decimalPattern (sign_text @ int_part @ tail)" using int after assms by (simp add: decimalPattern_def)
  show "has_prefix (sign_text @ int_part @ tail) ''-'' \<longleftrightarrow> sign_text = ''-''" using assms(4) c ip by (auto simp: has_prefix_def)
  have "list_all (\<lambda>c. 32 < (of_char c :: nat) \<and> (of_char c :: nat) < 128) (sign_text @ int_part @ tail)"
    using assms(4,5) digit_printable [OF assms(1)] digit_printable [OF assms(3)] by auto
  then show "trim_space (sign_text @ int_part @ tail) = sign_text @ int_part @ tail" by (rule trim_space_id)
qed

lemma ParseDecimal_String:
  assumes "scale \<le> maxScale"
  shows "ParseDecimal (decimal_String d scale) maxScale = Inr (round_half scale d)"
proof -
  let ?k = "scaled scale d" let ?sign_text = "if d < 0 then ''-'' else ''''"
  let ?int = "nat_string (?k div 10 ^ scale)"
  let ?dec = "if scale > 0 then padded scale (?k mod 10 ^ scale) else ''''"
  let ?tail = "if ?dec = [] then '''' else CHR ''.'' # ?dec"
  have dec: "length ?dec = scale" "list_all is_digit ?dec" "digits_val ?dec = ?k mod 10 ^ scale"
    using padded_digits [of scale "?k mod 10 ^ scale"] by auto
  have shape: "decimal_String d scale = ?sign_text @ ?int @ ?tail"
    using dec(1) by (auto simp: decimal_String_def padded_def Let_def)
  note parts = parse_parts [of ?int ?dec ?sign_text ?tail, OF nat_string_digits nat_string_not_Nil dec(2)]
  have "digits_val (?int @ ?dec) = ?k" by (simp only: digits_val_append dec nat_string_val div_mult_mod_eq)
  then have "rat_SetString (decimal_String d scale) = round_half scale d"
    using parts dec(1) by (simp add: shape rat_SetString_def round_half_def Let_def)
  then show ?thesis using parts dec(1) assms by (simp add: shape ParseDecimal_def Let_def)
qed

section \<open>Lemmas on rounding\<close>

lemma scaled_error: "\<bar>of_nat (scaled s x) - \<bar>x\<bar> * 10 ^ s\<bar> \<le> (1 / 2 :: rat)"
proof -
  define y :: rat where "y = \<bar>x\<bar> * 10 ^ s"
  have "0 \<le> \<lfloor>y + 1 / 2\<rfloor>" by (simp add: y_def)
  then have "of_nat (scaled s x) = (of_int \<lfloor>y + 1 / 2\<rfloor> :: rat)" by (simp add: scaled_def flip: y_def)
  moreover have "of_int \<lfloor>y + 1 / 2\<rfloor> \<le> y + 1 / 2" "y + 1 / 2 < of_int \<lfloor>y + 1 / 2\<rfloor> + 1" by linarith+
  ultimately show ?thesis unfolding y_def [symmetric] by linarith
qed

lemma round_half_error: "\<bar>round_half s x - x\<bar> \<le> 1 / (2 * 10 ^ s)"
proof -
  have "round_half s x - x = (if x < 0 then -1 else 1) * ((of_nat (scaled s x) - \<bar>x\<bar> * 10 ^ s) / 10 ^ s)"
    by (simp add: round_half_def field_simps)
  then have "\<bar>round_half s x - x\<bar> = \<bar>of_nat (scaled s x) - \<bar>x\<bar> * 10 ^ s\<bar> / 10 ^ s"
    by (simp add: abs_mult)
  also have "\<dots> \<le> (1 / 2) / 10 ^ s" using scaled_error [of s x] by (intro divide_right_mono) auto
  finally show ?thesis by simp
qed

lemma scaled_nonneg_add:
  assumes "0 \<le> a" "0 \<le> x" "a * 10 ^ s = of_nat n"
  shows "scaled s (a + x) = n + scaled s x"
proof -
  have "\<bar>a + x\<bar> * 10 ^ s + 1 / 2 = of_int (int n) + (\<bar>x\<bar> * 10 ^ s + 1 / 2)"
    using assms by (simp add: algebra_simps)
  moreover have "0 \<le> \<lfloor>\<bar>x\<bar> * 10 ^ s + 1 / 2\<rfloor>" by simp
  ultimately show ?thesis unfolding scaled_def by (simp only: floor_add_int [symmetric] add.commute [of "of_int (int n)"] nat_add_distrib)
qed

text \<open>A number has at most \<open>s\<close> decimals.\<close>

definition fits :: "nat \<Rightarrow> decimal \<Rightarrow> bool" where
  "fits s d = (d * 10 ^ s \<in> \<int>)"

lemma fits_nat:
  assumes "fits s d" "0 \<le> d"
  shows "\<exists>n. d * 10 ^ s = of_nat n"
proof -
  obtain z where z: "d * 10 ^ s = of_int z" using assms(1) unfolding fits_def by (auto elim: Ints_cases)
  have "0 \<le> d * 10 ^ s" using assms(2) by simp
  then have "0 \<le> z" using z by simp
  then show ?thesis using z by (metis of_nat_nat)
qed

lemma round_half_add:
  assumes "0 \<le> a" "0 \<le> x" "fits s a"
  shows "round_half s (a + x) = a + round_half s x"
proof -
  obtain n where n: "a * 10 ^ s = of_nat n" using fits_nat assms by blast
  then have "a = of_nat n / 10 ^ s" by (simp add: field_simps)
  moreover have "\<not> a + x < 0" "\<not> x < 0" using assms by auto
  ultimately show ?thesis using scaled_nonneg_add [OF assms(1,2) n] by (simp add: round_half_def add_divide_distrib)
qed

lemma round_half_0 [simp]: "round_half s 0 = 0"
  by (simp add: round_half_def scaled_def)

lemma round_half_uminus: "round_half s (- x) = - round_half s x"
  by (cases "x = 0") (auto simp: round_half_def scaled_def)

lemma round_half_fits:
  assumes "fits s d"
  shows "round_half s d = d"
proof -
  have nonneg: "round_half s d = d" if "fits s d" "0 \<le> d" for d
    using round_half_add [of d 0 s] that by simp
  show ?thesis
  proof (cases "0 \<le> d")
    case True
    then show ?thesis using nonneg assms by blast
  next
    case False
    have "fits s (- d)" using assms by (auto simp: fits_def)
    then show ?thesis using nonneg [of "- d"] False by (simp add: round_half_uminus)
  qed
qed

lemma round_half_mono: "0 \<le> x \<Longrightarrow> x \<le> y \<Longrightarrow> round_half s x \<le> round_half s y"
  unfolding round_half_def scaled_def
  by (auto intro!: divide_right_mono nat_mono floor_mono add_right_mono mult_right_mono)

lemma round_half_nonneg: "0 \<le> x \<Longrightarrow> 0 \<le> round_half s x"
  using round_half_mono [of 0 x s] by simp

lemma fits_round_half: "fits s (round_half s d)"
  by (simp add: fits_def round_half_def)

lemma ParseDecimal_fits:
  assumes "ParseDecimal raw maxScale = Inr d" "maxScale \<le> s"
  shows "fits s d"
proof -
  let ?raw = "trim_space raw" let ?l = "length (drop 1 (after_integer ?raw))"
  have l: "?l \<le> s" and d: "d = rat_SetString ?raw"
    using assms by (auto simp: ParseDecimal_def Let_def split: if_splits)
  obtain n :: nat where n: "d = of_nat n / 10 ^ ?l \<or> d = - (of_nat n / 10 ^ ?l)"
    using that [of "digits_val (integer_digits ?raw @ drop 1 (after_integer ?raw))"]
    unfolding d rat_SetString_def Let_def by presburger
  have "(10 :: rat) ^ s = 10 ^ ?l * 10 ^ (s - ?l)" using l by (simp flip: power_add)
  then have "d * 10 ^ s = of_nat n * 10 ^ (s - ?l) \<or> d * 10 ^ s = - (of_nat n * 10 ^ (s - ?l))"
    using n by auto
  then show ?thesis unfolding fits_def by auto
qed

lemma fits_mono:
  assumes "fits s d" "s \<le> s'"
  shows "fits s' d"
proof -
  have "d * 10 ^ s' = (d * 10 ^ s) * 10 ^ (s' - s)" using assms(2) by (simp flip: power_add)
  moreover have "(10 :: rat) ^ (s' - s) \<in> \<int>" by (intro Ints_power) simp
  ultimately show ?thesis using assms(1) unfolding fits_def by (metis Ints_mult)
qed

section \<open>Lemmas on the engine\<close>

lemmas decimal_eval = ParseDecimal_def decimalPattern_def integer_digits_def after_integer_def unsigned_part_def
  rat_SetString_def digits_val_def digit_val_def Let_def string_eval

lemma parse_within_Some [simp]: "parse_within raw m ok = Some d \<longleftrightarrow> ParseDecimal raw m = Inr d \<and> ok d"
  by (auto simp: parse_within_def split: sum.splits)

text \<open>The tax and the total of a cycle, in exact arithmetic.\<close>

definition exact_tax :: "string \<Rightarrow> decimal \<Rightarrow> decimal \<Rightarrow> decimal" where
  "exact_tax mode amount rate =
    (if mode = TaxExclusive then amount * rate else if mode = TaxInclusive then amount * rate / (1 + rate) else 0)"

definition exact_total :: "string \<Rightarrow> decimal \<Rightarrow> decimal \<Rightarrow> decimal" where
  "exact_total mode amount rate = (if mode = TaxExclusive then amount * (1 + rate) else amount)"

definition stated_rate :: "cost_input \<Rightarrow> decimal \<Rightarrow> bool" where
  "stated_rate input rate = (0 \<le> rate \<and> rate \<le> 1 \<and> (case ci_TaxRate input of None \<Rightarrow> rate = 0 | Some raw \<Rightarrow> ParseDecimal raw 10 = Inr rate))"

abbreviation cycle_months :: "cost_input \<Rightarrow> int" where
  "cycle_months input \<equiv> (if ci_BillingCycleMonths input = 0 then 12 else ci_BillingCycleMonths input)"

lemma completed_simps:
  "cr_CycleAmount (completed amount months currency tax gross) = decimal_String amount 6"
  "cr_TaxAmount (completed amount months currency tax gross) = Some (decimal_String tax 6)"
  "cr_CycleTotal (completed amount months currency tax gross) = Some (decimal_String gross 6)"
  "cr_AnnualEstimate (completed amount months currency tax gross) = Some (decimal_String (gross * 12 / of_int months) 6)"
  "cr_Complete (completed amount months currency tax gross)"
  by (simp_all add: completed_def)

lemma Calculate_Inr:
  assumes "Calculate input = Inr r"
  obtains (unknown) amount where "ParseDecimal (ci_Amount input) 6 = Inr amount" "0 \<le> amount"
      "tax_mode (ci_TaxMode input) = TaxUnknown" "\<not> cr_Complete r" "cr_CycleAmount r = decimal_String amount 6"
  | (known) amount rate where "ParseDecimal (ci_Amount input) 6 = Inr amount" "0 \<le> amount" "stated_rate input rate"
      "tax_mode (ci_TaxMode input) \<noteq> TaxUnknown" "cr_Complete r" "cr_CycleAmount r = decimal_String amount 6"
      "1 \<le> cycle_months input"
      "cr_TaxAmount r = Some (decimal_String (exact_tax (tax_mode (ci_TaxMode input)) amount rate) 6)"
      "cr_CycleTotal r = Some (decimal_String (exact_total (tax_mode (ci_TaxMode input)) amount rate) 6)"
      "cr_AnnualEstimate r =
         Some (decimal_String (exact_total (tax_mode (ci_TaxMode input)) amount rate * 12 / of_int (cycle_months input)) 6)"
proof -
  let ?mode = "tax_mode (ci_TaxMode input)"
  obtain amount where amount: "parse_within (ci_Amount input) 6 (\<lambda>d. 0 \<le> d) = Some amount"
    using assms unfolding Calculate_def by (cases "parse_within (ci_Amount input) 6 (\<lambda>d. 0 \<le> d)") simp_all
  then have a: "ParseDecimal (ci_Amount input) 6 = Inr amount" "0 \<le> amount" by simp_all
  have modes: "TaxExempt \<noteq> TaxExclusive" "TaxExempt \<noteq> TaxInclusive" "TaxExclusive \<noteq> TaxInclusive"
    by (simp_all add: TaxExempt_def TaxExclusive_def TaxInclusive_def)
  note calc = assms [unfolded Calculate_def amount option.case Let_def]
  have months: "1 \<le> cycle_months input" using calc by (auto split: if_splits)
  consider "?mode = TaxUnknown" | "?mode = TaxExempt" "?mode \<noteq> TaxUnknown" | "?mode = TaxExclusive" "?mode \<noteq> TaxUnknown"
    | "?mode = TaxInclusive" "?mode \<noteq> TaxUnknown"
    using calc by (auto split: if_splits)
  then show ?thesis
  proof cases
    case 1
    then show ?thesis using unknown [OF a] calc by (auto split: if_splits option.splits)
  next
    case 2
    have st: "stated_rate input 0"
      and r: "r = completed amount (cycle_months input) (normalizeCurrency (ci_Currency input)) 0 amount"
      using calc 2 by (auto simp: stated_rate_def split: if_splits option.splits)
    have e: "exact_tax ?mode amount 0 = 0" "exact_total ?mode amount 0 = amount"
      using 2 modes by (simp_all add: exact_tax_def exact_total_def)
    show ?thesis by (rule known [OF a st]) (simp_all only: r completed_simps e 2(2) months not_False_eq_True)
  next
    case 3
    then obtain raw rate where rate: "ci_TaxRate input = Some raw" "parse_within raw 10 (\<lambda>d. 0 \<le> d \<and> d \<le> 1) = Some rate"
      using calc modes by (auto split: if_splits option.splits)
    then have st: "stated_rate input rate" by (simp add: stated_rate_def)
    have e: "exact_tax ?mode amount rate = amount * rate" "exact_total ?mode amount rate = amount + amount * rate"
      using 3 by (simp_all add: exact_tax_def exact_total_def distrib_left)
    have r: "r = completed amount (cycle_months input) (normalizeCurrency (ci_Currency input)) (amount * rate) (amount + amount * rate)"
      using calc [unfolded rate option.case] 3 modes by (simp split: if_splits)
    show ?thesis by (rule known [OF a st]) (simp_all only: r completed_simps e 3(2) months not_False_eq_True)
  next
    case 4
    then obtain raw rate where rate: "ci_TaxRate input = Some raw" "parse_within raw 10 (\<lambda>d. 0 \<le> d \<and> d \<le> 1) = Some rate"
      using calc modes by (auto split: if_splits option.splits)
    then have st: "stated_rate input rate" "0 \<le> rate" by (simp_all add: stated_rate_def)
    then have e: "exact_tax ?mode amount rate = amount - amount / (1 + rate)" "exact_total ?mode amount rate = amount"
      using 4 modes by (simp_all add: exact_tax_def exact_total_def field_simps)
    have r: "r = completed amount (cycle_months input) (normalizeCurrency (ci_Currency input)) (amount - amount / (1 + rate)) amount"
      using calc [unfolded rate option.case] 4 modes by (simp split: if_splits)
    show ?thesis by (rule known [OF a st(1)]) (simp_all only: r completed_simps e 4(2) months not_False_eq_True)
  qed
qed

lemma exact_tax_bounds: "0 \<le> amount \<Longrightarrow> 0 \<le> rate \<Longrightarrow> 0 \<le> exact_tax mode amount rate \<and> exact_tax mode amount rate \<le> exact_total mode amount rate"
  by (auto simp: exact_tax_def exact_total_def field_simps)

section \<open>Properties\<close>

text \<open>C15. Decimals survive printing: what \<open>ParseDecimal\<close> accepts with at most \<open>m\<close> decimals is printed with \<open>s \<ge> m\<close> decimals
  as a text that is accepted again and stands for the same number.\<close>

theorem ParseDecimal_roundtrip:
  assumes "ParseDecimal raw m = Inr d" "m \<le> s"
  shows "ParseDecimal (decimal_String d s) s = Inr d"
  using ParseDecimal_String [of s s d] round_half_fits [OF ParseDecimal_fits [OF assms]] by simp

theorem ParseDecimal_roundtrip_witness:
  "ParseDecimal (decimal_String (- 1205 / 100) 6) 6 = Inr (- 1205 / 100)"
proof -
  have "ParseDecimal '' -12.05'' 2 = Inr (- 1205 / 100)" by (simp add: decimal_eval)
  from ParseDecimal_roundtrip [OF this, of 6] show ?thesis by simp
qed


definition sample_cost :: cost_input where
  "sample_cost = \<lparr>ci_Amount = ''107'', ci_Currency = '' thb'', ci_TaxRate = Some ''0.07'', ci_TaxMode = ''Inclusive'', ci_BillingCycleMonths = 24\<rparr>"


end
