(* ===== verification/Recommendation.thy ===== *)
theory Recommendation
  imports Prelude
begin

text \<open>
  \<^verbatim>\<open>internal/recommendation/engine.go\<close>: the rule-based recommendation for a domain.  The Thai sentences, which are only
  copied into the result, are the argument \<open>th\<close>, indexed by the reason code.
\<close>

section \<open>Inputs and results\<close>

definition PolicyVersion :: string where "PolicyVersion = ''recommendation-2026-08-v1''"

record rec_input =
  ri_DomainID :: string
  ri_Domain :: string
  ri_Lifecycle :: string
  ri_SourceStatus :: string
  ri_Priority :: string
  ri_Monitoring :: bool
  ri_Availability :: string
  ri_DNS :: string
  ri_HTTP :: string
  ri_Redirect :: string
  ri_ISP :: string
  ri_TLS :: string
  ri_StatusConfidence :: int
  ri_LastCheckedAt :: "gotime option"
  ri_ExpirationAt :: "gotime option"
  ri_RenewalAmount :: string
  ri_RenewalCurrency :: string
  ri_OpenIncidents :: int
  ri_Incidents90Days :: int
  ri_DowntimeChanges :: int

record rec_result =
  rr_Action :: string
  rr_OpportunityLevel :: string
  rr_ConfidenceScore :: int
  rr_ConfidenceLevel :: string
  rr_PolicyVersion :: string
  rr_ReasonCodes :: "string list"
  rr_ReasonsTH :: "string list"
  rr_ReasonsEN :: "string list"
  rr_EvidenceRefs :: "string list"

record reason =
  rs_code :: string
  rs_en :: string
  rs_evidence :: string

definition rec_confidenceLevel :: "int \<Rightarrow> string" where
  "rec_confidenceLevel score = (if score \<ge> 70 then ''HIGH'' else if score \<ge> 40 then ''MEDIUM'' else ''LOW'')"

definition badDNS :: "string \<Rightarrow> bool" where
  "badDNS v = (v \<noteq> ''OK'' \<and> v \<noteq> ''UNKNOWN'')"

definition badTLS :: "string \<Rightarrow> bool" where
  "badTLS v = (v \<noteq> ''VALID'' \<and> v \<noteq> ''NOT_APPLICABLE'' \<and> v \<noteq> ''UNKNOWN'' \<and> v \<noteq> ''EXPIRING'')"

section \<open>Name indicators\<close>

definition opportunity_score :: "rec_input \<Rightarrow> int \<times> reason list" where
  "opportunity_score input =
    (let registrable = to_lower (trim_suffix (ri_Domain input) ''.'');
         parts = split_on CHR ''.'' registrable;
         label = hd parts;
         tld = (if length parts > 1 then last parts else '''');
         short = length label \<le> 8;
         brandable = \<not> contains label ''-'' \<and> \<not> list_ex is_digit label;
         checked = ri_LastCheckedAt input \<noteq> None \<and> ri_Availability input \<noteq> ''UNKNOWN'' in
     ((if short then 2 else if length label \<le> 12 then 1 else 0) + (if brandable then 2 else 0) +
      (if tld = ''com'' then 2 else if tld \<in> {''net'', ''org'', ''co'', ''th''} then 1 else 0) + (if checked then 1 else 0),
      (if short then [\<lparr>rs_code = ''SHORT_DOMAIN'', rs_en = ''The primary domain label is short and easier to remember.'',
         rs_evidence = ''domains.domain_ascii''\<rparr>] else []) @
      (if brandable then [\<lparr>rs_code = ''BRANDABLE_PATTERN'',
         rs_en = ''The name has no hyphen or digits, which improves brandability indicators.'',
         rs_evidence = ''domains.domain_ascii''\<rparr>] else []) @
      (if tld = ''com'' then [\<lparr>rs_code = ''STRONG_TLD'', rs_en = ''The .com TLD is a strong commercial indicator.'',
         rs_evidence = ''domains.domain_ascii''\<rparr>] else [])))"

definition opportunity :: "rec_input \<Rightarrow> string \<times> reason list" where
  "opportunity input =
    (let (score, reasons) = opportunity_score input in
     (if score \<ge> 6 then ''HIGH'' else if score \<ge> 3 then ''MEDIUM'' else ''LOW'', reasons))"

section \<open>The rules\<close>

definition data_incomplete :: reason where
  "data_incomplete = \<lparr>rs_code = ''DATA_INCOMPLETE'', rs_en = ''Monitoring evidence is incomplete, so a human review is required.'',
     rs_evidence = ''domains.current_status''\<rparr>"

definition expiration_unknown :: reason where
  "expiration_unknown = \<lparr>rs_code = ''EXPIRATION_UNKNOWN'', rs_en = ''The domain expiration date is unknown.'',
     rs_evidence = ''domains.expiration_at''\<rparr>"

definition isp_block_review :: reason where
  "isp_block_review = \<lparr>rs_code = ''ISP_BLOCK_REVIEW'', rs_en = ''Network blocking evidence requires a business-impact review.'',
     rs_evidence = ''domains.current_isp_status''\<rparr>"

definition technical_risk_review :: reason where
  "technical_risk_review = \<lparr>rs_code = ''TECHNICAL_RISK_REVIEW'',
     rs_en = ''An incident or DNS, TLS, or availability problem still requires analysis.'', rs_evidence = ''domains.current_status''\<rparr>"

definition downtime_history :: reason where
  "downtime_history = \<lparr>rs_code = ''DOWNTIME_HISTORY'',
     rs_en = ''The domain changed to an unavailable state during the past 90 days.'', rs_evidence = ''domain_status_history''\<rparr>"

definition renewal_cost_unknown :: reason where
  "renewal_cost_unknown = \<lparr>rs_code = ''RENEWAL_COST_UNKNOWN'',
     rs_en = ''No reliable renewal cost is available, so renew or drop should not be decided automatically.'', rs_evidence = ''domain_costs''\<rparr>"

definition inactive_low_priority :: reason where
  "inactive_low_priority = \<lparr>rs_code = ''INACTIVE_LOW_PRIORITY'', rs_en = ''The domain is inactive and has low business priority.'',
     rs_evidence = ''domains.lifecycle_status''\<rparr>"

definition permanent_redirect :: reason where
  "permanent_redirect = \<lparr>rs_code = ''PERMANENT_REDIRECT'', rs_en = ''The domain already uses a permanent redirect.'',
     rs_evidence = ''domains.current_redirect_status''\<rparr>"

definition profit_indicators_high :: reason where
  "profit_indicators_high = \<lparr>rs_code = ''PROFIT_INDICATORS_HIGH'',
     rs_en = ''Domain-name indicators are high; a human should assess the commercial opportunity.'', rs_evidence = ''recommendation.indicators''\<rparr>"

definition business_importance :: reason where
  "business_importance = \<lparr>rs_code = ''BUSINESS_IMPORTANCE'', rs_en = ''The domain has high business importance.'',
     rs_evidence = ''domains.business_priority''\<rparr>"

definition expiring_soon :: reason where
  "expiring_soon = \<lparr>rs_code = ''EXPIRING_SOON'', rs_en = ''The domain expires within 90 days.'', rs_evidence = ''domains.expiration_at''\<rparr>"

definition healthy_monitoring :: reason where
  "healthy_monitoring = \<lparr>rs_code = ''HEALTHY_MONITORING'',
     rs_en = ''The latest monitoring evidence shows no material technical risk.'', rs_evidence = ''domains.current_status''\<rparr>"

definition policy_review_required :: reason where
  "policy_review_required = \<lparr>rs_code = ''POLICY_REVIEW_REQUIRED'',
     rs_en = ''Evidence is not strong enough for an automatic renew or drop decision.'', rs_evidence = ''recommendation.policy''\<rparr>"

text \<open>The result that a branch returns: its action, its score and the reasons it adds before those of the name.\<close>

definition conclude :: "(string \<Rightarrow> string) \<Rightarrow> rec_input \<Rightarrow> string \<Rightarrow> int \<Rightarrow> reason list \<Rightarrow> rec_result" where
  "conclude th input action score items =
    (let (level, opportunityReasons) = opportunity input; reasons = items @ opportunityReasons in
     \<lparr>rr_Action = action, rr_OpportunityLevel = level, rr_ConfidenceScore = score, rr_ConfidenceLevel = rec_confidenceLevel score,
      rr_PolicyVersion = PolicyVersion, rr_ReasonCodes = map rs_code reasons, rr_ReasonsTH = map (th \<circ> rs_code) reasons,
      rr_ReasonsEN = map rs_en reasons, rr_EvidenceRefs = filter (\<lambda>e. e \<noteq> '''') (map rs_evidence reasons)\<rparr>)"

definition evidence_unknown :: "rec_input \<Rightarrow> bool" where
  "evidence_unknown input =
    (ri_LastCheckedAt input = None \<or> ri_Availability input = ''UNKNOWN'' \<or> ri_DNS input = ''UNKNOWN'' \<or> ri_ISP input = ''UNKNOWN'')"

definition expires_within :: "rec_input \<Rightarrow> gotime \<Rightarrow> bool" where
  "expires_within input now = (case ri_ExpirationAt input of None \<Rightarrow> False | Some t \<Rightarrow> now \<le> t \<and> t < now + 90 * 24 * hour)"

abbreviation important :: "rec_input \<Rightarrow> bool" where
  "important input \<equiv> ri_Priority input = ''high'' \<or> ri_Priority input = ''critical''"

definition Evaluate :: "(string \<Rightarrow> string) \<Rightarrow> rec_input \<Rightarrow> gotime \<Rightarrow> rec_result" where
  "Evaluate th input now =
    (if evidence_unknown input then
       conclude th input ''REVIEW'' 42
         (data_incomplete # (if ri_ExpirationAt input = None then [expiration_unknown] else []))
     else if ri_ISP input = ''HIGH_CONFIDENCE_BLOCK'' \<or> ri_ISP input = ''SUSPECTED'' then
       conclude th input ''REVIEW'' (max 68 (ri_StatusConfidence input)) [isp_block_review]
     else if ri_OpenIncidents input > 0 \<or> ri_Availability input = ''UNAVAILABLE'' \<or> badDNS (ri_DNS input) \<or> badTLS (ri_TLS input) then
       conclude th input ''REVIEW'' (max 65 (ri_StatusConfidence input))
         (technical_risk_review # (if ri_DowntimeChanges input > 0 then [downtime_history] else []))
     else if trim_space (ri_RenewalAmount input) = '''' \<or> trim_space (ri_RenewalCurrency input) = '''' then
       conclude th input ''REVIEW'' 48 [renewal_cost_unknown]
     else if ri_Lifecycle input = ''inactive'' \<and> ri_Priority input = ''low'' \<and> ri_Redirect input = ''PERMANENT'' \<and>
             ri_SourceStatus input \<noteq> ''missing_from_source'' then
       conclude th input ''DROP'' 82 [inactive_low_priority, permanent_redirect]
     else if fst (opportunity input) = ''HIGH'' \<and> (ri_Priority input = ''low'' \<or> ri_Priority input = ''medium'') \<and>
             ri_Lifecycle input \<noteq> ''archived'' then
       conclude th input ''PROFIT_OPPORTUNITY'' 72 [profit_indicators_high]
     else if important input \<or> ri_Lifecycle input = ''active'' \<and> ri_Availability input = ''ACTIVE'' \<and> expires_within input now then
       conclude th input ''RENEW'' 84
         ((if important input then [business_importance] else []) @
          (if expires_within input now then [expiring_soon] else []) @ [healthy_monitoring])
     else conclude th input ''REVIEW'' 60 [policy_review_required])"

section \<open>Specification\<close>

text \<open>The evidence that every automatic decision needs.\<close>

definition sound_evidence :: "rec_input \<Rightarrow> bool" where
  "sound_evidence input =
    (ri_LastCheckedAt input \<noteq> None \<and> ri_Availability input \<notin> {''UNKNOWN'', ''UNAVAILABLE''} \<and> ri_DNS input = ''OK'' \<and>
     ri_ISP input \<notin> {''UNKNOWN'', ''SUSPECTED'', ''HIGH_CONFIDENCE_BLOCK''} \<and>
     ri_TLS input \<in> {''VALID'', ''NOT_APPLICABLE'', ''UNKNOWN'', ''EXPIRING''} \<and> ri_OpenIncidents input \<le> 0 \<and>
     trim_space (ri_RenewalAmount input) \<noteq> '''' \<and> trim_space (ri_RenewalCurrency input) \<noteq> '''')"

definition droppable :: "rec_input \<Rightarrow> bool" where
  "droppable input = (ri_Lifecycle input = ''inactive'' \<and> ri_Priority input = ''low'' \<and> ri_Redirect input = ''PERMANENT'' \<and>
     ri_SourceStatus input \<noteq> ''missing_from_source'')"

definition marketable :: "rec_input \<Rightarrow> bool" where
  "marketable input = (fst (opportunity input) = ''HIGH'' \<and> ri_Priority input \<in> {''low'', ''medium''} \<and> ri_Lifecycle input \<noteq> ''archived'')"

definition worth_renewing :: "rec_input \<Rightarrow> gotime \<Rightarrow> bool" where
  "worth_renewing input now = (ri_Priority input \<in> {''high'', ''critical''} \<or>
     ri_Lifecycle input = ''active'' \<and> ri_Availability input = ''ACTIVE'' \<and> expires_within input now)"

section \<open>Lemmas\<close>

lemma conclude_simps [simp]:
  "rr_Action (conclude th input action score items) = action"
  "rr_ConfidenceScore (conclude th input action score items) = score"
  "rr_ConfidenceLevel (conclude th input action score items) = rec_confidenceLevel score"
  "rr_ReasonCodes (conclude th input action score items) = map rs_code (items @ snd (opportunity input))"
  "length (rr_ReasonsTH (conclude th input action score items)) = length (rr_ReasonCodes (conclude th input action score items))"
  "length (rr_ReasonsEN (conclude th input action score items)) = length (rr_ReasonCodes (conclude th input action score items))"
  by (simp_all add: conclude_def split_def Let_def)

lemma important_not_marketable: "worth_renewing input now \<Longrightarrow> ri_Priority input \<in> {''high'', ''critical''} \<Longrightarrow> \<not> marketable input \<and> \<not> droppable input"
  by (auto simp: marketable_def droppable_def)

text \<open>What stands in the way of an automatic decision, in the order of the code.\<close>

definition isp_obstacle :: "rec_input \<Rightarrow> bool" where
  "isp_obstacle input = (ri_ISP input = ''HIGH_CONFIDENCE_BLOCK'' \<or> ri_ISP input = ''SUSPECTED'')"

definition technical_obstacle :: "rec_input \<Rightarrow> bool" where
  "technical_obstacle input = (ri_OpenIncidents input > 0 \<or> ri_Availability input = ''UNAVAILABLE'' \<or> badDNS (ri_DNS input) \<or> badTLS (ri_TLS input))"

definition cost_obstacle :: "rec_input \<Rightarrow> bool" where
  "cost_obstacle input = (trim_space (ri_RenewalAmount input) = '''' \<or> trim_space (ri_RenewalCurrency input) = '''')"

lemma sound_evidence_iff:
  "sound_evidence input \<longleftrightarrow> \<not> evidence_unknown input \<and> \<not> isp_obstacle input \<and> \<not> technical_obstacle input \<and> \<not> cost_obstacle input"
  unfolding sound_evidence_def evidence_unknown_def isp_obstacle_def technical_obstacle_def cost_obstacle_def badDNS_def badTLS_def
  by auto

lemma Evaluate_rules:
  "Evaluate th input now =
    (if evidence_unknown input then
       conclude th input ''REVIEW'' 42 (data_incomplete # (if ri_ExpirationAt input = None then [expiration_unknown] else []))
     else if isp_obstacle input then conclude th input ''REVIEW'' (max 68 (ri_StatusConfidence input)) [isp_block_review]
     else if technical_obstacle input then conclude th input ''REVIEW'' (max 65 (ri_StatusConfidence input))
       (technical_risk_review # (if ri_DowntimeChanges input > 0 then [downtime_history] else []))
     else if cost_obstacle input then conclude th input ''REVIEW'' 48 [renewal_cost_unknown]
     else if droppable input then conclude th input ''DROP'' 82 [inactive_low_priority, permanent_redirect]
     else if marketable input then conclude th input ''PROFIT_OPPORTUNITY'' 72 [profit_indicators_high]
     else if worth_renewing input now then conclude th input ''RENEW'' 84
       (((if important input then [business_importance] else []) @ (if expires_within input now then [expiring_soon] else [])) @ [healthy_monitoring])
     else conclude th input ''REVIEW'' 60 [policy_review_required])"
proof -
  have sets: "marketable input = (fst (opportunity input) = ''HIGH'' \<and> (ri_Priority input = ''low'' \<or> ri_Priority input = ''medium'') \<and>
      ri_Lifecycle input \<noteq> ''archived'')"
    "worth_renewing input now = (important input \<or> ri_Lifecycle input = ''active'' \<and> ri_Availability input = ''ACTIVE'' \<and> expires_within input now)"
    by (simp_all add: marketable_def worth_renewing_def)
  show ?thesis
    unfolding Evaluate_def isp_obstacle_def technical_obstacle_def cost_obstacle_def droppable_def sets append_assoc by (rule refl)
qed

text \<open>The rules by what they conclude.\<close>

lemma Evaluate_cases:
  obtains (review) score items where "Evaluate th input now = conclude th input ''REVIEW'' score items" "items \<noteq> []"
      "score \<in> {42, 48, 60, max 65 (ri_StatusConfidence input), max 68 (ri_StatusConfidence input)}"
      "\<not> (sound_evidence input \<and> (droppable input \<or> marketable input \<or> worth_renewing input now))"
  | (drop) "Evaluate th input now = conclude th input ''DROP'' 82 [inactive_low_priority, permanent_redirect]"
      "sound_evidence input" "droppable input"
  | (profit) "Evaluate th input now = conclude th input ''PROFIT_OPPORTUNITY'' 72 [profit_indicators_high]"
      "sound_evidence input" "\<not> droppable input" "marketable input"
  | (renew) items where "Evaluate th input now = conclude th input ''RENEW'' 84 (items @ [healthy_monitoring])"
      "sound_evidence input" "\<not> droppable input" "\<not> marketable input" "worth_renewing input now"
proof (cases "sound_evidence input")
  case False
  then have "\<exists>score items. Evaluate th input now = conclude th input ''REVIEW'' score items \<and> items \<noteq> [] \<and>
    score \<in> {42, 48, 60, max 65 (ri_StatusConfidence input), max 68 (ri_StatusConfidence input)}"
    unfolding sound_evidence_iff Evaluate_rules
    by (cases "evidence_unknown input"; cases "isp_obstacle input"; cases "technical_obstacle input"; cases "cost_obstacle input") auto
  then show ?thesis using review False by blast
next
  case True
  then show ?thesis
    using drop profit review [of 60 "[policy_review_required]"]
      renew [of "(if important input then [business_importance] else []) @ (if expires_within input now then [expiring_soon] else [])"]
    unfolding sound_evidence_iff Evaluate_rules
    by (cases "droppable input"; cases "marketable input"; cases "worth_renewing input now") simp_all
qed

section \<open>Properties\<close>


text \<open>C33. A domain of high priority is recommended for renewal with the reason that monitoring shows no material risk
  although its last check found it DEGRADED: the rules only look for UNAVAILABLE.\<close>

theorem Evaluate_degraded_healthy:
  assumes "sound_evidence input" "ri_Priority input \<in> {''high'', ''critical''}" "ri_Availability input = ''DEGRADED''"
  shows "rr_Action (Evaluate th input now) = ''RENEW'' \<and> ''HEALTHY_MONITORING'' \<in> set (rr_ReasonCodes (Evaluate th input now))"
proof -
  have w: "worth_renewing input now" using assms(2) by (simp add: worth_renewing_def)
  note n = important_not_marketable [OF w assms(2)]
  show ?thesis by (cases rule: Evaluate_cases [of th input now]) (use assms(1) w n in \<open>auto simp: healthy_monitoring_def\<close>)
qed

definition sample_rec :: rec_input where
  "sample_rec = \<lparr>ri_DomainID = ''d'', ri_Domain = ''shop.example.com'', ri_Lifecycle = ''active'', ri_SourceStatus = ''present'',
     ri_Priority = ''high'', ri_Monitoring = True, ri_Availability = ''DEGRADED'', ri_DNS = ''OK'', ri_HTTP = ''SERVER_ERROR'',
     ri_Redirect = ''NONE'', ri_ISP = ''NOT_DETECTED'', ri_TLS = ''VALID'', ri_StatusConfidence = 80, ri_LastCheckedAt = Some 7,
     ri_ExpirationAt = None, ri_RenewalAmount = ''400.000000'', ri_RenewalCurrency = ''THB'', ri_OpenIncidents = 0,
     ri_Incidents90Days = 0, ri_DowntimeChanges = 0\<rparr>"

lemma sample_rec_sound: "sound_evidence sample_rec"
  by (simp add: sound_evidence_def sample_rec_def string_eval)


theorem Evaluate_degraded_healthy_witness:
  "''HEALTHY_MONITORING'' \<in> set (rr_ReasonCodes (Evaluate (\<lambda>c. c) sample_rec 100)) \<and> ri_HTTP sample_rec = ''SERVER_ERROR''"
  using Evaluate_degraded_healthy [OF sample_rec_sound, of "\<lambda>c. c" 100] by (simp add: sample_rec_def)

end
