(* ===== verification/Persistence.thy ===== *)
theory Persistence
  imports Classification Auditlog
begin

text \<open>
  The evidence of a check in the database: \<^verbatim>\<open>PersistDNSResult\<close>, \<^verbatim>\<open>PersistHTTPAttempt\<close> and \<^verbatim>\<open>persistTLSCheck\<close> of
  \<^verbatim>\<open>internal/monitor/complete.go\<close>, which the monitor and the probe service share.  An insert fails when a value does not fit its
  column or a unique key is taken; the constraints are those of \<^verbatim>\<open>migrations/00002_monitoring_and_intelligence.sql\<close>.  The JSON
  columns hold the encoded value itself; PostgreSQL refuses a JSON text with a zero character.
\<close>

section \<open>Values of columns\<close>

definition nullableString :: "string \<Rightarrow> string option" where
  "nullableString v = (let v = trim_space v in if v = '''' then None else Some v)"

definition nullableInt :: "int \<Rightarrow> int option" where
  "nullableInt v = (if v = 0 then None else Some v)"

definition nullableBytes :: "string option \<Rightarrow> string option" where
  "nullableBytes v = (case v of None \<Rightarrow> None | Some b \<Rightarrow> if b = '''' then None else Some b)"

text \<open>\<^verbatim>\<open>Duration.Microseconds\<close>: division truncates toward zero.\<close>

definition microseconds :: "duration \<Rightarrow> int" where
  "microseconds d = (if d < 0 then - ((- d) div 1000) else d div 1000)"

definition durationMicroseconds :: "duration \<Rightarrow> int option" where
  "durationMicroseconds d = (if d \<le> 0 then None else Some (microseconds d))"

definition max64 :: "int \<Rightarrow> int \<Rightarrow> int" where
  "max64 left right = (if left > right then left else right)"

definition defaultStatus :: "string \<Rightarrow> string" where
  "defaultStatus v = (if trim_space v = '''' then ''UNKNOWN'' else v)"

text \<open>What the columns accept: a 4-byte integer, a status code, a JSON text.\<close>

definition int4 :: "int \<Rightarrow> bool" where
  "int4 n = (- 2147483648 \<le> n \<and> n \<le> 2147483647)"

definition status_code_ok :: "int option \<Rightarrow> bool" where
  "status_code_ok v = (case v of None \<Rightarrow> True | Some n \<Rightarrow> 100 \<le> n \<and> n \<le> 599)"

definition json_text_ok :: "string \<Rightarrow> bool" where
  "json_text_ok s = list_all (\<lambda>c. c \<noteq> CHR 0x00) s"

section \<open>Tables\<close>

record dns_check_row =
  dc_id :: uuid
  dc_result_id :: uuid
  dc_resolver_type :: string
  dc_endpoint :: string
  dc_query_name :: string
  dc_query_type :: string
  dc_attempt :: int
  dc_rcode :: "string option"
  dc_truncated :: bool
  dc_authoritative :: bool
  dc_duration_us :: int
  dc_error_code :: "string option"
  dc_error_message :: "string option"
  dc_transport :: string
  dc_checked_at :: gotime

record dns_answer_row =
  da_check_id :: uuid
  da_order :: nat
  da_name :: string
  da_type :: string
  da_value :: string
  da_ttl :: nat

record http_check_row =
  hc_id :: uuid
  hc_result_id :: uuid
  hc_scheme :: string
  hc_resolver_mode :: string
  hc_request_url :: string
  hc_effective_url :: "string option"
  hc_protocol :: "string option"
  hc_attempt :: int
  hc_initial_status :: "int option"
  hc_final_status :: "int option"
  hc_dns_us :: "int option"
  hc_connect_us :: "int option"
  hc_tls_us :: "int option"
  hc_ttfb_us :: "int option"
  hc_total_us :: int
  hc_content_type :: "string option"
  hc_declared_length :: int
  hc_body_size :: int
  hc_body_sha256 :: "string option"
  hc_hash_complete :: bool
  hc_excerpt :: "string option"
  hc_title :: "string option"
  hc_content_status :: string
  hc_server :: "string option"
  hc_headers :: "(string \<times> string) list"
  hc_error_code :: "string option"
  hc_error_message :: "string option"
  hc_checked_at :: gotime

record hop_row =
  hr_check_id :: uuid
  hr_hop :: nat
  hr_source_url :: string
  hr_status :: int
  hr_location :: string
  hr_target :: "string option"
  hr_cross_domain :: bool
  hr_downgrade :: bool
  hr_duration_us :: int
  hr_error_code :: "string option"

record tls_check_row =
  tc_check_id :: uuid
  tc_server_name :: string
  tc_remote_address :: "string option"
  tc_version :: "string option"
  tc_cipher :: "string option"
  tc_subject :: "string option"
  tc_issuer :: "string option"
  tc_serial_hash :: "string option"
  tc_sans :: "string list"
  tc_valid_from :: "gotime option"
  tc_valid_until :: "gotime option"
  tc_expiration_days :: "int option"
  tc_hostname_valid :: "bool option"
  tc_chain_valid :: bool
  tc_status :: string
  tc_diagnostic_only :: bool
  tc_error_code :: "string option"
  tc_error_message :: "string option"
  tc_checked_at :: gotime

record evidence_db =
  e_dns_checks :: "dns_check_row list"
  e_dns_answers :: "dns_answer_row list"
  e_http_checks :: "http_check_row list"
  e_hops :: "hop_row list"
  e_tls_checks :: "tls_check_row list"

section \<open>Constraints\<close>

definition dns_check_ok :: "dns_check_row list \<Rightarrow> dns_check_row \<Rightarrow> bool" where
  "dns_check_ok rows r =
    (dc_id r \<notin> dc_id ` set rows \<and>
     (dc_result_id r, dc_resolver_type r, dc_query_type r, dc_attempt r) \<notin>
       (\<lambda>q. (dc_result_id q, dc_resolver_type q, dc_query_type q, dc_attempt q)) ` set rows \<and>
     dc_resolver_type r \<in> {''LOCAL_SYSTEM'', ''CLOUDFLARE_DOH'', ''REMOTE_SYSTEM''} \<and> dc_query_type r \<in> {''A'', ''AAAA'', ''CNAME'', ''NS''} \<and>
     1 \<le> dc_attempt r \<and> dc_attempt r \<le> 20 \<and> 0 \<le> dc_duration_us r \<and> text_ok (dc_endpoint r) \<and> text_ok (dc_query_name r) \<and>
     opt_text_ok (dc_rcode r) \<and> opt_text_ok (dc_error_code r) \<and> opt_text_ok (dc_error_message r) \<and> json_text_ok (dc_transport r))"

definition dns_answer_ok :: "dns_answer_row \<Rightarrow> bool" where
  "dns_answer_ok r = (int4 (int (da_order r)) \<and> text_ok (da_name r) \<and> text_ok (da_type r) \<and> text_ok (da_value r) \<and> int4 (int (da_ttl r)))"

definition http_check_ok :: "http_check_row list \<Rightarrow> http_check_row \<Rightarrow> bool" where
  "http_check_ok rows r =
    (hc_id r \<notin> hc_id ` set rows \<and>
     (hc_result_id r, hc_scheme r, hc_resolver_mode r, hc_attempt r) \<notin>
       (\<lambda>q. (hc_result_id q, hc_scheme q, hc_resolver_mode q, hc_attempt q)) ` set rows \<and>
     hc_scheme r \<in> {''https'', ''http''} \<and> hc_resolver_mode r \<in> {''system'', ''doh_pinned'', ''remote_system''} \<and>
     1 \<le> hc_attempt r \<and> hc_attempt r \<le> 20 \<and> status_code_ok (hc_initial_status r) \<and> status_code_ok (hc_final_status r) \<and>
     0 \<le> hc_total_us r \<and> - 1 \<le> hc_declared_length r \<and> 0 \<le> hc_body_size r \<and>
     (case hc_body_sha256 r of None \<Rightarrow> True | Some h \<Rightarrow> length h = 32) \<and>
     (case hc_excerpt r of None \<Rightarrow> True | Some x \<Rightarrow> length x \<le> 65536) \<and> hc_content_status r \<in> set content_values \<and>
     text_ok (hc_request_url r) \<and> opt_text_ok (hc_effective_url r) \<and> opt_text_ok (hc_protocol r) \<and> opt_text_ok (hc_content_type r) \<and>
     opt_text_ok (hc_title r) \<and> opt_text_ok (hc_server r) \<and> opt_text_ok (hc_error_code r) \<and> opt_text_ok (hc_error_message r) \<and>
     list_all (\<lambda>(k, v). json_text_ok k \<and> json_text_ok v) (hc_headers r))"

definition hop_ok :: "hop_row list \<Rightarrow> hop_row \<Rightarrow> bool" where
  "hop_ok rows r =
    ((hr_check_id r, hr_hop r) \<notin> (\<lambda>q. (hr_check_id q, hr_hop q)) ` set rows \<and> hr_hop r \<le> 20 \<and> hr_status r \<in> {301, 302, 303, 307, 308} \<and>
     0 \<le> hr_duration_us r \<and> text_ok (hr_source_url r) \<and> text_ok (hr_location r) \<and> opt_text_ok (hr_target r) \<and> opt_text_ok (hr_error_code r))"

definition tls_check_ok :: "tls_check_row \<Rightarrow> bool" where
  "tls_check_ok r =
    (tc_status r \<in> set tls_values \<and> (case tc_expiration_days r of None \<Rightarrow> True | Some d \<Rightarrow> int4 d) \<and> text_ok (tc_server_name r) \<and>
     opt_text_ok (tc_remote_address r) \<and> opt_text_ok (tc_version r) \<and> opt_text_ok (tc_cipher r) \<and> opt_text_ok (tc_subject r) \<and>
     opt_text_ok (tc_issuer r) \<and> list_all json_text_ok (tc_sans r) \<and> opt_text_ok (tc_error_code r) \<and> opt_text_ok (tc_error_message r))"

section \<open>Operations\<close>

definition dns_check_of :: "uuid \<Rightarrow> uuid \<Rightarrow> dns_result \<Rightarrow> dns_check_row" where
  "dns_check_of checkID resultID result =
    \<lparr>dc_id = checkID, dc_result_id = resultID, dc_resolver_type = res_Resolver result, dc_endpoint = res_Endpoint result,
     dc_query_name = res_QueryName result, dc_query_type = res_QueryType result, dc_attempt = res_Attempt result,
     dc_rcode = nullableString (res_RCode result), dc_truncated = res_Truncated result, dc_authoritative = res_Authoritative result,
     dc_duration_us = max64 0 (microseconds (res_Duration result)), dc_error_code = nullableString (res_ErrorCode result),
     dc_error_message = nullableString (res_ErrorMessage result), dc_transport = res_Transport result,
     dc_checked_at = stored_time (res_CheckedAt result)\<rparr>"

definition insert_answer :: "uuid \<Rightarrow> evidence_db \<Rightarrow> nat \<times> dns_answer \<Rightarrow> (string, evidence_db) result" where
  "insert_answer checkID db = (\<lambda>(order, answer).
    let r = \<lparr>da_check_id = checkID, da_order = order, da_name = ans_Name answer, da_type = ans_Type answer, da_value = ans_Value answer,
          da_ttl = ans_TTL answer\<rparr> in
    bind_result (ensure ''insert DNS answer'' (dns_answer_ok r)) (\<lambda>_. Inr (db\<lparr>e_dns_answers := e_dns_answers db @ [r]\<rparr>)))"

definition PersistDNSResult :: "uuid \<Rightarrow> uuid \<Rightarrow> dns_result \<Rightarrow> evidence_db \<Rightarrow> (string, evidence_db) result" where
  "PersistDNSResult checkID resultID result db =
    (let r = dns_check_of checkID resultID result in
     bind_result (ensure ''insert DNS check'' (dns_check_ok (e_dns_checks db) r)) (\<lambda>_.
     each (insert_answer checkID) (db\<lparr>e_dns_checks := e_dns_checks db @ [r]\<rparr>) (enumerate 0 (res_Answers result))))"

definition persistTLSCheck :: "uuid \<Rightarrow> tls_result \<Rightarrow> evidence_db \<Rightarrow> (string, evidence_db) result" where
  "persistTLSCheck httpCheckID result db =
    (let r = \<lparr>tc_check_id = httpCheckID, tc_server_name = tls_ServerName result, tc_remote_address = nullableString (tls_RemoteAddress result),
          tc_version = nullableString (tls_TLSVersion result), tc_cipher = nullableString (tls_CipherSuite result),
          tc_subject = nullableString (tls_CertificateSubject result), tc_issuer = nullableString (tls_CertificateIssuer result),
          tc_serial_hash = nullableBytes (tls_SerialHash result), tc_sans = tls_SANs result,
          tc_valid_from = map_option stored_time (tls_ValidFrom result), tc_valid_until = map_option stored_time (tls_ValidUntil result),
          tc_expiration_days = tls_ExpirationDays result, tc_hostname_valid = tls_HostnameValid result, tc_chain_valid = tls_ChainValid result,
          tc_status = defaultStatus (tls_Status result), tc_diagnostic_only = tls_DiagnosticOnly result,
          tc_error_code = nullableString (tls_ErrorCode result), tc_error_message = nullableString (tls_ErrorMessage result),
          tc_checked_at = stored_time (tls_CheckedAt result)\<rparr> in
     bind_result (ensure ''insert TLS check'' (tls_check_ok r)) (\<lambda>_. Inr (db\<lparr>e_tls_checks := e_tls_checks db @ [r]\<rparr>)))"

definition http_check_of :: "uuid \<Rightarrow> uuid \<Rightarrow> string \<Rightarrow> string \<Rightarrow> http_attempt \<Rightarrow> http_check_row" where
  "http_check_of checkID resultID scheme resolverMode attempt =
    \<lparr>hc_id = checkID, hc_result_id = resultID, hc_scheme = scheme, hc_resolver_mode = resolverMode, hc_request_url = at_RequestURL attempt,
     hc_effective_url = nullableString (at_EffectiveURL attempt), hc_protocol = nullableString (at_Protocol attempt),
     hc_attempt = at_Attempt attempt, hc_initial_status = nullableInt (at_InitialStatusCode attempt),
     hc_final_status = nullableInt (at_FinalStatusCode attempt), hc_dns_us = durationMicroseconds (tm_DNS (at_Timing attempt)),
     hc_connect_us = durationMicroseconds (tm_Connect (at_Timing attempt)), hc_tls_us = durationMicroseconds (tm_TLS (at_Timing attempt)),
     hc_ttfb_us = durationMicroseconds (tm_TTFB (at_Timing attempt)), hc_total_us = max64 0 (microseconds (tm_Total (at_Timing attempt))),
     hc_content_type = nullableString (ce_ContentType (at_Content attempt)), hc_declared_length = ce_DeclaredContentLength (at_Content attempt),
     hc_body_size = ce_BodySize (at_Content attempt), hc_body_sha256 = nullableBytes (ce_BodySHA256 (at_Content attempt)),
     hc_hash_complete = ce_HashComplete (at_Content attempt), hc_excerpt = nullableBytes (Some (ce_Excerpt (at_Content attempt))),
     hc_title = nullableString (ce_Title (at_Content attempt)), hc_content_status = defaultStatus (ce_Status (at_Content attempt)),
     hc_server = nullableString (at_ServerHeader attempt), hc_headers = at_Headers attempt,
     hc_error_code = nullableString (at_ErrorCode attempt), hc_error_message = nullableString (at_ErrorMessage attempt),
     hc_checked_at = stored_time (at_CheckedAt attempt)\<rparr>"

definition insert_hop :: "uuid \<Rightarrow> evidence_db \<Rightarrow> redirect_hop \<Rightarrow> (string, evidence_db) result" where
  "insert_hop checkID db hop =
    (let r = \<lparr>hr_check_id = checkID, hr_hop = hop_Hop hop, hr_source_url = hop_SourceURL hop, hr_status = hop_StatusCode hop,
          hr_location = hop_Location hop, hr_target = nullableString (hop_ResolvedTarget hop), hr_cross_domain = hop_CrossDomain hop,
          hr_downgrade = hop_HTTPSDowngrade hop, hr_duration_us = max64 0 (microseconds (hop_Duration hop)),
          hr_error_code = nullableString (hop_ErrorCode hop)\<rparr> in
     bind_result (ensure ''insert redirect hop'' (hop_ok (e_hops db) r)) (\<lambda>_. Inr (db\<lparr>e_hops := e_hops db @ [r]\<rparr>)))"

definition PersistHTTPAttempt :: "uuid \<Rightarrow> uuid \<Rightarrow> string \<Rightarrow> string \<Rightarrow> http_attempt \<Rightarrow> evidence_db \<Rightarrow> (string, evidence_db) result" where
  "PersistHTTPAttempt checkID resultID scheme resolverMode attempt db =
    (let r = http_check_of checkID resultID scheme resolverMode attempt in
     bind_result (ensure ''insert HTTP check'' (http_check_ok (e_http_checks db) r)) (\<lambda>_.
     bind_result (each (insert_hop checkID) (db\<lparr>e_http_checks := e_http_checks db @ [r]\<rparr>) (at_Redirects attempt)) (\<lambda>db2.
     case at_TLS attempt of None \<Rightarrow> Inr db2 | Some t \<Rightarrow> persistTLSCheck checkID t db2)))"

end
