(* ===== verification/Normalize.thy ===== *)
theory Normalize
  imports Httpcheck Database
begin

text \<open>
  \<^verbatim>\<open>internal/domain/normalize.go\<close>: from what a user types to the canonical ASCII name of a domain.  The URL parser, IDNA
  and the public suffix list are the argument \<open>normalize_lib\<close>.
\<close>

section \<open>Normalisation\<close>

record validation_error =
  ve_Field :: string
  ve_ReasonCode :: string
  ve_Reason :: string

record normalized =
  nm_OriginalInput :: string
  nm_ASCII :: string
  nm_Unicode :: string
  nm_RegistrableDomain :: string

record normalize_lib =
  nl_Parse :: "string \<Rightarrow> url option"
  nl_ToASCII :: "string \<Rightarrow> string option"
  nl_ToUnicode :: "string \<Rightarrow> string option"
  nl_PublicSuffix :: "string \<Rightarrow> string \<times> bool"
  nl_EffectiveTLDPlusOne :: "string \<Rightarrow> string option"

definition domain_invalid :: "string \<Rightarrow> validation_error" where
  "domain_invalid reason = \<lparr>ve_Field = ''domain'', ve_ReasonCode = ''DOMAIN_INVALID'', ve_Reason = reason\<rparr>"

text \<open>\<^verbatim>\<open>unicode.IsControl\<close> on the runes of UTF-8 text: U+0000 to U+001F and U+007F to U+009F.\<close>

fun has_control :: "string \<Rightarrow> bool" where
  "has_control [] = False"
| "has_control (a # s) =
    ((of_char a :: nat) < 0x20 \<or> (of_char a :: nat) = 0x7F \<or>
     (of_char a :: nat) = 0xC2 \<and> (case s of b # _ \<Rightarrow> 0x80 \<le> (of_char b :: nat) \<and> (of_char b :: nat) \<le> 0x9F | [] \<Rightarrow> False) \<or>
     has_control s)"

definition extractHost :: "normalize_lib \<Rightarrow> string \<Rightarrow> (string, string) result" where
  "extractHost N input =
    (case nl_Parse N (if contains input ''://'' then input else ''https://'' @ input) of
       None \<Rightarrow> Inl ''cannot parse input''
     | Some parsed \<Rightarrow>
       if u_Scheme parsed \<noteq> ''http'' \<and> u_Scheme parsed \<noteq> ''https'' then Inl ''only http and https URLs are accepted''
       else if u_User parsed \<noteq> None then Inl ''URL credentials are not allowed''
       else if url_Port parsed \<noteq> '''' then Inl ''custom ports are not allowed''
       else if url_Hostname parsed = '''' then Inl ''hostname is missing''
       else Inr (url_Hostname parsed))"

definition name_char :: "char \<Rightarrow> bool" where
  "name_char c = (is_lower_letter c \<or> is_digit c \<or> c = CHR ''-'')"

definition label_error :: "string \<Rightarrow> string option" where
  "label_error label =
    (if label = '''' then Some ''domain contains an empty label''
     else if length label > 63 then Some ''domain label exceeds 63 bytes''
     else if hd label = CHR ''-'' \<or> last label = CHR ''-'' then Some ''domain label cannot start or end with a hyphen''
     else if \<not> list_all name_char label then Some ''domain contains an invalid character''
     else None)"

definition validateASCIIName :: "string \<Rightarrow> string option" where
  "validateASCIIName name =
    (let labels = split_on CHR ''.'' name in
     if length name > 253 then Some ''domain exceeds 253 bytes''
     else if length labels < 2 then Some ''domain must contain a public suffix''
     else (case filter (\<lambda>e. e \<noteq> None) (map label_error labels) of [] \<Rightarrow> None | e # _ \<Rightarrow> e))"

text \<open>\<^verbatim>\<open>net.ParseIP\<close>: an address without a zone.\<close>

definition ParseIP :: "string \<Rightarrow> addr option" where
  "ParseIP s = (case ParseAddr s of Some (V6 w zone) \<Rightarrow> if zone = '''' then Some (V6 w zone) else None | r \<Rightarrow> r)"

definition Normalize :: "normalize_lib \<Rightarrow> bool \<Rightarrow> string \<Rightarrow> (validation_error, normalized) result" where
  "Normalize N allowUnknownTLD input =
    (let original = trim_space input in
     bind_result (ensure (domain_invalid ''value is required'') (original \<noteq> '''')) (\<lambda>_.
     bind_result (ensure (domain_invalid ''control characters are not allowed'') (\<not> has_control original)) (\<lambda>_.
     bind_result (map_sum domain_invalid (\<lambda>h. h) (extractHost N original)) (\<lambda>host0.
     let host = trim_suffix (trim_space host0) ''.'' in
     bind_result (ensure (domain_invalid ''hostname is empty'') (host \<noteq> '''')) (\<lambda>_.
     bind_result (ensure (domain_invalid ''IP literals are not domains'') (ParseIP host = None)) (\<lambda>_.
     bind_result (require (domain_invalid ''IDNA conversion failed'') (nl_ToASCII N host)) (\<lambda>ascii0.
     let ascii = to_lower (trim_suffix ascii0 ''.''); suffix = fst (nl_PublicSuffix N ascii); icann = snd (nl_PublicSuffix N ascii) in
     bind_result (case validateASCIIName ascii of Some err \<Rightarrow> Inl (domain_invalid err) | None \<Rightarrow> Inr ()) (\<lambda>_.
     bind_result (ensure (domain_invalid ''a registrable domain is required'') (suffix \<noteq> '''' \<and> ascii \<noteq> suffix)) (\<lambda>_.
     bind_result (ensure (domain_invalid ''unknown or private public suffix'') (icann \<or> allowUnknownTLD)) (\<lambda>_.
     bind_result (require (domain_invalid ''cannot determine registrable domain'') (nl_EffectiveTLDPlusOne N ascii)) (\<lambda>registrable.
     bind_result (require (domain_invalid ''cannot produce Unicode display form'') (nl_ToUnicode N ascii)) (\<lambda>display.
     Inr \<lparr>nm_OriginalInput = original, nm_ASCII = ascii, nm_Unicode = display, nm_RegistrableDomain = registrable\<rparr>))))))))))))"

section \<open>Specification\<close>

text \<open>A host name in the preferred syntax of RFC 1035, lower case, with at least two labels.\<close>

definition host_label :: "string \<Rightarrow> bool" where
  "host_label l = (1 \<le> length l \<and> length l \<le> 63 \<and> (\<forall>c \<in> set l. name_char c) \<and>
     hd l \<noteq> CHR ''-'' \<and> last l \<noteq> CHR ''-'')"

definition host_name :: "string \<Rightarrow> bool" where
  "host_name s = (length s \<le> 253 \<and> (\<exists>labels. 2 \<le> length labels \<and> s = join_with ''.'' labels \<and> (\<forall>l \<in> set labels. host_label l)))"

section \<open>Lemmas\<close>

lemma join_split: "join_with [sep] (split_on sep s) = s"
proof (induction s)
  case (Cons c s)
  obtain w ws where "split_on sep s = w # ws" using split_on_not_Nil by (metis list.exhaust)
  then show ?case using Cons by (cases ws) auto
qed simp

lemma split_join:
  assumes "\<forall>l \<in> set labels. sep \<notin> set l" "labels \<noteq> []"
  shows "split_on sep (join_with [sep] labels) = labels"
proof -
  have one: "split_on sep l = [l]" if "sep \<notin> set l" for l using that by (induction l) auto
  have cons: "split_on sep (l @ sep # rest) = l # split_on sep rest" if "sep \<notin> set l" for l rest
    using that by (induction l) (auto split: list.splits)
  show ?thesis using assms by (induction "[sep]" labels rule: join_with.induct) (auto simp: one cons)
qed

lemma name_char_printable: "name_char c \<Longrightarrow> 32 < (of_char c :: nat) \<and> (of_char c :: nat) < 127 \<and> c \<noteq> CHR ''.'' \<and> c \<noteq> CHR '':'' \<and> c \<noteq> CHR ''/'' \<and> c \<noteq> CHR ''['' \<and> lower_char c = c"
  by (auto simp: name_char_def is_lower_letter_def is_digit_def less_eq_char_def lower_char_def)

lemma split_on_clean: "l \<in> set (split_on sep s) \<Longrightarrow> sep \<notin> set l"
proof (induction s arbitrary: l)
  case (Cons c s)
  then show ?case by (cases "split_on sep s") (auto split: if_splits)
qed simp

lemma label_error_None: "label_error l = None \<longleftrightarrow> host_label l"
  by (cases l) (auto simp: label_error_def host_label_def list_all_iff)

lemma validateASCIIName_None: "validateASCIIName s = None \<longleftrightarrow> host_name s"
proof
  assume v: "validateASCIIName s = None"
  let ?errors = "filter (\<lambda>e. e \<noteq> None) (map label_error (split_on CHR ''.'' s))"
  have "?errors = []"
  proof (cases ?errors)
    case (Cons e es)
    then have "e \<in> set ?errors" by simp
    then have "e \<noteq> None" by simp
    then show ?thesis using v Cons by (simp add: validateASCIIName_def Let_def split: if_splits)
  qed
  then have "list_all (\<lambda>l. label_error l = None) (split_on CHR ''.'' s)" by (auto simp: filter_empty_conv list_all_iff)
  then show "host_name s" using v join_split [of "CHR ''.''" s] unfolding host_name_def
    by (intro conjI exI [of _ "split_on CHR ''.'' s"]) (auto simp: validateASCIIName_def Let_def list_all_iff label_error_None split: if_splits)
next
  assume "host_name s"
  then obtain labels where l: "length s \<le> 253" "2 \<le> length labels" "s = join_with ''.'' labels" "\<forall>l \<in> set labels. host_label l"
    unfolding host_name_def by blast
  have "\<forall>l \<in> set labels. CHR ''.'' \<notin> set l" using l(4) name_char_printable unfolding host_label_def by blast
  then have "split_on CHR ''.'' s = labels" using split_join [of labels "CHR ''.''"] l(2,3) by force
  then show "validateASCIIName s = None" using l by (simp add: validateASCIIName_def label_error_None [symmetric])
qed

lemma join_chars: "set (join_with sep ws) \<subseteq> set sep \<union> \<Union> (set ` set ws)"
  by (induction sep ws rule: join_with.induct) auto

lemma host_name_chars:
  assumes "host_name s" "c \<in> set s"
  shows "c = CHR ''.'' \<or> name_char c"
proof -
  obtain labels where l: "s = join_with ''.'' labels" "\<forall>l \<in> set labels. host_label l" using assms(1) unfolding host_name_def by blast
  then have "c \<in> set ''.'' \<union> \<Union> (set ` set labels)" using assms(2) join_chars [of "''.''" labels] by blast
  then show ?thesis using l(2) by (auto simp: host_label_def)
qed

lemma join_with_not_Nil: "ws \<noteq> [] \<Longrightarrow> hd ws \<noteq> [] \<Longrightarrow> join_with sep ws \<noteq> []"
  by (cases "(sep, ws)" rule: join_with.cases) auto

lemma join_with_last: "ws \<noteq> [] \<Longrightarrow> last ws \<noteq> [] \<Longrightarrow> last (join_with sep ws) = last (last ws) \<and> join_with sep ws \<noteq> []"
  by (induction sep ws rule: join_with.induct) auto

lemma last_index_None:
  assumes "c \<notin> set s"
  shows "last_index c s = None"
proof -
  have "takeWhile (\<lambda>x. x \<noteq> c) (rev s) = rev s" using assms by auto
  then have "length (takeWhile (\<lambda>x. x \<noteq> c) (rev s)) = length s" by (metis length_rev)
  then show ?thesis by (simp add: last_index_def)
qed

text \<open>A host name goes through every step of the normalisation unchanged.\<close>

lemma host_name_steps:
  assumes "host_name s"
  shows "trim_space s = s" "s \<noteq> ''''" "\<not> has_control s" "\<not> contains s ''://''" "trim_suffix s ''.'' = s" "to_lower s = s"
    "url_split_host s = (s, '''')"
proof -
  have print: "\<forall>c \<in> set s. 32 < (of_char c :: nat) \<and> (of_char c :: nat) < 127 \<and> c \<noteq> CHR '':'' \<and> c \<noteq> CHR ''['' \<and> lower_char c = c"
  proof
    fix c assume "c \<in> set s"
    then consider "c = CHR ''.''" | "name_char c" using host_name_chars [OF assms] by blast
    then show "32 < (of_char c :: nat) \<and> (of_char c :: nat) < 127 \<and> c \<noteq> CHR '':'' \<and> c \<noteq> CHR ''['' \<and> lower_char c = c"
    proof cases
      case 1
      then show ?thesis by (simp add: lower_char_def less_eq_char_def)
    next
      case 2
      then show ?thesis using name_char_printable by blast
    qed
  qed
  have "list_all (\<lambda>c. 32 < (of_char c :: nat) \<and> (of_char c :: nat) < 128) s"
    unfolding list_all_iff
  proof
    fix c assume "c \<in> set s"
    then have "32 < (of_char c :: nat)" "(of_char c :: nat) < 127" using print by blast+
    then show "32 < (of_char c :: nat) \<and> (of_char c :: nat) < 128" by linarith
  qed
  then show "trim_space s = s" by (rule trim_space_id)
  obtain labels where l: "2 \<le> length labels" "s = join_with ''.'' labels" "\<forall>l \<in> set labels. host_label l"
    using assms unfolding host_name_def by blast
  have ne: "labels \<noteq> []" using l(1) by auto
  have "host_label (last labels)" using ne l(3) by simp
  then have "last labels \<noteq> []" "\<forall>c \<in> set (last labels). name_char c" by (auto simp: host_label_def)
  then have "last labels \<noteq> []" "name_char (last (last labels))" by simp_all
  then have last: "s \<noteq> ''''" "last s \<noteq> CHR ''.''"
    using join_with_last [OF ne, of "''.''"] name_char_printable [of "last (last labels)"] unfolding l(2) by simp_all
  then show "s \<noteq> ''''" by blast
  show "trim_suffix s ''.'' = s" using last by (cases s rule: rev_cases) (auto simp: trim_suffix_def has_suffix_def)
  show "to_lower s = s" using print by (simp add: to_lower_def map_idI)
  have "\<not> has_control t" if "\<forall>c \<in> set t. 32 < (of_char c :: nat) \<and> (of_char c :: nat) < 127" for t
    using that by (induction t) auto
  then show "\<not> has_control s" using print by blast
  have "\<not> contains t ''://''" if "\<forall>c \<in> set t. c \<noteq> CHR '':''" for t
    using that by (induction t) (auto simp: has_prefix_def)
  then show "\<not> contains s ''://''" using print by blast
  have "CHR '':'' \<notin> set s" using print by blast
  then have "last_index CHR '':'' s = None" by (rule last_index_None)
  moreover have "hd s \<noteq> CHR ''[''" using last(1) print by simp
  then have "\<not> has_prefix s ''[''" using last(1) by (cases s) (simp_all add: has_prefix_def)
  ultimately show "url_split_host s = (s, '''')" by (simp add: url_split_host_def)
qed

lemma Normalize_Inr:
  assumes "Normalize N allow input = Inr r"
  obtains host ascii0 where "nl_ToASCII N host = Some ascii0" "nm_ASCII r = to_lower (trim_suffix ascii0 ''.'')"
    "host_name (nm_ASCII r)" "ParseIP host = None"
    "fst (nl_PublicSuffix N (nm_ASCII r)) \<noteq> ''''" "nm_ASCII r \<noteq> fst (nl_PublicSuffix N (nm_ASCII r))"
    "snd (nl_PublicSuffix N (nm_ASCII r)) \<or> allow"
    "nl_EffectiveTLDPlusOne N (nm_ASCII r) = Some (nm_RegistrableDomain r)" "nl_ToUnicode N (nm_ASCII r) = Some (nm_Unicode r)"
proof -
  obtain host0 ascii0 where h: "nl_ToASCII N (trim_suffix (trim_space host0) ''.'') = Some ascii0"
    "ParseIP (trim_suffix (trim_space host0) ''.'') = None" "validateASCIIName (to_lower (trim_suffix ascii0 ''.'')) = None"
    and r: "nm_ASCII r = to_lower (trim_suffix ascii0 ''.'')" "fst (nl_PublicSuffix N (nm_ASCII r)) \<noteq> ''''"
    "nm_ASCII r \<noteq> fst (nl_PublicSuffix N (nm_ASCII r))" "snd (nl_PublicSuffix N (nm_ASCII r)) \<or> allow"
    "nl_EffectiveTLDPlusOne N (nm_ASCII r) = Some (nm_RegistrableDomain r)" "nl_ToUnicode N (nm_ASCII r) = Some (nm_Unicode r)"
    using assms by (auto simp: Normalize_def Let_def bind_result_Inr split: option.splits)
  show ?thesis using that [OF h(1) r(1) _ h(2) r(2-)] h(3) r(1) by (simp add: validateASCIIName_None)
qed

section \<open>Properties\<close>

text \<open>C34. The canonical name of every accepted domain is a lower-case host name with at least two labels that fits the columns
  of the domains table.\<close>

theorem Normalize_host_name:
  assumes "Normalize N allow input = Inr r"
  shows "host_name (nm_ASCII r) \<and> 3 \<le> length (nm_ASCII r) \<and> length (nm_ASCII r) \<le> 253 \<and> to_lower (nm_ASCII r) = nm_ASCII r \<and>
    text_ok (nm_ASCII r)"
proof -
  have h: "host_name (nm_ASCII r)" using assms by (rule Normalize_Inr)
  obtain labels where l: "2 \<le> length labels" "nm_ASCII r = join_with ''.'' labels" "\<forall>l \<in> set labels. host_label l" "length (nm_ASCII r) \<le> 253"
    using h unfolding host_name_def by blast
  obtain a b rest where "labels = a # b # rest" using l(1) by (cases labels; cases "tl labels") auto
  moreover have "1 \<le> length a" "1 \<le> length b" using l(3) calculation by (auto simp: host_label_def)
  moreover have "length b \<le> length (join_with ''.'' (b # rest))" by (cases rest) auto
  ultimately have "3 \<le> length (nm_ASCII r)" using l(2) by simp
  moreover have "0 < (of_char c :: int) \<and> (of_char c :: int) < 128" if "c \<in> set (nm_ASCII r)" for c
  proof -
    have "32 < (of_char c :: nat) \<and> (of_char c :: nat) < 127"
      using host_name_chars [OF h that] name_char_printable [of c] by auto
    moreover have "(of_char c :: int) = of_nat (of_char c :: nat)" by (simp only: of_nat_of_char)
    ultimately show ?thesis by linarith
  qed
  then have "text_ok (nm_ASCII r)" by (intro text_ok_ascii) (simp add: list_all_iff)
  ultimately show ?thesis using h l(4) host_name_steps(6) by blast
qed


definition sample_url :: url where
  "sample_url = \<lparr>u_Scheme = ''https'', u_Opaque = '''', u_User = None, u_Host = ''shop.co.th'', u_Path = '''', u_RawQuery = '''', u_Fragment = ''''\<rparr>"

definition sample_normalize_lib :: normalize_lib where
  "sample_normalize_lib = \<lparr>nl_Parse = (\<lambda>_. Some sample_url), nl_ToASCII = Some, nl_ToUnicode = Some,
     nl_PublicSuffix = (\<lambda>_. (''co.th'', True)), nl_EffectiveTLDPlusOne = Some\<rparr>"

definition sample_normalized :: "string \<Rightarrow> normalized" where
  "sample_normalized original = \<lparr>nm_OriginalInput = original, nm_ASCII = ''shop.co.th'', nm_Unicode = ''shop.co.th'', nm_RegistrableDomain = ''shop.co.th''\<rparr>"

lemma sample_Normalize: "Normalize sample_normalize_lib False '' https://shop.co.th/ '' = Inr (sample_normalized ''https://shop.co.th/'')"
  by code_simp

theorem Normalize_host_name_witness: "host_name ''shop.co.th''"
  using Normalize_host_name [OF sample_Normalize] by (simp add: sample_normalized_def)


end
