(* ===== verification/Domains.thy ===== *)
theory Domains
  imports Normalize Auditlog
begin

text \<open>
  \<^verbatim>\<open>internal/domain\<close>: the inventory of domains (\<^verbatim>\<open>service.go\<close>, \<^verbatim>\<open>store.go\<close>).  Each operation of the service is a transaction on the
  tables: it returns an error and leaves the tables as they are, or returns the domain and the new tables.
  The tables are an extensible record, so that the components that add tables use the same operations.
  The users are not among them: the actor of a call is a user of the platform, so the references to users hold.  Nor are the columns
  of a domain that the queries compute from costs and HTTP checks (\<^verbatim>\<open>RenewalPrice\<close>, \<^verbatim>\<open>RenewalCurrency\<close>, \<^verbatim>\<open>RedirectTargetURL\<close>,
  \<^verbatim>\<open>LatestHTTPCode\<close>), which no operation reads.
\<close>

section \<open>Tables\<close>

record domain_row =
  dm_id :: uuid
  dm_original_input :: string
  dm_ascii :: string
  dm_unicode :: string
  dm_registrable :: string
  dm_registrar_id :: "uuid option"
  dm_lifecycle :: string
  dm_source_status :: string
  dm_source_type :: string
  dm_priority :: string
  dm_monitoring :: bool
  dm_monitoring_before_archive :: bool
  dm_content_mode :: string
  dm_expiration :: "gotime option"
  dm_notes :: string
  dm_availability :: string
  dm_dns :: string
  dm_http :: string
  dm_redirect :: string
  dm_isp :: string
  dm_tls :: string
  dm_content :: string
  dm_confidence :: int
  dm_failures :: int
  dm_successes :: int
  dm_failure_stage :: "string option"
  dm_error_code :: "string option"
  dm_last_checked :: "gotime option"
  dm_archived_at :: "gotime option"
  dm_created_at :: gotime
  dm_updated_at :: gotime
  dm_version :: int

record schedule_row =
  sc_domain_id :: uuid
  sc_interval_seconds :: int
  sc_priority :: string
  sc_enabled :: bool
  sc_jitter_seconds :: int
  sc_next_due_at :: gotime
  sc_last_due_at :: "gotime option"
  sc_last_run_id :: "uuid option"
  sc_version :: int

record decision_row =
  rd_id :: uuid
  rd_domain_id :: uuid
  rd_decision :: string
  rd_reason :: string
  rd_decided_by :: uuid
  rd_supersedes_id :: "uuid option"
  rd_created_at :: gotime

record domain_db =
  t_registrars :: "uuid list"
  t_domains :: "domain_row list"
  t_schedules :: "schedule_row list"
  t_decisions :: "decision_row list"
  t_audit :: "audit_row list"

text \<open>What the queries return as a \<^verbatim>\<open>Domain\<close>: the row and its current renewal decision.  (The prices and the last HTTP
  evidence that the query adds from other tables are only displayed.)\<close>

record domain_view =
  dv_row :: domain_row
  dv_RenewalDecision :: string
  dv_RenewalDecisionReason :: string
  dv_RenewalDecidedAt :: "gotime option"

datatype domain_error = ErrValidation validation_error | ErrDuplicate | ErrNotFound | ErrConflict | ErrDatabase string

text \<open>The ids that a call draws, the clocks it reads, and the spread of the schedules (\<^verbatim>\<open>md5\<close> of the id modulo 60).\<close>

record domain_env =
  de_newID :: uuid
  de_auditID :: uuid
  de_now :: gotime
  de_audit_now :: gotime
  de_jitter :: "uuid \<Rightarrow> int"

record actor =
  act_UserID :: uuid
  act_RequestID :: string

record create_input =
  cr_Domain :: string
  cr_RegistrarID :: "uuid option"
  cr_BusinessPriority :: string
  cr_MonitoringEnabled :: bool
  cr_ExpectedContentMode :: string
  cr_ExpirationAt :: "gotime option"
  cr_Notes :: string

record patch_input =
  pi_Version :: int
  pi_Domain :: "string option"
  pi_RegistrarID :: "uuid option"
  pi_ClearRegistrar :: bool
  pi_BusinessPriority :: "string option"
  pi_MonitoringEnabled :: "bool option"
  pi_ExpectedContentMode :: "string option"
  pi_ExpirationAt :: "gotime option"
  pi_ClearExpiration :: bool
  pi_Notes :: "string option"
  pi_RenewalDecision :: "string option"
  pi_Reason :: string

section \<open>Validation\<close>

definition validation :: "string \<Rightarrow> string \<Rightarrow> string \<Rightarrow> domain_error" where
  "validation field code reason = ErrValidation \<lparr>ve_Field = field, ve_ReasonCode = code, ve_Reason = reason\<rparr>"

definition validatePriority :: "string \<Rightarrow> (domain_error, string) result" where
  "validatePriority raw =
    (let v = to_lower (trim_space raw) in
     if v = '''' then Inr ''medium''
     else if v \<in> {''low'', ''medium'', ''high'', ''critical''} then Inr v
     else Inl (validation ''business_priority'' ''INVALID_BUSINESS_PRIORITY'' ''must be low, medium, high, or critical''))"

definition validateContentMode :: "string \<Rightarrow> (domain_error, string) result" where
  "validateContentMode raw =
    (let v = to_upper (trim_space raw) in
     if v = '''' then Inr ''HTML''
     else if v \<in> {''HTML'', ''ANY'', ''STATUS_ONLY''} then Inr v
     else Inl (validation ''expected_content_mode'' ''INVALID_CONTENT_MODE'' ''must be HTML, ANY, or STATUS_ONLY''))"

definition validateRenewalDecision :: "string \<Rightarrow> (domain_error, unit) result" where
  "validateRenewalDecision raw =
    ensure (validation ''renewal_decision'' ''INVALID_RENEWAL_DECISION'' ''must be RENEW, DO_NOT_RENEW, HOLD, or UNDECIDED'')
      (to_upper (trim_space raw) \<in> {''RENEW'', ''DO_NOT_RENEW'', ''HOLD'', ''UNDECIDED''})"

section \<open>Statements\<close>

text \<open>\<^verbatim>\<open>length\<close> of a text counts characters: the bytes that do not continue a character.\<close>

definition char_count :: "string \<Rightarrow> nat" where
  "char_count s = length (filter (\<lambda>c. \<not> (0x80 \<le> (of_char c :: nat) \<and> (of_char c :: nat) < 0xC0)) s)"

text \<open>The constraints of the table, apart from uniqueness.\<close>

definition domain_row_ok :: "domain_row \<Rightarrow> bool" where
  "domain_row_ok r =
    (to_lower (dm_ascii r) = dm_ascii r \<and> 3 \<le> char_count (dm_ascii r) \<and> char_count (dm_ascii r) \<le> 253 \<and>
     1 \<le> char_count (dm_unicode r) \<and> char_count (dm_unicode r) \<le> 253 \<and>
     3 \<le> char_count (dm_registrable r) \<and> char_count (dm_registrable r) \<le> 253 \<and> (dm_lifecycle r = ''archived'' \<longleftrightarrow> dm_archived_at r \<noteq> None) \<and>
     dm_content_mode r \<in> {''HTML'', ''ANY'', ''STATUS_ONLY''} \<and> dm_priority r \<in> {''low'', ''medium'', ''high'', ''critical''} \<and>
     0 < dm_version r \<and> text_ok (dm_original_input r) \<and> text_ok (dm_ascii r) \<and> text_ok (dm_unicode r) \<and>
     text_ok (dm_registrable r) \<and> text_ok (dm_notes r))"

text \<open>The statement that stores a row next to the other rows: first the checks, then the unique indexes, then the reference.\<close>

definition store_domain :: "'a domain_db_scheme \<Rightarrow> domain_row list \<Rightarrow> domain_row \<Rightarrow> (domain_error, unit) result" where
  "store_domain db others r =
    bind_result (ensure (ErrDatabase ''scan domain'') (domain_row_ok r)) (\<lambda>_.
    bind_result (ensure ErrDuplicate (dm_id r \<notin> dm_id ` set others \<and> dm_ascii r \<notin> dm_ascii ` set others)) (\<lambda>_.
    ensure (ErrDatabase ''scan domain'') (case dm_registrar_id r of None \<Rightarrow> True | Some i \<Rightarrow> i \<in> set (t_registrars db))))"

definition domain_of :: "'a domain_db_scheme \<Rightarrow> uuid \<Rightarrow> domain_row option" where
  "domain_of db i = find (\<lambda>r. dm_id r = i) (t_domains db)"

definition set_domain :: "domain_row \<Rightarrow> 'a domain_db_scheme \<Rightarrow> 'a domain_db_scheme" where
  "set_domain r db = db\<lparr>t_domains := map (\<lambda>q. if dm_id q = dm_id r then r else q) (t_domains db)\<rparr>"

definition latest_decision :: "'a domain_db_scheme \<Rightarrow> uuid \<Rightarrow> decision_row option" where
  "latest_decision db i =
    (case filter (\<lambda>d. rd_domain_id d = i) (t_decisions db) of [] \<Rightarrow> None
     | ds \<Rightarrow> Some (last (sort_key (\<lambda>d. (rd_created_at d, rd_id d)) ds)))"

definition view :: "'a domain_db_scheme \<Rightarrow> domain_row \<Rightarrow> domain_view" where
  "view db r = (case latest_decision db (dm_id r) of
     None \<Rightarrow> \<lparr>dv_row = r, dv_RenewalDecision = ''UNDECIDED'', dv_RenewalDecisionReason = '''', dv_RenewalDecidedAt = None\<rparr>
   | Some d \<Rightarrow> \<lparr>dv_row = r, dv_RenewalDecision = rd_decision d, dv_RenewalDecisionReason = rd_reason d,
       dv_RenewalDecidedAt = Some (rd_created_at d)\<rparr>)"

definition GetTx :: "uuid \<Rightarrow> 'a domain_db_scheme \<Rightarrow> (domain_error, domain_view) result" where
  "GetTx i db = map_sum id (view db) (require ErrNotFound (domain_of db i))"

definition InsertTx :: "gotime \<Rightarrow> domain_row \<Rightarrow> 'a domain_db_scheme \<Rightarrow> (domain_error, domain_view \<times> 'a domain_db_scheme) result" where
  "InsertTx now r db =
    bind_result (store_domain db (t_domains db) r) (\<lambda>_.
      let db' = db\<lparr>t_domains := t_domains db @ [r]\<rparr> in Inr (view db' r, db'))"

definition EnsureScheduleTx ::
  "domain_env \<Rightarrow> uuid \<Rightarrow> bool \<Rightarrow> 'a domain_db_scheme \<Rightarrow> 'a domain_db_scheme" where
  "EnsureScheduleTx env i enabled db =
    (if i \<in> sc_domain_id ` set (t_schedules db) then
       db\<lparr>t_schedules := map (\<lambda>s. if sc_domain_id s = i then
         s\<lparr>sc_next_due_at := (if enabled \<and> \<not> sc_enabled s then de_now env else sc_next_due_at s), sc_enabled := enabled,
           sc_version := sc_version s + 1\<rparr> else s) (t_schedules db)\<rparr>
     else db\<lparr>t_schedules := t_schedules db @ [\<lparr>sc_domain_id = i, sc_interval_seconds = 3600, sc_priority = ''normal'',
       sc_enabled = enabled, sc_jitter_seconds = de_jitter env i, sc_next_due_at = de_now env, sc_last_due_at = None,
       sc_last_run_id = None, sc_version = 1\<rparr>]\<rparr>)"

text \<open>An update of no row is \<^verbatim>\<open>ErrNotFound\<close>: \<^verbatim>\<open>scanDomain\<close> has replaced \<^verbatim>\<open>pgx.ErrNoRows\<close>, so the branch that would make it a
  conflict is never taken.\<close>

definition UpdateTx ::
  "gotime \<Rightarrow> domain_row \<Rightarrow> int \<Rightarrow> 'a domain_db_scheme \<Rightarrow> (domain_error, domain_view \<times> 'a domain_db_scheme) result" where
  "UpdateTx now item expectedVersion db =
    bind_result (require ErrNotFound (find (\<lambda>r. dm_id r = dm_id item \<and> dm_version r = expectedVersion) (t_domains db))) (\<lambda>old.
      let r = old\<lparr>dm_original_input := dm_original_input item, dm_ascii := dm_ascii item, dm_unicode := dm_unicode item,
            dm_registrable := dm_registrable item, dm_registrar_id := dm_registrar_id item, dm_priority := dm_priority item,
            dm_monitoring := dm_monitoring item, dm_content_mode := dm_content_mode item, dm_expiration := dm_expiration item,
            dm_notes := dm_notes item, dm_version := dm_version old + 1, dm_updated_at := now\<rparr> in
      bind_result (store_domain db (filter (\<lambda>q. dm_id q \<noteq> dm_id r) (t_domains db)) r) (\<lambda>_.
        let db' = set_domain r db in Inr (view db' r, db')))"

definition InsertRenewalDecisionTx ::
  "domain_env \<Rightarrow> uuid \<Rightarrow> string \<Rightarrow> string \<Rightarrow> uuid \<Rightarrow> 'a domain_db_scheme \<Rightarrow> (domain_error, 'a domain_db_scheme) result" where
  "InsertRenewalDecisionTx env i decision reason actorID db =
    bind_result (ensure (ErrDatabase ''insert renewal decision'')
      (text_ok (trim_space reason) \<and> de_newID env \<notin> rd_id ` set (t_decisions db))) (\<lambda>_.
      Inr (db\<lparr>t_decisions := t_decisions db @ [\<lparr>rd_id = de_newID env, rd_domain_id = i,
        rd_decision = to_upper (trim_space decision), rd_reason = trim_space reason, rd_decided_by = actorID,
        rd_supersedes_id = map_option rd_id (latest_decision db i), rd_created_at = de_now env\<rparr>]\<rparr>))"

definition ArchiveTx :: "gotime \<Rightarrow> uuid \<Rightarrow> int \<Rightarrow> 'a domain_db_scheme \<Rightarrow> (domain_error, domain_view \<times> 'a domain_db_scheme) result" where
  "ArchiveTx now i version db =
    bind_result (require ErrNotFound (find (\<lambda>r. dm_id r = i \<and> dm_version r = version \<and> dm_lifecycle r \<noteq> ''archived'') (t_domains db))) (\<lambda>old.
      let r = old\<lparr>dm_lifecycle := ''archived'', dm_monitoring_before_archive := dm_monitoring old, dm_monitoring := False,
            dm_archived_at := Some now, dm_version := dm_version old + 1, dm_updated_at := now\<rparr>;
          db' = set_domain r db in
      Inr (view db' r, db'))"

definition RestoreTx :: "gotime \<Rightarrow> uuid \<Rightarrow> int \<Rightarrow> 'a domain_db_scheme \<Rightarrow> (domain_error, domain_view \<times> 'a domain_db_scheme) result" where
  "RestoreTx now i version db =
    bind_result (require ErrNotFound (find (\<lambda>r. dm_id r = i \<and> dm_version r = version \<and> dm_lifecycle r = ''archived'') (t_domains db))) (\<lambda>old.
      let r = old\<lparr>dm_lifecycle := ''active'', dm_monitoring := dm_monitoring_before_archive old,
            dm_archived_at := None, dm_version := dm_version old + 1, dm_updated_at := now\<rparr>;
          db' = set_domain r db in
      Inr (view db' r, db'))"

section \<open>The service\<close>

definition audit_tx ::
  "domain_view audit_lib \<Rightarrow> domain_env \<Rightarrow> domain_view audit_entry \<Rightarrow> 'a domain_db_scheme \<Rightarrow> (domain_error, 'a domain_db_scheme) result" where
  "audit_tx L env entry db =
    map_sum ErrDatabase (\<lambda>log. db\<lparr>t_audit := log\<rparr>) (AppendTx L (de_auditID env) (de_audit_now env) entry (t_audit db))"

definition domain_entry ::
  "actor \<Rightarrow> string \<Rightarrow> uuid \<Rightarrow> string \<Rightarrow> domain_view option \<Rightarrow> domain_view \<Rightarrow> domain_view audit_entry" where
  "domain_entry a action i reason before after =
    \<lparr>ActorUserID = Some (act_UserID a), Action = action, ResourceType = ''domain'', ResourceID = Some i,
     RequestID = act_RequestID a, Reason = reason, Before = before, After = Some after, Metadata = None\<rparr>"

abbreviation row_id :: "domain_view \<Rightarrow> uuid" where "row_id v \<equiv> dm_id (dv_row v)"

definition Create ::
  "normalize_lib \<Rightarrow> bool \<Rightarrow> domain_view audit_lib \<Rightarrow> domain_env \<Rightarrow> actor \<Rightarrow> create_input \<Rightarrow> 'a domain_db_scheme \<Rightarrow>
   (domain_error, domain_view \<times> 'a domain_db_scheme) result" where
  "Create N allow L env a input db =
    bind_result (map_sum ErrValidation id (Normalize N allow (cr_Domain input))) (\<lambda>normalized.
    bind_result (validatePriority (cr_BusinessPriority input)) (\<lambda>priority.
    bind_result (validateContentMode (cr_ExpectedContentMode input)) (\<lambda>contentMode.
    let item = \<lparr>dm_id = de_newID env, dm_original_input = nm_OriginalInput normalized, dm_ascii = nm_ASCII normalized,
          dm_unicode = nm_Unicode normalized, dm_registrable = nm_RegistrableDomain normalized,
          dm_registrar_id = cr_RegistrarID input, dm_lifecycle = ''active'', dm_source_status = ''present'',
          dm_source_type = ''manual'', dm_priority = priority, dm_monitoring = cr_MonitoringEnabled input,
          dm_monitoring_before_archive = True, dm_content_mode = contentMode, dm_expiration = map_option stored_time (cr_ExpirationAt input),
          dm_notes = trim_space (cr_Notes input), dm_availability = ''UNKNOWN'', dm_dns = ''UNKNOWN'', dm_http = ''UNKNOWN'',
          dm_redirect = ''UNKNOWN'', dm_isp = ''UNKNOWN'', dm_tls = ''UNKNOWN'', dm_content = ''UNKNOWN'', dm_confidence = 0,
          dm_failures = 0, dm_successes = 0, dm_failure_stage = None, dm_error_code = None, dm_last_checked = None,
          dm_archived_at = None, dm_created_at = de_now env, dm_updated_at = de_now env, dm_version = 1\<rparr> in
    bind_result (InsertTx (de_now env) item db) (\<lambda>(created, db1).
    let db2 = EnsureScheduleTx env (row_id created) (dm_monitoring (dv_row created)) db1 in
    bind_result (audit_tx L env (domain_entry a ''DOMAIN_ADDED'' (row_id created) '''' None created) db2) (\<lambda>db3.
    Inr (created, db3))))))"

text \<open>The fields that a patch changes, validated in the order of the code.\<close>

definition patch_name :: "normalize_lib \<Rightarrow> bool \<Rightarrow> patch_input \<Rightarrow> domain_row \<Rightarrow> (domain_error, domain_row) result" where
  "patch_name N allow input r = (case pi_Domain input of None \<Rightarrow> Inr r
     | Some d \<Rightarrow> map_sum ErrValidation (\<lambda>n. r\<lparr>dm_original_input := nm_OriginalInput n, dm_ascii := nm_ASCII n,
         dm_unicode := nm_Unicode n, dm_registrable := nm_RegistrableDomain n\<rparr>) (Normalize N allow d))"

definition patch_registrar :: "patch_input \<Rightarrow> domain_row \<Rightarrow> domain_row" where
  "patch_registrar input r =
    (if pi_ClearRegistrar input then r\<lparr>dm_registrar_id := None\<rparr>
     else case pi_RegistrarID input of None \<Rightarrow> r | Some i \<Rightarrow> r\<lparr>dm_registrar_id := Some i\<rparr>)"

definition patch_priority :: "patch_input \<Rightarrow> domain_row \<Rightarrow> (domain_error, domain_row) result" where
  "patch_priority input r = (case pi_BusinessPriority input of None \<Rightarrow> Inr r
     | Some p \<Rightarrow> map_sum id (\<lambda>v. r\<lparr>dm_priority := v\<rparr>) (validatePriority p))"

definition patch_monitoring :: "patch_input \<Rightarrow> domain_row \<Rightarrow> domain_row" where
  "patch_monitoring input r = (case pi_MonitoringEnabled input of None \<Rightarrow> r | Some b \<Rightarrow> r\<lparr>dm_monitoring := b\<rparr>)"

definition patch_mode :: "patch_input \<Rightarrow> domain_row \<Rightarrow> (domain_error, domain_row) result" where
  "patch_mode input r = (case pi_ExpectedContentMode input of None \<Rightarrow> Inr r
     | Some m \<Rightarrow> map_sum id (\<lambda>v. r\<lparr>dm_content_mode := v\<rparr>) (validateContentMode m))"

definition patch_expiration :: "patch_input \<Rightarrow> domain_row \<Rightarrow> domain_row" where
  "patch_expiration input r =
    (if pi_ClearExpiration input then r\<lparr>dm_expiration := None\<rparr>
     else case pi_ExpirationAt input of None \<Rightarrow> r | Some t \<Rightarrow> r\<lparr>dm_expiration := Some (stored_time t)\<rparr>)"

definition patch_notes :: "patch_input \<Rightarrow> domain_row \<Rightarrow> domain_row" where
  "patch_notes input r = (case pi_Notes input of None \<Rightarrow> r | Some n \<Rightarrow> r\<lparr>dm_notes := trim_space n\<rparr>)"

definition decision_changed :: "patch_input \<Rightarrow> domain_view \<Rightarrow> (domain_error, bool) result" where
  "decision_changed input before = (case pi_RenewalDecision input of None \<Rightarrow> Inr False
     | Some d \<Rightarrow> bind_result (validateRenewalDecision d) (\<lambda>_. Inr (to_upper (trim_space d) \<noteq> dv_RenewalDecision before)))"

definition patched ::
  "normalize_lib \<Rightarrow> bool \<Rightarrow> patch_input \<Rightarrow> domain_view \<Rightarrow> (domain_error, domain_row \<times> bool) result" where
  "patched N allow input before =
    bind_result (patch_name N allow input (dv_row before)) (\<lambda>r1.
    bind_result (patch_priority input (patch_registrar input r1)) (\<lambda>r2.
    bind_result (patch_mode input (patch_monitoring input r2)) (\<lambda>r3.
    bind_result (decision_changed input before) (\<lambda>changed.
    Inr (patch_notes input (patch_expiration input r3), changed)))))"

definition record_decision ::
  "domain_env \<Rightarrow> actor \<Rightarrow> patch_input \<Rightarrow> bool \<Rightarrow> domain_view \<Rightarrow> 'a domain_db_scheme \<Rightarrow>
   (domain_error, domain_view \<times> 'a domain_db_scheme) result" where
  "record_decision env a input renewalDecisionChanged updated db =
    (if renewalDecisionChanged
     then bind_result (InsertRenewalDecisionTx env (row_id updated) (the (pi_RenewalDecision input)) (pi_Reason input) (act_UserID a) db) (\<lambda>db2.
          bind_result (GetTx (row_id updated) db2) (\<lambda>v. Inr (v, db2)))
     else Inr (updated, db))"

definition Patch ::
  "normalize_lib \<Rightarrow> bool \<Rightarrow> domain_view audit_lib \<Rightarrow> domain_env \<Rightarrow> actor \<Rightarrow> uuid \<Rightarrow> patch_input \<Rightarrow> 'a domain_db_scheme \<Rightarrow>
   (domain_error, domain_view \<times> 'a domain_db_scheme) result" where
  "Patch N allow L env a i input db =
    bind_result (ensure (validation ''version'' ''VALUE_MUST_BE_POSITIVE'' ''must be positive'') (\<not> pi_Version input < 1)) (\<lambda>_.
    bind_result (GetTx i db) (\<lambda>before.
    bind_result (ensure ErrConflict (dm_version (dv_row before) = pi_Version input)) (\<lambda>_.
    bind_result (patched N allow input before) (\<lambda>(after, renewalDecisionChanged).
    bind_result (UpdateTx (de_now env) after (pi_Version input) db) (\<lambda>(updated1, db1).
    bind_result (record_decision env a input renewalDecisionChanged updated1 db1) (\<lambda>(updated, db3).
    let db4 = EnsureScheduleTx env (row_id updated) (dm_monitoring (dv_row updated) \<and> dm_lifecycle (dv_row updated) = ''active'') db3 in
    bind_result (audit_tx L env (domain_entry a ''DOMAIN_UPDATED'' (row_id updated) (trim_space (pi_Reason input)) (Some before) updated) db4) (\<lambda>db5.
    Inr (updated, db5))))))))"

definition changeLifecycle ::
  "domain_view audit_lib \<Rightarrow> domain_env \<Rightarrow> actor \<Rightarrow> uuid \<Rightarrow> int \<Rightarrow> string \<Rightarrow> string \<Rightarrow>
   (gotime \<Rightarrow> uuid \<Rightarrow> int \<Rightarrow> 'a domain_db_scheme \<Rightarrow> (domain_error, domain_view \<times> 'a domain_db_scheme) result) \<Rightarrow> 'a domain_db_scheme \<Rightarrow>
   (domain_error, domain_view \<times> 'a domain_db_scheme) result" where
  "changeLifecycle L env a i version reason action change db =
    bind_result (ensure (validation ''version'' ''VALUE_MUST_BE_POSITIVE'' ''must be positive'') (\<not> version < 1)) (\<lambda>_.
    bind_result (GetTx i db) (\<lambda>before.
    bind_result (ensure ErrConflict (dm_version (dv_row before) = version)) (\<lambda>_.
    bind_result (map_sum (\<lambda>e. if e = ErrNotFound then ErrConflict else e) id (change (de_now env) i version db)) (\<lambda>(after, db1).
    let db2 = EnsureScheduleTx env (row_id after) (dm_monitoring (dv_row after) \<and> dm_lifecycle (dv_row after) = ''active'') db1 in
    bind_result (audit_tx L env (domain_entry a action i (trim_space reason) (Some before) after) db2) (\<lambda>db3.
    Inr (after, db3))))))"

definition reason_required :: "string \<Rightarrow> (domain_error, unit) result" where
  "reason_required reason = ensure (validation ''reason'' ''VALUE_REQUIRED'' ''is required'') (trim_space reason \<noteq> '''')"

definition Archive ::
  "domain_view audit_lib \<Rightarrow> domain_env \<Rightarrow> actor \<Rightarrow> uuid \<Rightarrow> int \<Rightarrow> string \<Rightarrow> 'a domain_db_scheme \<Rightarrow>
   (domain_error, domain_view \<times> 'a domain_db_scheme) result" where
  "Archive L env a i version reason db =
    bind_result (reason_required reason) (\<lambda>_. changeLifecycle L env a i version reason ''DOMAIN_ARCHIVED'' ArchiveTx db)"

definition Restore ::
  "domain_view audit_lib \<Rightarrow> domain_env \<Rightarrow> actor \<Rightarrow> uuid \<Rightarrow> int \<Rightarrow> string \<Rightarrow> 'a domain_db_scheme \<Rightarrow>
   (domain_error, domain_view \<times> 'a domain_db_scheme) result" where
  "Restore L env a i version reason db =
    bind_result (reason_required reason) (\<lambda>_. changeLifecycle L env a i version reason ''DOMAIN_RESTORED'' RestoreTx db)"

section \<open>Listing\<close>

record list_filter =
  lf_Query :: string
  lf_LifecycleStatus :: string
  lf_SourceStatus :: string
  lf_Page :: int
  lf_PageSize :: int
  lf_Sort :: string
  lf_Direction :: string

record domain_page =
  pg_Items :: "domain_view list"
  pg_Page :: int
  pg_PageSize :: int
  pg_TotalItems :: int
  pg_TotalPages :: int

text \<open>What the query leaves to the database: \<^verbatim>\<open>ILIKE\<close> and the order of its collation, as the rank of a text.\<close>

record list_lib =
  ll_ilike :: "string \<Rightarrow> string \<Rightarrow> bool"
  ll_rank :: "string \<Rightarrow> int"

definition matches :: "list_lib \<Rightarrow> list_filter \<Rightarrow> domain_row \<Rightarrow> bool" where
  "matches Q f r =
    ((lf_Query f = '''' \<or> ll_ilike Q (''%'' @ lf_Query f @ ''%'') (dm_ascii r) \<or> ll_ilike Q (''%'' @ lf_Query f @ ''%'') (dm_unicode r)) \<and>
     (lf_LifecycleStatus f = '''' \<or> dm_lifecycle r = lf_LifecycleStatus f) \<and>
     (lf_SourceStatus f = '''' \<or> dm_source_status r = lf_SourceStatus f))"

definition sort_column :: "list_lib \<Rightarrow> list_filter \<Rightarrow> domain_row \<Rightarrow> int option" where
  "sort_column Q f r =
    (if lf_Sort f = ''created_at'' then Some (dm_created_at r) else if lf_Sort f = ''updated_at'' then Some (dm_updated_at r)
     else if lf_Sort f = ''expiration'' then dm_expiration r else Some (ll_rank Q (dm_ascii r)))"

text \<open>\<^verbatim>\<open>ORDER BY column direction NULLS LAST, id ASC\<close>.\<close>

definition order_key :: "list_lib \<Rightarrow> list_filter \<Rightarrow> domain_row \<Rightarrow> nat \<times> int \<times> uuid" where
  "order_key Q f r = (case sort_column Q f r of None \<Rightarrow> (1, 0, dm_id r)
     | Some k \<Rightarrow> (0, if equal_fold (lf_Direction f) ''desc'' then - k else k, dm_id r))"

definition selected :: "list_lib \<Rightarrow> list_filter \<Rightarrow> 'a domain_db_scheme \<Rightarrow> domain_row list" where
  "selected Q f db = sort_key (order_key Q f) (filter (matches Q f) (t_domains db))"

definition page_size :: "list_filter \<Rightarrow> int" where
  "page_size f = (if lf_PageSize f < 1 then 50 else if lf_PageSize f > 200 then 200 else lf_PageSize f)"

text \<open>The two queries see the same tables here.  The second one fails on a negative offset, which a product that overflows gives, and
  on the name \<^verbatim>\<open>created_at\<close>: two columns of \<^verbatim>\<open>domainColumns\<close> have it (the second is the time of the latest renewal decision), so
  \<^verbatim>\<open>ORDER BY\<close> is ambiguous.\<close>

definition store_List :: "list_lib \<Rightarrow> list_filter \<Rightarrow> 'a domain_db_scheme \<Rightarrow> (domain_error, domain_page) result" where
  "store_List Q f db =
    (let page = (if lf_Page f < 1 then 1 else lf_Page f); pageSize = page_size f; rows = selected Q f db;
         count = int (length rows); totalPages = (if count > 0 then (count + pageSize - 1) div pageSize else 0);
         offset = wrap64 ((page - 1) * pageSize);
         result = (\<lambda>items. \<lparr>pg_Items = items, pg_Page = page, pg_PageSize = pageSize, pg_TotalItems = count, pg_TotalPages = totalPages\<rparr>) in
     if \<not> text_ok (lf_Query f) then Inl (ErrDatabase ''count domains'')
     else if offset \<ge> count \<and> count > 0 then Inr (result [])
     else if offset < 0 \<or> lf_Sort f = ''created_at'' then Inl (ErrDatabase ''list domains'')
     else Inr (result (map (view db) (take (nat pageSize) (drop (nat offset) rows)))))"

definition service_List :: "list_lib \<Rightarrow> list_filter \<Rightarrow> 'a domain_db_scheme \<Rightarrow> (domain_error, domain_page) result" where
  "service_List Q f db =
    (if lf_LifecycleStatus f \<notin> {'''', ''active'', ''inactive'', ''archived''} then
       Inl (validation ''lifecycle_status'' ''INVALID_LIFECYCLE_STATUS'' ''must be active, inactive, or archived'')
     else if lf_SourceStatus f \<notin> {'''', ''present'', ''missing_from_source'', ''unknown''} then
       Inl (validation ''source_status'' ''INVALID_SOURCE_STATUS'' ''must be present, missing_from_source, or unknown'')
     else if length (lf_Query f) > 253 then Inl (validation ''query'' ''VALUE_TOO_LONG'' ''must not exceed 253 characters'')
     else store_List Q f db)"

section \<open>Sequences of calls\<close>

datatype domain_call = CallCreate actor create_input | CallPatch actor uuid patch_input
  | CallArchive actor uuid int string | CallRestore actor uuid int string

definition call_result ::
  "normalize_lib \<Rightarrow> bool \<Rightarrow> domain_view audit_lib \<Rightarrow> domain_env \<times> domain_call \<Rightarrow> 'a domain_db_scheme \<Rightarrow>
   (domain_error, domain_view \<times> 'a domain_db_scheme) result" where
  "call_result N allow L call db = (case call of
     (env, CallCreate a input) \<Rightarrow> Create N allow L env a input db
   | (env, CallPatch a i input) \<Rightarrow> Patch N allow L env a i input db
   | (env, CallArchive a i version reason) \<Rightarrow> Archive L env a i version reason db
   | (env, CallRestore a i version reason) \<Rightarrow> Restore L env a i version reason db)"

text \<open>The domain that a call modifies and the version on which it bases the modification.\<close>

fun based_on :: "domain_call \<Rightarrow> (uuid \<times> int) option" where
  "based_on (CallCreate a input) = None"
| "based_on (CallPatch a i input) = Some (i, pi_Version input)"
| "based_on (CallArchive a i version reason) = Some (i, version)"
| "based_on (CallRestore a i version reason) = Some (i, version)"

text \<open>Runs a sequence of calls, those of different users interleaved in any order; lists the modifications that succeeded.\<close>

fun domain_run ::
  "normalize_lib \<Rightarrow> bool \<Rightarrow> domain_view audit_lib \<Rightarrow> (domain_env \<times> domain_call) list \<Rightarrow> 'a domain_db_scheme \<Rightarrow>
   (uuid \<times> int) list \<times> 'a domain_db_scheme" where
  "domain_run N allow L [] db = ([], db)"
| "domain_run N allow L (call # calls) db =
    (case call_result N allow L call db of
       Inl _ \<Rightarrow> domain_run N allow L calls db
     | Inr (_, db') \<Rightarrow>
         let (accepted, db'') = domain_run N allow L calls db' in
         ((case based_on (snd call) of None \<Rightarrow> accepted | Some b \<Rightarrow> b # accepted), db''))"

section \<open>Invariant\<close>

definition scheduled :: "domain_row \<Rightarrow> bool" where
  "scheduled r = (dm_monitoring r \<and> dm_lifecycle r = ''active'')"

definition domain_ok :: "'a domain_db_scheme \<Rightarrow> bool" where
  "domain_ok db =
    (distinct (map dm_id (t_domains db)) \<and> distinct (map dm_ascii (t_domains db)) \<and> (\<forall>r \<in> set (t_domains db). domain_row_ok r) \<and>
     distinct (map sc_domain_id (t_schedules db)) \<and> sc_domain_id ` set (t_schedules db) = dm_id ` set (t_domains db) \<and>
     (\<forall>s \<in> set (t_schedules db). \<forall>r \<in> set (t_domains db). sc_domain_id s = dm_id r \<longrightarrow> sc_enabled s = scheduled r))"

section \<open>Lemmas\<close>

lemma set_domain_fields [simp]:
  "t_schedules (set_domain r db) = t_schedules db" "t_audit (set_domain r db) = t_audit db"
  "t_decisions (set_domain r db) = t_decisions db" "t_registrars (set_domain r db) = t_registrars db"
  "domain_db.more (set_domain r db) = domain_db.more db"
  by (simp_all add: set_domain_def)

lemma EnsureScheduleTx_fields [simp]:
  "t_domains (EnsureScheduleTx env i e db) = t_domains db" "t_audit (EnsureScheduleTx env i e db) = t_audit db"
  "t_decisions (EnsureScheduleTx env i e db) = t_decisions db" "t_registrars (EnsureScheduleTx env i e db) = t_registrars db"
  "domain_db.more (EnsureScheduleTx env i e db) = domain_db.more db"
  by (simp_all add: EnsureScheduleTx_def)

lemma domain_ok_other [simp]:
  "domain_ok (db\<lparr>t_audit := a\<rparr>) = domain_ok db" "domain_ok (db\<lparr>t_decisions := d\<rparr>) = domain_ok db"
  by (simp_all add: domain_ok_def)

lemma domain_of_other [simp]:
  "domain_of (db\<lparr>t_audit := a\<rparr>) i = domain_of db i" "domain_of (db\<lparr>t_decisions := d\<rparr>) i = domain_of db i"
  "domain_of (EnsureScheduleTx env j e db) i = domain_of db i"
  by (simp_all add: domain_of_def)

lemma domain_of_Some: "domain_of db i = Some r \<Longrightarrow> r \<in> set (t_domains db) \<and> dm_id r = i"
  by (auto simp: domain_of_def find_Some_iff)

lemma domain_of_set_domain:
  assumes "domain_of db (dm_id r) \<noteq> None"
  shows "domain_of (set_domain r db) i = (if i = dm_id r then Some r else domain_of db i)"
proof -
  have "find (\<lambda>q. dm_id q = i) (map (\<lambda>q. if dm_id q = dm_id r then r else q) rows) =
      (if i = dm_id r then (if find (\<lambda>q. dm_id q = dm_id r) rows = None then None else Some r) else find (\<lambda>q. dm_id q = i) rows)" for rows
    by (induction rows) auto
  then show ?thesis using assms by (auto simp: domain_of_def set_domain_def)
qed

lemma view_row [simp]: "dv_row (view db r) = r"
  by (simp add: view_def split: option.splits)

lemma find_append: "find P xs \<noteq> None \<Longrightarrow> find P (xs @ ys) = find P xs"
  by (induction xs) auto

lemma map_sum_Inr: "map_sum f g r = Inr y \<longleftrightarrow> (\<exists>x. r = Inr x \<and> y = g x)"
  by (cases r) auto

lemma audit_tx_Inr: "audit_tx L env entry db = Inr db' \<Longrightarrow> \<exists>log. db' = db\<lparr>t_audit := log\<rparr>"
  by (cases "AppendTx L (de_auditID env) (de_audit_now env) entry (t_audit db)") (auto simp: audit_tx_def)

lemma GetTx_Inr: "GetTx i db = Inr v \<longleftrightarrow> (\<exists>r. domain_of db i = Some r \<and> v = view db r)"
  by (cases "domain_of db i") (auto simp: GetTx_def)

lemma find_unique: "find P xs = Some x \<Longrightarrow> find Q xs = Some y \<Longrightarrow> (\<And>z. P z \<Longrightarrow> Q z) \<Longrightarrow> (\<And>z. Q z \<Longrightarrow> z \<in> set xs \<Longrightarrow> z = y) \<Longrightarrow> x = y"
  by (metis find_Some_iff nth_mem)

text \<open>The columns that the monitoring of a domain maintains, and their values before the first check.\<close>

definition observed_columns ::
  "domain_row \<Rightarrow> (string \<times> string \<times> string \<times> string \<times> string \<times> string \<times> string) \<times> int \<times> int \<times> int" where
  "observed_columns r = ((dm_availability r, dm_dns r, dm_http r, dm_redirect r, dm_isp r, dm_tls r, dm_content r), dm_confidence r, dm_failures r, dm_successes r)"

definition unobserved :: "(string \<times> string \<times> string \<times> string \<times> string \<times> string \<times> string) \<times> int \<times> int \<times> int" where
  "unobserved = ((''UNKNOWN'', ''UNKNOWN'', ''UNKNOWN'', ''UNKNOWN'', ''UNKNOWN'', ''UNKNOWN'', ''UNKNOWN''), 0, 0, 0)"

text \<open>The row that a modification of domain \<open>i\<close> based on version \<open>v\<close> leaves.\<close>

definition modifies :: "uuid \<Rightarrow> int \<Rightarrow> 'a domain_db_scheme \<Rightarrow> domain_row \<Rightarrow> domain_row \<Rightarrow> bool" where
  "modifies i v db old r =
    (domain_of db i = Some old \<and> dm_version old = v \<and> dm_id r = i \<and> dm_version r = v + 1 \<and>
     dm_ascii r \<notin> dm_ascii ` set (filter (\<lambda>q. dm_id q \<noteq> i) (t_domains db)) \<and> (domain_row_ok old \<longrightarrow> domain_row_ok r) \<and>
     observed_columns r = observed_columns old)"

lemma store_domain_Inr:
  "store_domain db others r = Inr u \<Longrightarrow> domain_row_ok r \<and> dm_id r \<notin> dm_id ` set others \<and> dm_ascii r \<notin> dm_ascii ` set others"
  by (auto simp: store_domain_def bind_result_Inr)

lemma found_by_id:
  assumes "distinct (map dm_id (t_domains db))" "find (\<lambda>r. dm_id r = i \<and> P r) (t_domains db) = Some old"
  shows "domain_of db i = Some old \<and> P old"
proof -
  have old: "old \<in> set (t_domains db)" "dm_id old = i" "P old" using assms(2) by (auto simp: find_Some_iff)
  then obtain r where r: "domain_of db i = Some r" by (cases "domain_of db i") (auto simp: domain_of_def find_None_iff)
  then have "r = old" using domain_of_Some [OF r] old assms(1) by (metis distinct_map inj_onD)
  then show ?thesis using r old by simp
qed

lemma UpdateTx_Inr:
  assumes "UpdateTx now item v db = Inr (w, db')" "distinct (map dm_id (t_domains db))"
  obtains old r where "modifies (dm_id item) v db old r" "db' = set_domain r db" "dv_row w = r" "dm_lifecycle r = dm_lifecycle old"
    "dm_monitoring r = dm_monitoring item"
proof -
  obtain old where old: "find (\<lambda>r. dm_id r = dm_id item \<and> dm_version r = v) (t_domains db) = Some old"
    using assms(1) by (auto simp: UpdateTx_def bind_result_Inr)
  let ?r = "old\<lparr>dm_original_input := dm_original_input item, dm_ascii := dm_ascii item, dm_unicode := dm_unicode item,
            dm_registrable := dm_registrable item, dm_registrar_id := dm_registrar_id item, dm_priority := dm_priority item,
            dm_monitoring := dm_monitoring item, dm_content_mode := dm_content_mode item, dm_expiration := dm_expiration item,
            dm_notes := dm_notes item, dm_version := dm_version old + 1, dm_updated_at := now\<rparr>"
  have st: "store_domain db (filter (\<lambda>q. dm_id q \<noteq> dm_id old) (t_domains db)) ?r = Inr ()" and db': "db' = set_domain ?r db" "w = view db' ?r"
    using assms(1) old by (auto simp: UpdateTx_def bind_result_Inr Let_def)
  have "domain_of db (dm_id item) = Some old \<and> dm_version old = v" using found_by_id [OF assms(2) old] .
  moreover have "dm_id old = dm_id item" using domain_of_Some calculation by blast
  ultimately have "modifies (dm_id item) v db old ?r" using store_domain_Inr [OF st] by (simp add: modifies_def observed_columns_def)
  then show ?thesis using that db' by simp
qed

lemma domain_row_ok_lifecycle:
  "domain_row_ok old \<Longrightarrow> (l = ''archived'' \<longleftrightarrow> t \<noteq> None) \<Longrightarrow> v = dm_version old + 1 \<Longrightarrow>
   domain_row_ok (old\<lparr>dm_lifecycle := l, dm_monitoring_before_archive := b, dm_monitoring := m, dm_archived_at := t, dm_version := v, dm_updated_at := now\<rparr>)"
  by (simp add: domain_row_ok_def)

lemma own_ascii:
  assumes "distinct (map dm_ascii (t_domains db))" "old \<in> set (t_domains db)"
  shows "dm_ascii old \<notin> dm_ascii ` set (filter (\<lambda>q. dm_id q \<noteq> dm_id old) (t_domains db))"
  using assms by (auto simp: distinct_map inj_on_def)

text \<open>The two lifecycle changes, with the row that they leave.\<close>

definition archived_row :: "gotime \<Rightarrow> domain_row \<Rightarrow> domain_row" where
  "archived_row now old = old\<lparr>dm_lifecycle := ''archived'', dm_monitoring_before_archive := dm_monitoring old, dm_monitoring := False,
     dm_archived_at := Some now, dm_version := dm_version old + 1, dm_updated_at := now\<rparr>"

definition restored_row :: "gotime \<Rightarrow> domain_row \<Rightarrow> domain_row" where
  "restored_row now old = old\<lparr>dm_lifecycle := ''active'', dm_monitoring := dm_monitoring_before_archive old,
     dm_archived_at := None, dm_version := dm_version old + 1, dm_updated_at := now\<rparr>"

lemma lifecycle_Inr:
  assumes "domain_ok db"
  shows "ArchiveTx now i v db = Inr (w, db') \<Longrightarrow> \<exists>old. modifies i v db old (archived_row now old) \<and> dm_lifecycle old \<noteq> ''archived'' \<and>
      db' = set_domain (archived_row now old) db \<and> dv_row w = archived_row now old"
    and "RestoreTx now i v db = Inr (w, db') \<Longrightarrow> \<exists>old. modifies i v db old (restored_row now old) \<and> dm_lifecycle old = ''archived'' \<and>
      db' = set_domain (restored_row now old) db \<and> dv_row w = restored_row now old"
proof -
  have d: "distinct (map dm_id (t_domains db))" "distinct (map dm_ascii (t_domains db))" using assms by (simp_all add: domain_ok_def)
  have m: "modifies i v db old r" if "domain_of db i = Some old" "dm_version old = v" "dm_id r = dm_id old" "dm_ascii r = dm_ascii old"
    "dm_version r = v + 1" "domain_row_ok old \<longrightarrow> domain_row_ok r" "observed_columns r = observed_columns old" for old r
    using that own_ascii [OF d(2), of old] domain_of_Some [OF that(1)] by (auto simp: modifies_def)
  {
    assume "ArchiveTx now i v db = Inr (w, db')"
    then obtain old where old: "find (\<lambda>r. dm_id r = i \<and> dm_version r = v \<and> dm_lifecycle r \<noteq> ''archived'') (t_domains db) = Some old"
      "db' = set_domain (archived_row now old) db" "w = view db' (archived_row now old)"
      by (auto simp: ArchiveTx_def archived_row_def bind_result_Inr Let_def)
    have f: "domain_of db i = Some old" "dm_version old = v" "dm_lifecycle old \<noteq> ''archived''" using found_by_id [OF d(1) old(1)] by auto
    have "modifies i v db old (archived_row now old)"
      by (rule m) (use f in \<open>simp_all add: archived_row_def domain_row_ok_def observed_columns_def\<close>)
    then show "\<exists>old. modifies i v db old (archived_row now old) \<and> dm_lifecycle old \<noteq> ''archived'' \<and>
      db' = set_domain (archived_row now old) db \<and> dv_row w = archived_row now old" using f old by auto
  next
    assume "RestoreTx now i v db = Inr (w, db')"
    then obtain old where old: "find (\<lambda>r. dm_id r = i \<and> dm_version r = v \<and> dm_lifecycle r = ''archived'') (t_domains db) = Some old"
      "db' = set_domain (restored_row now old) db" "w = view db' (restored_row now old)"
      by (auto simp: RestoreTx_def restored_row_def bind_result_Inr Let_def)
    have f: "domain_of db i = Some old" "dm_version old = v" "dm_lifecycle old = ''archived''" using found_by_id [OF d(1) old(1)] by auto
    have "modifies i v db old (restored_row now old)"
      by (rule m) (use f in \<open>simp_all add: restored_row_def domain_row_ok_def observed_columns_def\<close>)
    then show "\<exists>old. modifies i v db old (restored_row now old) \<and> dm_lifecycle old = ''archived'' \<and>
      db' = set_domain (restored_row now old) db \<and> dv_row w = restored_row now old" using f old by auto
  }
qed

lemma changeLifecycle_Inr:
  assumes "changeLifecycle L env a i v reason action change db = Inr (w, db')"
  obtains db1 log where "change (de_now env) i v db = Inr (w, db1)"
    "db' = (EnsureScheduleTx env (row_id w) (scheduled (dv_row w)) db1)\<lparr>t_audit := log\<rparr>"
proof -
  obtain before db1 where c: "change (de_now env) i v db = Inr (w, db1)"
    and aud: "audit_tx L env (domain_entry a action i (trim_space reason) (Some before) w) (EnsureScheduleTx env (row_id w) (scheduled (dv_row w)) db1) = Inr db'"
    using assms by (cases "change (de_now env) i v db") (auto simp: changeLifecycle_def bind_result_Inr Let_def scheduled_def)
  from audit_tx_Inr [OF aud] obtain log where "db' = (EnsureScheduleTx env (row_id w) (scheduled (dv_row w)) db1)\<lparr>t_audit := log\<rparr>" ..
  with that c show ?thesis by blast
qed

lemma changeLifecycle_succeeds:
  assumes "1 \<le> v" "domain_of db i = Some r" "dm_version r = v" "change (de_now env) i v db = Inr (w, db1)"
    and "AppendTx L (de_auditID env) (de_audit_now env) (domain_entry a action i (trim_space reason) (Some (view db r)) w) (t_audit db1) = Inr log"
  shows "changeLifecycle L env a i v reason action change db = Inr (w, (EnsureScheduleTx env (row_id w) (scheduled (dv_row w)) db1)\<lparr>t_audit := log\<rparr>)"
  using assms by (simp add: changeLifecycle_def GetTx_def audit_tx_def scheduled_def)

lemma patch_ids:
  "patch_name N allow input r = Inr r' \<Longrightarrow> dm_id r' = dm_id r" "patch_priority input r = Inr r' \<Longrightarrow> dm_id r' = dm_id r"
  "patch_mode input r = Inr r' \<Longrightarrow> dm_id r' = dm_id r" "dm_id (patch_registrar input r) = dm_id r"
  "dm_id (patch_monitoring input r) = dm_id r" "dm_id (patch_expiration input r) = dm_id r" "dm_id (patch_notes input r) = dm_id r"
  by (auto simp: patch_name_def patch_priority_def patch_mode_def patch_registrar_def patch_monitoring_def patch_expiration_def
      patch_notes_def map_sum_Inr split: option.splits)

lemma patched_id: "patched N allow input before = Inr (after, changed) \<Longrightarrow> dm_id after = row_id before"
  by (auto simp: patched_def bind_result_Inr patch_ids dest!: patch_ids(1-3))

lemma record_decision_Inr:
  assumes "record_decision env a input changed w db = Inr (w', db')" "domain_of db (row_id w) = Some (dv_row w)"
  shows "dv_row w' = dv_row w \<and> t_domains db' = t_domains db \<and> t_schedules db' = t_schedules db \<and> domain_db.more db' = domain_db.more db"
proof (cases changed)
  case True
  then obtain db2 d where d: "db2 = db\<lparr>t_decisions := d\<rparr>" "db' = db2" "GetTx (row_id w) db2 = Inr w'"
    using assms(1) by (auto simp: record_decision_def InsertRenewalDecisionTx_def bind_result_Inr)
  then show ?thesis using assms(2) by (auto simp: GetTx_Inr)
qed (use assms(1) in \<open>simp add: record_decision_def\<close>)

lemma Patch_steps:
  assumes "Patch N allow L env a i input db = Inr (w, db')"
  obtains before after changed w1 db1 db3 where "GetTx i db = Inr before" "patched N allow input before = Inr (after, changed)"
    "UpdateTx (de_now env) after (pi_Version input) db = Inr (w1, db1)" "record_decision env a input changed w1 db1 = Inr (w, db3)"
    "audit_tx L env (domain_entry a ''DOMAIN_UPDATED'' (row_id w) (trim_space (pi_Reason input)) (Some before) w)
      (EnsureScheduleTx env (row_id w) (scheduled (dv_row w)) db3) = Inr db'"
  using assms unfolding Patch_def Let_def scheduled_def by (auto simp only: bind_result_Inr split_paired_all prod.case sum.inject prod.inject)

lemma Patch_Inr:
  assumes "Patch N allow L env a i input db = Inr (w, db')" "domain_ok db"
  shows "\<exists>old r. modifies i (pi_Version input) db old r \<and> t_domains db' = t_domains (set_domain r db) \<and>
    t_schedules db' = t_schedules (EnsureScheduleTx env i (scheduled r) db) \<and> domain_db.more db' = domain_db.more db"
proof -
  obtain before after changed w1 db1 db3 where b: "GetTx i db = Inr before" and p: "patched N allow input before = Inr (after, changed)"
    and u: "UpdateTx (de_now env) after (pi_Version input) db = Inr (w1, db1)" and d: "record_decision env a input changed w1 db1 = Inr (w, db3)"
    and aud: "audit_tx L env (domain_entry a ''DOMAIN_UPDATED'' (row_id w) (trim_space (pi_Reason input)) (Some before) w)
      (EnsureScheduleTx env (row_id w) (scheduled (dv_row w)) db3) = Inr db'"
    using assms(1) by (rule Patch_steps)
  have id: "dm_id after = i" using patched_id [OF p] b by (auto simp: GetTx_Inr dest: domain_of_Some)
  have "distinct (map dm_id (t_domains db))" using assms(2) by (simp add: domain_ok_def)
  with u obtain old r where r: "modifies i (pi_Version input) db old r" "db1 = set_domain r db" "dv_row w1 = r"
    unfolding id [symmetric] by (rule UpdateTx_Inr)
  have rid: "dm_id r = i" "domain_of db i \<noteq> None" using r(1) by (simp_all add: modifies_def)
  then have "domain_of db1 (row_id w1) = Some (dv_row w1)" using domain_of_set_domain [of db r i] r(2,3) by simp
  note d3 = record_decision_Inr [OF d this]
  have w: "dv_row w = r" using d3 r(3) by simp
  obtain log where "db' = (EnsureScheduleTx env i (scheduled r) db3)\<lparr>t_audit := log\<rparr>"
    using audit_tx_Inr [OF aud] unfolding w rid(1) by blast
  then have "t_domains db' = t_domains (set_domain r db)" "t_schedules db' = t_schedules (EnsureScheduleTx env i (scheduled r) db)"
    "domain_db.more db' = domain_db.more db"
    using d3 r(2) by (simp_all add: EnsureScheduleTx_def)
  then show ?thesis using r(1) by blast
qed

text \<open>Every successful modification replaces the row of its domain and sets its schedule accordingly.\<close>

lemma call_modifies:
  assumes "call_result N allow L (env, call) db = Inr (w, db')" "domain_ok db" "based_on call = Some (i, v)"
  obtains old r where "modifies i v db old r" "t_domains db' = t_domains (set_domain r db)"
    "t_schedules db' = t_schedules (EnsureScheduleTx env i (scheduled r) db)" "domain_db.more db' = domain_db.more db"
proof (cases call)
  case (CallPatch a j input)
  have "Patch N allow L env a i input db = Inr (w, db')" "pi_Version input = v" using assms(1,3) CallPatch by (simp_all add: call_result_def)
  with Patch_Inr [OF this(1) assms(2)] show ?thesis using that by blast
next
  case (CallArchive a j u reason)
  then have "changeLifecycle L env a i v reason ''DOMAIN_ARCHIVED'' ArchiveTx db = Inr (w, db')"
    using assms(1,3) by (auto simp: call_result_def Archive_def bind_result_Inr)
  then obtain db1 log where c: "ArchiveTx (de_now env) i v db = Inr (w, db1)"
    "db' = (EnsureScheduleTx env (row_id w) (scheduled (dv_row w)) db1)\<lparr>t_audit := log\<rparr>" by (rule changeLifecycle_Inr)
  from lifecycle_Inr(1) [OF assms(2) c(1)] obtain old where
    m: "modifies i v db old (archived_row (de_now env) old)" "db1 = set_domain (archived_row (de_now env) old) db" "dv_row w = archived_row (de_now env) old" by blast
  have "row_id w = i" using m(1,3) by (simp add: modifies_def)
  then have "t_domains db' = t_domains (set_domain (dv_row w) db)" "t_schedules db' = t_schedules (EnsureScheduleTx env i (scheduled (dv_row w)) db)"
    "domain_db.more db' = domain_db.more db"
    unfolding c(2) m(2) m(3) [symmetric] by (simp_all add: EnsureScheduleTx_def)
  then show ?thesis by (rule that [OF m(1) [folded m(3)]])
next
  case (CallRestore a j u reason)
  then have "changeLifecycle L env a i v reason ''DOMAIN_RESTORED'' RestoreTx db = Inr (w, db')"
    using assms(1,3) by (auto simp: call_result_def Restore_def bind_result_Inr)
  then obtain db1 log where c: "RestoreTx (de_now env) i v db = Inr (w, db1)"
    "db' = (EnsureScheduleTx env (row_id w) (scheduled (dv_row w)) db1)\<lparr>t_audit := log\<rparr>" by (rule changeLifecycle_Inr)
  from lifecycle_Inr(2) [OF assms(2) c(1)] obtain old where
    m: "modifies i v db old (restored_row (de_now env) old)" "db1 = set_domain (restored_row (de_now env) old) db" "dv_row w = restored_row (de_now env) old" by blast
  have "row_id w = i" using m(1,3) by (simp add: modifies_def)
  then have "t_domains db' = t_domains (set_domain (dv_row w) db)" "t_schedules db' = t_schedules (EnsureScheduleTx env i (scheduled (dv_row w)) db)"
    "domain_db.more db' = domain_db.more db"
    unfolding c(2) m(2) m(3) [symmetric] by (simp_all add: EnsureScheduleTx_def)
  then show ?thesis by (rule that [OF m(1) [folded m(3)]])
qed (use assms in auto)

lemma domain_ok_modified:
  assumes "domain_ok db" "modifies i v db old r" "t_domains db' = t_domains (set_domain r db)"
    and "t_schedules db' = t_schedules (EnsureScheduleTx env i (scheduled r) db)"
  shows "domain_ok db'"
proof -
  let ?f = "\<lambda>q. if dm_id q = i then r else q"
  have r: "dm_id r = i" "dm_ascii r \<notin> dm_ascii ` set (filter (\<lambda>q. dm_id q \<noteq> i) (t_domains db))" and old: "old \<in> set (t_domains db)" "dm_id old = i"
    and ok: "domain_row_ok r"
    using assms(1,2) domain_of_Some by (auto simp: modifies_def domain_ok_def)
  have other: "dm_ascii q \<noteq> dm_ascii r" if "q \<in> set (t_domains db)" "dm_id q \<noteq> i" for q
  proof
    assume "dm_ascii q = dm_ascii r"
    then have "dm_ascii r \<in> dm_ascii ` set (filter (\<lambda>q. dm_id q \<noteq> i) (t_domains db))" using that by (force simp flip: \<open>dm_ascii q = dm_ascii r\<close>)
    then show False using r(2) by contradiction
  qed
  have dom: "t_domains db' = map ?f (t_domains db)" using assms(3) r by (simp add: set_domain_def)
  have ids: "map dm_id (t_domains db') = map dm_id (t_domains db)" unfolding dom by (simp add: r(1))
  have id: "distinct (map dm_id (t_domains db))" and asc: "distinct (map dm_ascii (t_domains db))" using assms(1) by (simp_all add: domain_ok_def)
  have unique: "q = old" if "q \<in> set (t_domains db)" "dm_id q = i" for q using that old id by (metis distinct_map inj_onD)
  have "inj_on (dm_ascii \<circ> ?f) (set (t_domains db))"
  proof (rule inj_onI)
    fix x y assume xy: "x \<in> set (t_domains db)" "y \<in> set (t_domains db)" "(dm_ascii \<circ> ?f) x = (dm_ascii \<circ> ?f) y"
    show "x = y"
    proof (cases "dm_id x = i \<or> dm_id y = i")
      case True
      then show ?thesis using xy other [of x] other [of y] unique [of x] unique [of y] by (auto split: if_splits)
    next
      case False
      then show ?thesis using xy asc by (auto simp: distinct_map inj_on_def)
    qed
  qed
  then have asc': "distinct (map dm_ascii (t_domains db'))" unfolding dom using asc by (simp add: distinct_map)
  have rows: "\<forall>q \<in> set (t_domains db'). q = r \<or> q \<in> set (t_domains db) \<and> dm_id q \<noteq> i" unfolding dom by auto
  have sched: "i \<in> sc_domain_id ` set (t_schedules db)" using assms(1) old by (auto simp: domain_ok_def)
  have s: "map sc_domain_id (t_schedules db') = map sc_domain_id (t_schedules db)" using sched by (simp add: assms(4) EnsureScheduleTx_def)
  have en: "sc_enabled s = scheduled q" if "s \<in> set (t_schedules db')" "q \<in> set (t_domains db')" "sc_domain_id s = dm_id q" for s q
    using that rows sched assms(1) r(1) by (auto simp: assms(4) EnsureScheduleTx_def domain_ok_def)
  have sets: "sc_domain_id ` set (t_schedules db') = sc_domain_id ` set (t_schedules db)" "dm_id ` set (t_domains db') = dm_id ` set (t_domains db)"
    using s ids by (metis list.set_map)+
  have old_ok: "\<forall>q \<in> set (t_domains db). domain_row_ok q" "distinct (map sc_domain_id (t_schedules db))"
    "sc_domain_id ` set (t_schedules db) = dm_id ` set (t_domains db)"
    using assms(1) unfolding domain_ok_def by simp_all
  show ?thesis unfolding domain_ok_def
  proof (intro conjI)
    show "distinct (map dm_id (t_domains db'))" using ids id by simp
    show "\<forall>r \<in> set (t_domains db'). domain_row_ok r" using rows ok old_ok(1) by metis
    show "distinct (map sc_domain_id (t_schedules db'))" using s old_ok(2) by simp
    show "sc_domain_id ` set (t_schedules db') = dm_id ` set (t_domains db')" using sets old_ok(3) by simp
    show "\<forall>s \<in> set (t_schedules db'). \<forall>r \<in> set (t_domains db'). sc_domain_id s = dm_id r \<longrightarrow> sc_enabled s = scheduled r" using en by blast
  qed (rule asc')
qed

lemma Create_Inr:
  assumes "Create N allow L env a input db = Inr (w, db')"
  obtains r where "t_domains db' = t_domains db @ [r]" "dm_id r \<notin> dm_id ` set (t_domains db)" "dm_ascii r \<notin> dm_ascii ` set (t_domains db)"
    "domain_row_ok r" "t_schedules db' = t_schedules (EnsureScheduleTx env (dm_id r) (scheduled r) db)"
    "domain_db.more db' = domain_db.more db" "observed_columns r = unobserved"
proof -
  obtain item created db1 where ins: "InsertTx (de_now env) item db = Inr (created, db1)" and act: "dm_lifecycle item = ''active'' \<and> observed_columns item = unobserved"
    and aud: "audit_tx L env (domain_entry a ''DOMAIN_ADDED'' (row_id created) '''' None created)
      (EnsureScheduleTx env (row_id created) (dm_monitoring (dv_row created)) db1) = Inr db'"
    using assms unfolding Create_def Let_def
    by (auto simp only: bind_result_Inr split_paired_all prod.case sum.inject prod.inject domain_row.simps observed_columns_def unobserved_def)
  have st: "store_domain db (t_domains db) item = Inr ()" and db1: "db1 = db\<lparr>t_domains := t_domains db @ [item]\<rparr>" "dv_row created = item"
    using ins by (auto simp: InsertTx_def bind_result_Inr Let_def)
  have "scheduled item = dm_monitoring item" using act by (simp add: scheduled_def)
  then obtain log where "db' = (EnsureScheduleTx env (dm_id item) (scheduled item) db1)\<lparr>t_audit := log\<rparr>"
    using audit_tx_Inr [OF aud] db1(2) by auto
  then show ?thesis using that [of item] store_domain_Inr [OF st] db1(1) act by (simp add: EnsureScheduleTx_def)
qed

lemma domain_ok_created:
  assumes "domain_ok db" "t_domains db' = t_domains db @ [r]" "dm_id r \<notin> dm_id ` set (t_domains db)" "dm_ascii r \<notin> dm_ascii ` set (t_domains db)"
    and "domain_row_ok r" "t_schedules db' = t_schedules (EnsureScheduleTx env (dm_id r) (scheduled r) db)"
  shows "domain_ok db'"
proof -
  have old: "distinct (map dm_id (t_domains db))" "distinct (map dm_ascii (t_domains db))" "\<forall>q \<in> set (t_domains db). domain_row_ok q"
    "distinct (map sc_domain_id (t_schedules db))" "sc_domain_id ` set (t_schedules db) = dm_id ` set (t_domains db)"
    "\<forall>s \<in> set (t_schedules db). \<forall>q \<in> set (t_domains db). sc_domain_id s = dm_id q \<longrightarrow> sc_enabled s = scheduled q"
    using assms(1) unfolding domain_ok_def by simp_all
  have new: "dm_id r \<notin> sc_domain_id ` set (t_schedules db)" using assms(3) old(5) by simp
  then obtain s where s: "t_schedules db' = t_schedules db @ [s]" "sc_domain_id s = dm_id r" "sc_enabled s = scheduled r"
    using assms(6) by (simp add: EnsureScheduleTx_def)
  show ?thesis unfolding domain_ok_def
  proof (intro conjI)
    show "distinct (map dm_id (t_domains db'))" "distinct (map dm_ascii (t_domains db'))" using old(1,2) assms(2-4) by auto
    show "\<forall>q \<in> set (t_domains db'). domain_row_ok q" using old(3) assms(2,5) by auto
    show "distinct (map sc_domain_id (t_schedules db'))" using old(4) s new by auto
    show "sc_domain_id ` set (t_schedules db') = dm_id ` set (t_domains db')" using old(5) s(1,2) assms(2) by simp
    show "\<forall>s \<in> set (t_schedules db'). \<forall>q \<in> set (t_domains db'). sc_domain_id s = dm_id q \<longrightarrow> sc_enabled s = scheduled q"
    proof (intro ballI impI)
      fix t q assume "t \<in> set (t_schedules db')" "q \<in> set (t_domains db')" "sc_domain_id t = dm_id q"
      then consider "t = s" "q = r" | "t = s" "q \<in> set (t_domains db)" "dm_id q = dm_id r" | "t \<in> set (t_schedules db)" "q = r" "sc_domain_id t = dm_id r"
        | "t \<in> set (t_schedules db)" "q \<in> set (t_domains db)" "sc_domain_id t = dm_id q"
        using s(1,2) assms(2) by auto
      then show "sc_enabled t = scheduled q"
        using s(3) old(6) new assms(3) by cases (auto simp: image_iff)
    qed
  qed
qed

lemma call_ok:
  assumes "call_result N allow L (env, call) db = Inr (w, db')" "domain_ok db"
  shows "domain_ok db'"
proof (cases "based_on call")
  case None
  then obtain a input where "call = CallCreate a input" by (cases call) auto
  then have "Create N allow L env a input db = Inr (w, db')" using assms(1) by (simp add: call_result_def)
  then show ?thesis by (rule Create_Inr) (rule domain_ok_created [OF assms(2)])
next
  case (Some b)
  obtain i v where "b = (i, v)" by (cases b)
  with assms Some obtain old r where m: "modifies i v db old r" "t_domains db' = t_domains (set_domain r db)"
    "t_schedules db' = t_schedules (EnsureScheduleTx env i (scheduled r) db)"
    using call_modifies by metis
  show ?thesis by (rule domain_ok_modified [OF assms(2) m])
qed

text \<open>The calls neither touch the tables of other components nor what the monitoring has observed; a new domain is unobserved.\<close>

lemma call_observed:
  assumes "call_result N allow L (env, call) db = Inr (w, db')" "domain_ok db"
  shows "domain_db.more db' = domain_db.more db" "domain_of db i = Some r \<Longrightarrow> \<exists>r'. domain_of db' i = Some r' \<and> observed_columns r' = observed_columns r"
    "domain_of db i = None \<Longrightarrow> domain_of db' i = Some r \<Longrightarrow> observed_columns r = unobserved"
proof -
  have "domain_db.more db' = domain_db.more db \<and>
    (domain_of db i = Some r \<longrightarrow> (\<exists>r'. domain_of db' i = Some r' \<and> observed_columns r' = observed_columns r)) \<and>
    (domain_of db i = None \<longrightarrow> domain_of db' i = Some r \<longrightarrow> observed_columns r = unobserved)"
  proof (cases "based_on call")
    case None
    then obtain a input where "call = CallCreate a input" by (cases call) auto
    then have "Create N allow L env a input db = Inr (w, db')" using assms(1) by (simp add: call_result_def)
    then obtain q where q: "t_domains db' = t_domains db @ [q]" "domain_db.more db' = domain_db.more db" "observed_columns q = unobserved"
      by (rule Create_Inr)
    then show ?thesis using find_append [of "\<lambda>r. dm_id r = i" "t_domains db" "[q]"]
      by (auto simp: domain_of_def find_Some_iff nth_append find_None_iff split: if_splits)
  next
    case (Some b)
    obtain j v where "b = (j, v)" by (cases b)
    with assms Some obtain old q where m: "modifies j v db old q" "t_domains db' = t_domains (set_domain q db)"
      "domain_db.more db' = domain_db.more db" using call_modifies by metis
    have q: "dm_id q = j" "domain_of db j = Some old" "observed_columns q = observed_columns old" using m(1) by (simp_all add: modifies_def)
    have "domain_of db' i = (if i = j then Some q else domain_of db i)"
      using domain_of_set_domain [of db q i] m(2) q by (simp add: domain_of_def)
    then show ?thesis using m(3) q by auto
  qed
  then show "domain_db.more db' = domain_db.more db" "domain_of db i = Some r \<Longrightarrow> \<exists>r'. domain_of db' i = Some r' \<and> observed_columns r' = observed_columns r"
    "domain_of db i = None \<Longrightarrow> domain_of db' i = Some r \<Longrightarrow> observed_columns r = unobserved" by auto
qed

lemma domain_run_ok: "domain_ok db \<Longrightarrow> domain_ok (snd (domain_run N allow L calls db))"
proof (induction calls arbitrary: db)
  case (Cons call calls)
  obtain env c where call: "call = (env, c)" by (cases call)
  show ?case
  proof (cases "call_result N allow L call db")
    case (Inr wdb)
    obtain w db' where w: "wdb = (w, db')" by (cases wdb)
    then have "domain_ok db'" using call_ok Inr Cons.prems call by blast
    then show ?thesis using Cons.IH [of db'] Inr w by (simp add: split_def Let_def)
  qed (use Cons in simp)
qed simp

text \<open>Versions: a call leaves no version smaller, and a modification is based on the version it finds and increases it.\<close>

definition version_of :: "'a domain_db_scheme \<Rightarrow> uuid \<Rightarrow> int option" where
  "version_of db i = map_option dm_version (domain_of db i)"

lemma call_versions:
  assumes "call_result N allow L (env, call) db = Inr (w, db')" "domain_ok db"
  shows "version_of db i = Some v \<Longrightarrow> \<exists>v'. version_of db' i = Some v' \<and> v \<le> v'"
    and "based_on call = Some (i, u) \<Longrightarrow> version_of db i = Some u \<and> version_of db' i = Some (u + 1)"
proof -
  have modified: "version_of db' j = (if j = k then Some (x + 1) else version_of db j)" "version_of db k = Some x" if "based_on call = Some (k, x)" for k x j
  proof -
    note based = that
    obtain old r where m: "modifies k x db old r" "t_domains db' = t_domains (set_domain r db)"
      by (rule call_modifies [OF assms based])
    have r: "dm_id r = k" "domain_of db k = Some old" "dm_version old = x" "dm_version r = x + 1" using m(1) by (simp_all add: modifies_def)
    have "domain_of db' j = domain_of (set_domain r db) j" using m(2) by (simp add: domain_of_def)
    then show "version_of db' j = (if j = k then Some (x + 1) else version_of db j)" "version_of db k = Some x"
      using domain_of_set_domain [of db r j] r by (simp_all add: version_of_def)
  qed
  show "\<exists>v'. version_of db' i = Some v' \<and> v \<le> v'" if v: "version_of db i = Some v"
  proof (cases "based_on call")
    case None
    then obtain a input where "call = CallCreate a input" by (cases call) auto
    then have "Create N allow L env a input db = Inr (w, db')" using assms(1) by (simp add: call_result_def)
    then obtain r where "t_domains db' = t_domains db @ [r]" by (rule Create_Inr)
    then have "domain_of db' i = domain_of db i" if "domain_of db i \<noteq> None" using that by (simp add: domain_of_def find_append)
    then show ?thesis using v by (auto simp: version_of_def)
  next
    case (Some b)
    then show ?thesis using modified [of "fst b" "snd b"] v by (cases b) auto
  qed
  show "version_of db i = Some u \<and> version_of db' i = Some (u + 1)" if "based_on call = Some (i, u)"
    using modified [OF that] by simp
qed

lemma domain_run_versions:
  assumes "domain_ok db"
  shows "sorted_wrt (\<lambda>(i, v) (j, u). i = j \<longrightarrow> v < u) (fst (domain_run N allow L calls db)) \<and>
    (\<forall>(i, v) \<in> set (fst (domain_run N allow L calls db)). \<forall>u. version_of db i = Some u \<longrightarrow> u \<le> v)"
  using assms
proof (induction calls arbitrary: db)
  case (Cons call calls)
  obtain env c where call: "call = (env, c)" by (cases call)
  show ?case
  proof (cases "call_result N allow L call db")
    case (Inl e)
    then show ?thesis using Cons by simp
  next
    case (Inr wdb)
    obtain w db' where w: "wdb = (w, db')" by (cases wdb)
    have res: "call_result N allow L (env, c) db = Inr (w, db')" using Inr w call by simp
    have ok: "domain_ok db'" by (rule call_ok [OF res Cons.prems])
    let ?rest = "fst (domain_run N allow L calls db')"
    note IH = Cons.IH [OF ok]
    have grows: "u \<le> v" if "(i, v) \<in> set ?rest" "version_of db i = Some u" for i v u
      using call_versions(1) [OF res Cons.prems that(2)] IH that(1) by fastforce
    have run: "fst (domain_run N allow L (call # calls) db) = (case based_on c of None \<Rightarrow> ?rest | Some b \<Rightarrow> b # ?rest)"
      using res by (cases "based_on c") (simp_all add: call split_def Let_def)
    show ?thesis
    proof (cases "based_on c")
      case None
      then show ?thesis using IH grows run by auto
    next
      case (Some b)
      obtain i v where b: "b = (i, v)" by (cases b)
      have v: "version_of db i = Some v" "version_of db' i = Some (v + 1)"
        using call_versions(2) [OF res Cons.prems] Some b by blast+
      have "v < u" if "(i, u) \<in> set ?rest" for u using IH that v(2) by fastforce
      then show ?thesis using IH grows run Some b v(1) by auto
    qed
  qed
qed simp

text \<open>The pages of a list, one after the other, are the list.\<close>

lemma chunks: "concat (map (\<lambda>k. take p (drop (k * p) xs)) [0 ..< n]) = take (n * p) xs"
proof (induction n)
  case (Suc n)
  have "take (n * p) xs @ take p (drop (n * p) xs) = take (Suc n * p) xs" by (simp only: take_add [symmetric] mult_Suc add.commute)
  then show ?case using Suc by simp
qed simp

lemma page_size_bounds: "1 \<le> page_size f \<and> page_size f \<le> 200"
  by (auto simp: page_size_def)

definition valid_filter :: "list_filter \<Rightarrow> bool" where
  "valid_filter f = (lf_LifecycleStatus f \<in> {'''', ''active'', ''inactive'', ''archived''} \<and>
     lf_SourceStatus f \<in> {'''', ''present'', ''missing_from_source'', ''unknown''} \<and> length (lf_Query f) \<le> 253 \<and> text_ok (lf_Query f) \<and> lf_Sort f \<noteq> ''created_at'')"

lemma order_key_page: "order_key Q (f\<lparr>lf_Page := x\<rparr>) = order_key Q f"
  by (rule ext) (simp add: order_key_def sort_column_def cong: if_cong option.case_cong)

lemma matches_page: "matches Q (f\<lparr>lf_Page := x\<rparr>) = matches Q f"
  by (rule ext) (simp add: matches_def)

lemma selected_page: "selected Q (f\<lparr>lf_Page := x\<rparr>) db = selected Q f db"
  unfolding selected_def order_key_page matches_page ..

lemma page_size_page: "page_size (f\<lparr>lf_Page := x\<rparr>) = page_size f"
  by (simp add: page_size_def)

lemma service_List_valid: "valid_filter f \<Longrightarrow> service_List Q (f\<lparr>lf_Page := x\<rparr>) db = store_List Q (f\<lparr>lf_Page := x\<rparr>) db"
  by (auto simp: service_List_def valid_filter_def)

lemma store_List_empty: "selected Q f db = [] \<Longrightarrow> store_List Q f db = Inr g \<Longrightarrow> pg_TotalPages g = 0"
  by (auto simp: store_List_def Let_def split: if_splits)

lemma service_List_page:
  assumes "valid_filter f" "k * nat (page_size f) < length (selected Q f db)" "length (selected Q f db) < 2 ^ 62"
  shows "\<exists>g. service_List Q (f\<lparr>lf_Page := int k + 1\<rparr>) db = Inr g \<and>
    pg_Items g = map (view db) (take (nat (page_size f)) (drop (k * nat (page_size f)) (selected Q f db))) \<and>
    pg_TotalItems g = int (length (selected Q f db)) \<and>
    pg_TotalPages g = (int (length (selected Q f db)) + page_size f - 1) div page_size f"
proof -
  let ?p = "nat (page_size f)" let ?rows = "selected Q f db"
  have p: "int ?p = page_size f" "0 < ?p" using page_size_bounds [of f] by auto
  have off: "int k * page_size f = int (k * ?p)" using p by simp
  have "k * ?p < 4611686018427387904" using assms(2,3) by simp
  then have "int (k * ?p) < 4611686018427387904" "0 \<le> int (k * ?p)" by linarith+
  then have "int64_range (int (k * ?p))" unfolding int64_range_def min_int64_def max_int64_def by linarith
  then have w: "wrap64 (int k * page_size f) = int (k * ?p)" by (simp add: off)
  have "\<not> int (length ?rows) \<le> int (k * ?p)" "0 < length ?rows" using assms(2) by linarith+
  then have "store_List Q (f\<lparr>lf_Page := int k + 1\<rparr>) db =
    Inr \<lparr>pg_Items = map (view db) (take ?p (drop (k * ?p) ?rows)), pg_Page = int k + 1, pg_PageSize = page_size f,
      pg_TotalItems = int (length ?rows), pg_TotalPages = (int (length ?rows) + page_size f - 1) div page_size f\<rparr>"
    using assms(1) unfolding store_List_def Let_def selected_page page_size_page by (simp add: w valid_filter_def nat_mult_distrib mult_less_0_iff)
  then show ?thesis by (simp add: service_List_valid [OF assms(1)])
qed

lemma page_count:
  assumes "0 < (p :: nat)" "0 < n"
  defines "q \<equiv> nat ((int n + int p - 1) div int p)"
  shows "k < q \<longleftrightarrow> k * p < n" "n \<le> q * p"
proof -
  have "int n + int p - 1 = int (n + p - 1)" using assms(1,2) by simp
  then have q: "q = (n + p - 1) div p" by (simp only: q_def zdiv_int [symmetric] nat_int)
  have iff: "j < q \<longleftrightarrow> j * p < n" for j
  proof -
    have "j < q \<longleftrightarrow> Suc j * p \<le> n + p - 1"
      using assms(1) by (simp only: q Suc_le_eq [symmetric] less_eq_div_iff_mult_less_eq)
    then show ?thesis using assms(1,2) by auto
  qed
  show "k < q \<longleftrightarrow> k * p < n" by (rule iff)
  show "n \<le> q * p" using iff [of q] by simp
qed

lemma List_concat:
  assumes "valid_filter f" "length (selected Q f db) < 2 ^ 62" "service_List Q (f\<lparr>lf_Page := 1\<rparr>) db = Inr g"
  shows "concat (map (\<lambda>k. case service_List Q (f\<lparr>lf_Page := int k + 1\<rparr>) db of Inl _ \<Rightarrow> [] | Inr h \<Rightarrow> pg_Items h)
      [0 ..< nat (pg_TotalPages g)]) = map (view db) (selected Q f db)"
proof (cases "selected Q f db = []")
  case True
  then have "pg_TotalPages g = 0"
    using store_List_empty [of Q "f\<lparr>lf_Page := 1\<rparr>" db g] assms(3) by (simp only: selected_page service_List_valid [OF assms(1)])
  then show ?thesis using True by simp
next
  case False
  let ?p = "nat (page_size f)" let ?rows = "selected Q f db"
  have p: "0 < ?p" "page_size f = int ?p" "0 < length ?rows" using page_size_bounds [of f] False by auto
  have pages: "pg_TotalPages g = (int (length ?rows) + int ?p - 1) div int ?p"
    using service_List_page [OF assms(1) _ assms(2), of 0] p assms(3) by auto
  have "map (\<lambda>k. case service_List Q (f\<lparr>lf_Page := int k + 1\<rparr>) db of Inl _ \<Rightarrow> [] | Inr h \<Rightarrow> pg_Items h) [0 ..< nat (pg_TotalPages g)] =
    map (\<lambda>k. map (view db) (take ?p (drop (k * ?p) ?rows))) [0 ..< nat (pg_TotalPages g)]"
  proof (rule map_cong [OF refl])
    fix k assume "k \<in> set [0 ..< nat (pg_TotalPages g)]"
    then have "k * ?p < length ?rows" using page_count(1) [OF p(1,3)] pages by simp
    from service_List_page [OF assms(1) this assms(2)]
    show "(case service_List Q (f\<lparr>lf_Page := int k + 1\<rparr>) db of Inl _ \<Rightarrow> [] | Inr h \<Rightarrow> pg_Items h) =
      map (view db) (take ?p (drop (k * ?p) ?rows))" by auto
  qed
  also have "concat \<dots> = map (view db) (take (nat (pg_TotalPages g) * ?p) ?rows)"
    unfolding chunks [symmetric] map_concat map_map o_def ..
  also have "\<dots> = map (view db) ?rows" using page_count(2) [OF p(1,3)] pages by simp
  finally show ?thesis .
qed

section \<open>Properties\<close>

text \<open>C36. The inventory keeps its invariant under every sequence of calls of its users: ids and names are unique, every row satisfies the
  constraints of the schema, and every domain has exactly one schedule, which is enabled exactly when the
  domain is active and monitored.\<close>

theorem domain_invariant:
  assumes "domain_ok db"
  shows "domain_ok (snd (domain_run N allow L calls db))"
  using domain_run_ok [OF assms] .

text \<open>C5. No update is lost: of the modifications of one domain that succeed, in whatever order the users make them,
  each is based on a larger version than those before it; in particular no two are based on the same version.\<close>

theorem no_lost_update:
  assumes "domain_ok db"
  shows "sorted_wrt (\<lambda>(i, v) (j, u). i = j \<longrightarrow> v < u) (fst (domain_run N allow L calls db))"
  using domain_run_versions [OF assms] by blast

text \<open>C37. Restoring undoes archiving: the domain is as before, except for its version and time of update, if it was active and
  monitored or not.  A domain that was inactive comes back active.\<close>

theorem archive_restore:
  assumes "domain_ok db" "domain_of db i = Some r" "Archive L env a i v reason db = Inr (w, db1)"
    and "Restore L env' a' i v' reason' db1 = Inr (w', db2)"
  shows "v' = v + 1 \<and> domain_of db2 i = Some (dv_row w') \<and>
    dv_row w' = r\<lparr>dm_lifecycle := ''active'', dm_monitoring_before_archive := dm_monitoring r, dm_version := dm_version r + 2, dm_updated_at := de_now env'\<rparr>"
proof -
  have "changeLifecycle L env a i v reason ''DOMAIN_ARCHIVED'' ArchiveTx db = Inr (w, db1)"
    using assms(3) by (simp add: Archive_def bind_result_Inr)
  then obtain db' log where c: "ArchiveTx (de_now env) i v db = Inr (w, db')"
    "db1 = (EnsureScheduleTx env (row_id w) (scheduled (dv_row w)) db')\<lparr>t_audit := log\<rparr>" by (rule changeLifecycle_Inr)
  from lifecycle_Inr(1) [OF assms(1) c(1)] obtain old where m: "modifies i v db old (archived_row (de_now env) old)"
    "dm_lifecycle old \<noteq> ''archived''" "db' = set_domain (archived_row (de_now env) old) db" by blast
  have old: "old = r" "dm_version r = v" "dm_id r = i" using m(1) assms(2) domain_of_Some [OF assms(2)] by (auto simp: modifies_def)
  have ok: "domain_ok db1" using call_ok [of _ _ L env "CallArchive a i v reason" db w db1] assms(1,3) by (simp add: call_result_def)
  have "dm_archived_at r = None"
    using assms(1) domain_of_Some [OF assms(2)] m(2) unfolding domain_ok_def domain_row_ok_def old(1) by blast
  have "domain_of db1 i = Some (archived_row (de_now env) r)"
    using domain_of_set_domain [of db "archived_row (de_now env) r" i] assms(2) c(2) m(3) old by (simp add: archived_row_def)
  have "changeLifecycle L env' a' i v' reason' ''DOMAIN_RESTORED'' RestoreTx db1 = Inr (w', db2)"
    using assms(4) by (simp add: Restore_def bind_result_Inr)
  then obtain db'' log' where c': "RestoreTx (de_now env') i v' db1 = Inr (w', db'')"
    "db2 = (EnsureScheduleTx env' (row_id w') (scheduled (dv_row w')) db'')\<lparr>t_audit := log'\<rparr>" by (rule changeLifecycle_Inr)
  from lifecycle_Inr(2) [OF ok c'(1)] obtain old' where m': "modifies i v' db1 old' (restored_row (de_now env') old')"
    "db'' = set_domain (restored_row (de_now env') old') db1" "dv_row w' = restored_row (de_now env') old'" by blast
  have old': "old' = archived_row (de_now env) r" "v' = v + 1" using m'(1) \<open>domain_of db1 i = Some _\<close> old by (auto simp: modifies_def archived_row_def)
  have "domain_of db2 i = Some (dv_row w')"
    using domain_of_set_domain [of db1 "dv_row w'" i] m' c'(2) \<open>domain_of db1 i = Some _\<close> by (simp add: modifies_def)
  moreover have "dv_row w' = r\<lparr>dm_lifecycle := ''active'', dm_monitoring_before_archive := dm_monitoring r, dm_version := dm_version r + 2, dm_updated_at := de_now env'\<rparr>"
    unfolding m'(3) old' restored_row_def archived_row_def using \<open>dm_archived_at r = None\<close> by simp
  ultimately show ?thesis using old'(2) by simp
qed

text \<open>C38. Paging through a list shows every domain that matches the filter once, in the order asked for (by name, update or expiration): the pages 1 to
  \<^verbatim>\<open>TotalPages\<close>, read on unchanged tables, are together the sorted matches.\<close>

theorem List_pages:
  assumes "valid_filter f" "length (t_domains db) < 2 ^ 62" "service_List Q (f\<lparr>lf_Page := 1\<rparr>) db = Inr g"
  shows "\<exists>rows. concat (map (\<lambda>k. case service_List Q (f\<lparr>lf_Page := int k + 1\<rparr>) db of Inl _ \<Rightarrow> [] | Inr h \<Rightarrow> pg_Items h)
      [0 ..< nat (pg_TotalPages g)]) = map (view db) rows \<and>
    mset rows = filter_mset (matches Q f) (mset (t_domains db)) \<and> sorted (map (order_key Q f) rows)"
proof -
  have "length (selected Q f db) < 2 ^ 62"
    using assms(2) length_filter_le [of "matches Q f" "t_domains db"] unfolding selected_def length_sort by (rule order.strict_trans1 [rotated])
  moreover have "mset (selected Q f db) = filter_mset (matches Q f) (mset (t_domains db))" "sorted (map (order_key Q f) (selected Q f db))"
    by (simp_all add: selected_def)
  ultimately show ?thesis using List_concat [OF assms(1) _ assms(3)] by blast
qed

text \<open>A small inventory.\<close>

definition sample_domain_audit :: "domain_view audit_lib" where
  "sample_domain_audit = \<lparr>al_marshal = (\<lambda>_. Some ''{}''), al_canonical = hp_ID,
     al_sha256 = (\<lambda>s. digit_char (length s) # replicate 31 CHR ''0''), al_hex = (\<lambda>s. s), al_uuid_string = (\<lambda>n. replicate n CHR ''x''),
     al_rfc3339nano = (\<lambda>_. ''''), al_jsonb = Some\<rparr>"

definition sample_env :: "nat \<Rightarrow> domain_env" where
  "sample_env n = \<lparr>de_newID = n, de_auditID = n, de_now = int n * 1000, de_audit_now = int n * 1000, de_jitter = (\<lambda>_. 7)\<rparr>"

definition sample_actor :: actor where
  "sample_actor = \<lparr>act_UserID = 9, act_RequestID = ''q''\<rparr>"

definition sample_domain_row :: domain_row where
  "sample_domain_row = \<lparr>dm_id = 1, dm_original_input = ''a.th'', dm_ascii = ''a.th'', dm_unicode = ''a.th'', dm_registrable = ''a.th'',
     dm_registrar_id = None, dm_lifecycle = ''active'', dm_source_status = ''present'', dm_source_type = ''manual'', dm_priority = ''high'',
     dm_monitoring = True, dm_monitoring_before_archive = True, dm_content_mode = ''HTML'', dm_expiration = None, dm_notes = '''',
     dm_availability = ''UNKNOWN'', dm_dns = ''UNKNOWN'', dm_http = ''UNKNOWN'', dm_redirect = ''UNKNOWN'', dm_isp = ''UNKNOWN'',
     dm_tls = ''UNKNOWN'', dm_content = ''UNKNOWN'', dm_confidence = 0, dm_failures = 0, dm_successes = 0, dm_failure_stage = None,
     dm_error_code = None, dm_last_checked = None, dm_archived_at = None, dm_created_at = 0, dm_updated_at = 0, dm_version = 1\<rparr>"

definition sample_inventory :: domain_db where
  "sample_inventory = \<lparr>t_registrars = [], t_domains = [sample_domain_row],
     t_schedules = [\<lparr>sc_domain_id = 1, sc_interval_seconds = 3600, sc_priority = ''normal'', sc_enabled = True, sc_jitter_seconds = 7,
       sc_next_due_at = 0, sc_last_due_at = None, sc_last_run_id = None, sc_version = 1\<rparr>],
     t_decisions = [], t_audit = []\<rparr>"

abbreviation sample_archive :: "nat \<Rightarrow> int \<Rightarrow> domain_env \<times> domain_call" where
  "sample_archive n v \<equiv> (sample_env n, CallArchive sample_actor 1 v ''r'')"

abbreviation sample_restore :: "nat \<Rightarrow> int \<Rightarrow> domain_env \<times> domain_call" where
  "sample_restore n v \<equiv> (sample_env n, CallRestore sample_actor 1 v ''r'')"

lemma sample_inventory_ok: "domain_ok sample_inventory"
proof -
  have "domain_row_ok sample_domain_row"
    by (simp add: domain_row_ok_def sample_domain_row_def text_ok_def char_count_def string_eval)
  then show ?thesis by (simp add: domain_ok_def sample_inventory_def scheduled_def) (simp add: sample_domain_row_def)
qed

lemma sample_append:
  assumes "i \<notin> au_id ` set rows" "digit_char i # replicate 31 CHR ''0'' \<notin> au_entry_hash ` set rows" "\<forall>r \<in> set rows. length (au_entry_hash r) = 32"
    and "text_ok (Action e)" "text_ok (ResourceType e)" "text_ok (RequestID e)" "text_ok (Reason e)"
  shows "\<exists>r. AppendTx sample_domain_audit i t e rows = Inr (rows @ [r]) \<and> au_id r = i \<and> au_entry_hash r = digit_char i # replicate 31 CHR ''0''"
proof -
  let ?L = sample_domain_audit
  have lib: "marshalSnapshot ?L v \<noteq> None" "al_jsonb ?L x = Some x" for v x
    by (simp_all add: sample_domain_audit_def marshalSnapshot_def split: option.splits)
  obtain b a m where j: "marshalSnapshot ?L (Before e) = Some b" "marshalSnapshot ?L (After e) = Some a" "marshalSnapshot ?L (Metadata e) = Some m"
    using lib(1) by blast
  have "al_sha256 ?L (al_canonical ?L (payload_of ?L i t h e b a m)) = digit_char i # replicate 31 CHR ''0''" for h
    by (simp add: sample_domain_audit_def payload_of_def)
  moreover have "length (previous_hash rows) \<in> {0, 32}"
  proof (cases "newest rows")
    case (Some r)
    then have "rows \<noteq> []" "r = last (sort_key (\<lambda>r. (au_created_at r, au_id r)) rows)" by (auto simp: newest_def split: if_splits)
    then have "r \<in> set (sort_key (\<lambda>r. (au_created_at r, au_id r)) rows)" by (metis last_in_set set_empty set_sort)
    then have "r \<in> set rows" by simp
    then show ?thesis using Some assms(3) by (simp add: previous_hash_def)
  qed (simp add: previous_hash_def)
  ultimately show ?thesis using assms j lib(2) by (simp add: AppendTx_def audit_row_ok_def Let_def)
qed

text \<open>Archiving the sample domain and restoring it.\<close>

lemma sample_lifecycle:
  obtains w db1 w' db2 where "Archive sample_domain_audit (sample_env 2) sample_actor 1 1 ''r'' sample_inventory = Inr (w, db1)"
    "Restore sample_domain_audit (sample_env 4) sample_actor 1 2 ''r'' db1 = Inr (w', db2)"
proof -
  let ?L = sample_domain_audit let ?db = sample_inventory let ?r = sample_domain_row
  let ?r1 = "archived_row 2000 ?r" let ?db1 = "set_domain ?r1 ?db" let ?w1 = "view ?db1 ?r1"
  have texts: "text_ok ''DOMAIN_ARCHIVED''" "text_ok ''DOMAIN_RESTORED''" "text_ok ''domain''" "text_ok ''q''" "text_ok ''r''" "trim_space ''r'' = ''r''"
    by (simp_all add: text_ok_def string_eval)
  have r: "dm_id ?r = 1" "dm_version ?r = 1" "dm_lifecycle ?r = ''active''" by (simp_all add: sample_domain_row_def)
  have of: "domain_of ?db 1 = Some ?r" using r by (simp add: domain_of_def sample_inventory_def)
  have of1: "domain_of ?db1 1 = Some ?r1" using domain_of_set_domain [of ?db ?r1 1] of r by (simp add: archived_row_def)
  have arch: "ArchiveTx 2000 1 1 ?db = Inr (?w1, ?db1)"
    using r by (simp add: ArchiveTx_def archived_row_def sample_inventory_def Let_def)
  obtain a1 where a1: "AppendTx ?L 2 2000 (domain_entry sample_actor ''DOMAIN_ARCHIVED'' 1 ''r'' (Some (view ?db ?r)) ?w1) [] = Inr [a1]"
    "au_id a1 = 2" "au_entry_hash a1 = digit_char 2 # replicate 31 CHR ''0''"
    using sample_append [of 2 "[]" "domain_entry sample_actor ''DOMAIN_ARCHIVED'' 1 ''r'' (Some (view ?db ?r)) ?w1"] texts
    by (auto simp: domain_entry_def sample_actor_def)
  let ?db2 = "(EnsureScheduleTx (sample_env 2) 1 (scheduled ?r1) ?db1)\<lparr>t_audit := [a1]\<rparr>"
  have one: "changeLifecycle ?L (sample_env 2) sample_actor 1 1 ''r'' ''DOMAIN_ARCHIVED'' ArchiveTx ?db = Inr (?w1, ?db2)"
    using changeLifecycle_succeeds [of 1 ?db 1 ?r ArchiveTx "sample_env 2" ?w1 ?db1 ?L sample_actor "''DOMAIN_ARCHIVED''" "''r''" "[a1]"] of arch a1 r texts
    by (simp add: sample_env_def archived_row_def sample_inventory_def)
  let ?r2 = "restored_row 4000 ?r1" let ?db3 = "set_domain ?r2 ?db2" let ?w2 = "view ?db3 ?r2"
  have of2: "domain_of ?db2 1 = Some ?r1" using of1 by simp
  have rest: "RestoreTx 4000 1 2 ?db2 = Inr (?w2, ?db3)"
    using r by (simp add: RestoreTx_def restored_row_def archived_row_def sample_inventory_def set_domain_def Let_def)
  obtain a2 where a2: "AppendTx ?L 4 4000 (domain_entry sample_actor ''DOMAIN_RESTORED'' 1 ''r'' (Some (view ?db2 ?r1)) ?w2) [a1] = Inr [a1, a2]"
    using sample_append [of 4 "[a1]" "domain_entry sample_actor ''DOMAIN_RESTORED'' 1 ''r'' (Some (view ?db2 ?r1)) ?w2"] texts a1
    by (auto simp: domain_entry_def sample_actor_def)
  have two: "\<exists>db. changeLifecycle ?L (sample_env 4) sample_actor 1 2 ''r'' ''DOMAIN_RESTORED'' RestoreTx ?db2 = Inr (?w2, db)"
    using changeLifecycle_succeeds [of 2 ?db2 1 ?r1 RestoreTx "sample_env 4" ?w2 ?db3 ?L sample_actor "''DOMAIN_RESTORED''" "''r''" "[a1, a2]"] of2 rest a2 r texts
    by (simp add: sample_env_def archived_row_def)
  show ?thesis using that one two texts by (auto simp: Archive_def Restore_def reason_required_def)
qed

theorem domain_invariant_witness:
  "domain_ok (snd (domain_run sample_normalize_lib False sample_domain_audit [sample_archive 2 1, sample_restore 4 2] sample_inventory))"
  using domain_invariant [OF sample_inventory_ok] .

theorem no_lost_update_witness:
  "sorted_wrt (\<lambda>(i, v) (j, u). i = j \<longrightarrow> v < u) [(1 :: uuid, 1 :: int), (1, 2)]"
proof -
  obtain w db1 w' db2 where "Archive sample_domain_audit (sample_env 2) sample_actor 1 1 ''r'' sample_inventory = Inr (w, db1)"
    "Restore sample_domain_audit (sample_env 4) sample_actor 1 2 ''r'' db1 = Inr (w', db2)" by (rule sample_lifecycle)
  then have "fst (domain_run sample_normalize_lib False sample_domain_audit [sample_archive 2 1, sample_restore 4 2] sample_inventory) = [(1, 1), (1, 2)]"
    by (simp add: call_result_def)
  then show ?thesis
    using no_lost_update [OF sample_inventory_ok, of sample_normalize_lib False sample_domain_audit "[sample_archive 2 1, sample_restore 4 2]"] by simp
qed

theorem archive_restore_witness:
  "\<exists>w db1 w' db2. Archive sample_domain_audit (sample_env 2) sample_actor 1 1 ''r'' sample_inventory = Inr (w, db1) \<and>
     Restore sample_domain_audit (sample_env 4) sample_actor 1 2 ''r'' db1 = Inr (w', db2) \<and>
     dv_row w' = sample_domain_row\<lparr>dm_version := 3, dm_updated_at := 4000\<rparr>"
proof -
  obtain w db1 w' db2 where run: "Archive sample_domain_audit (sample_env 2) sample_actor 1 1 ''r'' sample_inventory = Inr (w, db1)"
    "Restore sample_domain_audit (sample_env 4) sample_actor 1 2 ''r'' db1 = Inr (w', db2)" by (rule sample_lifecycle)
  have "domain_of sample_inventory 1 = Some sample_domain_row"
    by (simp add: domain_of_def sample_inventory_def) (simp add: sample_domain_row_def)
  from archive_restore [OF sample_inventory_ok this run] have
    "dv_row w' = sample_domain_row\<lparr>dm_lifecycle := ''active'', dm_monitoring_before_archive := dm_monitoring sample_domain_row,
       dm_version := dm_version sample_domain_row + 2, dm_updated_at := de_now (sample_env 4)\<rparr>" by blast
  then have "dv_row w' = sample_domain_row\<lparr>dm_version := 3, dm_updated_at := 4000\<rparr>"
    by (simp add: sample_domain_row_def sample_env_def)
  then show ?thesis using run by blast
qed

definition sample_filter :: list_filter where
  "sample_filter = \<lparr>lf_Query = [], lf_LifecycleStatus = ''active'', lf_SourceStatus = [], lf_Page = 1, lf_PageSize = 1,
     lf_Sort = ''updated_at'', lf_Direction = ''desc''\<rparr>"

definition sample_two :: domain_db where
  "sample_two = sample_inventory\<lparr>t_domains := [sample_domain_row, sample_domain_row\<lparr>dm_id := 2, dm_updated_at := 5000\<rparr>]\<rparr>"

theorem List_pages_witness:
  "\<exists>g rows. service_List \<lparr>ll_ilike = (=), ll_rank = int \<circ> length\<rparr> sample_filter sample_two = Inr g \<and> pg_TotalPages g = 2 \<and>
     concat (map (\<lambda>k. case service_List \<lparr>ll_ilike = (=), ll_rank = int \<circ> length\<rparr> (sample_filter\<lparr>lf_Page := int k + 1\<rparr>) sample_two of
         Inl _ \<Rightarrow> [] | Inr h \<Rightarrow> pg_Items h) [0 ..< 2]) = map (view sample_two) rows \<and> length rows = 2"
proof -
  let ?Q = "\<lparr>ll_ilike = (=), ll_rank = int \<circ> length\<rparr> :: list_lib"
  have valid: "valid_filter sample_filter" by (simp add: valid_filter_def sample_filter_def text_ok_def string_eval)
  have active: "dm_lifecycle sample_domain_row = ''active''" by (simp add: sample_domain_row_def)
  have two: "length (selected ?Q sample_filter sample_two) = 2" "length (t_domains sample_two) = 2"
    by (simp_all add: selected_def sample_two_def matches_def sample_filter_def active)
  have size: "page_size sample_filter = 1" "sample_filter\<lparr>lf_Page := 1\<rparr> = sample_filter" by (simp_all add: page_size_def sample_filter_def)
  obtain g where g: "service_List ?Q sample_filter sample_two = Inr g" "pg_TotalPages g = 2"
    using service_List_page [OF valid, of 0 ?Q sample_two] two size by auto
  obtain rows where rows: "concat (map (\<lambda>k. case service_List ?Q (sample_filter\<lparr>lf_Page := int k + 1\<rparr>) sample_two of
         Inl _ \<Rightarrow> [] | Inr h \<Rightarrow> pg_Items h) [0 ..< nat (pg_TotalPages g)]) = map (view sample_two) rows"
    "mset rows = filter_mset (matches ?Q sample_filter) (mset (t_domains sample_two))"
    using List_pages [OF valid, of sample_two ?Q g] g two size by auto
  have "size (mset rows) = 2" using rows(2) by (simp add: sample_two_def matches_def sample_filter_def active)
  then show ?thesis using g rows(1) by (intro exI [of _ g] exI [of _ rows]) simp
qed

end
