(* ===== verification/Monitor.thy ===== *)
theory Monitor
  imports Persistence Queue Domains
begin

text \<open>
  \<^verbatim>\<open>internal/monitor\<close>: the runs of the monitoring.  The scheduler and the users create runs together with an event in the outbox
  (\<^verbatim>\<open>scheduler.go\<close>, \<^verbatim>\<open>service.go\<close>); a worker that receives the event claims the run (\<^verbatim>\<open>store.go\<close>), makes the checks
  (\<^verbatim>\<open>engine.go\<close>) and records their evidence, the new state of the domain, its history and its incident in one transaction
  (\<^verbatim>\<open>complete.go\<close>).  The tables extend those of the inventory; the lists are in the order of insertion.
\<close>

section \<open>Tables\<close>

record policy_snapshot =
  ps_version :: string
  ps_run_timeout_ms :: int
  ps_dns_timeout_ms :: int
  ps_http_chain_timeout_ms :: int
  ps_max_attempts :: int
  ps_max_redirects :: int
  ps_max_body_bytes :: int
  ps_excerpt_bytes :: int
  ps_incident_open_failures :: int
  ps_incident_close_successes :: int

record run_row =
  mr_id :: uuid
  mr_domain_id :: uuid
  mr_trigger :: string
  mr_status :: string
  mr_priority :: string
  mr_key :: string
  mr_policy_version :: string
  mr_policy_snapshot :: policy_snapshot
  mr_requested_by :: "uuid option"
  mr_scheduled_for :: gotime
  mr_deadline_at :: gotime
  mr_started_at :: "gotime option"
  mr_completed_at :: "gotime option"
  mr_error_code :: "string option"
  mr_error_message :: "string option"
  mr_attempts :: int
  mr_worker_id :: "string option"
  mr_heartbeat_at :: "gotime option"

record result_row =
  rs_id :: uuid
  rs_run_id :: uuid
  rs_domain_id :: uuid
  rs_vantage_type :: string
  rs_vantage_key :: string
  rs_availability :: string
  rs_dns :: string
  rs_http :: string
  rs_redirect :: string
  rs_isp :: string
  rs_tls :: string
  rs_content :: string
  rs_initial_status :: "int option"
  rs_final_status :: "int option"
  rs_final_target :: "string option"
  rs_failure_stage :: "string option"
  rs_error_code :: "string option"
  rs_error_message :: "string option"
  rs_confidence :: int
  rs_confidence_level :: string
  rs_policy_version :: string
  rs_checked_at :: gotime
  rs_completed_at :: gotime

record history_row =
  hs_domain_id :: uuid
  hs_dimension :: string
  hs_previous :: "string option"
  hs_current :: string
  hs_confidence :: int
  hs_policy_version :: string
  hs_reasons :: "string list"
  hs_run_id :: uuid
  hs_effective_at :: gotime

record incident_row =
  ic_id :: uuid
  ic_domain_id :: uuid
  ic_status :: string
  ic_failure_stage :: "string option"
  ic_error_code :: "string option"
  ic_open_failures :: int
  ic_close_successes :: int
  ic_opened_at :: gotime
  ic_closed_at :: "gotime option"
  ic_opened_by :: uuid
  ic_closed_by :: "uuid option"

text \<open>The details of an event are the streak and, for a failure, its code.\<close>

record incident_event =
  ie_incident_id :: uuid
  ie_type :: string
  ie_run_id :: uuid
  ie_streak :: int
  ie_error_code :: "string option"

record monitor_db = domain_db +
  t_runs :: "run_row list"
  t_outbox :: "outbox_row list"
  t_results :: "result_row list"
  t_evidence :: evidence_db
  t_reasons :: "(uuid \<times> uuid \<times> string) list"
  t_history :: "history_row list"
  t_incidents :: "incident_row list"
  t_incident_events :: "incident_event list"

section \<open>Values\<close>

datatype monitor_error = ErrRunNotFound | ErrRunCompleted | ErrRunBusy | ErrRunExpired | ErrDomainNotFound | ErrDomainInactive
  | ErrInvalidIdempotencyKey | ErrStatement string

record monitor_config =
  mc_PolicyVersion :: string
  mc_RunTimeout :: duration
  mc_DNSAttemptTimeout :: duration
  mc_HTTPChainTimeout :: duration
  mc_MaxAttempts :: int
  mc_MaxRedirects :: int
  mc_MaxBodyBytes :: int
  mc_ExcerptBytes :: int
  mc_OpenFailures :: int
  mc_CloseSuccess :: int
  mc_QueueLease :: duration
  mc_OutboxMaxAttempts :: int
  mc_OutboxStream :: string
  mc_BatchSize :: nat

text \<open>What a call reads besides the tables: the clock of the service, \<^verbatim>\<open>now()\<close> of the database, whether it got the advisory lock of
  the domain, and the ids it draws.\<close>

record monitor_env =
  me_now :: gotime
  me_db_now :: gotime
  me_locked :: bool
  me_newID :: "nat \<Rightarrow> uuid"
  me_outboxID :: "nat \<Rightarrow> uuid"
  me_checkID :: "nat \<Rightarrow> uuid"
  me_incidentID :: uuid
  me_auditID :: uuid
  me_audit_now :: gotime

record target =
  tg_DomainASCII :: string
  tg_ExpectedContentMode :: string
  tg_Observed :: "(string \<times> string \<times> string \<times> string \<times> string \<times> string \<times> string) \<times> int \<times> int \<times> int"

record execution =
  xc_Run :: run_row
  xc_Target :: target

record evidence =
  evd_LocalDNS :: "dns_result list"
  evd_AlternateDNS :: "dns_result list"
  evd_HTTP :: origin_result
  evd_PinnedHTTP :: "origin_result option"
  evd_Decision :: decision
  evd_CheckedAt :: gotime

definition JobEventType :: string where
  "JobEventType = ''monitor.run.requested''"

definition to_ms :: "duration \<Rightarrow> int" where
  "to_ms d = whole_milliseconds d div millisecond"

definition policySnapshot :: "monitor_config \<Rightarrow> policy_snapshot" where
  "policySnapshot cfg = \<lparr>ps_version = mc_PolicyVersion cfg, ps_run_timeout_ms = to_ms (mc_RunTimeout cfg),
     ps_dns_timeout_ms = to_ms (mc_DNSAttemptTimeout cfg), ps_http_chain_timeout_ms = to_ms (mc_HTTPChainTimeout cfg),
     ps_max_attempts = mc_MaxAttempts cfg, ps_max_redirects = mc_MaxRedirects cfg, ps_max_body_bytes = mc_MaxBodyBytes cfg,
     ps_excerpt_bytes = mc_ExcerptBytes cfg, ps_incident_open_failures = mc_OpenFailures cfg,
     ps_incident_close_successes = mc_CloseSuccess cfg\<rparr>"

text \<open>\<^verbatim>\<open>Format(time.RFC3339)\<close> of a time in UTC: the date from the number of days since 1 January of the year 1.\<close>

definition civil :: "int \<Rightarrow> int \<times> int \<times> int" where
  "civil days =
    (let z = days + 306; era = z div 146097; doe = z mod 146097;
         yoe = (doe - doe div 1460 + doe div 36524 - doe div 146096) div 365;
         doy = doe - (365 * yoe + yoe div 4 - yoe div 100); mp = (5 * doy + 2) div 153;
         m = (if mp < 10 then mp + 3 else mp - 9)
     in (yoe + era * 400 + (if m \<le> 2 then 1 else 0), m, doy - (153 * mp + 2) div 5 + 1))"

definition two_digits :: "int \<Rightarrow> string" where
  "two_digits n = [char_of (48 + nat (n div 10 mod 10)), char_of (48 + nat (n mod 10))]"

definition rfc3339 :: "gotime \<Rightarrow> string" where
  "rfc3339 t =
    (let s = t div second; (y, m, d) = civil (s div 86400); c = s mod 86400 in
     two_digits (y div 100) @ two_digits y @ ''-'' @ two_digits m @ ''-'' @ two_digits d @ ''T'' @
     two_digits (c div 3600) @ '':'' @ two_digits (c div 60 mod 60) @ '':'' @ two_digits (c mod 60) @ ''Z'')"

section \<open>Runs\<close>

definition run_row_ok :: "run_row \<Rightarrow> bool" where
  "run_row_ok r =
    (mr_trigger r \<in> {''scheduled'', ''manual'', ''import'', ''recheck''} \<and>
     mr_status r \<in> {''queued'', ''running'', ''partial'', ''completed'', ''failed'', ''cancelled''} \<and>
     mr_priority r \<in> {''critical'', ''normal'', ''low''} \<and> mr_scheduled_for r < mr_deadline_at r \<and>
     (mr_completed_at r \<noteq> None \<longrightarrow> mr_started_at r \<noteq> None) \<and> 0 \<le> mr_attempts r \<and> mr_attempts r \<le> 100 \<and>
     text_ok (mr_key r) \<and> text_ok (mr_policy_version r) \<and> opt_text_ok (mr_error_code r) \<and> opt_text_ok (mr_error_message r) \<and>
     opt_text_ok (mr_worker_id r))"

definition run_of :: "monitor_db \<Rightarrow> uuid \<Rightarrow> run_row option" where
  "run_of db i = find (\<lambda>r. mr_id r = i) (t_runs db)"

text \<open>\<^verbatim>\<open>INSERT ... ON CONFLICT (deduplication_key) DO NOTHING\<close>: whether a row was inserted.  The constraints are checked first.\<close>

definition insert_run :: "string \<Rightarrow> run_row \<Rightarrow> monitor_db \<Rightarrow> (monitor_error, bool \<times> monitor_db) result" where
  "insert_run failure r db =
    bind_result (ensure (ErrStatement failure) (run_row_ok r)) (\<lambda>_.
    if mr_key r \<in> mr_key ` set (t_runs db) then Inr (False, db)
    else bind_result (ensure (ErrStatement failure) (mr_id r \<notin> mr_id ` set (t_runs db) \<and> domain_of db (mr_domain_id r) \<noteq> None)) (\<lambda>_.
      Inr (True, db\<lparr>t_runs := t_runs db @ [r]\<rparr>)))"

definition update_run :: "string \<Rightarrow> run_row \<Rightarrow> monitor_db \<Rightarrow> (monitor_error, monitor_db) result" where
  "update_run failure r db =
    bind_result (ensure (ErrStatement failure) (run_row_ok r)) (\<lambda>_.
    Inr (db\<lparr>t_runs := map (\<lambda>q. if mr_id q = mr_id r then r else q) (t_runs db)\<rparr>))"

definition new_run :: "monitor_config \<Rightarrow> uuid \<Rightarrow> uuid \<Rightarrow> string \<Rightarrow> string \<Rightarrow> string \<Rightarrow> uuid option \<Rightarrow> gotime \<Rightarrow> gotime \<Rightarrow> run_row" where
  "new_run cfg i domainID trigger priority key requestedBy scheduledFor deadline =
    \<lparr>mr_id = i, mr_domain_id = domainID, mr_trigger = trigger, mr_status = ''queued'', mr_priority = priority, mr_key = key,
     mr_policy_version = mc_PolicyVersion cfg, mr_policy_snapshot = policySnapshot cfg, mr_requested_by = requestedBy,
     mr_scheduled_for = stored_time scheduledFor, mr_deadline_at = stored_time deadline, mr_started_at = None, mr_completed_at = None,
     mr_error_code = None, mr_error_message = None, mr_attempts = 0, mr_worker_id = None, mr_heartbeat_at = None\<rparr>"

text \<open>The job of a run: \<^verbatim>\<open>Job{RunID: ...}\<close> in JSON.\<close>

definition enqueue_job ::
  "(uuid \<Rightarrow> string) \<Rightarrow> monitor_config \<Rightarrow> uuid \<Rightarrow> gotime \<Rightarrow> string \<Rightarrow> uuid \<Rightarrow> monitor_db \<Rightarrow> (monitor_error, monitor_db) result" where
  "enqueue_job ustr cfg eventID now key runID db =
    map_sum ErrStatement (\<lambda>rows. db\<lparr>t_outbox := rows\<rparr>)
      (EnqueueTx eventID now (''outbox:'' @ key) JobEventType (mc_OutboxStream cfg) ([CHR ''{'', CHR 0x22] @ ''run_id'' @ [CHR 0x22, CHR '':'', CHR 0x22] @ ustr runID @ [CHR 0x22, CHR ''}'']) (t_outbox db))"

section \<open>Scheduling\<close>

definition priority_rank :: "string \<Rightarrow> nat" where
  "priority_rank p = (if p = ''critical'' then 0 else if p = ''normal'' then 1 else 2)"

text \<open>The schedules that the query locks; \<open>skipped\<close> are those that another transaction has locked.\<close>

definition due_schedules :: "monitor_config \<Rightarrow> gotime \<Rightarrow> uuid set \<Rightarrow> monitor_db \<Rightarrow> schedule_row list" where
  "due_schedules cfg now skipped db =
    take (mc_BatchSize cfg) (sort_key (\<lambda>s. (priority_rank (sc_priority s), sc_next_due_at s))
      (filter (\<lambda>s. sc_enabled s \<and> sc_next_due_at s \<le> now \<and> sc_domain_id s \<notin> skipped \<and>
         (case domain_of db (sc_domain_id s) of None \<Rightarrow> False | Some d \<Rightarrow> dm_monitoring d \<and> dm_lifecycle d = ''active'')) (t_schedules db)))"

definition slot_of :: "schedule_row \<Rightarrow> gotime" where
  "slot_of s = (sc_next_due_at s div second) * second"

definition schedule_key :: "(uuid \<Rightarrow> string) \<Rightarrow> monitor_config \<Rightarrow> schedule_row \<Rightarrow> string" where
  "schedule_key ustr cfg s =
    ''monitor:'' @ ustr (sc_domain_id s) @ '':'' @ rfc3339 (slot_of s) @ '':'' @ mc_PolicyVersion cfg @ '':local''"

definition advance_schedule :: "gotime \<Rightarrow> bool \<Rightarrow> uuid \<Rightarrow> schedule_row \<Rightarrow> schedule_row" where
  "advance_schedule now inserted runID s =
    s\<lparr>sc_last_due_at := Some (slot_of s), sc_last_run_id := (if inserted then Some runID else sc_last_run_id s),
      sc_next_due_at := stored_time now + sc_interval_seconds s * second + sc_jitter_seconds s * second, sc_version := sc_version s + 1\<rparr>"

definition schedule_one ::
  "(uuid \<Rightarrow> string) \<Rightarrow> monitor_config \<Rightarrow> monitor_env \<Rightarrow> nat \<times> monitor_db \<Rightarrow> nat \<times> schedule_row \<Rightarrow> (monitor_error, nat \<times> monitor_db) result" where
  "schedule_one ustr cfg env = (\<lambda>(created, db) (k, s).
    let key = schedule_key ustr cfg s; runID = me_newID env k;
        r = new_run cfg runID (sc_domain_id s) ''scheduled'' (sc_priority s) key None (slot_of s) (me_now env + mc_RunTimeout cfg) in
    bind_result (insert_run ''create scheduled monitoring run'' r db) (\<lambda>(inserted, db1).
    bind_result (if inserted then enqueue_job ustr cfg (me_outboxID env k) (me_db_now env) key runID db1 else Inr db1) (\<lambda>db2.
    Inr (if inserted then created + 1 else created,
         db2\<lparr>t_schedules := map (\<lambda>q. if sc_domain_id q = sc_domain_id s then advance_schedule (me_now env) inserted runID q else q) (t_schedules db2)\<rparr>))))"

definition ScheduleDue ::
  "(uuid \<Rightarrow> string) \<Rightarrow> monitor_config \<Rightarrow> monitor_env \<Rightarrow> uuid set \<Rightarrow> monitor_db \<Rightarrow> (monitor_error, nat \<times> monitor_db) result" where
  "ScheduleDue ustr cfg env skipped db =
    each (schedule_one ustr cfg env) (0, db) (enumerate 0 (due_schedules cfg (me_db_now env) skipped db))"

section \<open>Manual runs\<close>

definition createManualRun ::
  "(uuid \<Rightarrow> string) \<Rightarrow> (uuid \<times> string) audit_lib \<Rightarrow> monitor_config \<Rightarrow> monitor_env \<Rightarrow> uuid \<Rightarrow> uuid \<Rightarrow> string \<Rightarrow> string \<Rightarrow> string \<Rightarrow>
   monitor_db \<Rightarrow> (monitor_error, run_row \<times> bool \<times> monitor_db) result" where
  "createManualRun ustr L cfg env domainID userID requestID idempotencyKey auditAction db =
    (let idempotencyKey = trim_space idempotencyKey;
         key = ''manual:'' @ ustr domainID @ '':'' @ ustr userID @ '':'' @ idempotencyKey;
         runID = me_newID env 0; now = me_now env in
     bind_result (ensure ErrInvalidIdempotencyKey (\<not> (idempotencyKey = '''' \<or> length idempotencyKey > 200))) (\<lambda>_.
     bind_result (require ErrDomainNotFound (domain_of db domainID)) (\<lambda>d.
     bind_result (ensure ErrDomainInactive (dm_lifecycle d = ''active'')) (\<lambda>_.
     bind_result (insert_run ''create manual monitoring run''
       (new_run cfg runID domainID ''manual'' ''critical'' key (Some userID) now (now + mc_RunTimeout cfg)) db) (\<lambda>(created, db1).
     bind_result (if created then
         bind_result (enqueue_job ustr cfg (me_outboxID env 0) (me_db_now env) key runID db1) (\<lambda>db2.
         map_sum ErrStatement (\<lambda>log. db2\<lparr>t_audit := log\<rparr>) (AppendTx L (me_auditID env) (me_audit_now env)
           \<lparr>ActorUserID = Some userID, Action = auditAction, ResourceType = ''monitoring_run'', ResourceID = Some runID, RequestID = requestID,
            Reason = '''', Before = None, After = None, Metadata = Some (domainID, dm_ascii d)\<rparr> (t_audit db2)))
       else Inr db1) (\<lambda>db3.
     bind_result (require ErrRunNotFound (find (\<lambda>r. mr_key r = key) (t_runs db3))) (\<lambda>run.
     Inr (run, created, db3))))))))"

definition CreateManualRun where
  "CreateManualRun ustr L cfg env domainID userID requestID idempotencyKey =
    createManualRun ustr L cfg env domainID userID requestID idempotencyKey ''DOMAIN_MANUAL_CHECK_REQUESTED''"

definition CreateManualISPCheckRun where
  "CreateManualISPCheckRun ustr L cfg env domainID userID requestID idempotencyKey =
    createManualRun ustr L cfg env domainID userID requestID idempotencyKey ''DOMAIN_ISP_CHECK_FORCED''"

section \<open>Claiming\<close>

text \<open>A claim that finds the run expired or exhausted commits that and still returns an error; a failed statement changes nothing.\<close>

definition committed :: "monitor_error \<Rightarrow> monitor_db \<Rightarrow> (monitor_error, monitor_db) result \<Rightarrow> (monitor_error, execution) result \<times> monitor_db" where
  "committed outcome db r = (case r of Inl e \<Rightarrow> (Inl e, db) | Inr db' \<Rightarrow> (Inl outcome, db'))"

definition another_active :: "monitor_config \<Rightarrow> gotime \<Rightarrow> run_row \<Rightarrow> monitor_db \<Rightarrow> bool" where
  "another_active cfg now run db =
    list_ex (\<lambda>q. mr_domain_id q = mr_domain_id run \<and> mr_id q \<noteq> mr_id run \<and> mr_status q = ''running'' \<and>
      (case mr_heartbeat_at q of None \<Rightarrow> False | Some t \<Rightarrow> t > now - whole_milliseconds (mc_QueueLease cfg))) (t_runs db)"

definition expired_run :: "gotime \<Rightarrow> run_row \<Rightarrow> run_row" where
  "expired_run now run = run\<lparr>mr_status := ''failed'', mr_completed_at := Some now, mr_error_code := Some ''RUN_DEADLINE_EXCEEDED'',
     mr_error_message := Some ''Monitoring run expired before execution could complete.'', mr_worker_id := None, mr_heartbeat_at := None\<rparr>"

definition exhausted_run :: "gotime \<Rightarrow> run_row \<Rightarrow> run_row" where
  "exhausted_run now run = run\<lparr>mr_status := ''failed'', mr_completed_at := Some now, mr_error_code := Some ''JOB_DELIVERY_ATTEMPTS_EXHAUSTED'',
     mr_error_message := Some ''Monitoring worker delivery attempts were exhausted.''\<rparr>"

definition claimed_run :: "gotime \<Rightarrow> string \<Rightarrow> run_row \<Rightarrow> run_row" where
  "claimed_run now workerID run = run\<lparr>mr_status := ''running'',
     mr_started_at := (case mr_started_at run of None \<Rightarrow> Some now | Some t \<Rightarrow> Some t), mr_worker_id := Some workerID,
     mr_heartbeat_at := Some now, mr_attempts := mr_attempts run + 1, mr_error_code := None, mr_error_message := None\<rparr>"

definition ClaimExecution ::
  "monitor_config \<Rightarrow> monitor_env \<Rightarrow> uuid \<Rightarrow> string \<Rightarrow> monitor_db \<Rightarrow> (monitor_error, execution) result \<times> monitor_db" where
  "ClaimExecution cfg env runID workerID db =
    (case run_of db runID of None \<Rightarrow> (Inl ErrRunNotFound, db) | Some run \<Rightarrow>
     (case domain_of db (mr_domain_id run) of None \<Rightarrow> (Inl ErrRunNotFound, db) | Some d \<Rightarrow>
      if mr_status run = ''completed'' \<or> mr_status run = ''cancelled'' then (Inl ErrRunCompleted, db)
      else if \<not> mr_deadline_at run > me_now env then
        committed ErrRunExpired db (update_run ''expire monitoring run'' (expired_run (me_db_now env) run) db)
      else if mr_status run = ''running'' \<and> (case mr_heartbeat_at run of None \<Rightarrow> False | Some t \<Rightarrow> t > me_now env - mc_QueueLease cfg)
      then (Inl ErrRunBusy, db)
      else if \<not> me_locked env then (Inl ErrRunBusy, db)
      else if another_active cfg (me_db_now env) run db then (Inl ErrRunBusy, db)
      else if mr_attempts run \<ge> mc_OutboxMaxAttempts cfg then
        committed ErrRunExpired db (update_run ''fail exhausted monitoring run'' (exhausted_run (me_db_now env) run) db)
      else (case update_run ''claim monitoring run'' (claimed_run (me_db_now env) workerID run) db of
          Inl e \<Rightarrow> (Inl e, db)
        | Inr db' \<Rightarrow> (Inr \<lparr>xc_Run = run\<lparr>mr_status := ''running'', mr_attempts := mr_attempts run + 1\<rparr>,
            xc_Target = \<lparr>tg_DomainASCII = dm_ascii d, tg_ExpectedContentMode = dm_content_mode d, tg_Observed = observed_columns d\<rparr>\<rparr>, db'))))"

definition FailRun :: "monitor_env \<Rightarrow> uuid \<Rightarrow> string \<Rightarrow> string \<Rightarrow> monitor_db \<Rightarrow> (monitor_error, monitor_db) result" where
  "FailRun env runID code message db =
    (let message = take 1000 (trim_space message) in
     bind_result (ensure (ErrStatement ''fail monitoring run'') (text_ok code \<and> text_ok message)) (\<lambda>_.
     case run_of db runID of None \<Rightarrow> Inr db | Some run \<Rightarrow>
       if mr_status run = ''completed'' then Inr db
       else update_run ''fail monitoring run'' (run\<lparr>mr_status := ''failed'', mr_completed_at := Some (me_db_now env), mr_error_code := Some code,
         mr_error_message := Some message, mr_worker_id := None, mr_heartbeat_at := None\<rparr>) db))"

section \<open>Completing\<close>

definition result_of :: "monitor_env \<Rightarrow> run_row \<Rightarrow> decision \<Rightarrow> gotime \<Rightarrow> result_row" where
  "result_of env run d checkedAt =
    \<lparr>rs_id = me_newID env 0, rs_run_id = mr_id run, rs_domain_id = mr_domain_id run, rs_vantage_type = ''local'', rs_vantage_key = ''local-primary'',
     rs_availability = d_Availability d, rs_dns = d_DNS d, rs_http = d_HTTP d, rs_redirect = d_Redirect d, rs_isp = d_ISP d, rs_tls = d_TLS d,
     rs_content = d_Content d, rs_initial_status = nullableInt (d_InitialHTTP d), rs_final_status = nullableInt (d_FinalHTTP d),
     rs_final_target = nullableString (d_FinalTarget d), rs_failure_stage = nullableString (d_FailureStage d),
     rs_error_code = nullableString (d_ErrorCode d), rs_error_message = nullableString (d_ErrorMessage d), rs_confidence = d_Confidence d,
     rs_confidence_level = d_ConfidenceLevel d, rs_policy_version = mr_policy_version run, rs_checked_at = stored_time checkedAt,
     rs_completed_at = me_db_now env\<rparr>"

abbreviation availability_values :: "string list" where "availability_values \<equiv> [''ACTIVE'', ''UNAVAILABLE'', ''DEGRADED'', ''UNKNOWN'']"

definition stage_ok :: "string option \<Rightarrow> bool" where
  "stage_ok v = (case v of None \<Rightarrow> True
     | Some s \<Rightarrow> s \<in> {''normalize'', ''dns'', ''tcp'', ''tls'', ''http'', ''content'', ''remote'', ''persistence''})"

definition result_row_ok :: "monitor_db \<Rightarrow> result_row \<Rightarrow> bool" where
  "result_row_ok db r =
    (rs_id r \<notin> rs_id ` set (t_results db) \<and> (rs_run_id r, rs_vantage_key r) \<notin> (\<lambda>q. (rs_run_id q, rs_vantage_key q)) ` set (t_results db) \<and>
     run_of db (rs_run_id r) \<noteq> None \<and> rs_availability r \<in> set availability_values \<and>
     rs_dns r \<in> {''OK'', ''NXDOMAIN'', ''SERVFAIL'', ''REFUSED'', ''TIMEOUT'', ''NETWORK_ERROR'', ''DISCREPANCY'', ''UNKNOWN''} \<and>
     rs_http r \<in> {''OK'', ''REDIRECT'', ''CLIENT_ERROR'', ''SERVER_ERROR'', ''TIMEOUT'', ''CONNECTION_ERROR'', ''UNKNOWN''} \<and>
     rs_redirect r \<in> {''NONE'', ''TEMPORARY'', ''PERMANENT'', ''LOOP'', ''INVALID'', ''HTTPS_DOWNGRADE'', ''UNKNOWN''} \<and>
     rs_isp r \<in> {''NOT_DETECTED'', ''SUSPECTED'', ''HIGH_CONFIDENCE_BLOCK'', ''UNKNOWN''} \<and>
     rs_tls r \<in> set tls_values \<and> rs_content r \<in> set content_values \<and> status_code_ok (rs_initial_status r) \<and> status_code_ok (rs_final_status r) \<and>
     (case rs_final_target r of None \<Rightarrow> True | Some v \<Rightarrow> v \<in> set availability_values) \<and> stage_ok (rs_failure_stage r) \<and>
     opt_text_ok (rs_error_code r) \<and> opt_text_ok (rs_error_message r) \<and> 0 \<le> rs_confidence r \<and> rs_confidence r \<le> 99 \<and>
     rs_confidence_level r \<in> {''LOW'', ''MEDIUM'', ''HIGH''} \<and> text_ok (rs_policy_version r))"

text \<open>The attempts of one origin, each with the scheme under which it is stored.\<close>

definition attempts_of :: "string \<Rightarrow> origin_result \<Rightarrow> (string \<times> string \<times> http_attempt) list" where
  "attempts_of resolverMode o_result =
    map (\<lambda>a. (''https'', resolverMode, a)) (or_HTTPS o_result) @ map (\<lambda>a. (''http'', resolverMode, a)) (or_HTTP o_result)"

definition persist_evidence :: "monitor_env \<Rightarrow> uuid \<Rightarrow> evidence \<Rightarrow> evidence_db \<Rightarrow> (string, evidence_db) result" where
  "persist_evidence env resultID e db =
    (let dns = evd_LocalDNS e @ evd_AlternateDNS e;
         attempts = attempts_of ''system'' (evd_HTTP e) @ (case evd_PinnedHTTP e of None \<Rightarrow> [] | Some p \<Rightarrow> attempts_of ''doh_pinned'' p) in
     bind_result (each (\<lambda>db (k, result). PersistDNSResult (me_checkID env k) resultID result db) db (enumerate 0 dns)) (\<lambda>db1.
     each (\<lambda>db (k, scheme, mode, attempt). PersistHTTPAttempt (me_checkID env k) resultID scheme mode attempt db) db1
       (enumerate (length dns) attempts)))"

definition effective_input_of :: "monitor_config \<Rightarrow> run_row \<Rightarrow> decision \<Rightarrow> domain_row \<Rightarrow> effective_input" where
  "effective_input_of cfg run d row =
    \<lparr>in_Availability = dm_availability row, in_DNS = dm_dns row, in_HTTP = dm_http row, in_Redirect = dm_redirect row, in_ISP = dm_isp row,
     in_TLS = dm_tls row, in_Content = dm_content row, in_Confidence = dm_confidence row, in_FailureStreak = dm_failures row,
     in_SuccessStreak = dm_successes row, in_Observed = d, in_Qualifying = (mr_trigger run \<noteq> ''manual''),
     in_OpenFailures = mc_OpenFailures cfg, in_CloseSuccesses = mc_CloseSuccess cfg\<rparr>"

definition observed_row :: "gotime \<Rightarrow> gotime \<Rightarrow> effective_state \<Rightarrow> domain_row \<Rightarrow> domain_row" where
  "observed_row now checkedAt s row =
    row\<lparr>dm_availability := es_Availability s, dm_dns := es_DNS s, dm_http := es_HTTP s, dm_redirect := es_Redirect s, dm_isp := es_ISP s,
      dm_tls := es_TLS s, dm_content := es_Content s, dm_confidence := es_Confidence s, dm_failures := es_FailureStreak s,
      dm_successes := es_SuccessStreak s, dm_failure_stage := nullableString (es_FailureStage s),
      dm_error_code := nullableString (es_ErrorCode s), dm_last_checked := Some (stored_time checkedAt), dm_updated_at := now\<rparr>"

text \<open>The constraints on the updated columns; the enumerated values are values of the row or of the result.\<close>

definition observed_row_ok :: "domain_row \<Rightarrow> bool" where
  "observed_row_ok r =
    (0 \<le> dm_confidence r \<and> dm_confidence r \<le> 99 \<and> 0 \<le> dm_failures r \<and> int4 (dm_failures r) \<and> 0 \<le> dm_successes r \<and> int4 (dm_successes r) \<and>
     stage_ok (dm_failure_stage r) \<and> opt_text_ok (dm_error_code r))"

definition before_value :: "effective_input \<Rightarrow> string \<Rightarrow> string" where
  "before_value i dimension = (case map_of [(''availability'', in_Availability i), (''dns'', in_DNS i), (''http'', in_HTTP i),
     (''redirect'', in_Redirect i), (''isp'', in_ISP i), (''tls'', in_TLS i), (''content'', in_Content i)] dimension of None \<Rightarrow> '''' | Some v \<Rightarrow> v)"

definition after_value :: "effective_state \<Rightarrow> string \<Rightarrow> string" where
  "after_value s dimension = (case map_of [(''availability'', es_Availability s), (''dns'', es_DNS s), (''http'', es_HTTP s),
     (''redirect'', es_Redirect s), (''isp'', es_ISP s), (''tls'', es_TLS s), (''content'', es_Content s)] dimension of None \<Rightarrow> '''' | Some v \<Rightarrow> v)"

definition persistHistory ::
  "run_row \<Rightarrow> effective_input \<Rightarrow> effective_state \<Rightarrow> string list \<Rightarrow> gotime \<Rightarrow> history_row list \<Rightarrow> (monitor_error, history_row list) result" where
  "persistHistory run before after reasons effectiveAt rows =
    each (\<lambda>rows dimension.
      bind_result (ensure (ErrStatement (''insert '' @ dimension @ '' status history''))
        (0 \<le> es_Confidence after \<and> es_Confidence after \<le> 99 \<and> text_ok (mr_policy_version run) \<and> list_all json_text_ok reasons)) (\<lambda>_.
      Inr (rows @ [\<lparr>hs_domain_id = mr_domain_id run, hs_dimension = dimension, hs_previous = nullableString (before_value before dimension),
        hs_current = after_value after dimension, hs_confidence = es_Confidence after, hs_policy_version = mr_policy_version run,
        hs_reasons = reasons, hs_run_id = mr_id run, hs_effective_at = stored_time effectiveAt\<rparr>]))) rows (es_ChangedDimensions after)"

section \<open>Incidents\<close>

definition unresolved :: "incident_row \<Rightarrow> bool" where
  "unresolved i = (ic_status i = ''open'' \<or> ic_status i = ''acknowledged'')"

definition active_incident :: "incident_row list \<Rightarrow> uuid \<Rightarrow> incident_row option" where
  "active_incident rows d = find (\<lambda>i. ic_domain_id i = d \<and> unresolved i) rows"

definition incident_row_ok :: "incident_row \<Rightarrow> bool" where
  "incident_row_ok i =
    (0 < ic_open_failures i \<and> int4 (ic_open_failures i) \<and> 0 \<le> ic_close_successes i \<and> int4 (ic_close_successes i) \<and>
     (ic_status i = ''closed'' \<longleftrightarrow> ic_closed_at i \<noteq> None) \<and> opt_text_ok (ic_failure_stage i) \<and> opt_text_ok (ic_error_code i))"

definition update_incident :: "string \<Rightarrow> incident_row \<Rightarrow> incident_row list \<Rightarrow> (monitor_error, incident_row list) result" where
  "update_incident failure i rows =
    bind_result (ensure (ErrStatement failure) (incident_row_ok i)) (\<lambda>_. Inr (map (\<lambda>q. if ic_id q = ic_id i then i else q) rows))"

definition insertIncidentEvent :: "uuid \<Rightarrow> string \<Rightarrow> uuid \<Rightarrow> int \<Rightarrow> string option \<Rightarrow> incident_event list \<Rightarrow> (monitor_error, incident_event list) result" where
  "insertIncidentEvent incidentID eventType runID streak code rows =
    bind_result (ensure (ErrStatement ''insert incident event'') (case code of None \<Rightarrow> True | Some c \<Rightarrow> json_text_ok c)) (\<lambda>_.
    Inr (rows @ [\<lparr>ie_incident_id = incidentID, ie_type = eventType, ie_run_id = runID, ie_streak = streak, ie_error_code = code\<rparr>]))"

text \<open>The three cases of \<^verbatim>\<open>applyIncident\<close> that write: a success while an incident is open, a failure while one is open, and the
  failure that opens one.\<close>

definition observe_success ::
  "run_row \<Rightarrow> effective_state \<Rightarrow> int \<Rightarrow> gotime \<Rightarrow> incident_row \<Rightarrow> incident_row list \<times> incident_event list \<Rightarrow>
   (monitor_error, incident_row list \<times> incident_event list) result" where
  "observe_success run state closeSuccesses checkedAt i = (\<lambda>(rows, events).
    let i1 = i\<lparr>ic_close_successes := es_SuccessStreak state\<rparr> in
    bind_result (update_incident ''update incident recovery streak'' i1 rows) (\<lambda>rows1.
    bind_result (insertIncidentEvent (ic_id i) ''success_observed'' (mr_id run) (es_SuccessStreak state) None events) (\<lambda>events1.
    if es_Availability state = ''ACTIVE'' \<and> es_SuccessStreak state \<ge> closeSuccesses then
      bind_result (update_incident ''close incident'' (i1\<lparr>ic_status := ''closed'', ic_closed_at := Some (stored_time checkedAt),
        ic_closed_by := Some (mr_id run)\<rparr>) rows1) (\<lambda>rows2.
      bind_result (insertIncidentEvent (ic_id i) ''closed'' (mr_id run) (es_SuccessStreak state) None events1) (\<lambda>events2.
      Inr (rows2, events2)))
    else Inr (rows1, events1))))"

definition observe_failure ::
  "run_row \<Rightarrow> decision \<Rightarrow> effective_state \<Rightarrow> incident_row \<Rightarrow> incident_row list \<times> incident_event list \<Rightarrow>
   (monitor_error, incident_row list \<times> incident_event list) result" where
  "observe_failure run d state i = (\<lambda>(rows, events).
    bind_result (update_incident ''update incident failure streak'' (i\<lparr>ic_open_failures := max (ic_open_failures i) (es_FailureStreak state),
      ic_failure_stage := nullableString (d_FailureStage d), ic_error_code := nullableString (d_ErrorCode d), ic_close_successes := 0\<rparr>) rows) (\<lambda>rows1.
    bind_result (insertIncidentEvent (ic_id i) ''failure_observed'' (mr_id run) (es_FailureStreak state) (Some (d_ErrorCode d)) events) (\<lambda>events1.
    Inr (rows1, events1))))"

definition open_incident ::
  "uuid \<Rightarrow> run_row \<Rightarrow> decision \<Rightarrow> effective_state \<Rightarrow> gotime \<Rightarrow> incident_row list \<times> incident_event list \<Rightarrow>
   (monitor_error, incident_row list \<times> incident_event list) result" where
  "open_incident incidentID run d state checkedAt = (\<lambda>(rows, events).
    let i = \<lparr>ic_id = incidentID, ic_domain_id = mr_domain_id run, ic_status = ''open'', ic_failure_stage = nullableString (d_FailureStage d),
          ic_error_code = nullableString (d_ErrorCode d), ic_open_failures = es_FailureStreak state, ic_close_successes = 0,
          ic_opened_at = stored_time checkedAt, ic_closed_at = None, ic_opened_by = mr_id run, ic_closed_by = None\<rparr> in
    bind_result (ensure (ErrStatement ''open incident'')
      (incident_row_ok i \<and> incidentID \<notin> ic_id ` set rows \<and> active_incident rows (mr_domain_id run) = None)) (\<lambda>_.
    bind_result (insertIncidentEvent incidentID ''opened'' (mr_id run) (es_FailureStreak state) (Some (d_ErrorCode d)) events) (\<lambda>events1.
    Inr (rows @ [i], events1))))"

definition applyIncident ::
  "uuid \<Rightarrow> run_row \<Rightarrow> decision \<Rightarrow> effective_state \<Rightarrow> int \<Rightarrow> int \<Rightarrow> gotime \<Rightarrow> incident_row list \<times> incident_event list \<Rightarrow>
   (monitor_error, incident_row list \<times> incident_event list) result" where
  "applyIncident incidentID run d state openFailures closeSuccesses checkedAt tables =
    (case active_incident (fst tables) (mr_domain_id run) of
       Some i \<Rightarrow>
         if d_Availability d = ''ACTIVE'' then observe_success run state closeSuccesses checkedAt i tables
         else if d_Availability d \<noteq> ''UNAVAILABLE'' \<and> d_Availability d \<noteq> ''DEGRADED'' then Inr tables
         else observe_failure run d state i tables
     | None \<Rightarrow>
         if d_Availability d \<noteq> ''UNAVAILABLE'' \<and> d_Availability d \<noteq> ''DEGRADED'' then Inr tables
         else if es_Availability state \<noteq> ''UNAVAILABLE'' \<or> es_FailureStreak state < openFailures then Inr tables
         else open_incident incidentID run d state checkedAt tables)"

definition completed_run :: "gotime \<Rightarrow> run_row \<Rightarrow> run_row" where
  "completed_run now run = run\<lparr>mr_status := ''completed'', mr_completed_at := Some now, mr_worker_id := None, mr_heartbeat_at := None,
     mr_error_code := None, mr_error_message := None\<rparr>"

text \<open>Steps of \<^verbatim>\<open>CompleteRun\<close>: the result with its evidence and reasons, the state of the domain with its history, the incident.\<close>

definition record_result :: "monitor_env \<Rightarrow> run_row \<Rightarrow> evidence \<Rightarrow> gotime \<Rightarrow> monitor_db \<Rightarrow> (monitor_error, monitor_db) result" where
  "record_result env run e checkedAt db =
    (let r = result_of env run (evd_Decision e) checkedAt in
     bind_result (ensure (ErrStatement ''insert monitoring result'') (result_row_ok db r)) (\<lambda>_.
     bind_result (map_sum ErrStatement id (persist_evidence env (rs_id r) e (t_evidence db))) (\<lambda>evidence.
     bind_result (ensure (ErrStatement ''insert classification reason'') (list_all text_ok (d_Reasons (evd_Decision e)))) (\<lambda>_.
     Inr (db\<lparr>t_results := t_results db @ [r], t_evidence := evidence,
       t_reasons := t_reasons db @ map (\<lambda>reason. (mr_id run, rs_id r, reason)) (d_Reasons (evd_Decision e))\<rparr>)))))"

definition record_state ::
  "monitor_env \<Rightarrow> run_row \<Rightarrow> effective_input \<Rightarrow> effective_state \<Rightarrow> string list \<Rightarrow> gotime \<Rightarrow> domain_row \<Rightarrow> monitor_db \<Rightarrow> (monitor_error, monitor_db) result" where
  "record_state env run current effective reasons checkedAt row db =
    (let row' = observed_row (me_db_now env) checkedAt effective row in
     bind_result (ensure (ErrStatement ''update effective domain state'') (observed_row_ok row')) (\<lambda>_.
     bind_result (persistHistory run current effective reasons checkedAt (t_history db)) (\<lambda>history.
     Inr ((set_domain row' db)\<lparr>t_history := history\<rparr>))))"

definition record_incident ::
  "monitor_config \<Rightarrow> monitor_env \<Rightarrow> run_row \<Rightarrow> decision \<Rightarrow> bool \<Rightarrow> effective_state \<Rightarrow> gotime \<Rightarrow> monitor_db \<Rightarrow> (monitor_error, monitor_db) result" where
  "record_incident cfg env run d qualifying effective checkedAt db =
    (if qualifying then
       map_sum id (\<lambda>(incidents, events). db\<lparr>t_incidents := incidents, t_incident_events := events\<rparr>)
         (applyIncident (me_incidentID env) run d effective (mc_OpenFailures cfg) (mc_CloseSuccess cfg) checkedAt
            (t_incidents db, t_incident_events db))
     else Inr db)"

definition finish_run :: "monitor_env \<Rightarrow> uuid \<Rightarrow> monitor_db \<Rightarrow> (monitor_error, monitor_db) result" where
  "finish_run env runID db =
    (case run_of db runID of
       None \<Rightarrow> Inl (ErrStatement ''complete monitoring run: execution lease lost'')
     | Some run \<Rightarrow> if mr_status run = ''running'' then update_run ''complete monitoring run'' (completed_run (me_db_now env) run) db
         else Inl (ErrStatement ''complete monitoring run: execution lease lost''))"

definition CompleteRun :: "monitor_config \<Rightarrow> monitor_env \<Rightarrow> execution \<Rightarrow> evidence \<Rightarrow> monitor_db \<Rightarrow> (monitor_error, monitor_db) result" where
  "CompleteRun cfg env execution e db =
    (let run = xc_Run execution; d = evd_Decision e; checkedAt = (if evd_CheckedAt e = 0 then me_now env else evd_CheckedAt e) in
     bind_result (require (ErrStatement ''lock domain monitoring state'') (domain_of db (mr_domain_id run))) (\<lambda>row.
     let current = effective_input_of cfg run d row; effective = Advance current in
     bind_result (record_result env run e checkedAt db) (\<lambda>db1.
     bind_result (record_state env run current effective (d_Reasons d) checkedAt row db1) (\<lambda>db2.
     bind_result (record_incident cfg env run d (in_Qualifying current) effective checkedAt db2) (\<lambda>db3.
     finish_run env (mr_id run) db3)))))"

section \<open>The engine\<close>

text \<open>The checks of the protocol suite, as functions of the name of the domain, the answers of the alternate resolver and the content
  mode; \<^verbatim>\<open>ps_pinned\<close> is \<^const>\<open>None\<close> when there is no address to pin.\<close>

record protocol_suite =
  ps_local :: "string \<Rightarrow> dns_result list"
  ps_alternate :: "string \<Rightarrow> dns_result list"
  ps_http :: "string \<Rightarrow> string \<Rightarrow> origin_result"
  ps_pinned :: "string \<Rightarrow> dns_result list \<Rightarrow> string \<Rightarrow> origin_result option"

definition gather :: "protocol_suite \<Rightarrow> target \<Rightarrow> gotime \<Rightarrow> evidence" where
  "gather S t now =
    (let localDNS = ps_local S (tg_DomainASCII t); alternateDNS = ps_alternate S (tg_DomainASCII t); mode = tg_ExpectedContentMode t;
         httpResult = ps_http S (tg_DomainASCII t) mode in
     \<lparr>evd_LocalDNS = localDNS, evd_AlternateDNS = alternateDNS, evd_HTTP = httpResult,
      evd_PinnedHTTP = ps_pinned S (tg_DomainASCII t) alternateDNS mode, evd_Decision = Classify localDNS alternateDNS httpResult, evd_CheckedAt = now\<rparr>)"

text \<open>The engine as one call; \<open>env\<close> and \<open>env'\<close> are what the claim and the completion read, \<open>other\<close> is what the rest of the system does to the
  tables in between.\<close>

definition Execute ::
  "monitor_config \<Rightarrow> protocol_suite \<Rightarrow> string \<Rightarrow> monitor_env \<Rightarrow> (monitor_db \<Rightarrow> monitor_db) \<Rightarrow> monitor_env \<Rightarrow> uuid \<Rightarrow> monitor_db \<Rightarrow>
   (monitor_error, unit) result \<times> monitor_db" where
  "Execute cfg S workerID env other env' runID db =
    (case ClaimExecution cfg env runID workerID db of
       (Inl e, db1) \<Rightarrow> (if e = ErrRunCompleted \<or> e = ErrRunExpired then Inr () else Inl e, db1)
     | (Inr execution, db1) \<Rightarrow>
         let db2 = other db1 in
         (case CompleteRun cfg env' execution (gather S (xc_Target execution) (me_now env')) db2 of
            Inl e \<Rightarrow> (Inl e, db2) | Inr db3 \<Rightarrow> (Inr (), db3)))"

section \<open>The system\<close>

text \<open>The tables, the executions that workers hold, and the last time that the database has read.\<close>

record monitor_world =
  mw_db :: monitor_db
  mw_executions :: "execution list"
  mw_clock :: gotime

datatype monitor_step =
    DoSchedule monitor_env "uuid set"
  | DoManual monitor_env uuid uuid string string string
  | DoClaim monitor_env uuid string
  | DoComplete monitor_env nat evidence
  | DoFail monitor_env uuid string string
  | DoInventory domain_env domain_call
  | DoOutbox outbox_step

text \<open>What the steps take from outside: the text of an id, the encoders of the audit log, the normalization of names, and the configuration.\<close>

record monitor_setting =
  ms_uuid :: "uuid \<Rightarrow> string"
  ms_audit :: "(uuid \<times> string) audit_lib"
  ms_domain_audit :: "domain_view audit_lib"
  ms_normalize :: normalize_lib
  ms_allow :: bool
  ms_config :: monitor_config

definition keep :: "monitor_db \<Rightarrow> ('e, monitor_db) result \<Rightarrow> monitor_db" where
  "keep db r = (case r of Inl _ \<Rightarrow> db | Inr db' \<Rightarrow> db')"

fun monitor_exec :: "monitor_setting \<Rightarrow> monitor_step \<Rightarrow> monitor_world \<Rightarrow> monitor_world" where
  "monitor_exec M (DoSchedule env skipped) w =
    w\<lparr>mw_db := keep (mw_db w) (map_sum id snd (ScheduleDue (ms_uuid M) (ms_config M) env skipped (mw_db w))), mw_clock := me_db_now env\<rparr>"
| "monitor_exec M (DoManual env domainID userID requestID idempotencyKey action) w =
    w\<lparr>mw_db := keep (mw_db w) (map_sum id (\<lambda>(_, _, db). db)
        (createManualRun (ms_uuid M) (ms_audit M) (ms_config M) env domainID userID requestID idempotencyKey action (mw_db w))),
      mw_clock := me_db_now env\<rparr>"
| "monitor_exec M (DoClaim env runID workerID) w =
    (case ClaimExecution (ms_config M) env runID workerID (mw_db w) of
       (Inl _, db) \<Rightarrow> w\<lparr>mw_db := db, mw_clock := me_db_now env\<rparr>
     | (Inr x, db) \<Rightarrow> w\<lparr>mw_db := db, mw_executions := mw_executions w @ [x], mw_clock := me_db_now env\<rparr>)"
| "monitor_exec M (DoComplete env k e) w =
    (if k < length (mw_executions w)
     then w\<lparr>mw_db := keep (mw_db w) (CompleteRun (ms_config M) env (mw_executions w ! k) e (mw_db w)), mw_clock := me_db_now env\<rparr> else w)"
| "monitor_exec M (DoFail env runID code message) w =
    w\<lparr>mw_db := keep (mw_db w) (FailRun env runID code message (mw_db w)), mw_clock := me_db_now env\<rparr>"
| "monitor_exec M (DoInventory env call) w =
    w\<lparr>mw_db := keep (mw_db w) (map_sum id snd (call_result (ms_normalize M) (ms_allow M) (ms_domain_audit M) (env, call) (mw_db w)))\<rparr>"
| "monitor_exec M (DoOutbox e) w = w\<lparr>mw_db := (mw_db w)\<lparr>t_outbox := outbox_exec e (t_outbox (mw_db w))\<rparr>\<rparr>"

text \<open>The time that a step reads from the database; it does not run backwards.\<close>

fun step_clock :: "monitor_step \<Rightarrow> gotime option" where
  "step_clock (DoSchedule env _) = Some (me_db_now env)"
| "step_clock (DoManual env _ _ _ _ _) = Some (me_db_now env)"
| "step_clock (DoClaim env _ _) = Some (me_db_now env)"
| "step_clock (DoComplete env _ _) = Some (me_db_now env)"
| "step_clock (DoFail env _ _ _) = Some (me_db_now env)"
| "step_clock _ = None"

definition monitor_trans :: "monitor_setting \<Rightarrow> monitor_step \<Rightarrow> monitor_world \<Rightarrow> monitor_world \<Rightarrow> bool" where
  "monitor_trans M e w w' =
    ((case step_clock e of None \<Rightarrow> True | Some t \<Rightarrow> mw_clock w \<le> t) \<and> w' = monitor_exec M e w)"

text \<open>The system starts with an inventory of domains that have not been checked.\<close>

definition monitor_start :: "monitor_world \<Rightarrow> bool" where
  "monitor_start w =
    (domain_ok (mw_db w) \<and> list_all (\<lambda>r. observed_columns r = unobserved) (t_domains (mw_db w)) \<and> t_runs (mw_db w) = [] \<and>
     t_results (mw_db w) = [] \<and> t_incidents (mw_db w) = [] \<and> mw_executions w = [])"

end
