(* ===== verification/Probe.thy ===== *)
theory Probe
  imports Monitor Ispclass
begin

text \<open>
  \<^verbatim>\<open>internal/probe\<close> and \<^verbatim>\<open>internal/probeprotocol\<close>: remote probes.  A probe registers with a token that an operator created, proves by
  a signature over a challenge that it has its key, and receives an access token.  Its heartbeats keep it eligible, the dispatcher gives it
  a job for each completed run, and the result that it signs becomes evidence for the verdict on the provider.  The tables extend those of
  the monitoring.  Base64, SHA-256, Ed25519, JSON and the textual form of times are parameters.
\<close>

section \<open>Tables\<close>

record registration_row =
  rt_id :: uuid
  rt_hash :: string
  rt_name :: string
  rt_region :: string
  rt_country :: string
  rt_network :: "string option"
  rt_expires_at :: gotime
  rt_used_at :: "gotime option"

text \<open>A public key that is NULL in the table is read as the empty byte slice.\<close>

record probe_node =
  pn_id :: uuid
  pn_name :: string
  pn_region :: string
  pn_country :: string
  pn_network :: "string option"
  pn_public_key :: string
  pn_status :: string
  pn_version :: string
  pn_capabilities :: string
  pn_last_seen_at :: "gotime option"
  pn_clock_offset :: "int option"
  pn_registered_at :: gotime
  pn_revoked_at :: "gotime option"

record challenge_row =
  ch_id :: uuid
  ch_probe_id :: uuid
  ch_challenge :: string
  ch_expires_at :: gotime
  ch_used_at :: "gotime option"

record access_token_row =
  ac_id :: uuid
  ac_probe_id :: uuid
  ac_hash :: string
  ac_expires_at :: gotime
  ac_revoked_at :: "gotime option"

record heartbeat_row =
  hb_probe_id :: uuid
  hb_status :: string
  hb_protocol_version :: string
  hb_agent_version :: string
  hb_clock_offset :: int
  hb_queue_capacity :: int
  hb_capabilities :: string

record probe_policy =
  pp_DeadlineMS :: int
  pp_MaxRedirects :: int
  pp_MaxBodyBytes :: int
  pp_StoreExcerptBytes :: int

record probe_target =
  pt_DomainASCII :: string
  pt_Schemes :: "string list"
  pt_Ports :: "int list"

record job_row =
  pj_id :: uuid
  pj_run_id :: uuid
  pj_domain_id :: uuid
  pj_probe_id :: uuid
  pj_status :: string
  pj_target :: probe_target
  pj_policy_version :: string
  pj_policy :: probe_policy
  pj_nonce :: string
  pj_issued_at :: gotime
  pj_expires_at :: gotime
  pj_claimed_at :: "gotime option"
  pj_lease_until :: "gotime option"
  pj_attempts :: int
  pj_completed_at :: "gotime option"
  pj_error_code :: "string option"

text \<open>The signed results; \<^verbatim>\<open>rr_probe_id\<close> is also the column \<^verbatim>\<open>probe_node_id\<close> of the monitoring result that it belongs to.\<close>

record remote_result_row =
  rr_result_id :: uuid
  rr_probe_id :: uuid
  rr_job_id :: uuid
  rr_nonce :: string
  rr_payload_hash :: string
  rr_signature :: string
  rr_started_at :: gotime
  rr_finished_at :: gotime
  rr_received_at :: gotime
  rr_clock_skew_ms :: int

record probe_db = monitor_db +
  t_registrations :: "registration_row list"
  t_nodes :: "probe_node list"
  t_challenges :: "challenge_row list"
  t_access_tokens :: "access_token_row list"
  t_heartbeats :: "heartbeat_row list"
  t_jobs :: "job_row list"
  t_remote_results :: "remote_result_row list"
  t_isp_reasons :: "(uuid \<times> uuid \<times> string) list"

section \<open>Values\<close>

datatype probe_error = ErrUnauthorized | ErrForbidden | ErrInvalidRequest | ErrExpired | ErrReplay | ProbeNotFound | ProbeConflict | ErrNoJob
  | ErrPayloadTooLarge | ErrClockSkew | ErrSignature | ProbeStatement string

record registration_spec =
  sp_Name :: string
  sp_Region :: string
  sp_Country :: string
  sp_Network :: string
  sp_TTL :: duration
  sp_CreatedBy :: uuid
  sp_RequestID :: string

record registration_token =
  tk_ID :: uuid
  tk_Token :: string
  tk_Name :: string
  tk_Region :: string
  tk_Country :: string
  tk_Network :: string
  tk_ExpiresAt :: gotime

text \<open>The capabilities of a request are given by their JSON encoding, which is \<^const>\<open>None\<close> when the encoder fails.\<close>

record register_request =
  rq_RegistrationToken :: string
  rq_Name :: string
  rq_RegionCode :: string
  rq_CountryCode :: string
  rq_NetworkName :: string
  rq_PublicKey :: string
  rq_ProtocolVersion :: string
  rq_AgentVersion :: string
  rq_Capabilities :: "string option"

record token_challenge =
  tc_ChallengeID :: uuid
  tc_Challenge :: string
  tc_SigningMessage :: string
  tc_ExpiresAt :: gotime

record token_request =
  tr_ProbeID :: uuid
  tr_ChallengeID :: uuid
  tr_Signature :: string

record heartbeat_request =
  hq_ProtocolVersion :: string
  hq_AgentVersion :: string
  hq_ClockOffsetMS :: int
  hq_QueueCapacity :: int
  hq_Capabilities :: "string option"

record principal =
  pr_TokenID :: uuid
  pr_ProbeID :: uuid
  pr_Name :: string
  pr_RegionCode :: string
  pr_CountryCode :: string
  pr_NetworkName :: string
  pr_AgentVersion :: string
  pr_Status :: string
  pr_PublicKey :: string

record probe_job =
  jb_JobID :: uuid
  jb_RunID :: uuid
  jb_Target :: probe_target
  jb_PolicyVersion :: string
  jb_Policy :: probe_policy
  jb_IssuedAt :: gotime
  jb_ExpiresAt :: gotime
  jb_Nonce :: string

record result_payload =
  py_ProtocolVersion :: string
  py_ProbeID :: uuid
  py_AgentVersion :: string
  py_RegionCode :: string
  py_CountryCode :: string
  py_NetworkName :: string
  py_JobID :: uuid
  py_RunID :: uuid
  py_Nonce :: string
  py_StartedAt :: gotime
  py_FinishedAt :: gotime
  py_ClockOffsetMS :: int
  py_DNS :: "dns_result list"
  py_HTTP :: origin_result

record result_envelope =
  ev_Payload :: string
  ev_PayloadSHA256 :: string
  ev_Signature :: string

datatype probe_snapshot = TokenSnapshot string string string gotime | NodeSnapshot string string string string

record probe_config =
  pc_TokenTTL :: duration
  pc_ChallengeTTL :: duration
  pc_JobTTL :: duration
  pc_JobLease :: duration
  pc_StaleAfter :: duration
  pc_MaxClockSkew :: duration
  pc_EvidenceFresh :: duration
  pc_DispatchBatch :: nat
  pc_RequiredRegion :: string
  pc_MaxPayloadBytes :: int
  pc_Policy :: probe_policy

record probe_lib =
  pl_decode :: "string \<Rightarrow> string option"
  pl_encode :: "string \<Rightarrow> string"
  pl_sha256 :: "string \<Rightarrow> string"
  pl_hex :: "string \<Rightarrow> string"
  pl_unhex :: "string \<Rightarrow> string option"
  pl_verify :: "string \<Rightarrow> string \<Rightarrow> string \<Rightarrow> bool"
  pl_sign :: "string \<Rightarrow> string \<Rightarrow> string"
  pl_marshal :: "result_payload \<Rightarrow> string option"
  pl_payload :: "string \<Rightarrow> result_payload option"
  pl_jsonb :: "string \<Rightarrow> bool"
  pl_time :: "gotime \<Rightarrow> string"
  pl_uuid :: "uuid \<Rightarrow> string"
  pl_audit :: "probe_snapshot audit_lib"

text \<open>What a call reads: the clock of the service and that of the database, random bytes, and the ids it draws.\<close>

record probe_env =
  pe_now :: gotime
  pe_db_now :: gotime
  pe_random :: "nat \<Rightarrow> string"
  pe_newID :: "nat \<Rightarrow> uuid"
  pe_checkID :: "nat \<Rightarrow> uuid"
  pe_auditID :: uuid
  pe_audit_now :: gotime

section \<open>The protocol\<close>

definition probe_version :: string where
  "probe_version = ''domain-monitor-probe.v1''"

definition NewSecret :: "probe_lib \<Rightarrow> string \<Rightarrow> string \<times> string" where
  "NewSecret L raw = (pl_encode L raw, pl_sha256 L raw)"

definition decode_bytes :: "probe_lib \<Rightarrow> nat \<Rightarrow> string \<Rightarrow> string option" where
  "decode_bytes L n encoded = (case pl_decode L (trim_space encoded) of None \<Rightarrow> None | Some raw \<Rightarrow> if length raw = n then Some raw else None)"

definition HashSecret :: "probe_lib \<Rightarrow> string \<Rightarrow> string option" where
  "HashSecret L encoded = map_option (pl_sha256 L) (decode_bytes L 32 encoded)"

definition DecodePublicKey :: "probe_lib \<Rightarrow> string \<Rightarrow> string option" where
  "DecodePublicKey L = decode_bytes L 32"

definition DecodeSignature :: "probe_lib \<Rightarrow> string \<Rightarrow> string option" where
  "DecodeSignature L = decode_bytes L 64"

abbreviation newline :: string where "newline \<equiv> [CHR 0x0A]"

definition TokenSigningMessage :: "probe_lib \<Rightarrow> uuid \<Rightarrow> string \<Rightarrow> gotime \<Rightarrow> string" where
  "TokenSigningMessage L challengeID challenge expiresAt =
    join_with newline [probe_version, ''token'', pl_uuid L challengeID, challenge, pl_time L expiresAt]"

definition ResultSigningMessage :: "probe_lib \<Rightarrow> string \<Rightarrow> string \<Rightarrow> string" where
  "ResultSigningMessage L payloadHash nonce = join_with newline [probe_version, ''result'', pl_hex L payloadHash, nonce]"

definition EncodeSignature :: "probe_lib \<Rightarrow> string \<Rightarrow> string" where
  "EncodeSignature L = pl_encode L"

definition SignResult :: "probe_lib \<Rightarrow> string \<Rightarrow> result_payload \<Rightarrow> result_envelope option" where
  "SignResult L privateKey payload =
    (case pl_marshal L payload of None \<Rightarrow> None | Some raw \<Rightarrow>
       let hash = pl_sha256 L raw; signature = pl_sign L privateKey (ResultSigningMessage L hash (py_Nonce payload)) in
       Some \<lparr>ev_Payload = raw, ev_PayloadSHA256 = pl_hex L hash, ev_Signature = EncodeSignature L signature\<rparr>)"

definition EqualHash :: "string \<Rightarrow> string \<Rightarrow> bool" where
  "EqualHash left right = (length left = 32 \<and> length right = 32 \<and> left = right)"

definition VerifyResult :: "probe_lib \<Rightarrow> string \<Rightarrow> result_envelope \<Rightarrow> (result_payload \<times> string) option" where
  "VerifyResult L publicKey e =
    (if ev_Payload e = [] then None
     else let computed = pl_sha256 L (ev_Payload e) in
       case pl_unhex L (trim_space (ev_PayloadSHA256 e)) of None \<Rightarrow> None | Some claimed \<Rightarrow>
         if length claimed \<noteq> 32 \<or> \<not> EqualHash computed claimed then None
         else (case pl_payload L (ev_Payload e) of None \<Rightarrow> None | Some payload \<Rightarrow>
           (case DecodeSignature L (ev_Signature e) of None \<Rightarrow> None | Some signature \<Rightarrow>
             if pl_verify L publicKey (ResultSigningMessage L computed (py_Nonce payload)) signature then Some (payload, computed) else None)))"

section \<open>Registration\<close>

definition nullableText :: "string \<Rightarrow> string option" where
  "nullableText v = (if trim_space v = [] then None else Some v)"

text \<open>\<^verbatim>\<open>char(2)\<close> pads a single character with a blank.\<close>

definition char2 :: "string \<Rightarrow> string" where
  "char2 s = s @ replicate (2 - char_count s) CHR '' ''"

definition registration_ok :: "registration_row list \<Rightarrow> gotime \<Rightarrow> registration_row \<Rightarrow> bool" where
  "registration_ok rows created r =
    (rt_id r \<notin> rt_id ` set rows \<and> rt_hash r \<notin> rt_hash ` set rows \<and> length (rt_hash r) = 32 \<and> rt_expires_at r > created \<and>
     text_ok (rt_name r) \<and> text_ok (rt_region r) \<and> text_ok (rt_country r) \<and> opt_text_ok (rt_network r))"

definition probe_audit :: "probe_lib \<Rightarrow> probe_env \<Rightarrow> probe_snapshot audit_entry \<Rightarrow> probe_db \<Rightarrow> (probe_error, probe_db) result" where
  "probe_audit L env entry db =
    map_sum ProbeStatement (\<lambda>log. db\<lparr>t_audit := log\<rparr>) (AppendTx (pl_audit L) (pe_auditID env) (pe_audit_now env) entry (t_audit db))"

definition CreateRegistrationToken ::
  "probe_lib \<Rightarrow> probe_env \<Rightarrow> registration_spec \<Rightarrow> probe_db \<Rightarrow> (probe_error, registration_token \<times> probe_db) result" where
  "CreateRegistrationToken L env spec db =
    (let name = trim_space (sp_Name spec); region = to_upper (trim_space (sp_Region spec)); country = to_upper (trim_space (sp_Country spec));
         network = trim_space (sp_Network spec) in
     bind_result (ensure ErrInvalidRequest (\<not> (name = [] \<or> length name > 200 \<or> length region < 2 \<or> length region > 16 \<or> length country \<noteq> 2))) (\<lambda>_.
     let ttl = (if sp_TTL spec \<le> 0 then 10 * minute else sp_TTL spec) in
     bind_result (ensure ErrInvalidRequest (\<not> ttl > 24 * hour)) (\<lambda>_.
     let (secret, hash) = NewSecret L (pe_random env 0);
         item = \<lparr>tk_ID = pe_newID env 0, tk_Token = secret, tk_Name = name, tk_Region = region, tk_Country = country, tk_Network = network,
           tk_ExpiresAt = pe_now env + ttl\<rparr>;
         r = \<lparr>rt_id = tk_ID item, rt_hash = hash, rt_name = name, rt_region = region, rt_country = char2 country, rt_network = nullableText network,
           rt_expires_at = stored_time (tk_ExpiresAt item), rt_used_at = None\<rparr> in
     bind_result (ensure (ProbeStatement ''insert probe registration token'') (registration_ok (t_registrations db) (pe_db_now env) r)) (\<lambda>_.
     bind_result (probe_audit L env \<lparr>ActorUserID = Some (sp_CreatedBy spec), Action = ''PROBE_REGISTRATION_TOKEN_CREATED'',
         ResourceType = ''probe_registration_token'', ResourceID = Some (tk_ID item), RequestID = sp_RequestID spec, Reason = [], Before = None,
         After = Some (TokenSnapshot name region country (tk_ExpiresAt item)), Metadata = None\<rparr>
       (db\<lparr>t_registrations := t_registrations db @ [r]\<rparr>)) (\<lambda>db2.
     Inr (item, db2))))))"

definition node_ok :: "probe_lib \<Rightarrow> probe_node list \<Rightarrow> probe_node \<Rightarrow> bool" where
  "node_ok L rows n =
    (pn_id n \<notin> pn_id ` set rows \<and> pn_name n \<notin> pn_name ` set rows \<and> text_ok (pn_version n) \<and> pl_jsonb L (pn_capabilities n) \<and>
     (pn_status n = ''REVOKED'' \<longleftrightarrow> pn_revoked_at n \<noteq> None))"

definition Register :: "probe_lib \<Rightarrow> probe_env \<Rightarrow> register_request \<Rightarrow> probe_db \<Rightarrow> (probe_error, uuid \<times> gotime \<times> probe_db) result" where
  "Register L env request db =
    bind_result (require ErrUnauthorized (HashSecret L (rq_RegistrationToken request))) (\<lambda>hash.
    bind_result (require ErrInvalidRequest (DecodePublicKey L (rq_PublicKey request))) (\<lambda>publicKey.
    bind_result (ensure ErrInvalidRequest (\<not> (rq_ProtocolVersion request \<noteq> probe_version \<or> rq_AgentVersion request = []))) (\<lambda>_.
    bind_result (require ErrInvalidRequest (rq_Capabilities request)) (\<lambda>capabilities.
    bind_result (require ErrUnauthorized (find (\<lambda>r. rt_hash r = hash) (t_registrations db))) (\<lambda>r.
    bind_result (ensure ErrUnauthorized (rt_used_at r = None)) (\<lambda>_.
    let now = pe_now env in
    bind_result (ensure ErrExpired (rt_expires_at r > now)) (\<lambda>_.
    bind_result (ensure ErrForbidden (\<not> (trim_space (rq_Name request) \<noteq> rt_name r \<or> to_upper (trim_space (rq_RegionCode request)) \<noteq> rt_region r \<or>
      to_upper (trim_space (rq_CountryCode request)) \<noteq> rt_country r \<or>
      trim_space (rq_NetworkName request) \<noteq> (case rt_network r of None \<Rightarrow> [] | Some v \<Rightarrow> v)))) (\<lambda>_.
    let n = \<lparr>pn_id = pe_newID env 0, pn_name = rt_name r, pn_region = rt_region r, pn_country = rt_country r, pn_network = rt_network r,
          pn_public_key = publicKey, pn_status = ''OFFLINE'', pn_version = rq_AgentVersion request, pn_capabilities = capabilities,
          pn_last_seen_at = None, pn_clock_offset = None, pn_registered_at = stored_time now, pn_revoked_at = None\<rparr> in
    bind_result (ensure ProbeConflict (node_ok L (t_nodes db) n)) (\<lambda>_.
    bind_result (probe_audit L env \<lparr>ActorUserID = None, Action = ''PROBE_REGISTERED'', ResourceType = ''probe_node'', ResourceID = Some (pn_id n),
        RequestID = [], Reason = [], Before = None,
        After = Some (NodeSnapshot (rt_name r) (rt_region r) (rt_country r) (rq_AgentVersion request)), Metadata = None\<rparr>
      (db\<lparr>t_nodes := t_nodes db @ [n],
          t_registrations := map (\<lambda>q. if rt_id q = rt_id r then q\<lparr>rt_used_at := Some (stored_time now)\<rparr> else q) (t_registrations db)\<rparr>)) (\<lambda>db2.
    Inr (pn_id n, now, db2)))))))))))"

section \<open>Authentication\<close>

definition node_of :: "probe_db \<Rightarrow> uuid \<Rightarrow> probe_node option" where
  "node_of db i = find (\<lambda>n. pn_id n = i) (t_nodes db)"

definition challenge_ok :: "challenge_row list \<Rightarrow> gotime \<Rightarrow> challenge_row \<Rightarrow> bool" where
  "challenge_ok rows created c =
    (ch_id c \<notin> ch_id ` set rows \<and> ch_challenge c \<notin> ch_challenge ` set rows \<and> length (ch_challenge c) = 32 \<and> ch_expires_at c > created)"

definition CreateChallenge :: "probe_lib \<Rightarrow> probe_config \<Rightarrow> probe_env \<Rightarrow> uuid \<Rightarrow> probe_db \<Rightarrow> (probe_error, token_challenge \<times> probe_db) result" where
  "CreateChallenge L cfg env probeID db =
    bind_result (ensure ErrInvalidRequest (probeID \<noteq> 0)) (\<lambda>_.
    bind_result (require ErrUnauthorized (node_of db probeID)) (\<lambda>n.
    bind_result (ensure ErrForbidden (\<not> (pn_status n = ''REVOKED'' \<or> pn_revoked_at n \<noteq> None))) (\<lambda>_.
    let raw = pe_random env 0; expiresAt = stored_time (pe_now env) + pc_ChallengeTTL cfg; challengeID = pe_newID env 0;
        item = \<lparr>tc_ChallengeID = challengeID, tc_Challenge = pl_encode L raw,
          tc_SigningMessage = TokenSigningMessage L challengeID (pl_encode L raw) expiresAt, tc_ExpiresAt = expiresAt\<rparr>;
        c = \<lparr>ch_id = challengeID, ch_probe_id = probeID, ch_challenge = raw, ch_expires_at = stored_time expiresAt, ch_used_at = None\<rparr> in
    bind_result (ensure (ProbeStatement ''insert probe challenge'') (challenge_ok (t_challenges db) (pe_db_now env) c)) (\<lambda>_.
    Inr (item, db\<lparr>t_challenges := t_challenges db @ [c]\<rparr>)))))"

definition access_token_ok :: "access_token_row list \<Rightarrow> gotime \<Rightarrow> access_token_row \<Rightarrow> bool" where
  "access_token_ok rows created a =
    (ac_id a \<notin> ac_id ` set rows \<and> ac_hash a \<notin> ac_hash ` set rows \<and> length (ac_hash a) = 32 \<and> ac_expires_at a > created)"

definition IssueToken :: "probe_lib \<Rightarrow> probe_config \<Rightarrow> probe_env \<Rightarrow> token_request \<Rightarrow> probe_db \<Rightarrow> (probe_error, (string \<times> gotime) \<times> probe_db) result" where
  "IssueToken L cfg env request db =
    bind_result (require ErrUnauthorized (DecodeSignature L (tr_Signature request))) (\<lambda>signature.
    bind_result (ensure ErrUnauthorized (tr_ProbeID request \<noteq> 0 \<and> tr_ChallengeID request \<noteq> 0)) (\<lambda>_.
    bind_result (require ErrUnauthorized (find (\<lambda>c. ch_id c = tr_ChallengeID request \<and> ch_probe_id c = tr_ProbeID request) (t_challenges db))) (\<lambda>c.
    bind_result (require ErrUnauthorized (node_of db (ch_probe_id c))) (\<lambda>n.
    let now = pe_now env in
    bind_result (ensure ErrReplay (ch_used_at c = None)) (\<lambda>_.
    bind_result (ensure ErrExpired (ch_expires_at c > now)) (\<lambda>_.
    bind_result (ensure ErrForbidden (\<not> (pn_status n = ''REVOKED'' \<or> length (pn_public_key n) \<noteq> 32))) (\<lambda>_.
    bind_result (ensure ErrSignature (pl_verify L (pn_public_key n)
      (TokenSigningMessage L (tr_ChallengeID request) (pl_encode L (ch_challenge c)) (ch_expires_at c)) signature)) (\<lambda>_.
    let (secret, hash) = NewSecret L (pe_random env 0); expiresAt = now + pc_TokenTTL cfg;
        a = \<lparr>ac_id = pe_newID env 0, ac_probe_id = tr_ProbeID request, ac_hash = hash, ac_expires_at = stored_time expiresAt, ac_revoked_at = None\<rparr> in
    bind_result (ensure (ProbeStatement ''insert probe access token'') (access_token_ok (t_access_tokens db) (pe_db_now env) a)) (\<lambda>_.
    Inr ((secret, expiresAt), db\<lparr>t_access_tokens := t_access_tokens db @ [a],
      t_challenges := map (\<lambda>q. if ch_id q = tr_ChallengeID request then q\<lparr>ch_used_at := Some (stored_time now)\<rparr> else q) (t_challenges db)\<rparr>))))))))))"

definition Authenticate :: "probe_lib \<Rightarrow> probe_env \<Rightarrow> string \<Rightarrow> probe_db \<Rightarrow> (probe_error, principal) result" where
  "Authenticate L env bearer db =
    bind_result (require ErrUnauthorized (HashSecret L bearer)) (\<lambda>hash.
    bind_result (require ErrUnauthorized (find (\<lambda>a. ac_hash a = hash) (t_access_tokens db))) (\<lambda>a.
    bind_result (require ErrUnauthorized (node_of db (ac_probe_id a))) (\<lambda>n.
    bind_result (ensure ErrUnauthorized (\<not> (ac_revoked_at a \<noteq> None \<or> \<not> ac_expires_at a > pe_now env))) (\<lambda>_.
    bind_result (ensure ErrForbidden (pn_status n \<noteq> ''REVOKED'')) (\<lambda>_.
    bind_result (ensure ErrForbidden (length (pn_public_key n) = 32)) (\<lambda>_.
    Inr \<lparr>pr_TokenID = ac_id a, pr_ProbeID = pn_id n, pr_Name = pn_name n, pr_RegionCode = pn_region n, pr_CountryCode = pn_country n,
      pr_NetworkName = (case pn_network n of None \<Rightarrow> [] | Some v \<Rightarrow> v), pr_AgentVersion = pn_version n, pr_Status = pn_status n,
      pr_PublicKey = pn_public_key n\<rparr>))))))"

definition probe_abs :: "int \<Rightarrow> int" where
  "probe_abs v = (if v < 0 then wrap64 (- v) else v)"

definition Heartbeat :: "probe_lib \<Rightarrow> probe_config \<Rightarrow> probe_env \<Rightarrow> principal \<Rightarrow> heartbeat_request \<Rightarrow> probe_db \<Rightarrow> (probe_error, string \<times> probe_db) result" where
  "Heartbeat L cfg env p request db =
    bind_result (ensure ErrInvalidRequest (\<not> (hq_AgentVersion request = [] \<or> hq_QueueCapacity request < 0 \<or> hq_QueueCapacity request > 10000))) (\<lambda>_.
    let status = (if hq_ProtocolVersion request \<noteq> probe_version then ''UPGRADE_REQUIRED''
          else if probe_abs (hq_ClockOffsetMS request) > to_ms (pc_MaxClockSkew cfg) then ''DEGRADED'' else ''ONLINE'') in
    bind_result (require ErrInvalidRequest (hq_Capabilities request)) (\<lambda>capabilities.
    bind_result (ensure (ProbeStatement ''update probe heartbeat'')
      (text_ok (hq_AgentVersion request) \<and> pl_jsonb L capabilities \<and> int4 (hq_ClockOffsetMS request))) (\<lambda>_.
    bind_result (ensure ErrForbidden (list_ex (\<lambda>n. pn_id n = pr_ProbeID p \<and> pn_revoked_at n = None) (t_nodes db))) (\<lambda>_.
    bind_result (ensure (ProbeStatement ''insert probe heartbeat'') (text_ok (hq_ProtocolVersion request))) (\<lambda>_.
    Inr (status, db\<lparr>t_nodes := map (\<lambda>n. if pn_id n = pr_ProbeID p \<and> pn_revoked_at n = None
          then n\<lparr>pn_status := status, pn_version := hq_AgentVersion request, pn_capabilities := capabilities,
            pn_last_seen_at := Some (stored_time (pe_now env)), pn_clock_offset := Some (hq_ClockOffsetMS request)\<rparr> else n) (t_nodes db),
      t_heartbeats := t_heartbeats db @ [\<lparr>hb_probe_id = pr_ProbeID p, hb_status = status, hb_protocol_version = hq_ProtocolVersion request,
        hb_agent_version = hq_AgentVersion request, hb_clock_offset = hq_ClockOffsetMS request, hb_queue_capacity = hq_QueueCapacity request,
        hb_capabilities = capabilities\<rparr>]\<rparr>))))))"

definition cancelled_job :: "uuid \<Rightarrow> job_row \<Rightarrow> job_row" where
  "cancelled_job probeID j =
    (if pj_probe_id j = probeID \<and> pj_status j \<in> {''queued'', ''leased''}
     then j\<lparr>pj_status := ''cancelled'', pj_error_code := Some ''PROBE_REVOKED''\<rparr> else j)"

definition Revoke :: "probe_lib \<Rightarrow> probe_env \<Rightarrow> uuid \<Rightarrow> uuid \<Rightarrow> string \<Rightarrow> string \<Rightarrow> probe_db \<Rightarrow> (probe_error, probe_db) result" where
  "Revoke L env probeID actorID requestID reason db =
    (let reason = trim_space reason; now = stored_time (pe_now env) in
     bind_result (ensure ErrInvalidRequest (\<not> (probeID = 0 \<or> reason = [] \<or> length reason > 1000))) (\<lambda>_.
     bind_result (ensure ProbeNotFound (list_ex (\<lambda>n. pn_id n = probeID \<and> pn_revoked_at n = None) (t_nodes db))) (\<lambda>_.
     probe_audit L env \<lparr>ActorUserID = Some actorID, Action = ''PROBE_REVOKED'', ResourceType = ''probe_node'', ResourceID = Some probeID,
         RequestID = requestID, Reason = reason, Before = None, After = None, Metadata = None\<rparr>
       (db\<lparr>t_nodes := map (\<lambda>n. if pn_id n = probeID \<and> pn_revoked_at n = None then n\<lparr>pn_status := ''REVOKED'', pn_revoked_at := Some now\<rparr> else n) (t_nodes db),
           t_access_tokens := map (\<lambda>a. if ac_probe_id a = probeID \<and> ac_revoked_at a = None then a\<lparr>ac_revoked_at := Some now\<rparr> else a) (t_access_tokens db),
           t_jobs := map (cancelled_job probeID) (t_jobs db)\<rparr>))))"

section \<open>Jobs\<close>

definition offline_node :: "gotime \<Rightarrow> probe_node \<Rightarrow> probe_node" where
  "offline_node since n =
    (if pn_status n \<in> {''ONLINE'', ''DEGRADED''} \<and> (case pn_last_seen_at n of None \<Rightarrow> True | Some t \<Rightarrow> t < since)
     then n\<lparr>pn_status := ''OFFLINE''\<rparr> else n)"

definition expired_job :: "gotime \<Rightarrow> job_row \<Rightarrow> job_row" where
  "expired_job now j =
    (if pj_status j \<in> {''queued'', ''leased''} \<and> pj_expires_at j \<le> now
     then j\<lparr>pj_status := ''expired'', pj_error_code := Some ''PROBE_JOB_EXPIRED''\<rparr> else j)"

definition selected_probe :: "string \<Rightarrow> gotime \<Rightarrow> probe_node list \<Rightarrow> probe_node option" where
  "selected_probe region since nodes =
    (case sort_key (\<lambda>n. (- the (pn_last_seen_at n), pn_id n))
       (filter (\<lambda>n. pn_region n = region \<and> pn_status n = ''ONLINE'' \<and> pn_revoked_at n = None \<and>
          (case pn_last_seen_at n of None \<Rightarrow> False | Some t \<Rightarrow> t \<ge> since)) nodes) of [] \<Rightarrow> None | n # _ \<Rightarrow> Some n)"

text \<open>The completed runs for which the probe has no job yet; \<open>skipped\<close> are the runs that another transaction has locked.\<close>

definition dispatch_candidates :: "probe_config \<Rightarrow> gotime \<Rightarrow> uuid set \<Rightarrow> uuid \<Rightarrow> probe_db \<Rightarrow> (run_row \<times> domain_row) list" where
  "dispatch_candidates cfg since skipped probeID db =
    take (pc_DispatchBatch cfg) (List.map_filter (\<lambda>r. map_option (Pair r) (domain_of db (mr_domain_id r)))
      (sort_key (\<lambda>r. the (mr_completed_at r))
        (filter (\<lambda>r. mr_status r = ''completed'' \<and> (case mr_completed_at r of None \<Rightarrow> False | Some t \<Rightarrow> t \<ge> since) \<and> mr_id r \<notin> skipped \<and>
           list_ex (\<lambda>q. rs_run_id q = mr_id r \<and> rs_vantage_type q = ''local'') (t_results db) \<and>
           \<not> list_ex (\<lambda>j. pj_run_id j = mr_id r \<and> pj_probe_id j = probeID) (t_jobs db)) (t_runs db))))"

definition job_row_ok :: "job_row list \<Rightarrow> job_row \<Rightarrow> bool" where
  "job_row_ok rows j =
    (pj_id j \<notin> pj_id ` set rows \<and> pj_nonce j \<notin> pj_nonce ` set rows \<and> (pj_run_id j, pj_probe_id j) \<notin> (\<lambda>q. (pj_run_id q, pj_probe_id q)) ` set rows \<and>
     pj_expires_at j > pj_issued_at j \<and> text_ok (pj_policy_version j) \<and> text_ok (pj_nonce j) \<and> json_text_ok (pt_DomainASCII (pj_target j)))"

definition insert_job ::
  "probe_lib \<Rightarrow> probe_config \<Rightarrow> probe_env \<Rightarrow> uuid \<Rightarrow> nat \<times> probe_db \<Rightarrow> nat \<times> run_row \<times> domain_row \<Rightarrow> (probe_error, nat \<times> probe_db) result" where
  "insert_job L cfg env probeID = (\<lambda>(count, db) (k, run, d).
    let j = \<lparr>pj_id = pe_newID env k, pj_run_id = mr_id run, pj_domain_id = mr_domain_id run, pj_probe_id = probeID, pj_status = ''queued'',
          pj_target = \<lparr>pt_DomainASCII = dm_ascii d, pt_Schemes = [''https'', ''http''], pt_Ports = [443, 80]\<rparr>,
          pj_policy_version = mr_policy_version run, pj_policy = pc_Policy cfg, pj_nonce = fst (NewSecret L (pe_random env k)),
          pj_issued_at = stored_time (pe_now env), pj_expires_at = stored_time (pe_now env + pc_JobTTL cfg), pj_claimed_at = None,
          pj_lease_until = None, pj_attempts = 0, pj_completed_at = None, pj_error_code = None\<rparr> in
    bind_result (ensure (ProbeStatement ''insert remote probe job'') (job_row_ok (t_jobs db) j)) (\<lambda>_.
    Inr (count + 1, db\<lparr>t_jobs := t_jobs db @ [j]\<rparr>)))"

definition DispatchPending :: "probe_lib \<Rightarrow> probe_config \<Rightarrow> probe_env \<Rightarrow> uuid set \<Rightarrow> probe_db \<Rightarrow> (probe_error, nat \<times> probe_db) result" where
  "DispatchPending L cfg env skipped db =
    (let now = pe_now env; seen = stored_time (now - pc_StaleAfter cfg);
         db1 = db\<lparr>t_nodes := map (offline_node seen) (t_nodes db), t_jobs := map (expired_job (stored_time now)) (t_jobs db)\<rparr> in
     case selected_probe (pc_RequiredRegion cfg) seen (t_nodes db1) of None \<Rightarrow> Inr (0, db1)
     | Some n \<Rightarrow> each (insert_job L cfg env (pn_id n)) (0, db1)
         (enumerate 0 (dispatch_candidates cfg (stored_time (now - pc_EvidenceFresh cfg)) skipped (pn_id n) db1)))"

definition requeued_job :: "uuid \<Rightarrow> gotime \<Rightarrow> job_row \<Rightarrow> job_row" where
  "requeued_job probeID now j =
    (if pj_probe_id j = probeID \<and> pj_status j = ''leased'' \<and> (case pj_lease_until j of None \<Rightarrow> False | Some t \<Rightarrow> t \<le> now) \<and>
        pj_expires_at j > now \<and> pj_attempts j < 20
     then j\<lparr>pj_status := ''queued'', pj_claimed_at := None, pj_lease_until := None\<rparr> else j)"

definition probe_Claim :: "probe_config \<Rightarrow> probe_env \<Rightarrow> principal \<Rightarrow> uuid set \<Rightarrow> probe_db \<Rightarrow> (probe_error, probe_job \<times> probe_db) result" where
  "probe_Claim cfg env p skipped db =
    bind_result (ensure ErrForbidden (pr_Status p = ''ONLINE'')) (\<lambda>_.
    let now = stored_time (pe_now env);
        jobs = map (\<lambda>j. if pj_probe_id j = pr_ProbeID p then expired_job now j else j) (map (requeued_job (pr_ProbeID p) now) (t_jobs db)) in
    (case sort_key pj_issued_at (filter (\<lambda>j. pj_probe_id j = pr_ProbeID p \<and> pj_status j = ''queued'' \<and> pj_expires_at j > now \<and> pj_id j \<notin> skipped) jobs) of
       [] \<Rightarrow> Inl ErrNoJob
     | j # _ \<Rightarrow>
         let leaseUntil = (if pe_now env + pc_JobLease cfg > pj_expires_at j then pj_expires_at j else pe_now env + pc_JobLease cfg);
             leased = j\<lparr>pj_status := ''leased'', pj_claimed_at := Some now, pj_lease_until := Some (stored_time leaseUntil), pj_attempts := pj_attempts j + 1\<rparr> in
         bind_result (ensure (ProbeStatement ''lease remote probe job'') (pj_attempts leased \<le> 20)) (\<lambda>_.
         Inr (\<lparr>jb_JobID = pj_id j, jb_RunID = pj_run_id j, jb_Target = pj_target j, jb_PolicyVersion = pj_policy_version j, jb_Policy = pj_policy j,
               jb_IssuedAt = pj_issued_at j, jb_ExpiresAt = pj_expires_at j, jb_Nonce = pj_nonce j\<rparr>,
           db\<lparr>t_jobs := map (\<lambda>q. if pj_id q = pj_id j \<and> pj_status q = ''queued'' then leased else q) jobs\<rparr>))))"

section \<open>Results\<close>

definition normalizeRemoteDNS :: "dns_result list \<Rightarrow> dns_result list" where
  "normalizeRemoteDNS = map (\<lambda>r. r\<lparr>res_Resolver := ''REMOTE_SYSTEM'',
     res_Endpoint := (if trim_space (res_Endpoint r) = [] then ''system'' else res_Endpoint r)\<rparr>)"

definition nullableNumber :: "int \<Rightarrow> int option" where
  "nullableNumber n = (if n = 0 then None else Some n)"

definition errorStage :: "string \<Rightarrow> string" where
  "errorStage code =
    (if has_prefix code ''DNS_'' then ''dns'' else if has_prefix code ''TCP_'' \<or> has_prefix code ''SSRF_'' then ''tcp''
     else if has_prefix code ''TLS_'' then ''tls'' else if has_prefix code ''HTTP_'' then ''http''
     else if has_prefix code ''CONTENT_'' then ''content'' else [])"

definition durationAbs :: "duration \<Rightarrow> duration" where
  "durationAbs d = (if d < 0 then wrap64 (- d) else d)"

definition remote_result_of :: "probe_lib \<Rightarrow> probe_env \<Rightarrow> job_row \<Rightarrow> decision \<Rightarrow> gotime \<Rightarrow> result_row" where
  "remote_result_of L env j d finishedAt =
    \<lparr>rs_id = pe_newID env 0, rs_run_id = pj_run_id j, rs_domain_id = pj_domain_id j, rs_vantage_type = ''remote'',
     rs_vantage_key = ''remote:'' @ pl_uuid L (pj_probe_id j), rs_availability = d_Availability d, rs_dns = d_DNS d, rs_http = d_HTTP d,
     rs_redirect = d_Redirect d, rs_isp = ''UNKNOWN'', rs_tls = d_TLS d, rs_content = d_Content d,
     rs_initial_status = nullableNumber (d_InitialHTTP d), rs_final_status = nullableNumber (d_FinalHTTP d),
     rs_final_target = nullableText (d_FinalTarget d), rs_failure_stage = nullableText (d_FailureStage d),
     rs_error_code = nullableText (d_ErrorCode d), rs_error_message = nullableText (d_ErrorMessage d), rs_confidence = d_Confidence d,
     rs_confidence_level = d_ConfidenceLevel d, rs_policy_version = pj_policy_version j, rs_checked_at = stored_time finishedAt,
     rs_completed_at = stored_time (pe_now env)\<rparr>"

definition persist_remote :: "probe_env \<Rightarrow> uuid \<Rightarrow> dns_result list \<Rightarrow> origin_result \<Rightarrow> evidence_db \<Rightarrow> (string, evidence_db) result" where
  "persist_remote env resultID dns http db =
    bind_result (each (\<lambda>db (k, result). PersistDNSResult (pe_checkID env k) resultID result db) db (enumerate 0 dns)) (\<lambda>db1.
    each (\<lambda>db (k, scheme, mode, attempt). PersistHTTPAttempt (pe_checkID env k) resultID scheme mode attempt db) db1
      (enumerate (length dns) (attempts_of ''remote_system'' http)))"

text \<open>The queries of \<^verbatim>\<open>loadISPInput\<close>.  A local failure falls into a bin of five minutes; \<^verbatim>\<open>date_bin\<close> counts them from the year 2001, which is
  63113904000 seconds after the zero time.\<close>

definition five_minute_bin :: "gotime \<Rightarrow> int" where
  "five_minute_bin t = (t - 63113904000 * second) div (5 * minute)"

definition local_failures :: "gotime \<Rightarrow> uuid \<Rightarrow> probe_db \<Rightarrow> result_row list" where
  "local_failures since domainID db =
    filter (\<lambda>r. rs_domain_id r = domainID \<and> rs_vantage_type r = ''local'' \<and> rs_availability r = ''UNAVAILABLE'' \<and> rs_checked_at r \<ge> since \<and>
      list_ex (\<lambda>run. mr_id run = rs_run_id r \<and> mr_trigger run \<noteq> ''manual'') (t_runs db)) (t_results db)"

definition answer_set :: "evidence_db \<Rightarrow> uuid \<Rightarrow> string list" where
  "answer_set e resultID =
    map (\<lambda>(q, t, v). q @ '':'' @ t @ '':'' @ v) (sort (concat (map (\<lambda>c. List.map_filter (\<lambda>a.
      if da_check_id a = dc_id c \<and> da_type a \<in> {''A'', ''AAAA''} then Some (dc_query_type c, da_type a, da_value a) else None) (e_dns_answers e))
      (filter (\<lambda>c. dc_result_id c = resultID \<and> dc_resolver_type c = ''CLOUDFLARE_DOH'' \<and> dc_rcode c = Some ''NOERROR'' \<and> dc_error_code c = None)
        (e_dns_checks e)))))"

definition doh_answer_sets :: "gotime \<Rightarrow> uuid \<Rightarrow> probe_db \<Rightarrow> string list" where
  "doh_answer_sets since domainID db =
    map (join_with '','') (filter (\<lambda>s. s \<noteq> []) (map (\<lambda>r. answer_set (t_evidence db) (rs_id r))
      (filter (\<lambda>r. rs_domain_id r = domainID \<and> rs_vantage_type r = ''local'' \<and> rs_checked_at r \<ge> since) (t_results db))))"

definition remote_successes :: "string \<Rightarrow> gotime \<Rightarrow> uuid \<Rightarrow> probe_db \<Rightarrow> (uuid \<times> string) list" where
  "remote_successes region since domainID db =
    concat (map (\<lambda>r. List.map_filter (\<lambda>h.
        if hc_result_id h = rs_id r \<and> hc_resolver_mode h = ''remote_system'' \<and> (case hc_final_status h of None \<Rightarrow> False | Some n \<Rightarrow> 200 \<le> n \<and> n \<le> 299) \<and>
           hc_content_status h \<in> {''VALID_HTML'', ''VALID_NON_HTML''}
        then map_option (Pair (rs_id r)) (hc_body_sha256 h) else None) (e_http_checks (t_evidence db)))
      (filter (\<lambda>r. rs_domain_id r = domainID \<and> rs_vantage_type r = ''remote'' \<and> rs_availability r = ''ACTIVE'' \<and> rs_checked_at r \<ge> since \<and>
         list_ex (\<lambda>q. rr_result_id q = rs_id r \<and> (case node_of db (rr_probe_id q) of None \<Rightarrow> False | Some n \<Rightarrow> pn_region n = region)) (t_remote_results db))
        (t_results db)))"

definition pinned_check :: "evidence_db \<Rightarrow> uuid \<Rightarrow> http_check_row option" where
  "pinned_check e resultID =
    (case sort_key (\<lambda>h. (hc_scheme h \<noteq> ''http'', - hc_attempt h)) (filter (\<lambda>h. hc_result_id h = resultID \<and> hc_resolver_mode h = ''doh_pinned'') (e_http_checks e)) of
       [] \<Rightarrow> None | h # _ \<Rightarrow> Some h)"

definition count_distinct :: "'a list \<Rightarrow> int" where
  "count_distinct xs = int (length (remdups xs))"

definition loadISPInput ::
  "probe_config \<Rightarrow> uuid \<Rightarrow> uuid \<Rightarrow> decision \<Rightarrow> principal \<Rightarrow> gotime \<Rightarrow> probe_db \<Rightarrow> (probe_error, isp_input \<times> uuid) result" where
  "loadISPInput cfg domainID runID remote p now db =
    (let since = stored_time (now - pc_EvidenceFresh cfg) in
     bind_result (require (ProbeStatement ''load local result for ISP classification'')
       (find (\<lambda>_. True) (sort_key (\<lambda>r. - rs_checked_at r) (filter (\<lambda>r. rs_run_id r = runID \<and> rs_vantage_type r = ''local'') (t_results db))))) (\<lambda>localResult.
     let pinned = pinned_check (t_evidence db) (rs_id localResult); failures = local_failures since domainID db;
         sets = doh_answer_sets since domainID db; successes = remote_successes (pc_RequiredRegion cfg) since domainID db;
         successCount = count_distinct (map fst successes) in
     Inr (\<lparr>LocalAvailability = rs_availability localResult, LocalFailureCount = int (length failures),
       LocalFailureBuckets = count_distinct (map (five_minute_bin \<circ> rs_checked_at) failures), LocalDNSDiscrepancy = (rs_dns localResult = ''DISCREPANCY''),
       DoHStable = (length sets \<ge> 2 \<and> count_distinct sets = 1),
       PinnedAvailability = (case pinned of None \<Rightarrow> [] | Some h \<Rightarrow>
         (case hc_final_status h of None \<Rightarrow> ''UNAVAILABLE'' | Some n \<Rightarrow>
            if n \<ge> 200 \<and> n < 300 \<and> hc_content_status h \<in> {''VALID_HTML'', ''VALID_NON_HTML''} then ''ACTIVE'' else ''UNAVAILABLE'')),
       PinnedFailureStage = (case pinned of None \<Rightarrow> [] | Some h \<Rightarrow> errorStage (case hc_error_code h of None \<Rightarrow> [] | Some c \<Rightarrow> c)),
       RemoteAvailability = d_Availability remote, RemoteSuccessCount = successCount,
       RemoteBodyHashStable = (successCount \<ge> 2 \<and> count_distinct (map snd successes) = 1), RemoteFresh = True,
       ProbeHealthy = (pr_Status p = ''ONLINE''), ClockHealthy = True, PossibleGeoPolicy = (rs_final_status localResult = Some 451),
       PossibleWAF = (rs_final_status localResult \<in> {Some 403, Some 429}), MaintenanceWindow = False\<rparr>, rs_id localResult)))"

definition accepted_payload :: "probe_config \<Rightarrow> probe_env \<Rightarrow> principal \<Rightarrow> uuid \<Rightarrow> result_payload \<Rightarrow> (probe_error, unit) result" where
  "accepted_payload cfg env p jobID payload =
    bind_result (ensure ErrForbidden (\<not> (py_ProtocolVersion payload \<noteq> probe_version \<or> py_ProbeID payload \<noteq> pr_ProbeID p \<or> py_JobID payload \<noteq> jobID \<or>
      py_RegionCode payload \<noteq> pr_RegionCode p \<or> py_CountryCode payload \<noteq> pr_CountryCode p \<or> py_NetworkName payload \<noteq> pr_NetworkName p \<or>
      py_AgentVersion payload \<noteq> pr_AgentVersion p))) (\<lambda>_.
    bind_result (ensure ErrClockSkew (\<not> (py_StartedAt payload = 0 \<or> py_FinishedAt payload < py_StartedAt payload \<or>
      clamp64 (py_FinishedAt payload - py_StartedAt payload) > pc_JobTTL cfg \<or>
      probe_abs (py_ClockOffsetMS payload) > to_ms (pc_MaxClockSkew cfg)))) (\<lambda>_.
    ensure ErrClockSkew (\<not> durationAbs (clamp64 (pe_now env - py_FinishedAt payload)) > pc_MaxClockSkew cfg + pc_JobTTL cfg)))"

definition open_job :: "probe_env \<Rightarrow> principal \<Rightarrow> uuid \<Rightarrow> result_payload \<Rightarrow> probe_db \<Rightarrow> (probe_error, job_row) result" where
  "open_job env p jobID payload db =
    bind_result (require ProbeNotFound (find (\<lambda>j. pj_id j = jobID) (t_jobs db))) (\<lambda>j.
    bind_result (ensure ErrReplay (pj_status j \<noteq> ''completed'')) (\<lambda>_.
    bind_result (ensure ErrForbidden (\<not> (pj_status j \<noteq> ''leased'' \<or> pj_probe_id j \<noteq> pr_ProbeID p \<or> py_RunID payload \<noteq> pj_run_id j \<or> py_Nonce payload \<noteq> pj_nonce j))) (\<lambda>_.
    bind_result (ensure ErrExpired (\<not> (\<not> pj_expires_at j > pe_now env \<or> (case pj_lease_until j of None \<Rightarrow> True | Some t \<Rightarrow> \<not> t > pe_now env)))) (\<lambda>_.
    Inr j))))"

text \<open>The envelope that is stored is JSON, because its payload has been parsed.  PostgreSQL takes it if it takes the payload: the other two
  fields are hexadecimal and base64.\<close>

definition record_remote ::
  "probe_lib \<Rightarrow> probe_env \<Rightarrow> job_row \<Rightarrow> result_payload \<Rightarrow> string \<Rightarrow> string \<Rightarrow> string \<Rightarrow> decision \<Rightarrow> probe_db \<Rightarrow> (probe_error, probe_db) result" where
  "record_remote L env j payload raw payloadHash signature d db =
    (let r = remote_result_of L env j d (py_FinishedAt payload);
         skew = clamp64 (pe_now env - py_FinishedAt payload);
         q = \<lparr>rr_result_id = rs_id r, rr_probe_id = pj_probe_id j, rr_job_id = pj_id j, rr_nonce = py_Nonce payload, rr_payload_hash = payloadHash,
           rr_signature = signature, rr_started_at = stored_time (py_StartedAt payload), rr_finished_at = stored_time (py_FinishedAt payload),
           rr_received_at = stored_time (pe_now env), rr_clock_skew_ms = to_ms skew\<rparr> in
     bind_result (ensure (ProbeStatement ''insert remote monitoring result'') (result_row_ok (monitor_db.truncate db) r)) (\<lambda>_.
     bind_result (map_sum ProbeStatement id (persist_remote env (rs_id r) (normalizeRemoteDNS (py_DNS payload)) (py_HTTP payload) (t_evidence db))) (\<lambda>evidence.
     bind_result (ensure (ProbeStatement ''insert signed remote result'') (int4 (rr_clock_skew_ms q) \<and> length payloadHash = 32 \<and> text_ok (py_Nonce payload) \<and> pl_jsonb L raw)) (\<lambda>_.
     bind_result (ensure ErrReplay (pj_id j \<notin> rr_job_id ` set (t_remote_results db) \<and>
       (rr_probe_id q, rr_nonce q) \<notin> (\<lambda>x. (rr_probe_id x, rr_nonce x)) ` set (t_remote_results db))) (\<lambda>_.
     Inr (db\<lparr>t_results := t_results db @ [r], t_evidence := evidence, t_remote_results := t_remote_results db @ [q]\<rparr>))))))"

definition record_isp ::
  "probe_env \<Rightarrow> job_row \<Rightarrow> uuid \<Rightarrow> isp_decision \<Rightarrow> domain_row \<Rightarrow> probe_db \<Rightarrow> (probe_error, probe_db) result" where
  "record_isp env j resultID isp row db =
    bind_result (ensure (ProbeStatement ''insert ISP status history'') (dm_isp row = isp_Status isp \<or>
      0 \<le> isp_Confidence isp \<and> isp_Confidence isp \<le> 99 \<and> text_ok (pj_policy_version j))) (\<lambda>_.
    Inr ((set_domain (row\<lparr>dm_isp := isp_Status isp, dm_updated_at := pe_db_now env\<rparr>) db)
      \<lparr>t_results := map (\<lambda>r. if rs_id r = resultID then r\<lparr>rs_isp := isp_Status isp\<rparr> else r) (t_results db),
       t_isp_reasons := t_isp_reasons db @ map (\<lambda>reason. (pj_run_id j, resultID, reason)) (isp_Reasons isp),
       t_history := t_history db @ (if dm_isp row = isp_Status isp then [] else [\<lparr>hs_domain_id = pj_domain_id j, hs_dimension = ''isp'',
         hs_previous = Some (dm_isp row), hs_current = isp_Status isp, hs_confidence = isp_Confidence isp, hs_policy_version = pj_policy_version j,
         hs_reasons = isp_Reasons isp, hs_run_id = pj_run_id j, hs_effective_at = stored_time (pe_now env)\<rparr>])\<rparr>))"

definition completed_job :: "gotime \<Rightarrow> job_row \<Rightarrow> job_row" where
  "completed_job now j = j\<lparr>pj_status := ''completed'', pj_completed_at := Some now, pj_lease_until := None, pj_error_code := None\<rparr>"

definition SubmitResult ::
  "probe_lib \<Rightarrow> probe_config \<Rightarrow> probe_env \<Rightarrow> principal \<Rightarrow> uuid \<Rightarrow> result_envelope \<Rightarrow> probe_db \<Rightarrow> (probe_error, (uuid \<times> isp_decision) \<times> probe_db) result" where
  "SubmitResult L cfg env p jobID envelope db =
    bind_result (ensure ErrPayloadTooLarge (\<not> int (length (ev_Payload envelope)) > pc_MaxPayloadBytes cfg)) (\<lambda>_.
    bind_result (require ErrSignature (VerifyResult L (pr_PublicKey p) envelope)) (\<lambda>(payload, payloadHash).
    bind_result (accepted_payload cfg env p jobID payload) (\<lambda>_.
    bind_result (open_job env p jobID payload db) (\<lambda>j.
    let remote = Classify (normalizeRemoteDNS (py_DNS payload)) [] (py_HTTP payload); resultID = pe_newID env 0;
        signature = (case DecodeSignature L (ev_Signature envelope) of None \<Rightarrow> [] | Some s \<Rightarrow> s) in
    bind_result (record_remote L env j payload (ev_Payload envelope) payloadHash signature remote db) (\<lambda>db1.
    bind_result (loadISPInput cfg (pj_domain_id j) (pj_run_id j) remote p (pe_now env) db1) (\<lambda>(input, localResultID).
    let isp = isp_Classify input in
    bind_result (require (ProbeStatement ''lock domain ISP state'') (domain_of db1 (pj_domain_id j))) (\<lambda>row.
    bind_result (record_isp env j resultID isp row db1) (\<lambda>db2.
    Inr ((resultID, isp), db2\<lparr>t_jobs := map (\<lambda>q. if pj_id q = jobID \<and> pj_status q = ''leased''
      then completed_job (stored_time (pe_now env)) q else q) (t_jobs db2)\<rparr>)))))))))"

section \<open>The service\<close>

text \<open>The calls of the service in any order; between them the monitoring may change its own tables in any way.  A call is one step.  Its
  transaction locks the rows it decides on, with one exception: the dispatcher does not lock the probe that it selects, so that a revocation
  that commits between its query and its inserts may leave a queued job of the revoked probe, until the job expires.\<close>

datatype probe_step =
    DoToken probe_env registration_spec
  | DoRegister probe_env register_request
  | DoChallenge probe_env uuid
  | DoIssue probe_env token_request
  | DoHeartbeat probe_env principal heartbeat_request
  | DoRevoke probe_env uuid uuid string string
  | DoDispatch probe_env "uuid set"
  | DoProbeClaim probe_env principal "uuid set"
  | DoSubmit probe_env principal uuid result_envelope
  | DoMonitoring monitor_db

definition settle :: "('a \<Rightarrow> 's) \<Rightarrow> 's \<Rightarrow> 'e + 'a \<Rightarrow> 's" where
  "settle f s r = (case r of Inl _ \<Rightarrow> s | Inr x \<Rightarrow> f x)"

fun probe_exec :: "probe_lib \<Rightarrow> probe_config \<Rightarrow> probe_step \<Rightarrow> probe_db \<Rightarrow> probe_db" where
  "probe_exec L cfg (DoToken env spec) db = settle snd db (CreateRegistrationToken L env spec db)"
| "probe_exec L cfg (DoRegister env request) db = settle (snd \<circ> snd) db (Register L env request db)"
| "probe_exec L cfg (DoChallenge env probeID) db = settle snd db (CreateChallenge L cfg env probeID db)"
| "probe_exec L cfg (DoIssue env request) db = settle snd db (IssueToken L cfg env request db)"
| "probe_exec L cfg (DoHeartbeat env p request) db = settle snd db (Heartbeat L cfg env p request db)"
| "probe_exec L cfg (DoRevoke env probeID actorID requestID reason) db = settle id db (Revoke L env probeID actorID requestID reason db)"
| "probe_exec L cfg (DoDispatch env skipped) db = settle snd db (DispatchPending L cfg env skipped db)"
| "probe_exec L cfg (DoProbeClaim env p skipped) db = settle snd db (probe_Claim cfg env p skipped db)"
| "probe_exec L cfg (DoSubmit env p jobID envelope) db = settle snd db (SubmitResult L cfg env p jobID envelope db)"
| "probe_exec L cfg (DoMonitoring m) db = monitor_db.extend m (monitor_db.more db)"

definition probe_trans :: "probe_lib \<Rightarrow> probe_config \<Rightarrow> probe_step \<Rightarrow> probe_db \<Rightarrow> probe_db \<Rightarrow> bool" where
  "probe_trans L cfg e db db' = (db' = probe_exec L cfg e db)"

text \<open>The service starts without probes.\<close>

definition probe_start :: "probe_db \<Rightarrow> bool" where
  "probe_start db = (t_registrations db = [] \<and> t_nodes db = [] \<and> t_challenges db = [] \<and> t_access_tokens db = [] \<and> t_jobs db = [])"

end
