(* ===== verification/Monitorinv.thy ===== *)
theory Monitorinv
  imports Monitor
begin

text \<open>
  What the monitoring guarantees in every interleaving of schedulers, users, workers and dispatchers: the state of a domain is the one
  its recorded observations determine, incidents follow that state, runs are recorded once, and at most one live lease per domain.
\<close>

section \<open>Specification\<close>

text \<open>The observation that a result holds, and the observations of a domain, oldest first.  The runs that users ask for do not count.\<close>

definition observation_of :: "result_row \<Rightarrow> decision" where
  "observation_of r = \<lparr>d_Availability = rs_availability r, d_DNS = rs_dns r, d_HTTP = rs_http r, d_Redirect = rs_redirect r, d_ISP = rs_isp r,
     d_TLS = rs_tls r, d_Content = rs_content r, d_InitialHTTP = 0, d_FinalHTTP = 0, d_FinalTarget = '''', d_FailureStage = '''',
     d_ErrorCode = '''', d_ErrorMessage = '''', d_Confidence = rs_confidence r, d_ConfidenceLevel = rs_confidence_level r, d_Reasons = []\<rparr>"

definition run_in :: "run_row list \<Rightarrow> uuid \<Rightarrow> run_row option" where
  "run_in rows i = find (\<lambda>r. mr_id r = i) rows"

definition qualifies :: "run_row list \<Rightarrow> result_row \<Rightarrow> bool" where
  "qualifies rr r = (case run_in rr (rs_run_id r) of None \<Rightarrow> False | Some run \<Rightarrow> mr_trigger run \<noteq> ''manual'')"

definition observations :: "run_row list \<Rightarrow> result_row list \<Rightarrow> uuid \<Rightarrow> (bool \<times> decision) list" where
  "observations rr results i = map (\<lambda>r. (qualifies rr r, observation_of r)) (filter (\<lambda>r. rs_domain_id r = i) results)"

definition columns_of :: "effective_state \<Rightarrow> (string \<times> string \<times> string \<times> string \<times> string \<times> string \<times> string) \<times> int \<times> int \<times> int" where
  "columns_of s = ((es_Availability s, es_DNS s, es_HTTP s, es_Redirect s, es_ISP s, es_TLS s, es_Content s), es_Confidence s,
     es_FailureStreak s, es_SuccessStreak s)"

definition open_ids :: "incident_row list \<Rightarrow> uuid \<Rightarrow> uuid list" where
  "open_ids rows d = map ic_id (filter (\<lambda>i. ic_domain_id i = d \<and> unresolved i) rows)"

section \<open>Invariants\<close>

definition run_identity :: "run_row \<Rightarrow> uuid \<times> uuid \<times> string \<times> string" where
  "run_identity r = (mr_id r, mr_domain_id r, mr_trigger r, mr_key r)"

definition runs_ok :: "monitor_db \<Rightarrow> bool" where
  "runs_ok db =
    (distinct (map mr_id (t_runs db)) \<and> distinct (map mr_key (t_runs db)) \<and> (\<forall>r \<in> set (t_runs db). run_row_ok r \<and>
       domain_of db (mr_domain_id r) \<noteq> None \<and> ''outbox:'' @ mr_key r \<in> ob_key ` set (t_outbox db)))"

definition executions_ok :: "execution list \<Rightarrow> run_row list \<Rightarrow> bool" where
  "executions_ok xs rr = (\<forall>x \<in> set xs. run_identity (xc_Run x) \<in> run_identity ` set rr)"

definition results_ok :: "run_row list \<Rightarrow> result_row list \<Rightarrow> bool" where
  "results_ok rr results =
    (distinct (map rs_run_id results) \<and>
     (\<forall>r \<in> set results. persistable (observation_of r) \<and> rs_vantage_key r = ''local-primary'' \<and> rs_run_id r \<in> mr_id ` set rr) \<and>
     (\<forall>r \<in> set rr. mr_status r = ''completed'' \<longleftrightarrow> mr_id r \<in> rs_run_id ` set results))"

definition leases_ok :: "duration \<Rightarrow> gotime \<Rightarrow> run_row list \<Rightarrow> bool" where
  "leases_ok lease clock rr =
    ((\<forall>r \<in> set rr. mr_status r = ''running'' \<longrightarrow> (\<exists>t. mr_heartbeat_at r = Some t \<and> t \<le> clock)) \<and>
     (\<forall>r \<in> set rr. \<forall>q \<in> set rr. \<forall>t u. mr_id r \<noteq> mr_id q \<and> mr_domain_id r = mr_domain_id q \<and> mr_status r = ''running'' \<and>
        mr_status q = ''running'' \<and> mr_heartbeat_at r = Some t \<and> mr_heartbeat_at q = Some u \<longrightarrow> t + lease \<le> u \<or> u + lease \<le> t))"

definition incident_law :: "string \<Rightarrow> uuid list \<Rightarrow> bool" where
  "incident_law availability ids =
    (length ids \<le> 1 \<and> (availability = ''UNAVAILABLE'' \<longrightarrow> ids \<noteq> []) \<and> (ids \<noteq> [] \<longrightarrow> availability \<in> {''UNAVAILABLE'', ''DEGRADED''}))"

definition incidents_ok :: "monitor_db \<Rightarrow> bool" where
  "incidents_ok db =
    (distinct (map ic_id (t_incidents db)) \<and>
     (\<forall>d. case domain_of db d of None \<Rightarrow> open_ids (t_incidents db) d = [] | Some r \<Rightarrow> incident_law (dm_availability r) (open_ids (t_incidents db) d)))"

definition observed_ok :: "monitor_config \<Rightarrow> monitor_db \<Rightarrow> bool" where
  "observed_ok cfg db =
    (\<forall>d. case domain_of db d of None \<Rightarrow> observations (t_runs db) (t_results db) d = []
       | Some r \<Rightarrow> observed_columns r = columns_of (advance_all (mc_OpenFailures cfg) (mc_CloseSuccess cfg) (observations (t_runs db) (t_results db) d)))"

definition monitor_ok :: "monitor_config \<Rightarrow> monitor_world \<Rightarrow> bool" where
  "monitor_ok cfg w =
    (domain_ok (mw_db w) \<and> runs_ok (mw_db w) \<and> executions_ok (mw_executions w) (t_runs (mw_db w)) \<and>
     results_ok (t_runs (mw_db w)) (t_results (mw_db w)) \<and> leases_ok (whole_milliseconds (mc_QueueLease cfg)) (mw_clock w) (t_runs (mw_db w)) \<and>
     incidents_ok (mw_db w) \<and> observed_ok cfg (mw_db w))"

section \<open>Runs\<close>

lemma run_of_in: "run_of db i = run_in (t_runs db) i"
  by (simp add: run_of_def run_in_def)

lemma run_in_Some: "run_in rows i = Some r \<Longrightarrow> r \<in> set rows \<and> mr_id r = i"
  by (auto simp: run_in_def find_Some_iff)

lemma run_in_mem: "distinct (map mr_id rows) \<Longrightarrow> r \<in> set rows \<Longrightarrow> run_in rows (mr_id r) = Some r"
  by (induction rows) (auto simp: run_in_def)

lemma run_in_append: "i \<in> mr_id ` set rows \<Longrightarrow> run_in (rows @ rest) i = run_in rows i"
  by (induction rows) (auto simp: run_in_def)

abbreviation replace_run :: "run_row \<Rightarrow> run_row list \<Rightarrow> run_row list" where
  "replace_run r rows \<equiv> map (\<lambda>q. if mr_id q = mr_id r then r else q) rows"

lemma run_in_replace: "run_in (replace_run r rows) i = (if i = mr_id r then map_option (\<lambda>_. r) (run_in rows i) else run_in rows i)"
  by (induction rows) (auto simp: run_in_def)

lemma set_replace:
  assumes "distinct (map mr_id rows)" "run_in rows (mr_id r) = Some old"
  shows "set (replace_run r rows) = insert r (set rows - {old})" "map mr_id (replace_run r rows) = map mr_id rows"
proof -
  have old: "old \<in> set rows" "mr_id old = mr_id r" using run_in_Some [OF assms(2)] by simp_all
  have uniq: "q = old" if "q \<in> set rows" "mr_id q = mr_id r" for q
    using run_in_mem [OF assms(1) that(1)] that(2) assms(2) by simp
  show "set (replace_run r rows) = insert r (set rows - {old})"
  proof (intro equalityI subsetI)
    fix x assume "x \<in> set (replace_run r rows)"
    then obtain q where "q \<in> set rows" "x = (if mr_id q = mr_id r then r else q)" unfolding set_map by (rule imageE)
    then show "x \<in> insert r (set rows - {old})" using old(2) by (cases "q = old") (simp_all split: if_splits)
  next
    fix x assume "x \<in> insert r (set rows - {old})"
    then show "x \<in> set (replace_run r rows)"
    proof
      assume "x = r"
      then show ?thesis unfolding set_map using old by (intro image_eqI [of _ _ old]) simp_all
    next
      assume "x \<in> set rows - {old}"
      then show ?thesis unfolding set_map using uniq by (intro image_eqI [of _ _ x]) auto
    qed
  qed
  show "map mr_id (replace_run r rows) = map mr_id rows" by simp
qed

lemma replace_keys:
  assumes "distinct (map mr_id rows)" "run_in rows (mr_id r) = Some old" "run_identity r = run_identity old"
  shows "map mr_key (replace_run r rows) = map mr_key rows" "run_identity ` set (replace_run r rows) = run_identity ` set rows"
proof -
  have f: "run_identity (if mr_id q = mr_id r then r else q) = run_identity q" if "q \<in> set rows" for q
    using run_in_mem [OF assms(1) that] assms(2,3) by auto
  then show "map mr_key (replace_run r rows) = map mr_key rows" by (simp add: run_identity_def)
  have "run_identity ` set (replace_run r rows) = (\<lambda>q. run_identity (if mr_id q = mr_id r then r else q)) ` set rows" by (simp only: set_map image_image)
  also have "\<dots> = run_identity ` set rows" using f by (rule image_cong [OF refl])
  finally show "run_identity ` set (replace_run r rows) = run_identity ` set rows" .
qed

text \<open>What identifies the runs determines the observations.\<close>

lemma observations_cong:
  assumes "\<And>i. i \<in> rs_run_id ` set results \<Longrightarrow> map_option mr_trigger (run_in rr' i) = map_option mr_trigger (run_in rr i)"
  shows "observations rr' results d = observations rr results d"
proof -
  have "qualifies rr' r = qualifies rr r" if "r \<in> set results" for r
    using assms [of "rs_run_id r"] that by (auto simp: qualifies_def split: option.splits)
  then show ?thesis by (simp add: observations_def)
qed

lemma insert_run_Inr:
  assumes "insert_run failure r db = Inr (inserted, db')"
  shows "if inserted then db' = db\<lparr>t_runs := t_runs db @ [r]\<rparr> \<and> run_row_ok r \<and> mr_key r \<notin> mr_key ` set (t_runs db) \<and>
      mr_id r \<notin> mr_id ` set (t_runs db) \<and> domain_of db (mr_domain_id r) \<noteq> None
    else db' = db"
  using assms by (auto simp: insert_run_def bind_result_Inr split: if_splits)

lemma insert_run_new:
  assumes "insert_run failure r db = Inr (inserted, db')" "inserted"
  shows "db' = db\<lparr>t_runs := t_runs db @ [r]\<rparr>" "run_row_ok r" "mr_key r \<notin> mr_key ` set (t_runs db)" "mr_id r \<notin> mr_id ` set (t_runs db)"
    "domain_of db (mr_domain_id r) \<noteq> None"
  using insert_run_Inr [OF assms(1)] unfolding if_P [OF assms(2)] by blast+

lemma insert_run_old: "insert_run failure r db = Inr (inserted, db') \<Longrightarrow> \<not> inserted \<Longrightarrow> db' = db"
  using insert_run_Inr [of failure r db inserted db'] by simp

lemma update_run_Inr:
  "update_run failure r db = Inr db' \<longleftrightarrow> run_row_ok r \<and> db' = db\<lparr>t_runs := replace_run r (t_runs db)\<rparr>"
  by (auto simp: update_run_def bind_result_Inr)

lemma EnqueueTx_keys: "EnqueueTx i now key ty stream payload rows = Inr rows' \<Longrightarrow> ob_key ` set rows' = insert key (ob_key ` set rows)"
  by (auto simp: EnqueueTx_def split: if_splits)

lemma enqueue_job_Inr:
  assumes "enqueue_job ustr cfg i now key runID db = Inr db'"
  shows "\<exists>rows. db' = db\<lparr>t_outbox := rows\<rparr> \<and> ob_key ` set rows = insert (''outbox:'' @ key) (ob_key ` set (t_outbox db))"
  using assms unfolding enqueue_job_def map_sum_Inr by (metis EnqueueTx_keys)

text \<open>The invariant of the tables, as a whole.\<close>

definition tables_ok :: "monitor_config \<Rightarrow> execution list \<Rightarrow> gotime \<Rightarrow> monitor_db \<Rightarrow> bool" where
  "tables_ok cfg xs clock db =
    (domain_ok db \<and> runs_ok db \<and> executions_ok xs (t_runs db) \<and> results_ok (t_runs db) (t_results db) \<and>
     leases_ok (whole_milliseconds (mc_QueueLease cfg)) clock (t_runs db) \<and> incidents_ok db \<and> observed_ok cfg db)"

lemma monitor_ok_tables: "monitor_ok cfg w = tables_ok cfg (mw_executions w) (mw_clock w) (mw_db w)"
  by (simp add: monitor_ok_def tables_ok_def)

lemma tables_later: "tables_ok cfg xs t db \<Longrightarrow> t \<le> u \<Longrightarrow> tables_ok cfg xs u db"
  unfolding tables_ok_def leases_ok_def by (meson order_trans)

text \<open>Tables that agree on domains, runs, results and incidents and do not lose events.\<close>

lemma same_columns:
  assumes "\<And>d. domain_of db' d = domain_of db d"
  shows "incidents_ok db \<Longrightarrow> t_incidents db' = t_incidents db \<Longrightarrow> incidents_ok db'"
    and "observed_ok cfg db \<Longrightarrow> (\<And>d. observations (t_runs db') (t_results db') d = observations (t_runs db) (t_results db) d) \<Longrightarrow> observed_ok cfg db'"
  unfolding incidents_ok_def observed_ok_def assms by (simp_all cong: option.case_cong)

lemma tables_same:
  assumes "tables_ok cfg xs t db" "domain_ok db'" "t_domains db' = t_domains db" "t_runs db' = t_runs db" "t_results db' = t_results db"
    and "t_incidents db' = t_incidents db" "ob_key ` set (t_outbox db) \<subseteq> ob_key ` set (t_outbox db')"
  shows "tables_ok cfg xs t db'"
proof -
  have d: "domain_of db' i = domain_of db i" for i using assms(3) by (simp add: domain_of_def)
  have "runs_ok db'" using assms(1,4,7) d unfolding tables_ok_def runs_ok_def by auto
  moreover have "incidents_ok db'" using assms(1,6) same_columns(1) [of db' db] d by (simp add: tables_ok_def)
  moreover have "observed_ok cfg db'" using assms(1,4,5) same_columns(2) [of db' db] d by (simp add: tables_ok_def)
  ultimately show ?thesis using assms(1,2,4,5) unfolding tables_ok_def by simp
qed

lemma tables_new_run:
  assumes "tables_ok cfg xs t db" "domain_ok db'" "t_domains db' = t_domains db" "t_runs db' = t_runs db @ [r]" "t_results db' = t_results db"
    and "t_incidents db' = t_incidents db" "insert (''outbox:'' @ mr_key r) (ob_key ` set (t_outbox db)) \<subseteq> ob_key ` set (t_outbox db')"
    and "run_row_ok r" "mr_key r \<notin> mr_key ` set (t_runs db)" "mr_id r \<notin> mr_id ` set (t_runs db)" "domain_of db (mr_domain_id r) \<noteq> None"
    and "mr_status r = ''queued''"
  shows "tables_ok cfg xs t db'"
proof -
  have d: "domain_of db' i = domain_of db i" for i using assms(3) by (simp add: domain_of_def)
  have ok: "runs_ok db" "executions_ok xs (t_runs db)" "results_ok (t_runs db) (t_results db)" "incidents_ok db" "observed_ok cfg db"
    "leases_ok (whole_milliseconds (mc_QueueLease cfg)) t (t_runs db)"
    using assms(1) by (simp_all add: tables_ok_def)
  have "runs_ok db'" using ok(1) assms(4,7-11) d unfolding runs_ok_def by auto
  moreover have "executions_ok xs (t_runs db')" using ok(2) assms(4) by (auto simp: executions_ok_def)
  moreover have "mr_id r \<notin> rs_run_id ` set (t_results db)" using ok(3) assms(10) unfolding results_ok_def by (metis (no_types, lifting) imageE)
  then have "results_ok (t_runs db') (t_results db')" using ok(3) assms(4,5,12) unfolding results_ok_def by auto
  moreover have "leases_ok (whole_milliseconds (mc_QueueLease cfg)) t (t_runs db')"
    using ok(6) assms(4,12) unfolding leases_ok_def by auto
  moreover have "incidents_ok db'" using ok(4) assms(6) by (rule same_columns(1) [OF d])
  moreover have "observations (t_runs db') (t_results db') i = observations (t_runs db) (t_results db) i" for i
    unfolding assms(4,5) using ok(3) by (intro observations_cong) (auto simp: results_ok_def run_in_append)
  then have "observed_ok cfg db'" using ok(5) same_columns(2) [of db' db] d by simp
  ultimately show ?thesis using assms(2) by (simp add: tables_ok_def)
qed

lemma runs_ok_replace:
  assumes "runs_ok db" "run_in (t_runs db) (mr_id r) = Some old" "run_identity r = run_identity old" "run_row_ok r"
    and "t_runs db' = replace_run r (t_runs db)" "\<And>d. domain_of db d \<noteq> None \<Longrightarrow> domain_of db' d \<noteq> None" "t_outbox db' = t_outbox db"
  shows "runs_ok db'"
proof -
  have dist: "distinct (map mr_id (t_runs db))" using assms(1) by (simp add: runs_ok_def)
  note sets = set_replace [OF dist assms(2)] and keys = replace_keys [OF dist assms(2,3)]
  have old: "old \<in> set (t_runs db)" using run_in_Some [OF assms(2)] by blast
  have all: "run_row_ok q \<and> domain_of db (mr_domain_id q) \<noteq> None \<and> ''outbox:'' @ mr_key q \<in> ob_key ` set (t_outbox db)" if "q \<in> set (t_runs db)" for q
    using assms(1) that unfolding runs_ok_def by blast
  have row: "run_row_ok q \<and> domain_of db' (mr_domain_id q) \<noteq> None \<and> ''outbox:'' @ mr_key q \<in> ob_key ` set (t_outbox db)" if "q \<in> set (t_runs db')" for q
  proof (cases "q = r")
    case True
    then show ?thesis using all [OF old] assms(3,4,6) by (simp add: run_identity_def)
  next
    case False
    then have "q \<in> set (t_runs db)" using that unfolding assms(5) sets(1) by blast
    then show ?thesis using all assms(6) by blast
  qed
  have "distinct (map mr_id (t_runs db'))" "distinct (map mr_key (t_runs db'))"
    unfolding assms(5) sets(2) keys(1) using assms(1) unfolding runs_ok_def by blast+
  then show ?thesis unfolding runs_ok_def assms(7) using row by blast
qed

lemma leases_fewer:
  assumes "leases_ok lease t rr" "\<And>q. q \<in> set rr' \<Longrightarrow> mr_status q = ''running'' \<Longrightarrow> q \<in> set rr"
  shows "leases_ok lease t rr'"
  using assms unfolding leases_ok_def by meson

text \<open>A run that is not completed changes its state; if it is running then it holds the only live lease of the domain.\<close>

lemma tables_changed_run:
  assumes "tables_ok cfg xs t db" "run_of db (mr_id old) = Some old" "run_identity r = run_identity old" "run_row_ok r"
    and "mr_status old \<noteq> ''completed''" "mr_status r \<noteq> ''completed''" "t \<le> u"
    and "mr_status r = ''running'' \<Longrightarrow> mr_heartbeat_at r = Some u \<and> \<not> another_active cfg u old db"
  shows "tables_ok cfg xs u (db\<lparr>t_runs := replace_run r (t_runs db)\<rparr>)"
proof -
  let ?runs = "replace_run r (t_runs db)" let ?L = "whole_milliseconds (mc_QueueLease cfg)"
  have ok: "runs_ok db" "executions_ok xs (t_runs db)" "results_ok (t_runs db) (t_results db)" "incidents_ok db" "observed_ok cfg db"
    "leases_ok ?L u (t_runs db)" "domain_ok db"
    using tables_later [OF assms(1,7)] by (simp_all add: tables_ok_def)
  have ids: "mr_id r = mr_id old" "mr_domain_id r = mr_domain_id old" "mr_trigger r = mr_trigger old" "mr_key r = mr_key old"
    using assms(3) by (simp_all add: run_identity_def)
  have dist: "distinct (map mr_id (t_runs db))" using ok(1) by (simp add: runs_ok_def)
  have old1: "run_in (t_runs db) (mr_id r) = Some old" using assms(2) ids(1) by (simp add: run_of_in)
  note old = old1 conjunct1 [OF run_in_Some [OF old1]]
  note sets = set_replace [OF dist old(1)] and keys = replace_keys [OF dist old(1) assms(3)]
  have same: "mr_id q = mr_id r \<Longrightarrow> q \<in> set (t_runs db) \<Longrightarrow> q = old" for q using run_in_mem [OF dist, of q] old(1) by simp
  have "runs_ok (db\<lparr>t_runs := ?runs\<rparr>)"
    by (rule runs_ok_replace [OF ok(1) old(1) assms(3,4)]) (simp_all add: domain_of_def)
  moreover have "executions_ok xs ?runs" using ok(2) keys(2) by (simp add: executions_ok_def)
  moreover have "results_ok ?runs (t_results db)"
  proof -
    have ids': "mr_id ` set ?runs = mr_id ` set (t_runs db)" using sets(2) by (metis list.set_map)
    have status: "mr_status q = ''completed'' \<longleftrightarrow> mr_id q \<in> rs_run_id ` set (t_results db)" if "q \<in> set (t_runs db)" for q
      using ok(3) that unfolding results_ok_def by blast
    have "mr_status q = ''completed'' \<longleftrightarrow> mr_id q \<in> rs_run_id ` set (t_results db)" if "q \<in> set ?runs" for q
    proof (cases "q = r")
      case True
      then show ?thesis using status [OF old(2)] assms(5,6) ids(1) by simp
    next
      case False
      then have "q \<in> set (t_runs db)" using that unfolding sets(1) by blast
      then show ?thesis by (rule status)
    qed
    then show ?thesis using ok(3) unfolding results_ok_def ids' by (intro conjI ballI) (blast | simp)+
  qed
  moreover have "leases_ok ?L u ?runs"
  proof -
    have far: "s + ?L \<le> u" if "mr_status r = ''running''" "q \<in> set (t_runs db)" "q \<noteq> old" "mr_domain_id q = mr_domain_id r"
      "mr_status q = ''running''" "mr_heartbeat_at q = Some s" for q s
    proof -
      have "mr_id q \<noteq> mr_id old" "mr_domain_id q = mr_domain_id old" using same [of q] that(2,3,4) ids(1,2) by auto
      then have "\<not> s > u - ?L" using assms(8) [OF that(1)] that(2,5,6) unfolding another_active_def list_ex_iff by fastforce
      then show ?thesis by simp
    qed
    show ?thesis unfolding leases_ok_def sets(1)
    proof (intro conjI ballI allI impI)
      fix q assume "q \<in> insert r (set (t_runs db) - {old})" "mr_status q = ''running''"
      then show "\<exists>s. mr_heartbeat_at q = Some s \<and> s \<le> u"
        using ok(6) assms(8) unfolding leases_ok_def by (cases "q = r") simp_all
    next
      fix p q s v assume "p \<in> insert r (set (t_runs db) - {old})" "q \<in> insert r (set (t_runs db) - {old})"
        and a: "mr_id p \<noteq> mr_id q \<and> mr_domain_id p = mr_domain_id q \<and> mr_status p = ''running'' \<and> mr_status q = ''running'' \<and>
          mr_heartbeat_at p = Some s \<and> mr_heartbeat_at q = Some v"
      then consider "p = r" "q \<in> set (t_runs db)" "q \<noteq> old" | "q = r" "p \<in> set (t_runs db)" "p \<noteq> old" | "p \<in> set (t_runs db)" "q \<in> set (t_runs db)"
        by auto
      then show "s + ?L \<le> v \<or> v + ?L \<le> s"
      proof cases
        case 1
        then show ?thesis using far [of q v] assms(8) a by auto
      next
        case 2
        then show ?thesis using far [of p s] assms(8) a by auto
      next
        case 3
        then show ?thesis using ok(6) a unfolding leases_ok_def by blast
      qed
    qed
  qed
  moreover have obs: "observations ?runs (t_results db) i = observations (t_runs db) (t_results db) i" for i
    by (rule observations_cong, unfold run_in_replace) (simp add: old(1) ids(3))
  have "observed_ok cfg (db\<lparr>t_runs := ?runs\<rparr>)"
    by (rule same_columns(2) [of _ db, OF _ ok(5)]) (simp_all add: obs domain_of_def)
  moreover have "incidents_ok (db\<lparr>t_runs := ?runs\<rparr>)" by (rule same_columns(1) [of _ db, OF _ ok(4)]) (simp_all add: domain_of_def)
  moreover have "domain_ok (db\<lparr>t_runs := ?runs\<rparr>)" using ok(7) by (simp add: domain_ok_def)
  ultimately show ?thesis by (simp add: tables_ok_def)
qed

section \<open>The operations that create and move runs\<close>

lemma domain_ok_schedules:
  assumes "domain_ok db" "\<And>s. sc_domain_id (f s) = sc_domain_id s" "\<And>s. sc_enabled (f s) = sc_enabled s" "t_domains db' = t_domains db"
    and "t_schedules db' = map f (t_schedules db)"
  shows "domain_ok db'"
proof -
  have ids: "map sc_domain_id (t_schedules db') = map sc_domain_id (t_schedules db)" using assms(2,5) by simp
  then have img: "sc_domain_id ` set (t_schedules db') = sc_domain_id ` set (t_schedules db)" by (metis list.set_map)
  have "sc_enabled s = scheduled r" if s: "s \<in> set (t_schedules db')" and r: "r \<in> set (t_domains db')" "sc_domain_id s = dm_id r" for s r
  proof -
    obtain q where q: "q \<in> set (t_schedules db)" "s = f q" using s unfolding assms(5) by auto
    then have "sc_domain_id q = dm_id r" using r(2) assms(2) by simp
    then have "sc_enabled q = scheduled r" using assms(1) q(1) r(1) unfolding domain_ok_def assms(4) by blast
    then show ?thesis using q(2) assms(3) by simp
  qed
  then show ?thesis using assms(1) unfolding domain_ok_def ids img assms(4) by simp
qed

lemma schedule_one_ok:
  assumes "schedule_one ustr cfg env (c, db) (k, s) = Inr (c', db')" "tables_ok cfg xs t db"
  shows "tables_ok cfg xs t db'"
proof -
  define r where "r = new_run cfg (me_newID env k) (sc_domain_id s) ''scheduled'' (sc_priority s) (schedule_key ustr cfg s) None (slot_of s) (me_now env + mc_RunTimeout cfg)"
  have rr: "mr_key r = schedule_key ustr cfg s" "mr_status r = ''queued''" by (simp_all add: r_def new_run_def)
  obtain inserted db1 db2 where ins: "insert_run ''create scheduled monitoring run'' r db = Inr (inserted, db1)"
    and enq: "(if inserted then enqueue_job ustr cfg (me_outboxID env k) (me_db_now env) (schedule_key ustr cfg s) (me_newID env k) db1 else Inr db1) = Inr db2"
    and db': "db' = db2\<lparr>t_schedules := map (\<lambda>q. if sc_domain_id q = sc_domain_id s then advance_schedule (me_now env) inserted (me_newID env k) q else q) (t_schedules db2)\<rparr>"
    using assms(1) unfolding schedule_one_def Let_def r_def
    by (auto simp only: bind_result_Inr split_paired_all prod.case sum.inject prod.inject)
  have dok: "domain_ok db'" if "t_domains db2 = t_domains db" "t_schedules db2 = t_schedules db"
    by (rule domain_ok_schedules [of db "\<lambda>q. if sc_domain_id q = sc_domain_id s then advance_schedule (me_now env) inserted (me_newID env k) q else q"])
      (use assms(2) that in \<open>simp_all add: tables_ok_def db' advance_schedule_def\<close>)
  show ?thesis
  proof (cases inserted)
    case True
    note i = insert_run_new [OF ins True]
    have "enqueue_job ustr cfg (me_outboxID env k) (me_db_now env) (schedule_key ustr cfg s) (me_newID env k) db1 = Inr db2" using enq True by simp
    from enqueue_job_Inr [OF this] obtain rows where rows: "db2 = db1\<lparr>t_outbox := rows\<rparr>"
      "ob_key ` set rows = insert (''outbox:'' @ schedule_key ustr cfg s) (ob_key ` set (t_outbox db1))" by blast
    have "domain_ok db'" by (rule dok) (simp_all add: i(1) rows(1))
    then show ?thesis by (intro tables_new_run [OF assms(2), of _ r]) (use i(2-5) in \<open>simp_all add: i(1) rows rr db'\<close>)
  next
    case False
    then have "db2 = db" using insert_run_old [OF ins] enq by simp
    then show ?thesis by (intro tables_same [OF assms(2)]) (use dok db' in simp_all)
  qed
qed

lemma ScheduleDue_ok:
  assumes "ScheduleDue ustr cfg env skipped db = Inr (c, db')" "tables_ok cfg xs t db"
  shows "tables_ok cfg xs t db'"
proof -
  have "(\<lambda>(_, db). tables_ok cfg xs t db) (c, db')"
    by (rule each_invariant [OF assms(1) [unfolded ScheduleDue_def]]) (use assms(2) in \<open>auto intro: schedule_one_ok\<close>)
  then show ?thesis by simp
qed

lemma createManualRun_ok:
  assumes "createManualRun ustr L cfg env domainID userID requestID key action db = Inr (run, created, db')" "tables_ok cfg xs t db"
  shows "tables_ok cfg xs t db'"
proof -
  define k where "k = ''manual:'' @ ustr domainID @ '':'' @ ustr userID @ '':'' @ trim_space key"
  define r where "r = new_run cfg (me_newID env 0) domainID ''manual'' ''critical'' k (Some userID) (me_now env) (me_now env + mc_RunTimeout cfg)"
  have rr: "mr_key r = k" "mr_status r = ''queued''" by (simp_all add: r_def new_run_def)
  obtain entry db1 where ins: "insert_run ''create manual monitoring run'' r db = Inr (created, db1)"
    and enq: "(if created then
         bind_result (enqueue_job ustr cfg (me_outboxID env 0) (me_db_now env) k (me_newID env 0) db1) (\<lambda>db2.
         map_sum ErrStatement (\<lambda>log. db2\<lparr>t_audit := log\<rparr>) (AppendTx L (me_auditID env) (me_audit_now env) entry (t_audit db2)))
       else Inr db1) = Inr db'"
    using assms(1) unfolding createManualRun_def Let_def r_def k_def
    by (auto simp only: bind_result_Inr split_paired_all prod.case sum.inject prod.inject)
  show ?thesis
  proof (cases created)
    case True
    note i = insert_run_new [OF ins True]
    obtain db2 log where e: "enqueue_job ustr cfg (me_outboxID env 0) (me_db_now env) k (me_newID env 0) db1 = Inr db2" "db' = db2\<lparr>t_audit := log\<rparr>"
      using enq True by (auto simp only: if_True bind_result_Inr map_sum_Inr)
    obtain rows where rows: "db2 = db1\<lparr>t_outbox := rows\<rparr>" "ob_key ` set rows = insert (''outbox:'' @ k) (ob_key ` set (t_outbox db1))"
      using enqueue_job_Inr [OF e(1)] by blast
    have dok: "domain_ok db'" using assms(2) i rows(1) e(2) by (simp add: tables_ok_def domain_ok_def)
    show ?thesis by (rule tables_new_run [OF assms(2), of _ r]) (use i(2-5) dok in \<open>simp_all add: i(1) rows e(2) rr\<close>)
  next
    case False
    then have "db' = db" using insert_run_old [OF ins] enq by simp
    then show ?thesis using assms(2) by simp
  qed
qed

text \<open>A claim changes nothing, or gives up on the run, or takes it.\<close>

lemma ClaimExecution_cases:
  assumes "ClaimExecution cfg env runID workerID db = (outcome, db')"
  obtains (unchanged) e where "outcome = Inl e" "db' = db"
    | (failed) run r where "run_of db runID = Some run" "mr_status run \<noteq> ''completed''" "outcome = Inl ErrRunExpired" "run_row_ok r"
        "r = expired_run (me_db_now env) run \<or> r = exhausted_run (me_db_now env) run" "db' = db\<lparr>t_runs := replace_run r (t_runs db)\<rparr>"
    | (claimed) run x where "run_of db runID = Some run" "mr_status run \<noteq> ''completed''" "outcome = Inr x" "run_identity (xc_Run x) = run_identity run"
        "run_row_ok (claimed_run (me_db_now env) workerID run)" "\<not> another_active cfg (me_db_now env) run db"
        "db' = db\<lparr>t_runs := replace_run (claimed_run (me_db_now env) workerID run) (t_runs db)\<rparr>"
proof -
  have kept: thesis if "(Inl e, db) = (outcome, db')" for e using that unchanged by blast
  show ?thesis
  proof (cases "run_of db runID")
    case None
    then have "(Inl ErrRunNotFound, db) = (outcome, db')" using assms by (simp add: ClaimExecution_def)
    then show ?thesis by (rule kept)
  next
    case (Some run)
    have give_up: thesis if "committed ErrRunExpired db (update_run f r db) = (outcome, db')" "mr_status run \<noteq> ''completed''"
      "r = expired_run (me_db_now env) run \<or> r = exhausted_run (me_db_now env) run" for f r
    proof (cases "update_run f r db")
      case (Inl e)
      then have "(Inl e, db) = (outcome, db')" using that(1) by (simp add: committed_def)
      then show ?thesis by (rule kept)
    next
      case (Inr db1)
      then have "outcome = Inl ErrRunExpired" "db' = db1" using that(1) by (simp_all add: committed_def)
      then show ?thesis using failed [OF Some that(2) _ _ that(3)] Inr unfolding update_run_Inr by blast
    qed
    show ?thesis
    proof (cases "domain_of db (mr_domain_id run)")
      case None
      then have "(Inl ErrRunNotFound, db) = (outcome, db')" using assms Some by (simp add: ClaimExecution_def)
      then show ?thesis by (rule kept)
    next
      case D: (Some d)
      let ?busy = "mr_status run = ''running'' \<and> (case mr_heartbeat_at run of None \<Rightarrow> False | Some t \<Rightarrow> t > me_now env - mc_QueueLease cfg)"
      note def = assms [unfolded ClaimExecution_def Some option.case D]
      show ?thesis
      proof (cases "mr_status run = ''completed'' \<or> mr_status run = ''cancelled''")
        case True
        show ?thesis using def unfolding if_P [OF True] by (rule kept)
      next
        case A: False
        note def = def [unfolded if_not_P [OF A]]
        show ?thesis
        proof (cases "\<not> mr_deadline_at run > me_now env")
          case True
          show ?thesis by (rule give_up [OF def [unfolded if_P [OF True]]]) (use A in simp_all)
        next
          case B: False
          note def = def [unfolded if_not_P [OF B]]
          show ?thesis
          proof (cases "?busy \<or> \<not> me_locked env \<or> another_active cfg (me_db_now env) run db")
            case True
            then consider ?busy | "\<not> ?busy" "\<not> me_locked env" | "\<not> ?busy" "\<not> \<not> me_locked env" "another_active cfg (me_db_now env) run db" by blast
            then show ?thesis
            proof cases
              case 1
              show ?thesis using def unfolding if_P [OF 1] by (rule kept)
            next
              case 2
              show ?thesis using def unfolding if_not_P [OF 2(1)] if_P [OF 2(2)] by (rule kept)
            next
              case 3
              show ?thesis using def unfolding if_not_P [OF 3(1)] if_not_P [OF 3(2)] if_P [OF 3(3)] by (rule kept)
            qed
          next
            case False
            then have C: "\<not> ?busy" "\<not> \<not> me_locked env" "\<not> another_active cfg (me_db_now env) run db" by blast+
            note def = def [unfolded if_not_P [OF C(1)] if_not_P [OF C(2)] if_not_P [OF C(3)]]
            show ?thesis
            proof (cases "mr_attempts run \<ge> mc_OutboxMaxAttempts cfg")
              case True
              show ?thesis by (rule give_up [OF def [unfolded if_P [OF True]]]) (use A in simp_all)
            next
              case False
              note def = def [unfolded if_not_P [OF False]]
              show ?thesis
              proof (cases "update_run ''claim monitoring run'' (claimed_run (me_db_now env) workerID run) db")
                case (Inl e)
                then have "(Inl e, db) = (outcome, db')" using def by simp
                then show ?thesis by (rule kept)
              next
                case (Inr db1)
                then have o: "outcome = Inr \<lparr>xc_Run = run\<lparr>mr_status := ''running'', mr_attempts := mr_attempts run + 1\<rparr>,
                    xc_Target = \<lparr>tg_DomainASCII = dm_ascii d, tg_ExpectedContentMode = dm_content_mode d, tg_Observed = observed_columns d\<rparr>\<rparr>" "db' = db1"
                  using def by simp_all
                show ?thesis
                  by (rule claimed [OF Some _ o(1)]) (use A C(3) Inr o(2) in \<open>simp_all add: update_run_Inr run_identity_def\<close>)
              qed
            qed
          qed
        qed
      qed
    qed
  qed
qed

lemma ClaimExecution_ok:
  assumes "ClaimExecution cfg env runID workerID db = (outcome, db')" "tables_ok cfg xs t db" "t \<le> me_db_now env"
  shows "tables_ok cfg (case outcome of Inl _ \<Rightarrow> xs | Inr x \<Rightarrow> xs @ [x]) (me_db_now env) db'"
  using assms(1)
proof (cases rule: ClaimExecution_cases)
  case unchanged
  then show ?thesis using tables_later [OF assms(2,3)] by simp
next
  case (failed run r)
  have "run_of db (mr_id run) = Some run" using failed(1) run_in_Some [of "t_runs db" runID run] by (simp add: run_of_in)
  moreover have "run_identity r = run_identity run" "mr_status r = ''failed''"
    using failed(5) by (auto simp: run_identity_def expired_run_def exhausted_run_def)
  ultimately show ?thesis
    using tables_changed_run [OF assms(2) _ _ failed(4,2) _ assms(3)] unfolding failed(3,6) by simp
next
  case (claimed run x)
  let ?r = "claimed_run (me_db_now env) workerID run"
  have id: "run_of db (mr_id run) = Some run" using claimed(1) run_in_Some [of "t_runs db" runID run] by (simp add: run_of_in)
  have r: "run_identity ?r = run_identity run" "mr_status ?r = ''running''" "mr_heartbeat_at ?r = Some (me_db_now env)"
    by (simp_all add: run_identity_def claimed_run_def)
  have ok: "tables_ok cfg xs (me_db_now env) db'"
    unfolding claimed(7) by (rule tables_changed_run [OF assms(2) id r(1) claimed(5,2) _ assms(3)]) (use r claimed(6) in simp_all)
  have "run_identity ?r \<in> run_identity ` set (t_runs db')"
    using run_in_Some [of "t_runs db" runID run] claimed(1) unfolding claimed(7) by (force simp: run_of_in claimed_run_def)
  then show ?thesis using ok claimed(3,4) r(1) by (simp add: tables_ok_def executions_ok_def)
qed

lemma FailRun_ok:
  assumes "FailRun env runID code message db = Inr db'" "tables_ok cfg xs t db" "t \<le> me_db_now env"
  shows "tables_ok cfg xs (me_db_now env) db'"
proof (cases "\<exists>run. run_of db runID = Some run \<and> mr_status run \<noteq> ''completed''")
  case False
  then have "db' = db" using assms(1) by (auto simp: FailRun_def Let_def bind_result_Inr split: option.splits)
  then show ?thesis using tables_later [OF assms(2,3)] by simp
next
  case True
  then obtain run where run: "run_of db runID = Some run" "mr_status run \<noteq> ''completed''" by blast
  define r where "r = run\<lparr>mr_status := ''failed'', mr_completed_at := Some (me_db_now env), mr_error_code := Some code,
    mr_error_message := Some (take 1000 (trim_space message)), mr_worker_id := None, mr_heartbeat_at := None\<rparr>"
  have "update_run ''fail monitoring run'' r db = Inr db'"
    using assms(1) run unfolding FailRun_def Let_def r_def by (simp add: bind_result_Inr)
  then have r: "run_row_ok r" "db' = db\<lparr>t_runs := replace_run r (t_runs db)\<rparr>" unfolding update_run_Inr by blast+
  have id: "run_of db (mr_id run) = Some run" using run(1) run_in_Some [of "t_runs db" runID run] by (simp add: run_of_in)
  have "run_identity r = run_identity run" "mr_status r = ''failed''" by (simp_all add: r_def run_identity_def)
  then show ?thesis unfolding r(2) using tables_changed_run [OF assms(2) id _ r(1) run(2) _ assms(3)] by simp
qed

section \<open>The completion of a run\<close>

text \<open>An observation changes the columns of the domain by its availability, its dimensions and its confidence only.\<close>

lemma columns_Advance:
  assumes "q" "d_Availability d \<noteq> ''UNKNOWN''"
  shows "columns_of (Advance (resume m n s (q, d))) =
    ((es_Availability (Advance (resume m n s (q, d))), observedOrCurrent (d_DNS d) (es_DNS s), observedOrCurrent (d_HTTP d) (es_HTTP s),
      observedOrCurrent (d_Redirect d) (es_Redirect s), observedOrCurrent (d_ISP d) (es_ISP s), observedOrCurrent (d_TLS d) (es_TLS s),
      observedOrCurrent (d_Content d) (es_Content s)), d_Confidence d,
     es_FailureStreak (Advance (resume m n s (q, d))), es_SuccessStreak (Advance (resume m n s (q, d))))"
  using Advance_dimensions [OF assms, of m n s] unfolding columns_of_def by blast

lemma Advance_cong:
  assumes "persistable d" "d_Availability d' = d_Availability d" "d_DNS d' = d_DNS d" "d_HTTP d' = d_HTTP d" "d_Redirect d' = d_Redirect d"
    and "d_ISP d' = d_ISP d" "d_TLS d' = d_TLS d" "d_Content d' = d_Content d" "d_Confidence d' = d_Confidence d"
  shows "columns_of (Advance (resume m n s (q, d'))) = columns_of (Advance (resume m n s (q, d)))"
proof (cases "\<not> q \<or> d_Availability d = ''UNKNOWN''")
  case True
  then have True': "\<not> q \<or> d_Availability d' = ''UNKNOWN''" unfolding assms(2) .
  show ?thesis unfolding Advance_ignored [OF True] Advance_ignored [OF True'] ..
next
  case False
  then have q: "q" "d_Availability d \<noteq> ''UNKNOWN''" "d_Availability d' \<noteq> ''UNKNOWN''" unfolding assms(2) by blast+
  let ?a = "Advance (resume m n s (q, d'))" let ?b = "Advance (resume m n s (q, d))"
  have "es_Availability ?a = es_Availability ?b \<and> es_FailureStreak ?a = es_FailureStreak ?b \<and> es_SuccessStreak ?a = es_SuccessStreak ?b"
  proof (cases "observed_failure d")
    case True
    then have "observed_failure d'" unfolding observed_failure_def assms(2) .
    then show ?thesis using Advance_failure [OF q(1) True, of m n s] Advance_failure [OF q(1), of d' m n s] by presburger
  next
    case False
    then have a: "d_Availability d = ''ACTIVE''" using assms(1) q(2) unfolding persistable_def observed_failure_def by blast
    then show ?thesis using Advance_active [OF q(1) a, of m n s] Advance_active [OF q(1), of d' m n s] assms(2) by presburger
  qed
  then show ?thesis unfolding columns_Advance [OF q(1,2)] columns_Advance [OF q(1,3)] assms(3-9) by blast
qed

lemma effective_input_resume:
  assumes "columns_of s = observed_columns row"
  shows "effective_input_of cfg run d row = resume (mc_OpenFailures cfg) (mc_CloseSuccess cfg) s (mr_trigger run \<noteq> ''manual'', d)"
  using assms by (simp add: effective_input_of_def resume_def columns_of_def observed_columns_def)

lemma observed_row_columns: "observed_columns (observed_row now checkedAt s row) = columns_of s"
  by (simp add: observed_row_def observed_columns_def columns_of_def)

lemma observed_row_fields [simp]:
  "dm_id (observed_row now checkedAt s row) = dm_id row" "dm_ascii (observed_row now checkedAt s row) = dm_ascii row"
  "dm_availability (observed_row now checkedAt s row) = es_Availability s"
  "domain_row_ok (observed_row now checkedAt s row) = domain_row_ok row" "scheduled (observed_row now checkedAt s row) = scheduled row"
  by (simp_all add: observed_row_def domain_row_ok_def scheduled_def)

lemma domain_ok_observed:
  assumes "domain_ok db" "domain_of db (dm_id row) = Some row" "t_domains db' = t_domains (set_domain (observed_row now checkedAt s row) db)"
    and "t_schedules db' = t_schedules db"
  shows "domain_ok db'"
proof -
  let ?f = "\<lambda>q. if dm_id q = dm_id row then observed_row now checkedAt s row else q"
  have row: "row \<in> set (t_domains db)" using domain_of_Some [OF assms(2)] by simp
  have dist: "distinct (map dm_id (t_domains db))" using assms(1) by (simp add: domain_ok_def)
  have rows: "t_domains db' = map ?f (t_domains db)" using assms(3) by (simp add: set_domain_def)
  have same: "q = row" if "q \<in> set (t_domains db)" "dm_id q = dm_id row" for q using that row dist by (simp add: distinct_map inj_on_def)
  have f: "dm_id (?f q) = dm_id q \<and> dm_ascii (?f q) = dm_ascii q \<and> domain_row_ok (?f q) = domain_row_ok q \<and> scheduled (?f q) = scheduled q"
    if "q \<in> set (t_domains db)" for q using same [OF that] by (cases "dm_id q = dm_id row") simp_all
  have ids: "map dm_id (t_domains db') = map dm_id (t_domains db)" "map dm_ascii (t_domains db') = map dm_ascii (t_domains db)"
    unfolding rows map_map by (rule map_cong [OF refl], simp add: f)+
  then have img: "dm_id ` set (t_domains db') = dm_id ` set (t_domains db)" by (metis list.set_map)
  have old: "\<exists>p \<in> set (t_domains db). dm_id q = dm_id p \<and> domain_row_ok q = domain_row_ok p \<and> scheduled q = scheduled p" if q: "q \<in> set (t_domains db')" for q
  proof -
    obtain p where "p \<in> set (t_domains db)" "q = ?f p" using q unfolding rows set_map by (rule imageE)
    then show ?thesis using f by blast
  qed
  have ok: "\<And>p. p \<in> set (t_domains db) \<Longrightarrow> domain_row_ok p"
    "\<And>c p. c \<in> set (t_schedules db) \<Longrightarrow> p \<in> set (t_domains db) \<Longrightarrow> sc_domain_id c = dm_id p \<Longrightarrow> sc_enabled c = scheduled p"
    using assms(1) unfolding domain_ok_def by blast+
  have new: "domain_row_ok q" "\<And>c. c \<in> set (t_schedules db) \<Longrightarrow> sc_domain_id c = dm_id q \<Longrightarrow> sc_enabled c = scheduled q"
    if q: "q \<in> set (t_domains db')" for q
  proof -
    obtain p where p: "p \<in> set (t_domains db)" "dm_id q = dm_id p" "domain_row_ok q = domain_row_ok p" "scheduled q = scheduled p" using old [OF q] by blast
    show "domain_row_ok q" unfolding p(3) by (rule ok(1) [OF p(1)])
    show "sc_enabled c = scheduled q" if "c \<in> set (t_schedules db)" "sc_domain_id c = dm_id q" for c
      unfolding p(4) by (rule ok(2) [OF that(1) p(1) that(2) [unfolded p(2)]])
  qed
  show ?thesis unfolding domain_ok_def ids img assms(4)
  proof (intro conjI ballI impI)
    show "distinct (map dm_id (t_domains db))" "distinct (map dm_ascii (t_domains db))" "distinct (map sc_domain_id (t_schedules db))"
      "sc_domain_id ` set (t_schedules db) = dm_id ` set (t_domains db)" using assms(1) unfolding domain_ok_def by blast+
  qed (rule new, assumption+)+
qed

lemma CompleteRun_Inr:
  assumes "CompleteRun cfg env x e db = Inr db'"
  obtains row run0 checkedAt incidents where "domain_of db (mr_domain_id (xc_Run x)) = Some row"
    "run_of db (mr_id (xc_Run x)) = Some run0" "mr_status run0 = ''running''" "run_row_ok (completed_run (me_db_now env) run0)"
    "result_row_ok db (result_of env (xc_Run x) (evd_Decision e) checkedAt)"
    "t_domains db' = t_domains (set_domain (observed_row (me_db_now env) checkedAt (Advance (effective_input_of cfg (xc_Run x) (evd_Decision e) row)) row) db)"
    "t_schedules db' = t_schedules db" "t_results db' = t_results db @ [result_of env (xc_Run x) (evd_Decision e) checkedAt]"
    "t_runs db' = replace_run (completed_run (me_db_now env) run0) (t_runs db)" "t_incidents db' = incidents" "t_outbox db' = t_outbox db"
    "mr_trigger (xc_Run x) = ''manual'' \<Longrightarrow> incidents = t_incidents db"
    "mr_trigger (xc_Run x) \<noteq> ''manual'' \<Longrightarrow> \<exists>events events'. applyIncident (me_incidentID env) (xc_Run x) (evd_Decision e)
        (Advance (effective_input_of cfg (xc_Run x) (evd_Decision e) row)) (mc_OpenFailures cfg) (mc_CloseSuccess cfg) checkedAt
        (t_incidents db, events) = Inr (incidents, events')"
proof -
  define run where "run = xc_Run x"
  define d where "d = evd_Decision e"
  define checkedAt where "checkedAt = (if evd_CheckedAt e = 0 then me_now env else evd_CheckedAt e)"
  obtain row db1 db2 db3 where row: "domain_of db (mr_domain_id run) = Some row"
    and a: "record_result env run e checkedAt db = Inr db1"
    and b: "record_state env run (effective_input_of cfg run d row) (Advance (effective_input_of cfg run d row)) (d_Reasons d) checkedAt row db1 = Inr db2"
    and c: "record_incident cfg env run d (in_Qualifying (effective_input_of cfg run d row)) (Advance (effective_input_of cfg run d row)) checkedAt db2 = Inr db3"
    and f: "finish_run env (mr_id run) db3 = Inr db'"
    using assms unfolding CompleteRun_def Let_def run_def d_def checkedAt_def by (auto simp only: bind_result_Inr require_Inr)
  let ?s = "Advance (effective_input_of cfg run d row)" let ?r = "result_of env run d checkedAt"
  obtain ev rs where db1: "result_row_ok db ?r" "db1 = db\<lparr>t_results := t_results db @ [?r], t_evidence := ev, t_reasons := rs\<rparr>"
    using a unfolding record_result_def Let_def d_def [symmetric] by (auto simp only: bind_result_Inr ensure_Inr sum.inject)
  obtain h where db2: "db2 = (set_domain (observed_row (me_db_now env) checkedAt ?s row) db1)\<lparr>t_history := h\<rparr>"
    using b unfolding record_state_def Let_def by (auto simp only: bind_result_Inr ensure_Inr sum.inject)
  have t2: "t_incidents db2 = t_incidents db" "t_runs db2 = t_runs db" "t_outbox db2 = t_outbox db" "t_results db2 = t_results db @ [?r]"
    "t_schedules db2 = t_schedules db" "t_domains db2 = t_domains (set_domain (observed_row (me_db_now env) checkedAt ?s row) db)"
    unfolding db2 db1(2) by (simp_all add: set_domain_def)
  obtain inc evs where t3: "db3 = db2\<lparr>t_incidents := inc, t_incident_events := evs\<rparr>" "mr_trigger run = ''manual'' \<Longrightarrow> inc = t_incidents db"
    "mr_trigger run \<noteq> ''manual'' \<Longrightarrow> \<exists>events events'. applyIncident (me_incidentID env) run d ?s (mc_OpenFailures cfg) (mc_CloseSuccess cfg) checkedAt
        (t_incidents db, events) = Inr (inc, events')"
  proof (cases "mr_trigger run = ''manual''")
    case True
    then have "db3 = db2" using c by (simp add: record_incident_def effective_input_of_def)
    then show ?thesis using that [where inc = "t_incidents db" and evs = "t_incident_events db2"] True t2(1) [symmetric] by simp
  next
    case False
    then have "map_sum id (\<lambda>(incidents, events). db2\<lparr>t_incidents := incidents, t_incident_events := events\<rparr>)
         (applyIncident (me_incidentID env) run d ?s (mc_OpenFailures cfg) (mc_CloseSuccess cfg) checkedAt (t_incidents db2, t_incident_events db2)) = Inr db3"
      using c unfolding record_incident_def by (simp add: effective_input_of_def)
    then obtain p where "applyIncident (me_incidentID env) run d ?s (mc_OpenFailures cfg) (mc_CloseSuccess cfg) checkedAt (t_incidents db2, t_incident_events db2) = Inr p"
      "db3 = (\<lambda>(incidents, events). db2\<lparr>t_incidents := incidents, t_incident_events := events\<rparr>) p" unfolding map_sum_Inr by blast
    then show ?thesis using that [where inc = "fst p" and evs = "snd p"] False t2(1) by (cases p) auto
  qed
  have t3': "t_runs db3 = t_runs db" by (simp add: t3(1) t2)
  obtain run0 where run0: "run_of db (mr_id run) = Some run0" "mr_status run0 = ''running''" "run_row_ok (completed_run (me_db_now env) run0)"
    "db' = db3\<lparr>t_runs := replace_run (completed_run (me_db_now env) run0) (t_runs db3)\<rparr>"
  proof (cases "run_of db3 (mr_id run)")
    case None
    then show ?thesis using f by (simp add: finish_run_def)
  next
    case (Some q)
    then have "mr_status q = ''running''" using f by (cases "mr_status q = ''running''") (simp_all add: finish_run_def)
    then have "update_run ''complete monitoring run'' (completed_run (me_db_now env) q) db3 = Inr db'" using f Some by (simp add: finish_run_def)
    moreover have "run_of db (mr_id run) = Some q" using Some by (simp add: run_of_in t3')
    ultimately show ?thesis using that \<open>mr_status q = ''running''\<close> unfolding update_run_Inr by blast
  qed
  show ?thesis
  proof (rule that [of row run0 checkedAt inc], unfold run_def [symmetric] d_def [symmetric])
    show "domain_of db (mr_domain_id run) = Some row" by (rule row)
    show "run_of db (mr_id run) = Some run0" "mr_status run0 = ''running''" "run_row_ok (completed_run (me_db_now env) run0)" by (rule run0)+
    show "result_row_ok db ?r" by (rule db1(1))
    show "mr_trigger run = ''manual'' \<Longrightarrow> inc = t_incidents db" by (rule t3(2))
    show "mr_trigger run \<noteq> ''manual'' \<Longrightarrow> \<exists>events events'. applyIncident (me_incidentID env) run d ?s (mc_OpenFailures cfg) (mc_CloseSuccess cfg) checkedAt
        (t_incidents db, events) = Inr (inc, events')" by (rule t3(3))
  qed (simp_all add: run0(4) t3(1) t2)
qed

section \<open>Incidents\<close>

abbreviation replace_incident :: "incident_row \<Rightarrow> incident_row list \<Rightarrow> incident_row list" where
  "replace_incident i rows \<equiv> map (\<lambda>q. if ic_id q = ic_id i then i else q) rows"

lemma active_incident_None: "active_incident rows d = None \<longleftrightarrow> open_ids rows d = []"
  by (induction rows) (simp_all add: active_incident_def open_ids_def)

lemma active_incident_Some: "active_incident rows d = Some i \<Longrightarrow> i \<in> set rows \<and> ic_domain_id i = d \<and> unresolved i"
  by (auto simp: active_incident_def find_Some_iff)

lemma incident_unique: "distinct (map ic_id rows) \<Longrightarrow> i \<in> set rows \<Longrightarrow> q \<in> set rows \<Longrightarrow> ic_id q = ic_id i \<Longrightarrow> q = i"
  by (simp add: distinct_map inj_on_def)

lemma replace_incident_ids: "map ic_id (replace_incident i rows) = map ic_id rows"
  by simp

lemma open_ids_replace:
  assumes "distinct (map ic_id rows)" "old \<in> set rows" "ic_id i = ic_id old" "ic_domain_id i = ic_domain_id old" "unresolved old"
  shows "open_ids (replace_incident i rows) d = (if unresolved i then open_ids rows d else filter (\<lambda>k. k \<noteq> ic_id i) (open_ids rows d))"
proof -
  let ?f = "\<lambda>q. if ic_id q = ic_id i then i else q"
  have f: "(ic_domain_id (?f q) = d \<and> unresolved (?f q)) = (ic_domain_id q = d \<and> unresolved q \<and> (unresolved i \<or> ic_id q \<noteq> ic_id i))" "ic_id (?f q) = ic_id q"
    if "q \<in> set rows" for q
    using incident_unique [OF assms(1,2) that] assms(3-5) by (cases "ic_id q = ic_id i"; simp)+
  have "open_ids (replace_incident i rows) d =
      map (\<lambda>q. ic_id (?f q)) (filter (\<lambda>q. ic_domain_id (?f q) = d \<and> unresolved (?f q)) rows)"
    by (simp add: open_ids_def filter_map o_def)
  also have "filter (\<lambda>q. ic_domain_id (?f q) = d \<and> unresolved (?f q)) rows =
      filter (\<lambda>q. ic_domain_id q = d \<and> unresolved q \<and> (unresolved i \<or> ic_id q \<noteq> ic_id i)) rows" by (rule filter_cong [OF refl f(1)])
  also have "map (\<lambda>q. ic_id (?f q)) \<dots> = map ic_id \<dots>" by (rule map_cong [OF refl]) (simp add: f(2))
  also have "\<dots> = (if unresolved i then open_ids rows d else filter (\<lambda>k. k \<noteq> ic_id i) (open_ids rows d))"
    by (cases "unresolved i") (simp_all add: open_ids_def filter_map o_def conj_ac)
  finally show ?thesis .
qed

lemma update_incident_Inr: "update_incident failure i rows = Inr rows' \<Longrightarrow> rows' = replace_incident i rows"
  by (auto simp: update_incident_def bind_result_Inr)

lemma observe_success_Inr:
  assumes "observe_success run state n checkedAt i (rows, events) = Inr (rows', events')" "distinct (map ic_id rows)" "i \<in> set rows" "unresolved i"
  shows "map ic_id rows' = map ic_id rows \<and> open_ids rows' d =
    (if es_Availability state = ''ACTIVE'' \<and> es_SuccessStreak state \<ge> n then filter (\<lambda>k. k \<noteq> ic_id i) (open_ids rows d) else open_ids rows d)"
proof -
  define i1 where "i1 = i\<lparr>ic_close_successes := es_SuccessStreak state\<rparr>"
  define i2 where "i2 = i1\<lparr>ic_status := ''closed'', ic_closed_at := Some (stored_time checkedAt), ic_closed_by := Some (mr_id run)\<rparr>"
  have same: "ic_id i1 = ic_id i" "ic_domain_id i1 = ic_domain_id i" "unresolved i1 = unresolved i" "ic_id i2 = ic_id i" "ic_domain_id i2 = ic_domain_id i" "\<not> unresolved i2"
    by (simp_all add: i1_def i2_def unresolved_def)
  obtain rows1 where u: "update_incident ''update incident recovery streak'' i1 rows = Inr rows1"
    and v: "if es_Availability state = ''ACTIVE'' \<and> es_SuccessStreak state \<ge> n then update_incident ''close incident'' i2 rows1 = Inr rows' else rows' = rows1"
    using assms(1) unfolding observe_success_def Let_def prod.case i1_def i2_def
    by (cases "es_Availability state = ''ACTIVE'' \<and> es_SuccessStreak state \<ge> n")
      (auto simp only: if_P if_not_P if_True if_False bind_result_Inr sum.inject prod.inject)
  have r1: "rows1 = replace_incident i1 rows" using update_incident_Inr [OF u] .
  have ids1: "map ic_id rows1 = map ic_id rows" unfolding r1 by simp
  have o1: "open_ids rows1 d = open_ids rows d" unfolding r1 using open_ids_replace [OF assms(2,3) same(1,2) assms(4)] same(3) assms(4) by simp
  have i1: "i1 \<in> set rows1" unfolding r1 using assms(3) same(1) by (auto intro: image_eqI [of _ _ i])
  show ?thesis
  proof (cases "es_Availability state = ''ACTIVE'' \<and> es_SuccessStreak state \<ge> n")
    case True
    then have r: "rows' = replace_incident i2 rows1" using v update_incident_Inr by simp
    have "open_ids rows' d = filter (\<lambda>k. k \<noteq> ic_id i) (open_ids rows1 d)"
      unfolding r using open_ids_replace [of rows1 i1 i2 d] ids1 assms(2,4) i1 same by simp
    moreover have "map ic_id rows' = map ic_id rows1" unfolding r by (rule replace_incident_ids)
    ultimately show ?thesis using True o1 ids1 by simp
  next
    case False
    then show ?thesis using v o1 ids1 by auto
  qed
qed

lemma observe_failure_Inr:
  assumes "observe_failure run d state i (rows, events) = Inr (rows', events')" "distinct (map ic_id rows)" "i \<in> set rows" "unresolved i"
  shows "map ic_id rows' = map ic_id rows \<and> open_ids rows' k = open_ids rows k"
proof -
  define i1 where "i1 = i\<lparr>ic_open_failures := max (ic_open_failures i) (es_FailureStreak state),
      ic_failure_stage := nullableString (d_FailureStage d), ic_error_code := nullableString (d_ErrorCode d), ic_close_successes := 0\<rparr>"
  have same: "ic_id i1 = ic_id i" "ic_domain_id i1 = ic_domain_id i" "unresolved i1" using assms(4) by (simp_all add: i1_def unresolved_def)
  have "update_incident ''update incident failure streak'' i1 rows = Inr rows'"
    using assms(1) unfolding observe_failure_def prod.case i1_def by (auto simp only: bind_result_Inr sum.inject prod.inject)
  then have "rows' = replace_incident i1 rows" by (rule update_incident_Inr)
  then show ?thesis using open_ids_replace [OF assms(2,3) same(1,2) assms(4), of k] same(3) by simp
qed

lemma open_incident_Inr:
  assumes "open_incident incidentID run d state checkedAt (rows, events) = Inr (rows', events')" "distinct (map ic_id rows)"
  shows "distinct (map ic_id rows') \<and> open_ids rows' k = open_ids rows k @ (if k = mr_domain_id run then [incidentID] else [])"
  using assms unfolding open_incident_def prod.case Let_def
  by (auto simp only: bind_result_Inr ensure_Inr sum.inject prod.inject) (auto simp: open_ids_def unresolved_def)

text \<open>The incidents of the other domains are as before; those of the domain follow its new state.\<close>

lemma applyIncident_law:
  assumes "applyIncident incidentID run d state openFailures closeSuccesses checkedAt (rows, events) = Inr (rows', events')"
    and "distinct (map ic_id rows)" "d_Availability d \<in> set availability_values" "1 \<le> openFailures" "1 \<le> closeSuccesses"
    and "state = Advance (resume openFailures closeSuccesses s (True, d))" "incident_law (es_Availability s) (open_ids rows (mr_domain_id run))"
  shows "distinct (map ic_id rows') \<and> (\<forall>k. k \<noteq> mr_domain_id run \<longrightarrow> open_ids rows' k = open_ids rows k) \<and>
    incident_law (es_Availability state) (open_ids rows' (mr_domain_id run))"
proof -
  let ?D = "mr_domain_id run"
  have th: "threshold 3 openFailures = openFailures" "threshold 2 closeSuccesses = closeSuccesses" using assms(4,5) by (simp_all add: threshold_def)
  consider (unknown) "d_Availability d = ''UNKNOWN''" | (active) "d_Availability d = ''ACTIVE''" | (failure) "observed_failure d"
    using assms(3) unfolding observed_failure_def by auto
  then show ?thesis
  proof cases
    case unknown
    then have "rows' = rows" using assms(1) unfolding applyIncident_def by (cases "active_incident rows ?D") simp_all
    moreover have "es_Availability state = es_Availability s" unfolding assms(6) using Advance_ignored [of True d openFailures closeSuccesses s] unknown by simp
    ultimately show ?thesis using assms(2,7) by simp
  next
    case active
    have s: "es_SuccessStreak state = es_SuccessStreak s + 1" "es_Availability state = (if es_Availability s \<in> {''UNKNOWN'', ''ACTIVE''} then ''ACTIVE''
       else if es_Availability s \<in> {''DEGRADED'', ''UNAVAILABLE''} then
         (if es_SuccessStreak s + 1 \<ge> closeSuccesses then ''ACTIVE'' else ''DEGRADED'') else es_Availability s)"
      unfolding assms(6) using Advance_active [OF TrueI active, of openFailures closeSuccesses s] th(2) by (blast, presburger)
    show ?thesis
    proof (cases "active_incident rows ?D")
      case None
      then have "rows' = rows" "open_ids rows ?D = []" using assms(1) active by (simp_all add: applyIncident_def active_incident_None [symmetric])
      moreover have "es_Availability state \<noteq> ''UNAVAILABLE''" using s(2) assms(7) calculation(2) by (auto simp: incident_law_def)
      ultimately show ?thesis using assms(2) by (simp add: incident_law_def)
    next
      case (Some i)
      have i: "i \<in> set rows" "ic_domain_id i = ?D" "unresolved i" using active_incident_Some [OF Some] by blast+
      have "observe_success run state closeSuccesses checkedAt i (rows, events) = Inr (rows', events')"
        using assms(1) active Some unfolding applyIncident_def by simp
      note o = observe_success_Inr [OF this assms(2) i(1,3)]
      have mem: "ic_id i \<in> set (open_ids rows ?D)" using i by (simp add: open_ids_def)
      then have one: "open_ids rows ?D = [ic_id i]" and av: "es_Availability s \<in> {''UNAVAILABLE'', ''DEGRADED''}"
        using assms(7) unfolding incident_law_def by (cases "open_ids rows ?D"; simp)+
      have other: "ic_id i \<notin> set (open_ids rows k)" if "k \<noteq> ?D" for k
        using incident_unique [OF assms(2) i(1)] i(2) that by (auto simp: open_ids_def)
      have "distinct (map ic_id rows')" using o assms(2) by simp
      moreover have "open_ids rows' k = open_ids rows k" if "k \<noteq> ?D" for k
        using o [of k] other [OF that] by (auto intro!: filter_True split: if_splits)
      moreover have "incident_law (es_Availability state) (open_ids rows' ?D)"
      proof (cases "es_SuccessStreak s + 1 \<ge> closeSuccesses")
        case True
        then have "es_Availability state = ''ACTIVE''" using s(2) av by auto
        then show ?thesis using o [of ?D] one s(1) True by (simp add: incident_law_def)
      next
        case False
        then have "es_Availability state = ''DEGRADED''" using s(2) av by auto
        then show ?thesis using o [of ?D] one by (simp add: incident_law_def)
      qed
      ultimately show ?thesis by blast
    qed
  next
    case failure
    have s: "es_FailureStreak state = es_FailureStreak s + 1" "es_Availability state = (if es_FailureStreak s + 1 \<ge> openFailures then ''UNAVAILABLE'' else ''DEGRADED'')"
      unfolding assms(6) using Advance_failure [OF TrueI failure, of openFailures closeSuccesses s] th(1) by (blast, presburger)
    have d: "d_Availability d \<noteq> ''ACTIVE''" "\<not> (d_Availability d \<noteq> ''UNAVAILABLE'' \<and> d_Availability d \<noteq> ''DEGRADED'')" using failure by (auto simp: observed_failure_def)
    show ?thesis
    proof (cases "active_incident rows ?D")
      case None
      then have none: "open_ids rows ?D = []" by (simp add: active_incident_None)
      show ?thesis
      proof (cases "es_FailureStreak s + 1 \<ge> openFailures")
        case True
        then have "open_incident incidentID run d state checkedAt (rows, events) = Inr (rows', events')"
          using assms(1) d None s unfolding applyIncident_def by simp
        note o = open_incident_Inr [OF this assms(2)]
        then show ?thesis using s(2) True none by (simp add: incident_law_def)
      next
        case False
        then have "rows' = rows" using assms(1) d None s unfolding applyIncident_def by simp
        then show ?thesis using s(2) False none assms(2) by (simp add: incident_law_def)
      qed
    next
      case (Some i)
      have i: "i \<in> set rows" "unresolved i" using active_incident_Some [OF Some] by blast+
      have "observe_failure run d state i (rows, events) = Inr (rows', events')" using assms(1) d Some unfolding applyIncident_def by simp
      note o = observe_failure_Inr [OF this assms(2) i]
      have "open_ids rows ?D \<noteq> []" using Some active_incident_None [of rows ?D] by auto
      then show ?thesis using o s(2) assms(2,7) unfolding incident_law_def by auto
    qed
  qed
qed

section \<open>Every step keeps the invariant\<close>

lemma observations_snoc:
  "observations rr (results @ [r]) d = observations rr results d @ (if rs_domain_id r = d then [(qualifies rr r, observation_of r)] else [])"
  by (simp add: observations_def)

lemma result_persistable: "result_row_ok db r \<Longrightarrow> persistable (observation_of r)"
  unfolding result_row_ok_def persistable_def observation_of_def by simp

lemma completed_identity [simp]: "run_identity (completed_run now run) = run_identity run" "mr_status (completed_run now run) = ''completed''"
  by (simp_all add: completed_run_def run_identity_def)

lemma CompleteRun_ok:
  assumes "CompleteRun cfg env x e db = Inr db'" "tables_ok cfg xs t db" "x \<in> set xs" "t \<le> me_db_now env"
    and "1 \<le> mc_OpenFailures cfg" "1 \<le> mc_CloseSuccess cfg"
  shows "tables_ok cfg xs (me_db_now env) db'"
  using assms(1)
proof (rule CompleteRun_Inr)
  fix row run0 checkedAt incidents
  define run where "run = xc_Run x"
  define d where "d = evd_Decision e"
  define s where "s = Advance (effective_input_of cfg run d row)"
  define row' where "row' = observed_row (me_db_now env) checkedAt s row"
  define r where "r = result_of env run d checkedAt"
  let ?D = "mr_domain_id run" let ?m = "mc_OpenFailures cfg" let ?n = "mc_CloseSuccess cfg" let ?run = "completed_run (me_db_now env) run0"
  note defs = run_def [symmetric] d_def [symmetric] s_def [symmetric] row'_def [symmetric] r_def [symmetric]
  assume row: "domain_of db (mr_domain_id (xc_Run x)) = Some row" and run0: "run_of db (mr_id (xc_Run x)) = Some run0" "mr_status run0 = ''running''"
    and rok: "run_row_ok ?run" and rs: "result_row_ok db (result_of env (xc_Run x) (evd_Decision e) checkedAt)"
    and dom: "t_domains db' = t_domains (set_domain (observed_row (me_db_now env) checkedAt (Advance (effective_input_of cfg (xc_Run x) (evd_Decision e) row)) row) db)"
    and sch: "t_schedules db' = t_schedules db" and res: "t_results db' = t_results db @ [result_of env (xc_Run x) (evd_Decision e) checkedAt]"
    and rns: "t_runs db' = replace_run ?run (t_runs db)" and inc: "t_incidents db' = incidents" and out: "t_outbox db' = t_outbox db"
    and man: "mr_trigger (xc_Run x) = ''manual'' \<Longrightarrow> incidents = t_incidents db"
    and app: "mr_trigger (xc_Run x) \<noteq> ''manual'' \<Longrightarrow> \<exists>events events'. applyIncident (me_incidentID env) (xc_Run x) (evd_Decision e)
        (Advance (effective_input_of cfg (xc_Run x) (evd_Decision e) row)) (mc_OpenFailures cfg) (mc_CloseSuccess cfg) checkedAt
        (t_incidents db, events) = Inr (incidents, events')"
  note row = row [unfolded defs] and run0 = run0 [unfolded defs] and rs = rs [unfolded defs] and dom = dom [unfolded defs]
    and res = res [unfolded defs] and man = man [unfolded defs] and app = app [unfolded defs]
  have ok: "runs_ok db" "executions_ok xs (t_runs db)" "results_ok (t_runs db) (t_results db)" "incidents_ok db" "observed_ok cfg db"
    "leases_ok (whole_milliseconds (mc_QueueLease cfg)) (me_db_now env) (t_runs db)" "domain_ok db"
    using tables_later [OF assms(2,4)] by (simp_all add: tables_ok_def)
  have dist: "distinct (map mr_id (t_runs db))" using ok(1) by (simp add: runs_ok_def)
  have in0: "run_in (t_runs db) (mr_id run) = Some run0" using run0(1) by (simp add: run_of_in)
  have mem: "run0 \<in> set (t_runs db)" "mr_id run0 = mr_id run" using run_in_Some [OF in0] by blast+
  have ident: "run_identity run = run_identity run0"
  proof -
    obtain q where "q \<in> set (t_runs db)" "run_identity run = run_identity q"
      using ok(2) assms(3) unfolding executions_ok_def run_def by blast
    then show ?thesis using run_in_mem [OF dist, of q] in0 by (simp add: run_identity_def)
  qed
  then have same: "mr_domain_id run = mr_domain_id run0" "mr_trigger run = mr_trigger run0" by (simp_all add: run_identity_def)
  have id: "mr_id ?run = mr_id run" using mem(2) by (simp add: completed_run_def)
  have in1: "run_in (t_runs db) (mr_id ?run) = Some run0" using in0 id by simp
  have rowid: "dm_id row = ?D" "dm_id row' = ?D" using domain_of_Some [OF row] by (simp_all add: row'_def)
  have dof: "domain_of db' k = (if k = ?D then Some row' else domain_of db k)" for k
    using domain_of_set_domain [of db row' k] row rowid dom by (simp add: domain_of_def)
  have fields: "rs_run_id r = mr_id run" "rs_domain_id r = ?D" "rs_vantage_key r = ''local-primary''" by (simp_all add: r_def result_of_def)
  have fresh: "mr_id run \<notin> rs_run_id ` set (t_results db)" using ok(3) mem run0(2) unfolding results_ok_def by fastforce
  have "domain_ok db'" by (rule domain_ok_observed [OF ok(7) _ dom [unfolded row'_def] sch]) (simp add: row rowid)
  moreover have "runs_ok db'"
    by (rule runs_ok_replace [OF ok(1) in1 _ rok rns]) (simp_all add: dof out)
  moreover have "executions_ok xs (t_runs db')"
    unfolding rns using ok(2) replace_keys(2) [OF dist in1] by (simp add: executions_ok_def)
  moreover have "results_ok (t_runs db') (t_results db')"
  proof -
    have sets: "set (t_runs db') = insert ?run (set (t_runs db) - {run0})" unfolding rns by (rule set_replace(1) [OF dist in1])
    have ids: "mr_id ` set (t_runs db') = mr_id ` set (t_runs db)" unfolding rns using set_replace(2) [OF dist in1] by (metis list.set_map)
    have "mr_status q = ''completed'' \<longleftrightarrow> mr_id q \<in> rs_run_id ` set (t_results db')" if "q \<in> set (t_runs db')" for q
    proof (cases "q = ?run")
      case True
      then show ?thesis using id fields(1) res by simp
    next
      case False
      then have q: "q \<in> set (t_runs db)" "q \<noteq> run0" using that sets by blast+
      then have "mr_id q \<noteq> mr_id run" using run_in_mem [OF dist q(1)] in0 by auto
      then show ?thesis using ok(3) q(1) fields(1) unfolding results_ok_def res by auto
    qed
    moreover have "\<forall>q \<in> set (t_results db'). persistable (observation_of q) \<and> rs_vantage_key q = ''local-primary'' \<and> rs_run_id q \<in> mr_id ` set (t_runs db')"
      unfolding ids res using ok(3) result_persistable [OF rs] fields imageI [OF mem(1), of mr_id, unfolded mem(2)] unfolding results_ok_def by auto
    moreover have "distinct (map rs_run_id (t_results db'))" using ok(3) fresh fields(1) unfolding results_ok_def res by simp
    ultimately show ?thesis unfolding results_ok_def by blast
  qed
  moreover have "leases_ok (whole_milliseconds (mc_QueueLease cfg)) (me_db_now env) (t_runs db')"
    by (rule leases_fewer [OF ok(6)]) (use set_replace(1) [OF dist in1] in \<open>auto simp: rns\<close>)
  moreover have "incidents_ok db' \<and> observed_ok cfg db'"
  proof -
    define h where "h = advance_all ?m ?n (observations (t_runs db) (t_results db) ?D)"
    have hr: "observed_columns row = columns_of h" using spec [OF ok(5) [unfolded observed_ok_def], of ?D] row by (simp add: h_def)
    have s: "s = Advance (resume ?m ?n h (mr_trigger run \<noteq> ''manual'', d))"
      unfolding s_def using effective_input_resume [OF hr [symmetric], of cfg run d] by simp
    have law: "incident_law (es_Availability h) (open_ids (t_incidents db) ?D)"
      using ok(4) row hr unfolding incidents_ok_def by (auto simp: observed_columns_def columns_of_def dest: spec [of _ ?D])
    have av: "d_Availability d \<in> set availability_values" using rs by (simp add: result_row_ok_def r_def result_of_def)
    have inc': "distinct (map ic_id incidents) \<and> (\<forall>k. k \<noteq> ?D \<longrightarrow> open_ids incidents k = open_ids (t_incidents db) k) \<and>
        incident_law (es_Availability s) (open_ids incidents ?D)"
    proof (cases "mr_trigger run = ''manual''")
      case True
      then have "es_Availability s = es_Availability h" unfolding s using Advance_ignored [of False d ?m ?n h] by simp
      then show ?thesis using man [OF True] law ok(4) by (simp add: incidents_ok_def)
    next
      case False
      then obtain events events' where a: "applyIncident (me_incidentID env) run d s ?m ?n checkedAt (t_incidents db, events) = Inr (incidents, events')" using app by blast
      have "s = Advance (resume ?m ?n h (True, d))" using s False by simp
      with applyIncident_law [OF a _ av assms(5,6) this law] show ?thesis using ok(4) by (simp add: incidents_ok_def)
    qed
    have "case domain_of db' k of None \<Rightarrow> open_ids incidents k = [] | Some q \<Rightarrow> incident_law (dm_availability q) (open_ids incidents k)" for k
      using spec [OF conjunct2 [OF ok(4) [unfolded incidents_ok_def]], of k] inc' unfolding dof by (cases "k = ?D") (simp_all add: row'_def split: option.splits)
    then have "incidents_ok db'" unfolding incidents_ok_def inc using inc' by simp
    have obs: "observations (t_runs db') (t_results db) k = observations (t_runs db) (t_results db) k" for k
      unfolding rns by (rule observations_cong, unfold run_in_replace) (simp add: in0 [folded mem(2)] completed_run_def)
    have qual: "qualifies (t_runs db') r = (mr_trigger run \<noteq> ''manual'')"
      unfolding qualifies_def rns run_in_replace fields(1) using in0 id same by (simp add: completed_run_def)
    have "columns_of s = columns_of (Advance (resume ?m ?n h (mr_trigger run \<noteq> ''manual'', observation_of r)))"
      unfolding s by (rule Advance_cong [OF result_persistable [OF rs]]) (simp_all add: r_def result_of_def observation_of_def)
    then have "observed_columns row' = columns_of (advance_all ?m ?n (observations (t_runs db') (t_results db') ?D))"
      unfolding row'_def observed_row_columns res observations_snoc obs using fields(2) qual h_def by simp
    moreover have "observations (t_runs db') (t_results db') k = observations (t_runs db) (t_results db) k" if "k \<noteq> ?D" for k
      unfolding res observations_snoc obs using fields(2) that by simp
    ultimately have "case domain_of db' k of None \<Rightarrow> observations (t_runs db') (t_results db') k = []
        | Some q \<Rightarrow> observed_columns q = columns_of (advance_all ?m ?n (observations (t_runs db') (t_results db') k))" for k
      using spec [OF ok(5) [unfolded observed_ok_def], of k] unfolding dof by (cases "k = ?D") (simp_all split: option.splits)
    with \<open>incidents_ok db'\<close> show ?thesis unfolding observed_ok_def by simp
  qed
  ultimately show "tables_ok cfg xs (me_db_now env) db'" by (simp add: tables_ok_def)
qed

lemma more_fields:
  assumes "domain_db.more db' = domain_db.more (db :: monitor_db)"
  shows "t_runs db' = t_runs db" "t_outbox db' = t_outbox db" "t_results db' = t_results db" "t_incidents db' = t_incidents db"
  using assms by (cases db, cases db', simp)+

lemma columns_availability: "observed_columns r' = observed_columns r \<Longrightarrow> dm_availability r' = dm_availability r"
  by (simp add: observed_columns_def)

lemma unobserved_columns: "unobserved = columns_of never_checked"
  by (simp add: unobserved_def columns_of_def never_checked_def)

lemma inventory_ok:
  assumes "call_result N allow L (env, call) db = Inr (v, db')" "tables_ok cfg xs t db"
  shows "tables_ok cfg xs t db'"
proof -
  have ok: "runs_ok db" "incidents_ok db" "observed_ok cfg db" "domain_ok db" using assms(2) by (simp_all add: tables_ok_def)
  note f = more_fields [OF call_observed(1) [OF assms(1) ok(4)]]
  note kept = call_observed(2) [OF assms(1) ok(4)] and new = call_observed(3) [OF assms(1) ok(4)]
  have "runs_ok db'" using ok(1) kept unfolding runs_ok_def f by fastforce
  moreover have "incidents_ok db'"
    unfolding incidents_ok_def f
  proof (intro conjI allI)
    show "distinct (map ic_id (t_incidents db))" using ok(2) by (simp add: incidents_ok_def)
    fix k
    have k: "case domain_of db k of None \<Rightarrow> open_ids (t_incidents db) k = [] | Some r \<Rightarrow> incident_law (dm_availability r) (open_ids (t_incidents db) k)"
      using ok(2) by (simp add: incidents_ok_def)
    show "case domain_of db' k of None \<Rightarrow> open_ids (t_incidents db) k = [] | Some r \<Rightarrow> incident_law (dm_availability r) (open_ids (t_incidents db) k)"
    proof (cases "domain_of db k")
      case (Some r)
      then obtain r' where "domain_of db' k = Some r'" "dm_availability r' = dm_availability r" using kept columns_availability by blast
      then show ?thesis using k Some by simp
    next
      case None
      then show ?thesis using k new [OF None]
        by (cases "domain_of db' k") (auto simp: incident_law_def observed_columns_def unobserved_def)
    qed
  qed
  moreover have "observed_ok cfg db'"
    unfolding observed_ok_def f
  proof (intro allI)
    fix k
    let ?h = "observations (t_runs db) (t_results db) k"
    have k: "case domain_of db k of None \<Rightarrow> ?h = [] | Some r \<Rightarrow> observed_columns r = columns_of (advance_all (mc_OpenFailures cfg) (mc_CloseSuccess cfg) ?h)"
      using ok(3) by (simp add: observed_ok_def)
    show "case domain_of db' k of None \<Rightarrow> ?h = [] | Some r \<Rightarrow> observed_columns r = columns_of (advance_all (mc_OpenFailures cfg) (mc_CloseSuccess cfg) ?h)"
    proof (cases "domain_of db k")
      case (Some r)
      then obtain r' where "domain_of db' k = Some r'" "observed_columns r' = observed_columns r" using kept by blast
      then show ?thesis using k Some by simp
    next
      case None
      then show ?thesis using k new [OF None] by (cases "domain_of db' k") (simp_all add: unobserved_columns)
    qed
  qed
  ultimately show ?thesis using assms(2) call_ok [OF assms(1) ok(4)] by (simp add: tables_ok_def f)
qed

lemma outbox_exec_keys: "ob_key ` set rows \<subseteq> ob_key ` set (outbox_exec e rows)"
proof -
  have id: "ob_key ` set (map f rows) = ob_key ` set rows" if "keeps_identity f" for f
    using map_identity(2) [OF that, of rows] by (metis list.set_map)
  show ?thesis
  proof (cases e)
    case (Enqueue i now key ty stream payload)
    then show ?thesis by (cases "EnqueueTx i now key ty stream payload rows") (auto dest: EnqueueTx_keys)
  next
    case (Claim d now skipped)
    then show ?thesis using id [OF lock_rows_identity [of d now skipped rows]] claim_rows [of d now skipped rows] by (metis equalityD2 outbox_exec.simps(2))
  next
    case (Mark_dispatched d now i)
    then show ?thesis
      using id [OF mark_identity(1) [of d now i]] mark_rows(1) [of d now i rows] by (cases "markDispatched d now i rows") (simp, metis Mark_dispatched equalityD2 outbox_exec.simps(3) sum.case(2))
  next
    case (Mark_failure d now jitter i err)
    then show ?thesis
      using id [OF mark_identity(2) [of d now jitter i err]] mark_rows(2) [of d now jitter i err rows]
      by (cases "markFailure d now jitter i err rows") (simp, metis Mark_failure equalityD2 outbox_exec.simps(4) sum.case(2))
  qed
qed

lemma keep_ok:
  assumes "tables_ok cfg xs t db" "t \<le> u" "\<And>db'. r = Inr db' \<Longrightarrow> tables_ok cfg xs u db'"
  shows "tables_ok cfg xs u (keep db r)"
  using tables_later [OF assms(1,2)] assms(3) by (cases r) (simp_all add: keep_def)

lemma monitor_step_ok:
  assumes "monitor_trans M e w w'" "monitor_ok (ms_config M) w" "1 \<le> mc_OpenFailures (ms_config M)" "1 \<le> mc_CloseSuccess (ms_config M)"
  shows "monitor_ok (ms_config M) w'"
proof -
  have ok: "tables_ok (ms_config M) (mw_executions w) (mw_clock w) (mw_db w)" using assms(2) by (simp add: monitor_ok_tables)
  have w': "w' = monitor_exec M e w" and clock: "\<And>t. step_clock e = Some t \<Longrightarrow> mw_clock w \<le> t" using assms(1) by (simp_all add: monitor_trans_def)
  show ?thesis
  proof (cases e)
    case (DoSchedule env skipped)
    have le: "mw_clock w \<le> me_db_now env" using clock by (simp add: DoSchedule)
    have "tables_ok (ms_config M) (mw_executions w) (me_db_now env) (keep (mw_db w) (map_sum id snd (ScheduleDue (ms_uuid M) (ms_config M) env skipped (mw_db w))))"
      by (rule keep_ok [OF ok le]) (auto simp: map_sum_Inr intro: ScheduleDue_ok tables_later [OF ok le])
    then show ?thesis by (simp add: monitor_ok_tables w' DoSchedule)
  next
    case (DoManual env i u q k a)
    have le: "mw_clock w \<le> me_db_now env" using clock by (simp add: DoManual)
    have "tables_ok (ms_config M) (mw_executions w) (me_db_now env) (keep (mw_db w) (map_sum id (\<lambda>(_, _, db). db)
        (createManualRun (ms_uuid M) (ms_audit M) (ms_config M) env i u q k a (mw_db w))))"
      by (rule keep_ok [OF ok le]) (auto simp: map_sum_Inr intro: createManualRun_ok tables_later [OF ok le])
    then show ?thesis by (simp add: monitor_ok_tables w' DoManual)
  next
    case (DoClaim env i worker)
    have le: "mw_clock w \<le> me_db_now env" using clock by (simp add: DoClaim)
    obtain outcome db where c: "ClaimExecution (ms_config M) env i worker (mw_db w) = (outcome, db)" by (cases "ClaimExecution (ms_config M) env i worker (mw_db w)")
    from ClaimExecution_ok [OF c ok le] show ?thesis by (cases outcome) (simp_all add: monitor_ok_tables w' DoClaim c)
  next
    case (DoComplete env k ev)
    have le: "mw_clock w \<le> me_db_now env" using clock by (simp add: DoComplete)
    show ?thesis
    proof (cases "k < length (mw_executions w)")
      case True
      have "tables_ok (ms_config M) (mw_executions w) (me_db_now env) (keep (mw_db w) (CompleteRun (ms_config M) env (mw_executions w ! k) ev (mw_db w)))"
        by (rule keep_ok [OF ok le]) (rule CompleteRun_ok [OF _ ok nth_mem [OF True] le assms(3,4)])
      then show ?thesis using True by (simp add: monitor_ok_tables w' DoComplete)
    next
      case False
      then show ?thesis using assms(2) by (simp add: w' DoComplete)
    qed
  next
    case (DoFail env i code message)
    have le: "mw_clock w \<le> me_db_now env" using clock by (simp add: DoFail)
    have "tables_ok (ms_config M) (mw_executions w) (me_db_now env) (keep (mw_db w) (FailRun env i code message (mw_db w)))"
      by (rule keep_ok [OF ok le]) (rule FailRun_ok [OF _ ok le])
    then show ?thesis by (simp add: monitor_ok_tables w' DoFail)
  next
    case (DoInventory env call)
    have "tables_ok (ms_config M) (mw_executions w) (mw_clock w) (keep (mw_db w) (map_sum id snd (call_result (ms_normalize M) (ms_allow M) (ms_domain_audit M) (env, call) (mw_db w))))"
      by (rule keep_ok [OF ok order_refl]) (auto simp: map_sum_Inr intro: inventory_ok [OF _ ok])
    then show ?thesis by (simp add: monitor_ok_tables w' DoInventory)
  next
    case (DoOutbox q)
    have "domain_ok (mw_db w)" using ok by (simp add: tables_ok_def)
    then have "tables_ok (ms_config M) (mw_executions w) (mw_clock w) ((mw_db w)\<lparr>t_outbox := outbox_exec q (t_outbox (mw_db w))\<rparr>)"
      by (intro tables_same [OF ok]) (simp_all add: domain_ok_def outbox_exec_keys)
    then show ?thesis by (simp add: monitor_ok_tables w' DoOutbox)
  qed
qed

lemma monitor_start_ok: "monitor_start w \<Longrightarrow> monitor_ok cfg w"
proof -
  assume w: "monitor_start w"
  have "observed_columns r = unobserved" if "domain_of (mw_db w) d = Some r" for d r
    using w domain_of_Some [OF that] by (simp add: monitor_start_def list_all_iff)
  then show ?thesis using w
    by (auto simp: monitor_start_def monitor_ok_def runs_ok_def executions_ok_def results_ok_def leases_ok_def incidents_ok_def observed_ok_def
        observations_def open_ids_def incident_law_def unobserved_columns columns_of_def never_checked_def observed_columns_def unobserved_def split: option.splits)
qed

text \<open>A state that the system reaches, with thresholds that the configuration accepts.\<close>

definition reached :: "monitor_setting \<Rightarrow> monitor_world \<Rightarrow> monitor_step list \<Rightarrow> monitor_world \<Rightarrow> bool" where
  "reached M w steps w' = (monitor_start w \<and> runs (monitor_trans M) w steps w' \<and> 1 \<le> mc_OpenFailures (ms_config M) \<and> 1 \<le> mc_CloseSuccess (ms_config M))"

lemma reached_ok: "reached M w steps w' \<Longrightarrow> monitor_ok (ms_config M) w'"
  unfolding reached_def by (elim conjE, rule runs_invariant [of "monitor_trans M" w steps w']) (auto intro: monitor_start_ok monitor_step_ok)

end
