(* ===== verification/Monitoring.thy ===== *)
theory Monitoring
  imports Monitorinv
begin

text \<open>
  The properties of the monitoring, over every sequence of steps that schedulers, users, workers, dispatchers and the inventory make.
\<close>

section \<open>A run that expires before it starts\<close>

lemma insert_run_grows: "insert_run failure r db = Inr (inserted, db') \<Longrightarrow> \<exists>rest. t_runs db' = t_runs db @ rest"
  using insert_run_new(1) [of failure r db inserted db'] insert_run_old [of failure r db inserted db'] by (cases inserted) simp_all

lemma enqueue_job_runs: "enqueue_job ustr cfg i now key runID db = Inr db' \<Longrightarrow> t_runs db' = t_runs db"
  using enqueue_job_Inr [of ustr cfg i now key runID db db'] by auto

lemma schedule_one_runs:
  assumes "schedule_one ustr cfg env (c, db) (k, s) = Inr (c', db')"
  shows "\<exists>rest. t_runs db' = t_runs db @ rest"
proof -
  obtain r inserted db1 db2 key runID where ins: "insert_run ''create scheduled monitoring run'' r db = Inr (inserted, db1)"
    and enq: "(if inserted then enqueue_job ustr cfg (me_outboxID env k) (me_db_now env) key runID db1 else Inr db1) = Inr db2"
    and db': "t_runs db' = t_runs db2"
    using assms unfolding schedule_one_def prod.case Let_def
    by (auto simp only: bind_result_Inr split_paired_all prod.case sum.inject prod.inject) simp
  have "t_runs db2 = t_runs db1" using enq enqueue_job_runs by (cases inserted) auto
  then show ?thesis using insert_run_grows [OF ins] db' by simp
qed

lemma ScheduleDue_runs:
  assumes "ScheduleDue ustr cfg env skipped db = Inr (c, db')"
  shows "\<exists>rest. t_runs db' = t_runs db @ rest"
proof -
  have "(\<lambda>(_, db'). \<exists>rest. t_runs db' = t_runs db @ rest) (c, db')"
    by (rule each_invariant [OF assms [unfolded ScheduleDue_def]]) (auto dest: schedule_one_runs)
  then show ?thesis by simp
qed

lemma createManualRun_runs:
  assumes "createManualRun ustr L cfg env domainID userID requestID key action db = Inr (run, created, db')"
  shows "\<exists>rest. t_runs db' = t_runs db @ rest"
proof -
  obtain r entry db1 k runID where ins: "insert_run ''create manual monitoring run'' r db = Inr (created, db1)"
    and enq: "(if created then bind_result (enqueue_job ustr cfg (me_outboxID env 0) (me_db_now env) k runID db1) (\<lambda>db2.
        map_sum ErrStatement (\<lambda>log. db2\<lparr>t_audit := log\<rparr>) (AppendTx L (me_auditID env) (me_audit_now env) entry (t_audit db2))) else Inr db1) = Inr db'"
    using assms unfolding createManualRun_def Let_def
    by (auto simp only: bind_result_Inr split_paired_all prod.case sum.inject prod.inject)
  have "t_runs db' = t_runs db1"
  proof (cases created)
    case True
    then obtain db2 log where "enqueue_job ustr cfg (me_outboxID env 0) (me_db_now env) k runID db1 = Inr db2" "db' = db2\<lparr>t_audit := log\<rparr>"
      using enq by (auto simp only: if_True bind_result_Inr map_sum_Inr)
    then show ?thesis using enqueue_job_runs by simp
  qed (use enq in simp)
  then show ?thesis using insert_run_grows [OF ins] by simp
qed

lemma run_in_grown: "run_in rows i = Some r \<Longrightarrow> run_in (rows @ rest) i = Some r"
  using run_in_append [of i rows rest] run_in_Some [of rows i r] by force

lemma run_in_other: "mr_id r \<noteq> i \<Longrightarrow> run_in (replace_run r rows) i = run_in rows i"
  by (simp add: run_in_replace)

lemma run_of_replaced:
  assumes "run_of db j = Some q" "mr_id r = mr_id q" "j \<noteq> i"
  shows "run_of (db\<lparr>t_runs := replace_run r (t_runs db)\<rparr>) i = run_of db i"
proof -
  have "mr_id r \<noteq> i" using run_in_Some [OF assms(1) [unfolded run_of_in]] assms(2,3) by simp
  then show ?thesis using run_in_other [of r i "t_runs db"] by (simp add: run_of_in)
qed

lemma ClaimExecution_other:
  assumes "ClaimExecution cfg env j worker db = (outcome, db')" "j \<noteq> i"
  shows "run_of db' i = run_of db i"
  using assms(1)
proof (cases rule: ClaimExecution_cases)
  case (failed q r)
  have "mr_id r = mr_id q" using failed(5) by (auto simp: expired_run_def exhausted_run_def)
  then show ?thesis unfolding failed(6) by (rule run_of_replaced [OF failed(1) _ assms(2)])
next
  case (claimed q x)
  show ?thesis unfolding claimed(7) by (rule run_of_replaced [OF claimed(1) _ assms(2)]) (simp add: claimed_run_def)
qed simp

lemma FailRun_Inr:
  assumes "FailRun env j code message db = Inr db'"
  shows "db' = db \<or> (\<exists>q r. run_of db j = Some q \<and> mr_id r = mr_id q \<and> mr_started_at r = mr_started_at q \<and> mr_completed_at r \<noteq> None \<and>
    run_row_ok r \<and> db' = db\<lparr>t_runs := replace_run r (t_runs db)\<rparr>)"
proof (cases "run_of db j")
  case (Some q)
  define r where "r = q\<lparr>mr_status := ''failed'', mr_completed_at := Some (me_db_now env), mr_error_code := Some code,
         mr_error_message := Some (take 1000 (trim_space message)), mr_worker_id := None, mr_heartbeat_at := None\<rparr>"
  have fields: "mr_id r = mr_id q" "mr_started_at r = mr_started_at q" "mr_completed_at r \<noteq> None" by (simp_all add: r_def)
  have "(if mr_status q = ''completed'' then Inr db else update_run ''fail monitoring run'' r db) = Inr db'"
    using assms by (simp only: FailRun_def Let_def bind_result_Inr Some option.case r_def) blast
  then have "db' = db \<or> run_row_ok r \<and> db' = db\<lparr>t_runs := replace_run r (t_runs db)\<rparr>"
    by (cases "mr_status q = ''completed''") (simp_all only: update_run_Inr if_True if_False sum.inject simp_thms)
  then show ?thesis using Some fields by blast
qed (use assms in \<open>simp add: FailRun_def bind_result_Inr Let_def\<close>)

lemma set_domain_ids: "dm_id ` set (t_domains (set_domain r db)) = dm_id ` set (t_domains db)"
proof -
  have "map dm_id (t_domains (set_domain r db)) = map dm_id (t_domains db)" by (simp add: set_domain_def)
  then show ?thesis by (metis list.set_map)
qed

text \<open>A step that is not a claim before the deadline.\<close>

fun claims_before :: "uuid \<Rightarrow> gotime \<Rightarrow> monitor_step \<Rightarrow> bool" where
  "claims_before i deadline (DoClaim env j _) = (j = i \<and> me_now env < deadline)"
| "claims_before _ _ _ = False"

definition never_started :: "run_row \<Rightarrow> bool" where
  "never_started run = (mr_status run = ''queued'' \<and> mr_started_at run = None)"

lemma never_started_unfailed: "never_started run \<Longrightarrow> \<not> run_row_ok (expired_run now run)"
  by (simp add: never_started_def run_row_ok_def expired_run_def)

lemma keep_runs:
  assumes "run_of db i = Some run" "\<And>db'. r = Inr db' \<Longrightarrow> run_of db' i = Some run"
  shows "run_of (keep db r) i = Some run"
  using assms by (cases r) (simp_all add: keep_def)

lemma claim_expired:
  assumes "run_of db i = Some run" "never_started run" "domain_of db (mr_domain_id run) \<noteq> None" "mr_deadline_at run \<le> me_now env"
  shows "ClaimExecution cfg env i worker db = (Inl (ErrStatement ''expire monitoring run''), db)"
proof -
  obtain d where d: "domain_of db (mr_domain_id run) = Some d" using assms(3) by blast
  have u: "update_run ''expire monitoring run'' (expired_run (me_db_now env) run) db = Inl (ErrStatement ''expire monitoring run'')"
    using never_started_unfailed [OF assms(2)] by (simp add: update_run_def ensure_def bind_result_def)
  have s: "mr_status run = ''queued''" "\<not> mr_deadline_at run > me_now env" using assms(2,4) by (simp_all add: never_started_def)
  show ?thesis unfolding ClaimExecution_def assms(1) d option.case s(1) if_P [OF s(2)] u by (simp add: committed_def)
qed

lemma stuck_step:
  assumes "monitor_trans M e w w'" "monitor_ok (ms_config M) w" "run_of (mw_db w) i = Some run" "never_started run"
    and "\<not> claims_before i (mr_deadline_at run) e"
  shows "run_of (mw_db w') i = Some run"
proof -
  have w': "w' = monitor_exec M e w" using assms(1) by (simp add: monitor_trans_def)
  have ok: "domain_ok (mw_db w)" "runs_ok (mw_db w)" using assms(2) by (simp_all add: monitor_ok_def)
  note run = assms(3) [unfolded run_of_in]
  have id: "mr_id run = i" "run \<in> set (t_runs (mw_db w))" using run_in_Some [OF run] by simp_all
  have idle: "mr_status run \<noteq> ''running''" "mr_status run \<noteq> ''completed''" using assms(4) by (simp_all add: never_started_def)
  show ?thesis
  proof (cases e)
    case (DoSchedule env skipped)
    show ?thesis unfolding w' DoSchedule monitor_exec.simps
      by (simp, rule keep_runs [OF assms(3)]) (auto simp: map_sum_Inr run_of_in run run_in_grown dest: ScheduleDue_runs)
  next
    case (DoManual env d u q k a)
    show ?thesis unfolding w' DoManual monitor_exec.simps
      by (simp, rule keep_runs [OF assms(3)]) (auto simp: map_sum_Inr run_of_in run run_in_grown dest: createManualRun_runs)
  next
    case (DoClaim env j worker)
    obtain outcome db where c: "ClaimExecution (ms_config M) env j worker (mw_db w) = (outcome, db)" by fastforce
    have "run_of db i = Some run"
    proof (cases "j = i")
      case True
      have "domain_of (mw_db w) (mr_domain_id run) \<noteq> None" using ok(2) id(2) unfolding runs_ok_def by blast
      moreover have "mr_deadline_at run \<le> me_now env" using assms(5) True by (simp add: DoClaim)
      ultimately show ?thesis using claim_expired [OF assms(3,4)] c assms(3) unfolding True by simp
    next
      case False
      then show ?thesis using ClaimExecution_other [OF c, of i] assms(3) by simp
    qed
    then show ?thesis by (cases outcome) (simp_all add: w' DoClaim c)
  next
    case (DoComplete env k ev)
    show ?thesis unfolding w' DoComplete monitor_exec.simps
    proof (cases "k < length (mw_executions w)", simp_all only: if_True if_False)
      have "run_of db' i = Some run" if c: "CompleteRun (ms_config M) env (mw_executions w ! k) ev (mw_db w) = Inr db'" for db'
        using c
      proof (rule CompleteRun_Inr)
        fix run0
        assume r0: "run_of (mw_db w) (mr_id (xc_Run (mw_executions w ! k))) = Some run0" "mr_status run0 = ''running''"
          and t: "t_runs db' = replace_run (completed_run (me_db_now env) run0) (t_runs (mw_db w))"
        have "mr_id run0 \<noteq> i" using r0 run idle(1) run_in_Some [OF r0(1) [unfolded run_of_in]] by (auto simp: run_of_in)
        then have "mr_id (completed_run (me_db_now env) run0) \<noteq> i" by (simp add: completed_run_def)
        from run_in_other [OF this, of "t_runs (mw_db w)"] show ?thesis unfolding run_of_in t run .
      qed
      then show "run_of (mw_db (w\<lparr>mw_db := keep (mw_db w) (CompleteRun (ms_config M) env (mw_executions w ! k) ev (mw_db w)), mw_clock := me_db_now env\<rparr>)) i = Some run"
        by (simp, intro keep_runs [OF assms(3)]) simp
    qed (rule assms(3))
  next
    case (DoFail env j code message)
    have "run_of db' i = Some run" if f: "FailRun env j code message (mw_db w) = Inr db'" for db'
    proof (cases "j = i")
      case True
      then have "db' = mw_db w" using FailRun_Inr [OF f] assms(3,4) by (auto simp: run_row_ok_def never_started_def)
      then show ?thesis using assms(3) by simp
    next
      case False
      then show ?thesis using FailRun_Inr [OF f] assms(3) run_of_replaced [of "mw_db w" j _ _ i] by auto
    qed
    then show ?thesis unfolding w' DoFail monitor_exec.simps by (simp, intro keep_runs [OF assms(3)]) simp
  next
    case (DoInventory env call)
    have "run_of db' i = Some run" if "call_result (ms_normalize M) (ms_allow M) (ms_domain_audit M) (env, call) (mw_db w) = Inr (v, db')" for v db'
      using more_fields(1) [OF call_observed(1) [OF that ok(1)]] run by (simp add: run_of_in)
    then show ?thesis unfolding w' DoInventory monitor_exec.simps by (simp, intro keep_runs [OF assms(3)]) (auto simp: map_sum_Inr)
  qed (use assms(3) in \<open>simp add: w' run_of_in\<close>)
qed

section \<open>A sample\<close>

text \<open>One domain is scheduled, its run is claimed, and a check that finds it unavailable opens an incident.\<close>

definition sample_monitor_config :: monitor_config where
  "sample_monitor_config = \<lparr>mc_PolicyVersion = ''p'', mc_RunTimeout = 60 * second, mc_DNSAttemptTimeout = second, mc_HTTPChainTimeout = second,
     mc_MaxAttempts = 3, mc_MaxRedirects = 5, mc_MaxBodyBytes = 100, mc_ExcerptBytes = 10, mc_OpenFailures = 1, mc_CloseSuccess = 2,
     mc_QueueLease = 30 * second, mc_OutboxMaxAttempts = 5, mc_OutboxStream = ''s'', mc_BatchSize = 10\<rparr>"

definition sample_monitor_env :: "int \<Rightarrow> monitor_env" where
  "sample_monitor_env t = \<lparr>me_now = t, me_db_now = t, me_locked = True, me_newID = (\<lambda>_. 7), me_outboxID = (\<lambda>_. 7), me_checkID = (\<lambda>_. 7),
     me_incidentID = 7, me_auditID = 7, me_audit_now = t\<rparr>"

definition sample_setting :: monitor_setting where
  "sample_setting = \<lparr>ms_uuid = (\<lambda>_. ''u''), ms_audit = \<lparr>al_marshal = (\<lambda>_. Some ''{}''), al_canonical = hp_ID, al_sha256 = (\<lambda>s. s), al_hex = (\<lambda>s. s),
       al_uuid_string = (\<lambda>_. ''u''), al_rfc3339nano = (\<lambda>_. ''''), al_jsonb = Some\<rparr>,
     ms_domain_audit = sample_domain_audit, ms_normalize = sample_normalize_lib, ms_allow = False, ms_config = sample_monitor_config\<rparr>"

definition sample_tables :: monitor_db where
  "sample_tables = domain_db.extend sample_inventory \<lparr>t_runs = [], t_outbox = [], t_results = [],
     t_evidence = \<lparr>e_dns_checks = [], e_dns_answers = [], e_http_checks = [], e_hops = [], e_tls_checks = []\<rparr>,
     t_reasons = [], t_history = [], t_incidents = [], t_incident_events = []\<rparr>"

definition sample_monitor_world :: monitor_world where
  "sample_monitor_world = \<lparr>mw_db = sample_tables, mw_executions = [], mw_clock = 0\<rparr>"

definition sample_evidence :: evidence where
  "sample_evidence = \<lparr>evd_LocalDNS = [], evd_AlternateDNS = [], evd_HTTP = \<lparr>or_HTTPS = [], or_HTTP = [], or_UsedHTTPFallback = False\<rparr>,
     evd_PinnedHTTP = None, evd_Decision = sample_decision ''UNAVAILABLE'', evd_CheckedAt = 3000\<rparr>"

definition sample_run :: run_row where
  "sample_run = new_run sample_monitor_config 7 1 ''scheduled'' ''normal'' ''monitor:u:0001-01-01T00:00:00Z:p:local'' None 0 (1000 + 60 * second)"

lemma sample_key: "schedule_key (\<lambda>_. ''u'') sample_monitor_config (hd (t_schedules sample_inventory)) = ''monitor:u:0001-01-01T00:00:00Z:p:local''"
  by code_simp

lemma sample_texts: "text_ok ''monitor:u:0001-01-01T00:00:00Z:p:local''" "text_ok ''outbox:monitor:u:0001-01-01T00:00:00Z:p:local''" "text_ok ''p''" "text_ok ''w''" "text_ok ''s''"
  "text_ok JobEventType" "not_blank ''outbox:monitor:u:0001-01-01T00:00:00Z:p:local''" "not_blank JobEventType" "not_blank ''s''"
  by code_simp+

lemma sample_unobserved: "observed_columns sample_domain_row = unobserved"
  by (simp add: observed_columns_def unobserved_def sample_domain_row_def)

lemma sample_start: "monitor_start sample_monitor_world"
proof -
  have "domain_ok sample_tables" using sample_inventory_ok by (simp add: sample_tables_def domain_ok_def domain_db.extend_def)
  moreover have "t_domains sample_tables = [sample_domain_row]" by (simp add: sample_tables_def sample_inventory_def domain_db.extend_def)
  ultimately show ?thesis using sample_unobserved
    by (simp add: monitor_start_def sample_monitor_world_def) (simp add: sample_tables_def domain_db.extend_def)
qed

lemma sample_run_fields:
  "mr_id sample_run = 7" "mr_domain_id sample_run = 1" "mr_status sample_run = ''queued''" "mr_key sample_run = ''monitor:u:0001-01-01T00:00:00Z:p:local''"
  "mr_started_at sample_run = None" "mr_trigger sample_run = ''scheduled''" "mr_attempts sample_run = 0" "mr_deadline_at sample_run = 60000001000"
  by (simp_all add: sample_run_def new_run_def stored_time_def)

lemma sample_run_ok: "run_row_ok sample_run" "run_row_ok (claimed_run 2000 ''w'' sample_run)" "run_row_ok (completed_run 3000 (claimed_run 2000 ''w'' sample_run))"
  by (simp_all add: run_row_ok_def claimed_run_def completed_run_def sample_run_def new_run_def opt_text_ok_def sample_texts stored_time_def sample_monitor_config_def)

lemma sample_scheduled:
  obtains c db where "ScheduleDue (\<lambda>_. ''u'') sample_monitor_config (sample_monitor_env 1000) {} sample_tables = Inr (c, db)"
    "t_runs db = [sample_run]" "t_domains db = [sample_domain_row]" "t_results db = []" "t_incidents db = []" "t_incident_events db = []"
    "t_evidence db = t_evidence sample_tables" "t_history db = []" "t_reasons db = []"
proof -
  let ?s = "hd (t_schedules sample_inventory)"
  have tables: "t_runs sample_tables = []" "t_outbox sample_tables = []" "t_domains sample_tables = [sample_domain_row]" "t_schedules sample_tables = [?s]"
    "t_results sample_tables = []" "t_incidents sample_tables = []" "t_incident_events sample_tables = []" "t_history sample_tables = []" "t_reasons sample_tables = []"
    by (simp_all add: sample_tables_def sample_inventory_def domain_db.extend_def)
  have s: "sc_domain_id ?s = 1" "sc_enabled ?s" "sc_next_due_at ?s = 0" "sc_priority ?s = ''normal''" by (simp_all add: sample_inventory_def)
  have d: "domain_of sample_tables (Suc 0) = Some sample_domain_row" "dm_monitoring sample_domain_row" "dm_lifecycle sample_domain_row = ''active''"
    by (simp_all add: domain_of_def tables sample_domain_row_def)
  have due: "due_schedules sample_monitor_config 1000 {} sample_tables = [?s]"
    by (simp add: due_schedules_def tables s d sample_monitor_config_def)
  have r: "new_run sample_monitor_config 7 (Suc 0) ''scheduled'' ''normal'' ''monitor:u:0001-01-01T00:00:00Z:p:local'' None 0 (1000 + mc_RunTimeout sample_monitor_config) = sample_run"
    by (simp add: sample_run_def) (simp add: sample_monitor_config_def)
  have ins: "insert_run f sample_run sample_tables = Inr (True, sample_tables\<lparr>t_runs := [sample_run]\<rparr>)" for f
    by (simp add: insert_run_def ensure_def bind_result_def sample_run_ok tables d sample_run_fields)
  obtain row where enq: "enqueue_job (\<lambda>_. ''u'') sample_monitor_config 7 1000 ''monitor:u:0001-01-01T00:00:00Z:p:local'' 7 (sample_tables\<lparr>t_runs := [sample_run]\<rparr>) =
      Inr (sample_tables\<lparr>t_runs := [sample_run], t_outbox := [row]\<rparr>)"
    using sample_texts by (simp add: enqueue_job_def EnqueueTx_def tables) (simp add: sample_monitor_config_def)
  have "ScheduleDue (\<lambda>_. ''u'') sample_monitor_config (sample_monitor_env 1000) {} sample_tables =
      Inr (1, sample_tables\<lparr>t_runs := [sample_run], t_outbox := [row], t_schedules := [advance_schedule 1000 True 7 ?s]\<rparr>)"
    by (simp add: ScheduleDue_def due schedule_one_def s slot_of_def sample_key r ins enq sample_monitor_env_def tables)
  then show ?thesis by (rule that) (simp_all add: tables)
qed

lemma sample_claimed:
  assumes "t_runs db = [sample_run]" "t_domains db = [sample_domain_row]"
  obtains x where "ClaimExecution sample_monitor_config (sample_monitor_env 2000) 7 ''w'' db = (Inr x, db\<lparr>t_runs := [claimed_run 2000 ''w'' sample_run]\<rparr>)"
    "xc_Run x = sample_run\<lparr>mr_status := ''running'', mr_attempts := 1\<rparr>"
proof -
  have run: "run_of db 7 = Some sample_run" and d: "domain_of db (Suc 0) = Some sample_domain_row"
    using assms sample_run_fields by (simp_all add: run_of_def domain_of_def sample_domain_row_def)
  have free: "\<not> another_active sample_monitor_config 2000 sample_run db" by (simp add: another_active_def assms)
  have id: "mr_id (claimed_run 2000 ''w'' sample_run) = 7" by (simp add: claimed_run_def sample_run_fields)
  have up: "update_run f (claimed_run 2000 ''w'' sample_run) db = Inr (db\<lparr>t_runs := [claimed_run 2000 ''w'' sample_run]\<rparr>)" for f
    by (simp add: update_run_def ensure_def bind_result_def sample_run_ok assms sample_run_fields id)
  let ?x = "\<lparr>xc_Run = sample_run\<lparr>mr_status := ''running'', mr_attempts := 1\<rparr>, xc_Target = \<lparr>tg_DomainASCII = dm_ascii sample_domain_row,
    tg_ExpectedContentMode = dm_content_mode sample_domain_row, tg_Observed = observed_columns sample_domain_row\<rparr>\<rparr>"
  have "ClaimExecution sample_monitor_config (sample_monitor_env 2000) 7 ''w'' db = (Inr ?x, db\<lparr>t_runs := [claimed_run 2000 ''w'' sample_run]\<rparr>)"
    unfolding ClaimExecution_def run option.case sample_run_fields
    by (simp add: d sample_monitor_env_def free up sample_run_fields) (simp add: sample_monitor_config_def)
  then show ?thesis by (rule that) simp
qed

abbreviation sample_observed :: domain_row where
  "sample_observed \<equiv> sample_domain_row\<lparr>dm_availability := ''UNAVAILABLE'', dm_dns := ''OK'', dm_http := ''OK'', dm_redirect := ''NONE'',
     dm_tls := ''VALID'', dm_content := ''VALID_HTML'', dm_confidence := 75, dm_failures := 1, dm_last_checked := Some 3000, dm_updated_at := 3000\<rparr>"

lemma sample_advance:
  fixes run :: run_row
  assumes "mr_trigger run = ''scheduled''"
  defines "s \<equiv> Advance (effective_input_of sample_monitor_config run (sample_decision ''UNAVAILABLE'') sample_domain_row)"
  shows "observed_row 3000 3000 s sample_domain_row = sample_observed" "es_Availability s = ''UNAVAILABLE''" "es_FailureStreak s = 1"
    "es_Confidence s = 75"
  unfolding s_def using assms(1)
  by (simp_all add: effective_input_of_def sample_monitor_config_def sample_domain_row_def sample_decision_def Advance_def Let_def observed_row_def
      observedOrCurrent_def nullableString_def stored_time_def advance_availability_def trim_space_def)

lemma persistHistory_total:
  assumes "0 \<le> es_Confidence after" "es_Confidence after \<le> 99" "text_ok (mr_policy_version run)" "list_all json_text_ok reasons"
  shows "\<exists>rows'. persistHistory run before after reasons t rows = Inr rows'"
proof -
  have "\<exists>rows'. each (\<lambda>rows dimension. bind_result (ensure (e dimension) True) (\<lambda>_. Inr (rows @ [f dimension]))) rows xs = Inr rows'"
    for e :: "string \<Rightarrow> monitor_error" and f :: "string \<Rightarrow> history_row" and rows xs
    by (induction xs arbitrary: rows) (simp_all add: ensure_def)
  then show ?thesis unfolding persistHistory_def using assms by simp
qed

lemma sample_finish:
  assumes "t_runs db = [claimed_run 2000 ''w'' sample_run]"
  shows "finish_run (sample_monitor_env 3000) 7 db = Inr (db\<lparr>t_runs := [completed_run 3000 (claimed_run 2000 ''w'' sample_run)]\<rparr>)"
proof -
  let ?c = "claimed_run 2000 ''w'' sample_run"
  have "mr_id ?c = 7" "mr_status ?c = ''running''" "mr_id (completed_run 3000 ?c) = 7" by (simp_all add: claimed_run_def completed_run_def sample_run_fields)
  then show ?thesis by (simp add: finish_run_def run_of_def assms update_run_def sample_run_ok ensure_def bind_result_def sample_monitor_env_def)
qed

lemma sample_completed:
  assumes "t_runs db = [claimed_run 2000 ''w'' sample_run]" "t_domains db = [sample_domain_row]" "t_results db = []" "t_incidents db = []"
    and "xc_Run x = sample_run\<lparr>mr_status := ''running'', mr_attempts := 1\<rparr>"
  obtains db' r q where "CompleteRun sample_monitor_config (sample_monitor_env 3000) x sample_evidence db = Inr db'"
    "t_runs db' = [completed_run 3000 (claimed_run 2000 ''w'' sample_run)]" "t_domains db' = [sample_observed]" "t_results db' = [r]" "t_incidents db' = [q]"
    "rs_domain_id r = 1" "rs_run_id r = 7" "rs_availability r = ''UNAVAILABLE''"
proof -
  let ?E = "sample_monitor_env 3000" let ?c = "claimed_run 2000 ''w'' sample_run" let ?d = "sample_decision ''UNAVAILABLE''"
  define run where "run = sample_run\<lparr>mr_status := ''running'', mr_attempts := 1\<rparr>"
  have run: "mr_id run = 7" "mr_domain_id run = 1" "mr_trigger run = ''scheduled''" "mr_policy_version run = ''p''"
    by (simp_all add: run_def sample_run_fields) (simp add: sample_run_def new_run_def sample_monitor_config_def)
  define s where "s = Advance (effective_input_of sample_monitor_config run ?d sample_domain_row)"
  note adv = sample_advance [OF run(3), folded s_def]
  have d: "domain_of db (Suc 0) = Some sample_domain_row" using assms(2) by (simp add: domain_of_def sample_domain_row_def)
  define r where "r = result_of ?E run ?d 3000"
  have ev: "evd_Decision sample_evidence = ?d" "evd_CheckedAt sample_evidence = 3000" "d_Reasons ?d = []" by (simp_all add: sample_evidence_def sample_decision_def)
  have "result_row_ok db r"
    by (simp add: result_row_ok_def r_def result_of_def assms(1,3) run run_of_def claimed_run_def sample_run_fields sample_decision_def nullableInt_def
        nullableString_def trim_space_def status_code_ok_def stage_ok_def opt_text_ok_def sample_texts tls_values_def content_values_def)
  then have result: "record_result ?E run sample_evidence 3000 db = Inr (db\<lparr>t_results := [r]\<rparr>)"
    by (simp add: record_result_def ev ensure_def bind_result_def assms(3) flip: r_def) (simp add: persist_evidence_def sample_evidence_def attempts_of_def bind_result_def)
  have texts: "text_ok (mr_policy_version run)" using run(4) sample_texts by simp
  obtain history where history: "persistHistory run (effective_input_of sample_monitor_config run ?d sample_domain_row) s [] 3000 (t_history db) = Inr history"
    using persistHistory_total [of s run "[]"] adv(4) texts by force
  let ?db2 = "(set_domain sample_observed (db\<lparr>t_results := [r]\<rparr>))\<lparr>t_history := history\<rparr>"
  have "observed_row_ok sample_observed"
    by (simp add: observed_row_ok_def sample_domain_row_def int4_def stage_ok_def opt_text_ok_def)
  then have state: "record_state ?E run (effective_input_of sample_monitor_config run ?d sample_domain_row) s [] 3000 sample_domain_row (db\<lparr>t_results := [r]\<rparr>) = Inr ?db2"
    using history adv(1) by (simp add: record_state_def ensure_def bind_result_def Let_def sample_monitor_env_def)
  obtain q events where "applyIncident 7 run ?d s 1 2 3000 ([], t_incident_events db) = Inr ([q], events)"
    by (simp add: applyIncident_def active_incident_def adv sample_decision_def open_incident_def Let_def run incident_row_ok_def int4_def
        nullableString_def trim_space_def opt_text_ok_def insertIncidentEvent_def json_text_ok_def ensure_def bind_result_def)
  then have incident: "record_incident sample_monitor_config ?E run ?d True s 3000 ?db2 = Inr (?db2\<lparr>t_incidents := [q], t_incident_events := events\<rparr>)"
    by (simp add: record_incident_def sample_monitor_config_def sample_monitor_env_def set_domain_def assms(4))
  let ?db3 = "?db2\<lparr>t_incidents := [q], t_incident_events := events\<rparr>"
  have t3: "t_runs ?db3 = [?c]" "t_results ?db3 = [r]" "t_incidents ?db3 = [q]" "t_domains ?db3 = [sample_observed]"
    using assms(1,2) by (simp_all add: set_domain_def)
  have fin: "finish_run ?E 7 ?db3 = Inr (?db3\<lparr>t_runs := [completed_run 3000 ?c]\<rparr>)"
    by (rule sample_finish [OF t3(1)])
  have "in_Qualifying (effective_input_of sample_monitor_config run ?d sample_domain_row)" by (simp add: effective_input_of_def run)
  then have complete: "CompleteRun sample_monitor_config ?E x sample_evidence db = Inr (?db3\<lparr>t_runs := [completed_run 3000 ?c]\<rparr>)"
    using d result state incident fin by (simp add: CompleteRun_def assms(5) ev run bind_result_def require_def Let_def flip: run_def s_def)
  have "rs_domain_id r = 1" "rs_run_id r = 7" "rs_availability r = ''UNAVAILABLE''"
    by (simp_all add: r_def result_of_def run sample_decision_def)
  then show ?thesis using t3 by (intro that [OF complete, where r = r and q = q]) simp_all
qed

lemma sample_reached:
  obtains w r q where "reached sample_setting sample_monitor_world [DoSchedule (sample_monitor_env 1000) {}, DoClaim (sample_monitor_env 2000) 7 ''w'',
      DoComplete (sample_monitor_env 3000) 0 sample_evidence] w"
    "t_runs (mw_db w) = [completed_run 3000 (claimed_run 2000 ''w'' sample_run)]" "t_domains (mw_db w) = [sample_observed]"
    "t_results (mw_db w) = [r]" "t_incidents (mw_db w) = [q]" "rs_domain_id r = 1" "rs_run_id r = 7" "rs_availability r = ''UNAVAILABLE''" "mw_clock w = 3000"
proof -
  obtain k db where a: "ScheduleDue (\<lambda>_. ''u'') sample_monitor_config (sample_monitor_env 1000) {} sample_tables = Inr (k, db)"
    "t_runs db = [sample_run]" "t_domains db = [sample_domain_row]" "t_results db = []" "t_incidents db = []" by (rule sample_scheduled)
  let ?db1 = "db\<lparr>t_runs := [claimed_run 2000 ''w'' sample_run]\<rparr>"
  obtain x where b: "ClaimExecution sample_monitor_config (sample_monitor_env 2000) 7 ''w'' db = (Inr x, ?db1)"
    "xc_Run x = sample_run\<lparr>mr_status := ''running'', mr_attempts := 1\<rparr>" by (rule sample_claimed [OF a(2,3)])
  obtain db' r q where c: "CompleteRun sample_monitor_config (sample_monitor_env 3000) x sample_evidence ?db1 = Inr db'"
    "t_runs db' = [completed_run 3000 (claimed_run 2000 ''w'' sample_run)]" "t_domains db' = [sample_observed]" "t_results db' = [r]" "t_incidents db' = [q]"
    "rs_domain_id r = 1" "rs_run_id r = 7" "rs_availability r = ''UNAVAILABLE''"
    by (rule sample_completed [of ?db1 x]) (simp_all add: a b)
  let ?w1 = "\<lparr>mw_db = db, mw_executions = [], mw_clock = 1000\<rparr>"
  let ?w2 = "\<lparr>mw_db = ?db1, mw_executions = [x], mw_clock = 2000\<rparr>"
  let ?w3 = "\<lparr>mw_db = db', mw_executions = [x], mw_clock = 3000\<rparr>"
  have M: "ms_config sample_setting = sample_monitor_config" "ms_uuid sample_setting = (\<lambda>_. ''u'')" "me_db_now (sample_monitor_env t) = t" for t
    by (simp_all add: sample_setting_def sample_monitor_env_def)
  have t1: "monitor_trans sample_setting (DoSchedule (sample_monitor_env 1000) {}) sample_monitor_world ?w1"
    by (simp add: monitor_trans_def sample_monitor_world_def M a keep_def)
  have t2: "monitor_trans sample_setting (DoClaim (sample_monitor_env 2000) 7 ''w'') ?w1 ?w2" by (simp add: monitor_trans_def M b)
  have t3: "monitor_trans sample_setting (DoComplete (sample_monitor_env 3000) 0 sample_evidence) ?w2 ?w3" by (simp add: monitor_trans_def M c keep_def)
  have "runs (monitor_trans sample_setting) sample_monitor_world ([] @ [DoSchedule (sample_monitor_env 1000) {}]) ?w1"
    by (rule runs_snoc, rule runs_Nil, rule t1)
  from runs_snoc [where step = "monitor_trans sample_setting", OF runs_snoc [where step = "monitor_trans sample_setting", OF this t2] t3] have "reached sample_setting sample_monitor_world [DoSchedule (sample_monitor_env 1000) {}, DoClaim (sample_monitor_env 2000) 7 ''w'',
      DoComplete (sample_monitor_env 3000) 0 sample_evidence] ?w3"
    by (simp add: reached_def sample_start M) (simp add: sample_monitor_config_def)
  then show ?thesis by (rule that [where r = r and q = q]) (simp_all add: c)
qed

text \<open>A suite that finds no evidence.\<close>

definition sample_suite :: protocol_suite where
  "sample_suite = \<lparr>ps_local = (\<lambda>_. []), ps_alternate = (\<lambda>_. []), ps_http = (\<lambda>_ _. \<lparr>or_HTTPS = [], or_HTTP = [], or_UsedHTTPFallback = False\<rparr>),
     ps_pinned = (\<lambda>_ _ _. None)\<rparr>"

lemma sample_no_evidence:
  defines "d \<equiv> Classify [] [] \<lparr>or_HTTPS = [], or_HTTP = [], or_UsedHTTPFallback = False\<rparr>"
  shows "d_Availability d = ''UNKNOWN''" "d_DNS d = ''UNKNOWN''" "d_HTTP d = ''UNKNOWN''" "d_Redirect d = ''NONE''" "d_ISP d = ''UNKNOWN''"
    "d_TLS d = ''UNKNOWN''" "d_Content d = ''UNKNOWN''" "d_InitialHTTP d = 0" "d_FinalHTTP d = 0" "nullableString (d_FinalTarget d) = None"
    "nullableString (d_FailureStage d) = Some ''http''" "opt_text_ok (nullableString (d_ErrorCode d))" "opt_text_ok (nullableString (d_ErrorMessage d))"
    "d_Confidence d = 20" "d_ConfidenceLevel d = ''LOW''" "list_all text_ok (d_Reasons d)"
  unfolding d_def by code_simp+

lemma sample_executed:
  assumes "t_runs db = [sample_run]" "t_domains db = [sample_domain_row]" "t_results db = []" "t_incidents db = []"
  obtains db' where "Execute sample_monitor_config sample_suite ''w'' (sample_monitor_env 2000) (\<lambda>db. db) (sample_monitor_env 3000) 7 db = (Inr (), db')"
proof -
  let ?E = "sample_monitor_env 3000" let ?c = "claimed_run 2000 ''w'' sample_run" let ?db = "db\<lparr>t_runs := [?c]\<rparr>"
  obtain x where x: "ClaimExecution sample_monitor_config (sample_monitor_env 2000) 7 ''w'' db = (Inr x, ?db)"
    "xc_Run x = sample_run\<lparr>mr_status := ''running'', mr_attempts := 1\<rparr>" by (rule sample_claimed [OF assms(1,2)])
  define d where "d = Classify [] [] \<lparr>or_HTTPS = [], or_HTTP = [], or_UsedHTTPFallback = False\<rparr>"
  note nd = sample_no_evidence [folded d_def]
  define run where "run = sample_run\<lparr>mr_status := ''running'', mr_attempts := 1\<rparr>"
  have run: "mr_id run = 7" "mr_domain_id run = 1" "mr_trigger run = ''scheduled''" "mr_policy_version run = ''p''"
    by (simp_all add: run_def sample_run_fields) (simp add: sample_run_def new_run_def sample_monitor_config_def)
  define e where "e = gather sample_suite (xc_Target x) (me_now ?E)"
  have e: "e = \<lparr>evd_LocalDNS = [], evd_AlternateDNS = [], evd_HTTP = \<lparr>or_HTTPS = [], or_HTTP = [], or_UsedHTTPFallback = False\<rparr>,
      evd_PinnedHTTP = None, evd_Decision = d, evd_CheckedAt = 3000\<rparr>"
    by (simp add: e_def gather_def sample_suite_def d_def sample_monitor_env_def Let_def)
  define i where "i = effective_input_of sample_monitor_config run d sample_domain_row"
  have i: "i = resume 1 2 (never_checked) (True, d)"
    by (simp add: i_def effective_input_of_def resume_def never_checked_def run) (simp add: sample_domain_row_def sample_monitor_config_def)
  have adv: "Advance i = never_checked\<lparr>es_FailureStage := [], es_ErrorCode := [], es_OpenedIncident := False, es_ClosedIncident := False,
      es_ChangedDimensions := []\<rparr>"
    unfolding i using Advance_ignored [of True d] nd(1) by simp
  have dom: "domain_of ?db (Suc 0) = Some sample_domain_row" using assms(2) by (simp add: domain_of_def sample_domain_row_def)
  define r where "r = result_of ?E run d 3000"
  have "result_row_ok ?db r"
    by (simp add: result_row_ok_def r_def result_of_def assms run run_of_def claimed_run_def sample_run_fields nd nullableInt_def
        status_code_ok_def stage_ok_def sample_texts tls_values_def content_values_def)
  then have result: "record_result ?E run e 3000 ?db = Inr (?db\<lparr>t_results := [r], t_reasons := t_reasons ?db @ map (\<lambda>reason. (mr_id run, rs_id r, reason)) (d_Reasons d)\<rparr>)"
    using nd(16) by (simp add: record_result_def e ensure_def bind_result_def assms(3) flip: r_def) (simp add: persist_evidence_def attempts_of_def bind_result_def)
  let ?db1 = "?db\<lparr>t_results := [r], t_reasons := t_reasons ?db @ map (\<lambda>reason. (mr_id run, rs_id r, reason)) (d_Reasons d)\<rparr>"
  let ?row = "observed_row 3000 3000 (Advance i) sample_domain_row"
  have "observed_row_ok ?row"
    by (simp add: observed_row_ok_def observed_row_def adv never_checked_def int4_def stage_ok_def opt_text_ok_def nullableString_def trim_space_def)
  then have state: "record_state ?E run i (Advance i) (d_Reasons d) 3000 sample_domain_row ?db1 = Inr ((set_domain ?row ?db1)\<lparr>t_history := t_history ?db1\<rparr>)"
    by (simp add: record_state_def ensure_def bind_result_def sample_monitor_env_def persistHistory_def) (simp add: adv set_domain_def)
  let ?db2 = "(set_domain ?row ?db1)\<lparr>t_history := t_history ?db1\<rparr>"
  have incident: "record_incident sample_monitor_config ?E run d (in_Qualifying i) (Advance i) 3000 ?db2 = Inr ?db2"
    by (simp add: record_incident_def applyIncident_def nd active_incident_def set_domain_def assms(4))
  have fin: "finish_run ?E 7 ?db2 = Inr (?db2\<lparr>t_runs := [completed_run 3000 ?c]\<rparr>)"
    by (rule sample_finish) (simp add: set_domain_def)
  have "CompleteRun sample_monitor_config ?E x e ?db = Inr (?db2\<lparr>t_runs := [completed_run 3000 ?c]\<rparr>)"
    using dom result state incident fin unfolding CompleteRun_def x(2) run_def [symmetric] Let_def run
    by (simp add: require_def e flip: i_def)
  then show ?thesis using x(1) by (intro that [of "?db2\<lparr>t_runs := [completed_run 3000 ?c]\<rparr>"]) (simp add: Execute_def Let_def flip: e_def)
qed

lemma sample_queued:
  obtains w where "reached sample_setting sample_monitor_world [DoSchedule (sample_monitor_env 1000) {}] w" "t_runs (mw_db w) = [sample_run]" "mw_clock w = 1000"
proof -
  obtain k db where a: "ScheduleDue (\<lambda>_. ''u'') sample_monitor_config (sample_monitor_env 1000) {} sample_tables = Inr (k, db)" "t_runs db = [sample_run]"
    by (rule sample_scheduled)
  let ?w = "\<lparr>mw_db = db, mw_executions = [], mw_clock = 1000\<rparr>"
  have "monitor_trans sample_setting (DoSchedule (sample_monitor_env 1000) {}) sample_monitor_world ?w"
    by (simp add: monitor_trans_def sample_monitor_world_def sample_setting_def a keep_def) (simp add: sample_monitor_env_def)
  then have "runs (monitor_trans sample_setting) sample_monitor_world ([] @ [DoSchedule (sample_monitor_env 1000) {}]) ?w"
    by (intro runs_snoc [where s' = sample_monitor_world] runs_Nil)
  then have "reached sample_setting sample_monitor_world [DoSchedule (sample_monitor_env 1000) {}] ?w"
    by (simp add: reached_def sample_start sample_setting_def) (simp add: sample_monitor_config_def)
  then show ?thesis by (rule that) (simp_all add: a)
qed

abbreviation sample_steps :: "monitor_step list" where
  "sample_steps \<equiv> [DoSchedule (sample_monitor_env 1000) {}, DoClaim (sample_monitor_env 2000) 7 ''w'', DoComplete (sample_monitor_env 3000) 0 sample_evidence]"

section \<open>Properties\<close>

text \<open>C1. The state of a domain is a function of its recorded results.  Whatever the interleaving of schedules, claims, retries,
  completions and changes of the inventory, the availability, the streaks and the dimensions in the row of a domain are those that the results
  of its scheduled runs determine, in the order in which they were recorded: UNAVAILABLE from the configured number of consecutive
  failures on, ACTIVE again from the configured number of consecutive successes on, and every dimension at its last known value.  The ISP
  dimension is left out: the results of remote probes, which are not among the steps, write that column and no other.\<close>

theorem effective_state_refines:
  assumes "reached M w steps w'" "domain_of (mw_db w') i = Some r"
  shows "let h = counted (observations (t_runs (mw_db w')) (t_results (mw_db w')) i) in
    dm_availability r = history_availability (mc_OpenFailures (ms_config M)) (mc_CloseSuccess (ms_config M)) h \<and>
    dm_failures r = int (trailing observed_failure h) \<and> dm_successes r = int (trailing observed_active h) \<and>
    dm_dns r = last_known d_DNS h \<and> dm_http r = last_known d_HTTP h \<and> dm_redirect r = last_known d_Redirect h \<and>
    dm_tls r = last_known d_TLS h \<and> dm_content r = last_known d_Content h"
proof -
  let ?o = "observations (t_runs (mw_db w')) (t_results (mw_db w')) i"
  let ?s = "advance_all (mc_OpenFailures (ms_config M)) (mc_CloseSuccess (ms_config M)) ?o"
  have ok: "observed_ok (ms_config M) (mw_db w')" "results_ok (t_runs (mw_db w')) (t_results (mw_db w'))"
    using reached_ok [OF assms(1)] by (simp_all add: monitor_ok_def)
  have "observed_columns r = columns_of ?s" using spec [OF ok(1) [unfolded observed_ok_def], of i] assms(2) by simp
  moreover have "list_all (\<lambda>(q, d). persistable d) ?o" using ok(2) by (auto simp: results_ok_def observations_def list_all_iff)
  ultimately show ?thesis
    using advance_all_streaks [of ?o "mc_OpenFailures (ms_config M)" "mc_CloseSuccess (ms_config M)"]
      advance_all_dimensions [of "mc_OpenFailures (ms_config M)" "mc_CloseSuccess (ms_config M)" ?o]
    by (simp add: observed_columns_def columns_of_def Let_def)
qed

theorem effective_state_refines_witness:
  "\<exists>w r. reached sample_setting sample_monitor_world sample_steps w \<and> domain_of (mw_db w) 1 = Some r \<and> dm_availability r = ''UNAVAILABLE'' \<and>
     dm_availability r = history_availability 1 2 (counted (observations (t_runs (mw_db w)) (t_results (mw_db w)) 1)) \<and>
     1 = int (trailing observed_failure (counted (observations (t_runs (mw_db w)) (t_results (mw_db w)) 1)))"
proof -
  obtain w where w: "reached sample_setting sample_monitor_world sample_steps w" "t_domains (mw_db w) = [sample_observed]" by (rule sample_reached)
  have d: "domain_of (mw_db w) 1 = Some sample_observed" by (simp add: domain_of_def w) (simp add: sample_domain_row_def)
  have "mc_OpenFailures (ms_config sample_setting) = 1" "mc_CloseSuccess (ms_config sample_setting) = 2"
    by (simp_all add: sample_setting_def sample_monitor_config_def)
  then show ?thesis using effective_state_refines [OF w(1) d] w(1) d by (intro exI [of _ w] exI [of _ sample_observed]) (simp add: Let_def)
qed

text \<open>C2. Incidents follow the state.  A domain never has two unresolved incidents; it has one whenever it is UNAVAILABLE, and an
  unresolved incident remains only while the domain is UNAVAILABLE or still DEGRADED on its way back.\<close>

theorem incident_lifecycle:
  assumes "reached M w steps w'" "domain_of (mw_db w') i = Some r"
  shows "length (open_ids (t_incidents (mw_db w')) i) \<le> 1 \<and>
    (dm_availability r = ''UNAVAILABLE'' \<longrightarrow> open_ids (t_incidents (mw_db w')) i \<noteq> []) \<and>
    (open_ids (t_incidents (mw_db w')) i \<noteq> [] \<longrightarrow> dm_availability r \<in> {''UNAVAILABLE'', ''DEGRADED''})"
proof -
  have "incidents_ok (mw_db w')" using reached_ok [OF assms(1)] by (simp add: monitor_ok_def)
  from spec [OF conjunct2 [OF this [unfolded incidents_ok_def]], of i] assms(2) show ?thesis by (simp add: incident_law_def)
qed

theorem incident_lifecycle_witness:
  "\<exists>w. reached sample_setting sample_monitor_world sample_steps w \<and> length (open_ids (t_incidents (mw_db w)) 1) = 1"
proof -
  obtain w where w: "reached sample_setting sample_monitor_world sample_steps w" "t_domains (mw_db w) = [sample_observed]" by (rule sample_reached)
  have d: "domain_of (mw_db w) 1 = Some sample_observed" by (simp add: domain_of_def w) (simp add: sample_domain_row_def)
  have "length (open_ids (t_incidents (mw_db w)) 1) = 1" using incident_lifecycle [OF w(1) d] by (cases "open_ids (t_incidents (mw_db w)) 1") simp_all
  then show ?thesis using w(1) by blast
qed

text \<open>C3. Runs are accounted for.  A run is the only one with its deduplication key and its event was put in the outbox;
  it has one result of the local vantage if it is completed, and none otherwise, also when a job is delivered several times.\<close>

theorem run_accounting:
  assumes "reached M w steps w'" "run \<in> set (t_runs (mw_db w'))"
  shows "''outbox:'' @ mr_key run \<in> ob_key ` set (t_outbox (mw_db w')) \<and>
    filter (\<lambda>q. mr_key q = mr_key run) (t_runs (mw_db w')) = [run] \<and>
    length (filter (\<lambda>r. rs_run_id r = mr_id run \<and> rs_vantage_key r = ''local-primary'') (t_results (mw_db w'))) =
      (if mr_status run = ''completed'' then 1 else 0)"
proof -
  let ?db = "mw_db w'"
  have ok: "runs_ok ?db" "results_ok (t_runs ?db) (t_results ?db)" using reached_ok [OF assms(1)] by (simp_all add: monitor_ok_def)
  have one: "filter (\<lambda>q. f q = f x) xs = [x]" if "distinct (map f xs)" "x \<in> set xs" for f :: "'x \<Rightarrow> 'y" and x xs
    using that by (induction xs) (auto simp: filter_empty_conv image_iff)
  have key: "filter (\<lambda>q. mr_key q = mr_key run) (t_runs ?db) = [run]" using one [of mr_key "t_runs ?db" run] ok(1) assms(2) by (simp add: runs_ok_def)
  have vantage: "filter (\<lambda>r. rs_run_id r = mr_id run \<and> rs_vantage_key r = ''local-primary'') (t_results ?db) =
      filter (\<lambda>r. rs_run_id r = mr_id run) (t_results ?db)"
    using ok(2) by (intro filter_cong) (auto simp: results_ok_def)
  have "length (filter (\<lambda>r. rs_run_id r = mr_id run) (t_results ?db)) = (if mr_status run = ''completed'' then 1 else 0)"
  proof (cases "mr_status run = ''completed''")
    case True
    then obtain r where r: "r \<in> set (t_results ?db)" "rs_run_id r = mr_id run" using ok(2) assms(2) unfolding results_ok_def by (metis imageE)
    then have "filter (\<lambda>q. rs_run_id q = rs_run_id r) (t_results ?db) = [r]" using one [of rs_run_id "t_results ?db" r] ok(2) by (simp add: results_ok_def)
    then show ?thesis using True r(2) by simp
  next
    case False
    then have "mr_id run \<notin> rs_run_id ` set (t_results ?db)" using ok(2) assms(2) unfolding results_ok_def by blast
    then have "filter (\<lambda>r. rs_run_id r = mr_id run) (t_results ?db) = []" by (auto simp: filter_empty_conv image_iff)
    then show ?thesis using False by simp
  qed
  then show ?thesis using ok(1) assms(2) key vantage by (simp add: runs_ok_def)
qed

theorem run_accounting_witness:
  "\<exists>w. reached sample_setting sample_monitor_world sample_steps w \<and>
     length (filter (\<lambda>r. rs_run_id r = 7 \<and> rs_vantage_key r = ''local-primary'') (t_results (mw_db w))) = 1"
proof -
  obtain w where w: "reached sample_setting sample_monitor_world sample_steps w"
    "t_runs (mw_db w) = [completed_run 3000 (claimed_run 2000 ''w'' sample_run)]" by (rule sample_reached)
  have "mr_id (completed_run 3000 (claimed_run 2000 ''w'' sample_run)) = 7" by (simp add: completed_run_def claimed_run_def sample_run_fields)
  then show ?thesis using run_accounting [OF w(1), of "completed_run 3000 (claimed_run 2000 ''w'' sample_run)"] w by (intro exI [of _ w]) simp
qed

text \<open>C4. Checks of a domain exclude each other.  At every time of the database at most one run of a domain is running with a
  heartbeat that is younger than the lease, whatever runs workers claim, repeat or abandon.\<close>

theorem domain_lease:
  assumes "reached M w steps w'"
  shows "length (filter (\<lambda>r. mr_domain_id r = i \<and> mr_status r = ''running'' \<and>
    (case mr_heartbeat_at r of None \<Rightarrow> False | Some t \<Rightarrow> mw_clock w' - whole_milliseconds (mc_QueueLease (ms_config M)) < t)) (t_runs (mw_db w'))) \<le> 1"
proof (rule ccontr)
  let ?rr = "t_runs (mw_db w')" let ?L = "whole_milliseconds (mc_QueueLease (ms_config M))"
  let ?f = "filter (\<lambda>r. mr_domain_id r = i \<and> mr_status r = ''running'' \<and>
    (case mr_heartbeat_at r of None \<Rightarrow> False | Some t \<Rightarrow> mw_clock w' - ?L < t)) ?rr"
  assume "\<not> length ?f \<le> 1"
  then obtain a b rest where f: "?f = a # b # rest" by (cases ?f; cases "tl ?f") auto
  have ok: "runs_ok (mw_db w')" "leases_ok ?L (mw_clock w') ?rr" using reached_ok [OF assms] by (simp_all add: monitor_ok_def)
  have "distinct (map mr_id ?f)" using ok(1) by (simp add: runs_ok_def distinct_map_filter)
  then have ne: "mr_id a \<noteq> mr_id b" unfolding f by simp
  have "a \<in> set ?f" "b \<in> set ?f" unfolding f by simp_all
  then obtain t u where a: "a \<in> set ?rr" "mr_domain_id a = i" "mr_status a = ''running''" "mr_heartbeat_at a = Some t" "mw_clock w' - ?L < t"
    and b: "b \<in> set ?rr" "mr_domain_id b = i" "mr_status b = ''running''" "mr_heartbeat_at b = Some u" "mw_clock w' - ?L < u"
    by (auto split: option.splits)
  have "t \<le> mw_clock w'" "u \<le> mw_clock w'" using ok(2) a(1,3,4) b(1,3,4) unfolding leases_ok_def by fastforce+
  moreover have "t + ?L \<le> u \<or> u + ?L \<le> t" 
    using bspec [OF bspec [OF conjunct2 [OF ok(2) [unfolded leases_ok_def]] a(1)] b(1)] ne a(2-4) b(2-4) by simp
  ultimately show False using a(5) b(5) by linarith
qed

theorem domain_lease_witness:
  "\<exists>w. reached sample_setting sample_monitor_world sample_steps w \<and> mw_clock w = 3000 \<and>
     length (filter (\<lambda>r. mr_domain_id r = 1 \<and> mr_status r = ''running'' \<and>
       (case mr_heartbeat_at r of None \<Rightarrow> False | Some t \<Rightarrow> mw_clock w - whole_milliseconds (mc_QueueLease (ms_config sample_setting)) < t)) (t_runs (mw_db w))) \<le> 1"
proof -
  obtain w where w: "reached sample_setting sample_monitor_world sample_steps w" "mw_clock w = 3000" by (rule sample_reached)
  then show ?thesis using domain_lease [OF w(1), of 1] by blast
qed

text \<open>C39. A run that nobody claims before its deadline is never failed.  The claim that finds it expired marks it failed with a completion
  time, which the table refuses for a run without a start time, so the transaction fails; the same holds for \<^verbatim>\<open>FailRun\<close>.  Such a run
  stays queued for ever, and every further claim ends in the same error of the statement.\<close>

theorem expired_run_stuck:
  assumes "reached M w0 before w" "run_of (mw_db w) i = Some run" "never_started run"
    and "runs (monitor_trans M) w steps w'" "\<forall>e \<in> set steps. \<not> claims_before i (mr_deadline_at run) e"
    and "mr_deadline_at run \<le> me_now env"
  shows "run_of (mw_db w') i = Some run \<and>
    ClaimExecution (ms_config M) env i worker (mw_db w') = (Inl (ErrStatement ''expire monitoring run''), mw_db w')"
proof -
  have m: "1 \<le> mc_OpenFailures (ms_config M)" "1 \<le> mc_CloseSuccess (ms_config M)" using assms(1) by (simp_all add: reached_def)
  have w': "monitor_ok (ms_config M) w' \<and> run_of (mw_db w') i = Some run"
    by (rule runs_invariant [OF assms(4)]) (use reached_ok [OF assms(1)] assms(2,3,5) m in \<open>blast intro: monitor_step_ok stuck_step\<close>)+
  then have "domain_of (mw_db w') (mr_domain_id run) \<noteq> None"
    using run_in_Some [of "t_runs (mw_db w')" i run] by (simp add: monitor_ok_def runs_ok_def run_of_in)
  then show ?thesis using w' claim_expired [OF _ assms(3) _ assms(6)] by blast
qed

theorem expired_run_stuck_witness:
  "\<exists>w w'. reached sample_setting sample_monitor_world [DoSchedule (sample_monitor_env 1000) {}] w \<and>
     runs (monitor_trans sample_setting) w [DoClaim (sample_monitor_env 60000001000) 7 ''w''] w' \<and> run_of (mw_db w') 7 = Some sample_run \<and>
     ClaimExecution (ms_config sample_setting) (sample_monitor_env 60000002000) 7 ''w'' (mw_db w') = (Inl (ErrStatement ''expire monitoring run''), mw_db w')"
proof -
  obtain w where w: "reached sample_setting sample_monitor_world [DoSchedule (sample_monitor_env 1000) {}] w" "t_runs (mw_db w) = [sample_run]" "mw_clock w = 1000"
    by (rule sample_queued)
  let ?e = "DoClaim (sample_monitor_env 60000001000) 7 ''w''" let ?w' = "monitor_exec sample_setting ?e w"
  have run: "run_of (mw_db w) 7 = Some sample_run" "never_started sample_run" by (simp_all add: run_of_def w never_started_def sample_run_fields)
  have "monitor_trans sample_setting ?e w ?w'" unfolding monitor_trans_def by (simp add: w(3) sample_monitor_env_def)
  then have t: "runs (monitor_trans sample_setting) w ([] @ [?e]) ?w'" by (intro runs_snoc [where s' = w] runs_Nil)
  have late: "\<forall>e \<in> set ([] @ [?e]). \<not> claims_before 7 (mr_deadline_at sample_run) e" "mr_deadline_at sample_run \<le> me_now (sample_monitor_env 60000002000)"
    by (simp_all add: sample_run_fields sample_monitor_env_def)
  show ?thesis using expired_run_stuck [OF w(1) run t late] w(1) t by (intro exI [of _ w] exI [of _ ?w']) simp
qed

text \<open>C40. A job may be delivered again.  An execution that claimed its run and succeeded has recorded one result: the classification of what
  the checks found for the domain that the claim returned.  Every later execution of the same run, by any worker, reports success and changes
  nothing.\<close>

theorem redelivery_idempotent:
  assumes "ClaimExecution cfg env i worker db = (Inr x, db1)" "Execute cfg S worker env other env' i db = (Inr (), db')"
    and "\<forall>r \<in> set (t_runs (other db1)). domain_of (other db1) (mr_domain_id r) \<noteq> None"
  shows "(\<exists>t. t_results db' = t_results (other db1) @ [result_of env' (xc_Run x)
      (Classify (ps_local S (tg_DomainASCII (xc_Target x))) (ps_alternate S (tg_DomainASCII (xc_Target x)))
        (ps_http S (tg_DomainASCII (xc_Target x)) (tg_ExpectedContentMode (xc_Target x)))) t]) \<and>
    Execute cfg S' worker' env'' other' env''' i db' = (Inr (), db')"
proof -
  let ?e = "gather S (xc_Target x) (me_now env')"
  have c: "CompleteRun cfg env' x ?e (other db1) = Inr db'"
    using assms(2) unfolding Execute_def assms(1) prod.case sum.case Let_def by (simp split: sum.splits)
  from assms(1) have i: "mr_id (xc_Run x) = i"
  proof (cases rule: ClaimExecution_cases)
    case (claimed q y)
    then show ?thesis using run_in_Some [OF claimed(1) [unfolded run_of_in]] by (simp add: run_identity_def)
  qed simp_all
  have d: "evd_Decision ?e = Classify (ps_local S (tg_DomainASCII (xc_Target x))) (ps_alternate S (tg_DomainASCII (xc_Target x)))
        (ps_http S (tg_DomainASCII (xc_Target x)) (tg_ExpectedContentMode (xc_Target x)))" by (simp add: gather_def Let_def)
  from c show ?thesis
  proof (rule CompleteRun_Inr)
    fix row run0 t
    let ?r = "completed_run (me_db_now env') run0"
    assume r: "run_of (other db1) (mr_id (xc_Run x)) = Some run0" and res: "t_results db' = t_results (other db1) @ [result_of env' (xc_Run x) (evd_Decision ?e) t]"
      and rows: "t_runs db' = replace_run ?r (t_runs (other db1))"
      and dom: "t_domains db' = t_domains (set_domain (observed_row (me_db_now env') t (Advance (effective_input_of cfg (xc_Run x) (evd_Decision ?e) row)) row) (other db1))"
    have in0: "run_in (t_runs (other db1)) i = Some run0" using r i by (simp add: run_of_in)
    then have mem: "run0 \<in> set (t_runs (other db1))" "mr_id ?r = i" using run_in_Some [OF in0] by (simp_all add: completed_run_def)
    have run: "run_of db' i = Some ?r" unfolding run_of_in rows run_in_replace using in0 mem(2) by simp
    have ids: "dm_id ` set (t_domains db') = dm_id ` set (t_domains (other db1))" unfolding dom by (rule set_domain_ids)
    have "mr_domain_id run0 \<in> dm_id ` set (t_domains (other db1))"
      using bspec [OF assms(3) mem(1)] domain_of_Some by (metis imageI not_None_eq)
    then have "domain_of db' (mr_domain_id ?r) \<noteq> None"
      unfolding ids [symmetric] by (auto simp: domain_of_def find_None_iff completed_run_def)
    then have "ClaimExecution cfg env'' i worker' db' = (Inl ErrRunCompleted, db')"
      unfolding ClaimExecution_def run option.case by (auto simp: completed_run_def)
    then have "Execute cfg S' worker' env'' other' env''' i db' = (Inr (), db')" by (simp add: Execute_def)
    then show ?thesis using res d by auto
  qed
qed

theorem redelivery_idempotent_witness:
  "\<exists>db db'. Execute sample_monitor_config sample_suite ''w'' (sample_monitor_env 2000) (\<lambda>db. db) (sample_monitor_env 3000) 7 db = (Inr (), db') \<and>
     length (t_results db') = 1 \<and>
     Execute sample_monitor_config sample_suite ''v'' (sample_monitor_env 4000) (\<lambda>db. db) (sample_monitor_env 5000) 7 db' = (Inr (), db')"
proof -
  obtain k db where db: "ScheduleDue (\<lambda>_. ''u'') sample_monitor_config (sample_monitor_env 1000) {} sample_tables = Inr (k, db)"
    "t_runs db = [sample_run]" "t_domains db = [sample_domain_row]" "t_results db = []" "t_incidents db = []" by (rule sample_scheduled)
  let ?db1 = "db\<lparr>t_runs := [claimed_run 2000 ''w'' sample_run]\<rparr>"
  obtain x where x: "ClaimExecution sample_monitor_config (sample_monitor_env 2000) 7 ''w'' db = (Inr x, ?db1)" by (rule sample_claimed [OF db(2,3)])
  obtain db' where e: "Execute sample_monitor_config sample_suite ''w'' (sample_monitor_env 2000) (\<lambda>db. db) (sample_monitor_env 3000) 7 db = (Inr (), db')"
    by (rule sample_executed [OF db(2-5)])
  have "\<forall>r \<in> set (t_runs ?db1). domain_of ?db1 (mr_domain_id r) \<noteq> None"
    by (simp add: claimed_run_def sample_run_fields domain_of_def db) (simp add: sample_domain_row_def)
  from redelivery_idempotent [OF x e this, of sample_suite "''v''" "sample_monitor_env 4000" "\<lambda>db. db" "sample_monitor_env 5000"] e db(4) show ?thesis
    by (intro exI [of _ db] exI [of _ db']) auto
qed

end
