(* ===== verification/Probes.thy ===== *)
theory Probes
  imports Probe Monitoring
begin

text \<open>
  What the service of remote probes guarantees in every sequence of its calls: credentials are used once, a result is accepted once, and
  the revocation of a probe is final.
\<close>

section \<open>Tables whose rows are closed for good\<close>

text \<open>The rows of a table are changed in place or appended under new keys, and a closed row stays closed.\<close>

definition evolves :: "('r \<Rightarrow> 'k) \<Rightarrow> ('r \<Rightarrow> bool) \<Rightarrow> 'r list \<Rightarrow> 'r list \<Rightarrow> bool" where
  "evolves key closed rows rows' =
    (\<exists>f new. rows' = map f rows @ new \<and> (\<forall>r \<in> set rows. key (f r) = key r \<and> (closed r \<longrightarrow> closed (f r))) \<and>
       key ` set new \<inter> key ` set rows = {} \<and> distinct (map key new))"

definition sealed :: "('r \<Rightarrow> 'k) \<Rightarrow> ('r \<Rightarrow> bool) \<Rightarrow> 'k \<Rightarrow> 'r list \<Rightarrow> bool" where
  "sealed key closed k rows = (k \<in> key ` set rows \<and> (\<forall>r \<in> set rows. key r = k \<longrightarrow> closed r))"

lemma evolves_map:
  assumes "\<And>r. r \<in> set rows \<Longrightarrow> key (f r) = key r" "\<And>r. r \<in> set rows \<Longrightarrow> closed r \<Longrightarrow> closed (f r)"
  shows "evolves key closed rows (map f rows)"
  unfolding evolves_def using assms by (intro exI [of _ f] exI [of _ "[]"]) simp

lemma evolves_refl [simp]: "evolves key closed rows rows"
  using evolves_map [of rows key "\<lambda>r. r" closed] by simp

lemma evolves_snoc: "key r \<notin> key ` set rows \<Longrightarrow> evolves key closed rows (rows @ [r])"
  unfolding evolves_def by (intro exI [of _ "\<lambda>r. r"] exI [of _ "[r]"]) simp

lemma evolves_keys:
  assumes "evolves key closed rows rows'"
  shows "key ` set rows \<subseteq> key ` set rows'" "distinct (map key rows) \<Longrightarrow> distinct (map key rows')"
proof -
  obtain f new where f: "rows' = map f rows @ new" "\<And>r. r \<in> set rows \<Longrightarrow> key (f r) = key r" "key ` set new \<inter> key ` set rows = {}" "distinct (map key new)"
    using assms by (auto simp: evolves_def)
  have k: "map key (map f rows) = map key rows" using f(2) by simp
  then have s: "key ` set (map f rows) = key ` set rows" by (metis list.set_map)
  then show "key ` set rows \<subseteq> key ` set rows'" by (auto simp: f(1) image_Un)
  show "distinct (map key rows')" if "distinct (map key rows)"
  proof -
    have "distinct (map key (map f rows))" unfolding k by (rule that)
    then show ?thesis using f(3,4) s unfolding f(1) map_append distinct_append set_map by blast
  qed
qed

lemma evolves_trans:
  assumes "evolves key closed a b" "evolves key closed b c"
  shows "evolves key closed a c"
proof -
  obtain f new where f: "b = map f a @ new" "\<And>r. r \<in> set a \<Longrightarrow> key (f r) = key r \<and> (closed r \<longrightarrow> closed (f r))" "key ` set new \<inter> key ` set a = {}" "distinct (map key new)"
    using assms(1) by (auto simp: evolves_def)
  obtain g new' where g: "c = map g b @ new'" "\<And>r. r \<in> set b \<Longrightarrow> key (g r) = key r \<and> (closed r \<longrightarrow> closed (g r))" "key ` set new' \<inter> key ` set b = {}" "distinct (map key new')"
    using assms(2) by (auto simp: evolves_def)
  have k: "map key (map g new) = map key new" using g(2) f(1) by simp
  have s: "key ` set (map g new) = key ` set new" using k by (metis list.set_map)
  have b: "key ` set b = key ` set a \<union> key ` set new"
  proof -
    have "map key (map f a) = map key a" using f(2) by simp
    then have "key ` set (map f a) = key ` set a" by (metis list.set_map)
    then show ?thesis by (simp add: f(1) image_Un)
  qed
  have "c = map (g \<circ> f) a @ (map g new @ new')" by (simp add: g(1) f(1))
  moreover have "\<forall>r \<in> set a. key ((g \<circ> f) r) = key r \<and> (closed r \<longrightarrow> closed ((g \<circ> f) r))" using f(1,2) g(2) by simp
  moreover have "key ` set (map g new @ new') \<inter> key ` set a = {}" using s f(3) g(3) b by (auto simp: image_Un)
  moreover have "distinct (map key (map g new @ new'))"
  proof -
    have "distinct (map key (map g new))" unfolding k by (rule f(4))
    then show ?thesis using s [unfolded set_map] g(3,4) b unfolding map_append distinct_append set_map by blast
  qed
  ultimately show ?thesis unfolding evolves_def by blast
qed

lemma evolves_sealed:
  assumes "evolves key closed rows rows'" "sealed key closed k rows"
  shows "sealed key closed k rows'"
proof -
  obtain f new where f: "rows' = map f rows @ new" "\<And>r. r \<in> set rows \<Longrightarrow> key (f r) = key r \<and> (closed r \<longrightarrow> closed (f r))" "key ` set new \<inter> key ` set rows = {}"
    using assms(1) by (auto simp: evolves_def)
  have k: "k \<in> key ` set rows" and c: "\<And>r. r \<in> set rows \<Longrightarrow> key r = k \<Longrightarrow> closed r" using assms(2) by (auto simp: sealed_def)
  have "closed r" if r: "r \<in> set rows'" "key r = k" for r
  proof (cases "r \<in> set new")
    case True
    then show ?thesis using f(3) k r(2) by blast
  next
    case False
    then obtain q where "q \<in> set rows" "r = f q" using r(1) f(1) by auto
    then show ?thesis using f(2) c r(2) by simp
  qed
  moreover have "k \<in> key ` set rows'" using evolves_keys(1) [OF assms(1)] k by blast
  ultimately show ?thesis by (simp add: sealed_def)
qed

text \<open>Closing the row that has a key closes the key, because keys are unique.\<close>

lemma sealed_map:
  assumes "distinct (map key rows)" "r \<in> set rows" "closed (f r)" "\<And>q. key (f q) = key q"
  shows "sealed key closed (key r) (map f rows)"
proof -
  have "q = r" if "q \<in> set rows" "key q = key r" for q
    using assms(1,2) that by (auto simp: distinct_map inj_on_def)
  moreover have "key r \<in> key ` set (map f rows)" using assms(2,4) by (metis imageI list.set_map)
  ultimately show ?thesis using assms(3,4) by (auto simp: sealed_def)
qed

lemma sealed_find: "sealed key closed k rows \<Longrightarrow> find (\<lambda>r. key r = k) rows = Some r \<Longrightarrow> closed r"
  by (auto simp: sealed_def find_Some_iff)

text \<open>The contract of such a table in a state machine.\<close>

locale latching =
  fixes step :: "'e \<Rightarrow> 's \<Rightarrow> 's \<Rightarrow> bool"
    and rows :: "'s \<Rightarrow> 'r list"
    and key :: "'r \<Rightarrow> 'k"
    and closed :: "'r \<Rightarrow> bool"
  assumes step_evolves: "step e s s' \<Longrightarrow> evolves key closed (rows s) (rows s')"
begin

lemma sealed_runs: "runs step s es s' \<Longrightarrow> sealed key closed k (rows s) \<Longrightarrow> sealed key closed k (rows s')"
  by (induction rule: runs.induct) (auto intro: evolves_sealed step_evolves)

lemma distinct_runs: "runs step s es s' \<Longrightarrow> distinct (map key (rows s)) \<Longrightarrow> distinct (map key (rows s'))"
  by (induction rule: runs.induct) (auto dest: step_evolves evolves_keys(2))

end

section \<open>The calls on the tables\<close>

lemma probe_audit_Inr: "probe_audit L env e db = Inr db' \<Longrightarrow> \<exists>log. db' = db\<lparr>t_audit := log\<rparr>"
  by (auto simp: probe_audit_def map_sum_Inr)

lemma CreateRegistrationToken_Inr:
  assumes "CreateRegistrationToken L env spec db = Inr (x, db')"
  shows "\<exists>r log. db' = db\<lparr>t_registrations := t_registrations db @ [r], t_audit := log\<rparr> \<and> rt_hash r \<notin> rt_hash ` set (t_registrations db)"
proof -
  obtain r e where r: "registration_ok (t_registrations db) (pe_db_now env) r" "probe_audit L env e (db\<lparr>t_registrations := t_registrations db @ [r]\<rparr>) = Inr db'"
    using assms unfolding CreateRegistrationToken_def Let_def split_def
    by (auto simp only: bind_result_Inr ensure_Inr sum.inject prod.inject)
  then show ?thesis using probe_audit_Inr [OF r(2)] unfolding registration_ok_def by blast
qed

abbreviation used_token :: "uuid \<Rightarrow> gotime \<Rightarrow> registration_row \<Rightarrow> registration_row" where
  "used_token i t q \<equiv> if rt_id q = i then q\<lparr>rt_used_at := Some t\<rparr> else q"

lemma Register_Inr:
  assumes "Register L env request db = Inr (i, t, db')"
  obtains hash r n log where "HashSecret L (rq_RegistrationToken request) = Some hash" "find (\<lambda>r. rt_hash r = hash) (t_registrations db) = Some r"
    "rt_used_at r = None" "pn_id n \<notin> pn_id ` set (t_nodes db)" "pn_status n = ''OFFLINE''" "pn_revoked_at n = None"
    "db' = db\<lparr>t_nodes := t_nodes db @ [n], t_registrations := map (used_token (rt_id r) (stored_time (pe_now env))) (t_registrations db), t_audit := log\<rparr>"
proof -
  let ?n = "\<lambda>r k c. \<lparr>pn_id = pe_newID env 0, pn_name = rt_name r, pn_region = rt_region r, pn_country = rt_country r, pn_network = rt_network r,
          pn_public_key = k, pn_status = ''OFFLINE'', pn_version = rq_AgentVersion request, pn_capabilities = c,
          pn_last_seen_at = None, pn_clock_offset = None, pn_registered_at = stored_time (pe_now env), pn_revoked_at = None\<rparr>"
  obtain hash r k c e where r: "HashSecret L (rq_RegistrationToken request) = Some hash" "find (\<lambda>r. rt_hash r = hash) (t_registrations db) = Some r"
    "rt_used_at r = None" "node_ok L (t_nodes db) (?n r k c)"
    "probe_audit L env e (db\<lparr>t_nodes := t_nodes db @ [?n r k c], t_registrations := map (used_token (rt_id r) (stored_time (pe_now env))) (t_registrations db)\<rparr>) = Inr db'"
    using assms unfolding Register_def Let_def
    by (auto simp only: bind_result_Inr ensure_Inr require_Inr sum.inject prod.inject) blast
  have "pn_id (?n r k c) \<notin> pn_id ` set (t_nodes db)" using r(4) unfolding node_ok_def by blast
  with probe_audit_Inr [OF r(5)] show ?thesis using that [OF r(1-3), of "?n r k c"] by auto
qed

lemma CreateChallenge_Inr:
  assumes "CreateChallenge L cfg env i db = Inr (x, db')"
  shows "\<exists>c. db' = db\<lparr>t_challenges := t_challenges db @ [c]\<rparr> \<and> ch_id c \<notin> ch_id ` set (t_challenges db)"
  using assms unfolding CreateChallenge_def Let_def
  by (auto simp only: bind_result_Inr ensure_Inr require_Inr sum.inject prod.inject challenge_ok_def)

abbreviation used_challenge :: "uuid \<Rightarrow> gotime \<Rightarrow> challenge_row \<Rightarrow> challenge_row" where
  "used_challenge i t q \<equiv> if ch_id q = i then q\<lparr>ch_used_at := Some t\<rparr> else q"

lemma IssueToken_Inr:
  assumes "IssueToken L cfg env request db = Inr (x, db')"
  obtains c a where "c \<in> set (t_challenges db)" "ch_id c = tr_ChallengeID request" "ch_used_at c = None"
    "db' = db\<lparr>t_access_tokens := t_access_tokens db @ [a],
      t_challenges := map (used_challenge (tr_ChallengeID request) (stored_time (pe_now env))) (t_challenges db)\<rparr>"
proof -
  obtain c a where c: "find (\<lambda>c. ch_id c = tr_ChallengeID request \<and> ch_probe_id c = tr_ProbeID request) (t_challenges db) = Some c" "ch_used_at c = None"
    "db' = db\<lparr>t_access_tokens := t_access_tokens db @ [a],
      t_challenges := map (used_challenge (tr_ChallengeID request) (stored_time (pe_now env))) (t_challenges db)\<rparr>"
    using assms unfolding IssueToken_def Let_def split_def
    by (auto simp only: bind_result_Inr ensure_Inr require_Inr sum.inject prod.inject)
  have "c \<in> set (t_challenges db)" "ch_id c = tr_ChallengeID request" using c(1) by (auto simp: find_Some_iff)
  then show ?thesis using that c(2,3) by blast
qed

lemma Heartbeat_Inr:
  assumes "Heartbeat L cfg env p request db = Inr (x, db')"
  shows "\<exists>f h. db' = db\<lparr>t_nodes := map (\<lambda>n. if pn_id n = pr_ProbeID p \<and> pn_revoked_at n = None then f n else n) (t_nodes db), t_heartbeats := h\<rparr> \<and>
    (\<forall>n. pn_id (f n) = pn_id n \<and> pn_revoked_at (f n) = pn_revoked_at n) \<and> (\<exists>n \<in> set (t_nodes db). pn_id n = pr_ProbeID p \<and> pn_revoked_at n = None)"
proof -
  let ?f = "\<lambda>status c n. n\<lparr>pn_status := status, pn_version := hq_AgentVersion request, pn_capabilities := c,
            pn_last_seen_at := Some (stored_time (pe_now env)), pn_clock_offset := Some (hq_ClockOffsetMS request)\<rparr>"
  obtain status c h where "list_ex (\<lambda>n. pn_id n = pr_ProbeID p \<and> pn_revoked_at n = None) (t_nodes db)"
    "db' = db\<lparr>t_nodes := map (\<lambda>n. if pn_id n = pr_ProbeID p \<and> pn_revoked_at n = None then ?f status c n else n) (t_nodes db), t_heartbeats := h\<rparr>"
    using assms unfolding Heartbeat_def Let_def by (auto simp only: bind_result_Inr ensure_Inr require_Inr sum.inject prod.inject)
  then show ?thesis by (intro exI [of _ "?f status c"] exI [of _ h]) (simp add: list_ex_iff)
qed

lemma Revoke_Inr:
  assumes "Revoke L env i actor requestID reason db = Inr db'"
  shows "\<exists>log. db' = db\<lparr>t_nodes := map (\<lambda>n. if pn_id n = i \<and> pn_revoked_at n = None
        then n\<lparr>pn_status := ''REVOKED'', pn_revoked_at := Some (stored_time (pe_now env))\<rparr> else n) (t_nodes db),
      t_access_tokens := map (\<lambda>a. if ac_probe_id a = i \<and> ac_revoked_at a = None then a\<lparr>ac_revoked_at := Some (stored_time (pe_now env))\<rparr> else a) (t_access_tokens db),
      t_jobs := map (cancelled_job i) (t_jobs db), t_audit := log\<rparr> \<and> (\<exists>n \<in> set (t_nodes db). pn_id n = i \<and> pn_revoked_at n = None)"
proof -
  obtain e where e: "list_ex (\<lambda>n. pn_id n = i \<and> pn_revoked_at n = None) (t_nodes db)"
    "probe_audit L env e (db\<lparr>t_nodes := map (\<lambda>n. if pn_id n = i \<and> pn_revoked_at n = None
        then n\<lparr>pn_status := ''REVOKED'', pn_revoked_at := Some (stored_time (pe_now env))\<rparr> else n) (t_nodes db),
      t_access_tokens := map (\<lambda>a. if ac_probe_id a = i \<and> ac_revoked_at a = None then a\<lparr>ac_revoked_at := Some (stored_time (pe_now env))\<rparr> else a) (t_access_tokens db),
      t_jobs := map (cancelled_job i) (t_jobs db)\<rparr>) = Inr db'"
    using assms unfolding Revoke_def Let_def by (auto simp only: bind_result_Inr ensure_Inr)
  have "\<exists>n \<in> set (t_nodes db). pn_id n = i \<and> pn_revoked_at n = None" using e(1) by (simp add: list_ex_iff)
  then show ?thesis using probe_audit_Inr [OF e(2)] by blast
qed

lemma insert_job_Inr:
  assumes "insert_job L cfg env i (c, db) x = Inr (c', db')"
  shows "\<exists>j. db' = db\<lparr>t_jobs := t_jobs db @ [j]\<rparr> \<and> pj_id j \<notin> pj_id ` set (t_jobs db) \<and> pj_probe_id j = i"
proof -
  obtain k run d where x: "x = (k, run, d)" by (cases x)
  show ?thesis using assms unfolding insert_job_def x prod.case Let_def
    by (auto simp only: bind_result_Inr ensure_Inr sum.inject prod.inject) (auto simp: job_row_ok_def)
qed

lemma selected_probe_Some:
  assumes "selected_probe region since nodes = Some n"
  shows "n \<in> set nodes" "pn_revoked_at n = None"
proof -
  define rows where "rows = sort_key (\<lambda>n. (- the (pn_last_seen_at n), pn_id n)) (filter (\<lambda>n. pn_region n = region \<and> pn_status n = ''ONLINE'' \<and>
     pn_revoked_at n = None \<and> (case pn_last_seen_at n of None \<Rightarrow> False | Some t \<Rightarrow> t \<ge> since)) nodes)"
  have "(case rows of [] \<Rightarrow> None | n # _ \<Rightarrow> Some n) = Some n" using assms unfolding selected_probe_def rows_def .
  then have "n \<in> set rows" by (cases rows) auto
  then show "n \<in> set nodes" "pn_revoked_at n = None" by (simp_all add: rows_def)
qed

definition open_status :: "string set" where "open_status = {''queued'', ''leased''}"

lemma open_statuses [simp]: "''queued'' \<in> open_status" "''leased'' \<in> open_status" "''completed'' \<notin> open_status"
  by (simp_all add: open_status_def)

text \<open>The dispatcher closes jobs, and adds jobs of one probe that is not revoked.\<close>

lemma DispatchPending_Inr:
  assumes "DispatchPending L cfg env skipped db = Inr (c, db')"
  shows "t_nodes db' = map (offline_node (stored_time (pe_now env - pc_StaleAfter cfg))) (t_nodes db)" "t_registrations db' = t_registrations db"
    "t_challenges db' = t_challenges db"
    "evolves pj_id P (map (expired_job (stored_time (pe_now env))) (t_jobs db)) (t_jobs db')"
    "j \<in> set (t_jobs db') \<Longrightarrow> j \<in> set (map (expired_job (stored_time (pe_now env))) (t_jobs db)) \<or> (\<exists>n \<in> set (t_nodes db). pn_id n = pj_probe_id j \<and> pn_revoked_at n = None)"
proof -
  define since where "since = stored_time (pe_now env - pc_StaleAfter cfg)"
  define db1 where "db1 = db\<lparr>t_nodes := map (offline_node since) (t_nodes db), t_jobs := map (expired_job (stored_time (pe_now env))) (t_jobs db)\<rparr>"
  define Q where "Q = (\<lambda>i (_ :: nat, d :: probe_db). t_nodes d = t_nodes db1 \<and> t_registrations d = t_registrations db \<and> t_challenges d = t_challenges db \<and>
    evolves pj_id P (t_jobs db1) (t_jobs d) \<and> (\<forall>j \<in> set (t_jobs d). j \<in> set (t_jobs db1) \<or> pj_probe_id j = i))"
  have start: "Q i (0, db1)" for i by (simp add: Q_def db1_def)
  have insert: "Q i s'" if q: "Q i s" "insert_job L cfg env i s x = Inr s'" for i s x s'
  proof -
    obtain k d where s: "s = (k, d)" by (cases s)
    obtain k' d' where s': "s' = (k', d')" by (cases s')
    obtain j where j: "d' = d\<lparr>t_jobs := t_jobs d @ [j]\<rparr>" "pj_id j \<notin> pj_id ` set (t_jobs d)" "pj_probe_id j = i"
      using insert_job_Inr q(2) unfolding s s' by blast
    then show ?thesis using q(1) evolves_trans [OF _ evolves_snoc [OF j(2)]] unfolding s s' Q_def by auto
  qed
  have "\<exists>i. Q i (c, db') \<and> (t_jobs db' = t_jobs db1 \<or> (\<exists>n \<in> set (t_nodes db1). pn_id n = i \<and> pn_revoked_at n = None))"
  proof (cases "selected_probe (pc_RequiredRegion cfg) since (t_nodes db1)")
    case None
    then have "(c, db') = (0, db1)" using assms unfolding DispatchPending_def Let_def db1_def since_def by simp
    then show ?thesis using start by auto
  next
    case (Some n)
    then have e: "each (insert_job L cfg env (pn_id n)) (0, db1)
        (enumerate 0 (dispatch_candidates cfg (stored_time (pe_now env - pc_EvidenceFresh cfg)) skipped (pn_id n) db1)) = Inr (c, db')"
      using assms unfolding DispatchPending_def Let_def db1_def since_def by simp
    have "Q (pn_id n) (c, db')" by (rule each_invariant [where P = "Q (pn_id n)", OF e start]) (rule insert)
    then show ?thesis using selected_probe_Some [OF Some] by blast
  qed
  then obtain i where q: "Q i (c, db')" and i: "t_jobs db' = t_jobs db1 \<or> (\<exists>n \<in> set (t_nodes db1). pn_id n = i \<and> pn_revoked_at n = None)" by blast
  show "t_nodes db' = map (offline_node (stored_time (pe_now env - pc_StaleAfter cfg))) (t_nodes db)" "t_registrations db' = t_registrations db"
    "t_challenges db' = t_challenges db" "evolves pj_id P (map (expired_job (stored_time (pe_now env))) (t_jobs db)) (t_jobs db')"
    using q by (simp_all add: Q_def db1_def since_def)
  have off: "pn_id (offline_node since n) = pn_id n" "pn_revoked_at (offline_node since n) = pn_revoked_at n" for n by (simp_all add: offline_node_def)
  show "j \<in> set (map (expired_job (stored_time (pe_now env))) (t_jobs db)) \<or> (\<exists>n \<in> set (t_nodes db). pn_id n = pj_probe_id j \<and> pn_revoked_at n = None)"
    if "j \<in> set (t_jobs db')"
  proof -
    have "j \<in> set (t_jobs db1) \<or> pj_probe_id j = i" using q that by (simp add: Q_def)
    moreover have "\<exists>n \<in> set (t_nodes db). pn_id n = i \<and> pn_revoked_at n = None" if "j \<notin> set (t_jobs db1)"
      using i that \<open>j \<in> set (t_jobs db')\<close> off by (auto simp: db1_def)
    ultimately show ?thesis by (auto simp: db1_def)
  qed
qed

lemma job_steps:
  "pj_id (expired_job now j) = pj_id j" "pj_probe_id (expired_job now j) = pj_probe_id j"
  "pj_id (requeued_job i now j) = pj_id j" "pj_probe_id (requeued_job i now j) = pj_probe_id j"
  "pj_id (cancelled_job i j) = pj_id j" "pj_probe_id (cancelled_job i j) = pj_probe_id j"
  "pj_status j \<notin> open_status \<Longrightarrow> expired_job now j = j" "pj_status j \<notin> open_status \<Longrightarrow> requeued_job i now j = j"
  "pj_status j \<notin> open_status \<Longrightarrow> cancelled_job i j = j"
  by (simp_all add: expired_job_def requeued_job_def cancelled_job_def open_status_def)

text \<open>A claim changes jobs in place, leaves closed jobs alone, and needs an open job of the probe.\<close>

lemma probe_Claim_Inr:
  assumes "probe_Claim cfg env p skipped db = Inr (x, db')"
  obtains f where "db' = db\<lparr>t_jobs := map f (t_jobs db)\<rparr>" "\<And>j. pj_id (f j) = pj_id j"
    "\<And>j. pj_probe_id (f j) = pj_probe_id j \<or> pj_probe_id (f j) = pr_ProbeID p"
    "\<And>j. pj_status j \<notin> open_status \<Longrightarrow> f j = j" "\<exists>j \<in> set (t_jobs db). pj_probe_id j = pr_ProbeID p \<and> pj_status j \<in> open_status"
proof -
  define now where "now = stored_time (pe_now env)"
  define g where "g = (\<lambda>j. let q = requeued_job (pr_ProbeID p) now j in if pj_probe_id q = pr_ProbeID p then expired_job now q else q)"
  define xs where "xs = sort_key pj_issued_at (filter (\<lambda>j. pj_probe_id j = pr_ProbeID p \<and> pj_status j = ''queued'' \<and> pj_expires_at j > now \<and> pj_id j \<notin> skipped)
    (map g (t_jobs db)))"
  have g: "pj_id (g j) = pj_id j" "pj_probe_id (g j) = pj_probe_id j" "pj_status j \<notin> open_status \<Longrightarrow> g j = j" for j
    by (simp_all add: g_def Let_def job_steps)
  have jobs: "map (\<lambda>j. if pj_probe_id j = pr_ProbeID p then expired_job now j else j) (map (requeued_job (pr_ProbeID p) now) (t_jobs db)) = map g (t_jobs db)"
    by (simp add: g_def Let_def)
  obtain j rest leased where x: "xs = j # rest" "pj_id leased = pj_id j" "pj_probe_id leased = pj_probe_id j"
    and db': "db' = db\<lparr>t_jobs := map (\<lambda>q. if pj_id q = pj_id j \<and> pj_status q = ''queued'' then leased else q) (map g (t_jobs db))\<rparr>"
  proof (cases xs)
    case Nil
    then show ?thesis using assms unfolding probe_Claim_def Let_def now_def [symmetric] jobs xs_def [symmetric] by (auto simp: bind_result_Inr)
  next
    case (Cons j rest)
    let ?l = "j\<lparr>pj_status := ''leased'', pj_claimed_at := Some now,
        pj_lease_until := Some (stored_time (if pe_now env + pc_JobLease cfg > pj_expires_at j then pj_expires_at j else pe_now env + pc_JobLease cfg)),
        pj_attempts := pj_attempts j + 1\<rparr>"
    have "db' = db\<lparr>t_jobs := map (\<lambda>q. if pj_id q = pj_id j \<and> pj_status q = ''queued'' then ?l else q) (map g (t_jobs db))\<rparr>"
      using assms unfolding probe_Claim_def Let_def now_def [symmetric] jobs xs_def [symmetric] Cons list.case bind_result_Inr by blast
    then show ?thesis using Cons by (intro that [of j rest ?l]) simp_all
  qed
  let ?f = "\<lambda>q. if pj_id (g q) = pj_id j \<and> pj_status (g q) = ''queued'' then leased else g q"
  have "j \<in> set xs" using x(1) by simp
  then obtain q where q: "q \<in> set (t_jobs db)" "j = g q" "pj_probe_id j = pr_ProbeID p" "pj_status j = ''queued''" by (auto simp: xs_def)
  then have "pj_status q \<in> open_status" using g(3) [of q] by (cases "pj_status q \<in> open_status") auto
  then have "\<exists>j \<in> set (t_jobs db). pj_probe_id j = pr_ProbeID p \<and> pj_status j \<in> open_status" using q(1-3) g(2) by auto
  moreover have "db' = db\<lparr>t_jobs := map ?f (t_jobs db)\<rparr>" unfolding db' by simp
  moreover have "?f j' = j'" if "pj_status j' \<notin> open_status" for j' using g(3) [OF that] that by auto
  moreover have "pj_id (?f j') = pj_id j'" "pj_probe_id (?f j') = pj_probe_id j' \<or> pj_probe_id (?f j') = pr_ProbeID p" for j' using g(1,2) x(2,3) q(3) by auto
  ultimately show ?thesis using that [of ?f] by blast
qed

lemma SubmitResult_Inr:
  assumes "SubmitResult L cfg env p jobID e db = Inr (x, db')"
  obtains f j where "t_jobs db' = map f (t_jobs db)" "\<And>q. pj_id (f q) = pj_id q \<and> pj_probe_id (f q) = pj_probe_id q"
    "\<And>q. pj_status q \<notin> open_status \<Longrightarrow> f q = q" "t_nodes db' = t_nodes db" "t_registrations db' = t_registrations db" "t_challenges db' = t_challenges db"
    "j \<in> set (t_jobs db)" "pj_id j = jobID" "pj_status j = ''leased''" "pj_probe_id j = pr_ProbeID p" "pj_status (f j) = ''completed''"
proof -
  let ?f = "\<lambda>q. if pj_id q = jobID \<and> pj_status q = ''leased'' then completed_job (stored_time (pe_now env)) q else q"
  obtain payload j raw h sig d db1 i isp row db2 where oj: "open_job env p jobID payload db = Inr j" and rr: "record_remote L env j payload raw h sig d db = Inr db1"
    and ri: "record_isp env j i isp row db1 = Inr db2" and db': "db' = db2\<lparr>t_jobs := map ?f (t_jobs db2)\<rparr>"
    using assms unfolding SubmitResult_def Let_def split_def
    by (auto simp only: bind_result_Inr ensure_Inr require_Inr sum.inject prod.inject)
  have j: "j \<in> set (t_jobs db)" "pj_id j = jobID" "pj_status j = ''leased''" "pj_probe_id j = pr_ProbeID p"
    using oj unfolding open_job_def by (auto simp: bind_result_Inr find_Some_iff)
  have one: "t_jobs db1 = t_jobs db" "t_nodes db1 = t_nodes db" "t_registrations db1 = t_registrations db" "t_challenges db1 = t_challenges db"
    using rr unfolding record_remote_def Let_def by (auto simp only: bind_result_Inr sum.inject) simp_all
  have two: "t_jobs db2 = t_jobs db1" "t_nodes db2 = t_nodes db1" "t_registrations db2 = t_registrations db1" "t_challenges db2 = t_challenges db1"
    using ri unfolding record_isp_def set_domain_def by (auto simp only: bind_result_Inr sum.inject) simp_all
  show ?thesis
    by (rule that [of ?f j]) (use j in \<open>simp_all add: db' one two completed_job_def open_status_def\<close>)
qed

lemma extend_tables:
  "t_nodes (monitor_db.extend m (monitor_db.more db)) = t_nodes db" "t_registrations (monitor_db.extend m (monitor_db.more db)) = t_registrations db"
  "t_challenges (monitor_db.extend m (monitor_db.more db)) = t_challenges db" "t_jobs (monitor_db.extend m (monitor_db.more db)) = t_jobs db"
  for db :: probe_db
  by (cases db; simp add: monitor_db.extend_def)+

abbreviation revoked_node :: "probe_node \<Rightarrow> bool" where "revoked_node n \<equiv> pn_status n = ''REVOKED'' \<and> pn_revoked_at n \<noteq> None"

lemma settle_cases: "(\<And>x. r = Inr x \<Longrightarrow> P (f x)) \<Longrightarrow> P s \<Longrightarrow> P (settle f s r)"
  by (cases r) (simp_all add: settle_def)

text \<open>After a step, an open job belongs to a probe that had an open job before it, or to one that is not
  revoked: only the dispatcher makes jobs.\<close>

definition open_probe :: "probe_db \<Rightarrow> uuid \<Rightarrow> bool" where
  "open_probe db i = ((\<exists>j \<in> set (t_jobs db). pj_probe_id j = i \<and> pj_status j \<in> open_status) \<or> (\<exists>n \<in> set (t_nodes db). pn_id n = i \<and> pn_revoked_at n = None))"

definition opens :: "probe_db \<Rightarrow> job_row list \<Rightarrow> bool" where
  "opens db js = (\<forall>j \<in> set js. pj_status j \<in> open_status \<longrightarrow> open_probe db (pj_probe_id j))"

lemma opens_refl [simp]: "opens db (t_jobs db)"
  unfolding opens_def open_probe_def by blast

lemma opens_map:
  assumes "\<And>j. pj_status j \<notin> open_status \<Longrightarrow> f j = j" "\<And>j. pj_probe_id (f j) = pj_probe_id j \<or> pj_probe_id (f j) = i"
    and "\<exists>j \<in> set (t_jobs db). pj_probe_id j = i \<and> pj_status j \<in> open_status"
  shows "opens db (map f (t_jobs db))"
  unfolding opens_def
proof (intro ballI impI)
  fix q assume "q \<in> set (map f (t_jobs db))" and o: "pj_status q \<in> open_status"
  then obtain j where j: "j \<in> set (t_jobs db)" "q = f j" by auto
  then have "pj_status j \<in> open_status" using assms(1) [of j] o by metis
  then show "open_probe db (pj_probe_id q)" using assms(2) [of j] assms(3) j unfolding open_probe_def by metis
qed

lemma opens_map_same:
  assumes "\<And>j. pj_status j \<notin> open_status \<Longrightarrow> f j = j" "\<And>j. pj_probe_id (f j) = pj_probe_id j"
  shows "opens db (map f (t_jobs db))"
  unfolding opens_def
proof (intro ballI impI)
  fix q assume "q \<in> set (map f (t_jobs db))" and o: "pj_status q \<in> open_status"
  then obtain j where j: "j \<in> set (t_jobs db)" "q = f j" by auto
  then have "pj_status j \<in> open_status" using assms(1) [of j] o by metis
  then show "open_probe db (pj_probe_id q)" using assms(2) [of j] j unfolding open_probe_def by metis
qed

lemma jobs_evolve:
  fixes f :: "job_row \<Rightarrow> job_row"
  assumes "\<And>j. pj_id (f j) = pj_id j" "\<And>j. pj_status j \<notin> open_status \<Longrightarrow> f j = j"
  shows "evolves pj_id (\<lambda>j. pj_status j \<notin> open_status) js (map f js)"
proof (rule evolves_map)
  fix j :: job_row assume "pj_status j \<notin> open_status"
  then show "pj_status (f j) \<notin> open_status" using assms(2) [of j] by metis
qed (rule assms(1))

text \<open>What every step of the service keeps of its four tables.\<close>

definition advance :: "probe_db \<Rightarrow> probe_db \<Rightarrow> bool" where
  "advance db db' = (evolves rt_hash (\<lambda>r. rt_used_at r \<noteq> None) (t_registrations db) (t_registrations db') \<and> evolves pn_id revoked_node (t_nodes db) (t_nodes db') \<and>
    evolves ch_id (\<lambda>c. ch_used_at c \<noteq> None) (t_challenges db) (t_challenges db') \<and> evolves pj_id (\<lambda>j. pj_status j \<notin> open_status) (t_jobs db) (t_jobs db') \<and>
    opens db (t_jobs db'))"

lemma advance_refl: "advance db db"
  unfolding advance_def by simp

lemma token_advance: "CreateRegistrationToken L env spec db = Inr (x, d) \<Longrightarrow> advance db d"
  by (drule CreateRegistrationToken_Inr) (auto simp: advance_def simp del: de_Morgan_conj intro: evolves_snoc)

lemma register_advance:
  assumes "Register L env request db = Inr (x, t, d)"
  shows "advance db d"
proof -
  obtain r :: registration_row and n log where n: "pn_id n \<notin> pn_id ` set (t_nodes db)" and d: "d = db\<lparr>t_nodes := t_nodes db @ [n],
      t_registrations := map (used_token (rt_id r) (stored_time (pe_now env))) (t_registrations db), t_audit := log\<rparr>"
    by (rule Register_Inr [OF assms])
  show ?thesis unfolding d advance_def using evolves_snoc [where key = pn_id, OF n] by (simp add: evolves_map)
qed

lemma challenge_advance: "CreateChallenge L cfg env i db = Inr (x, d) \<Longrightarrow> advance db d"
  by (drule CreateChallenge_Inr) (auto simp: advance_def simp del: de_Morgan_conj intro: evolves_snoc)

lemma issue_advance:
  assumes "IssueToken L cfg env request db = Inr (x, d)"
  shows "advance db d"
proof -
  obtain a where d: "d = db\<lparr>t_access_tokens := t_access_tokens db @ [a],
      t_challenges := map (used_challenge (tr_ChallengeID request) (stored_time (pe_now env))) (t_challenges db)\<rparr>" by (rule IssueToken_Inr [OF assms])
  show ?thesis unfolding d advance_def by (simp add: evolves_map)
qed

lemma heartbeat_advance:
  assumes "Heartbeat L cfg env p request db = Inr (x, d)"
  shows "advance db d"
proof -
  obtain f h where d: "d = db\<lparr>t_nodes := map (\<lambda>n. if pn_id n = pr_ProbeID p \<and> pn_revoked_at n = None then f n else n) (t_nodes db), t_heartbeats := h\<rparr>"
    and f: "\<And>n. pn_id (f n) = pn_id n" using Heartbeat_Inr [OF assms] by auto
  have "evolves pn_id revoked_node (t_nodes db) (map (\<lambda>n. if pn_id n = pr_ProbeID p \<and> pn_revoked_at n = None then f n else n) (t_nodes db))"
    by (rule evolves_map) (auto simp: f)
  then show ?thesis unfolding d advance_def by simp
qed

lemma revoke_advance:
  assumes "Revoke L env i actor requestID reason db = Inr d"
  shows "advance db d"
proof -
  have "opens db (map (cancelled_job i) (t_jobs db))" by (rule opens_map_same) (fact job_steps)+
  moreover have "evolves pj_id (\<lambda>j. pj_status j \<notin> open_status) (t_jobs db) (map (cancelled_job i) (t_jobs db))" by (rule jobs_evolve) (fact job_steps)+
  moreover have "evolves pn_id revoked_node (t_nodes db) (map (\<lambda>n. if pn_id n = i \<and> pn_revoked_at n = None
      then n\<lparr>pn_status := ''REVOKED'', pn_revoked_at := Some (stored_time (pe_now env))\<rparr> else n) (t_nodes db))" by (rule evolves_map) auto
  ultimately show ?thesis using Revoke_Inr [OF assms] unfolding advance_def by auto
qed

lemma dispatch_advance:
  assumes "DispatchPending L cfg env skipped db = Inr (x, d)"
  shows "advance db d"
proof -
  let ?e = "expired_job (stored_time (pe_now env))"
  note t = DispatchPending_Inr(1-3) [OF assms]
  have "evolves pj_id (\<lambda>j. pj_status j \<notin> open_status) (t_jobs db) (map ?e (t_jobs db))" by (rule jobs_evolve) (fact job_steps)+
  then have "evolves pj_id (\<lambda>j. pj_status j \<notin> open_status) (t_jobs db) (t_jobs d)" using DispatchPending_Inr(4) [OF assms] by (rule evolves_trans)
  moreover have "evolves pn_id revoked_node (t_nodes db) (t_nodes d)" unfolding t by (rule evolves_map) (auto simp: offline_node_def)
  moreover have "opens db (map ?e (t_jobs db))" by (rule opens_map_same) (fact job_steps)+
  then have "opens db (t_jobs d)" using DispatchPending_Inr(5) [OF assms] unfolding opens_def open_probe_def by blast
  ultimately show ?thesis by (simp add: t advance_def)
qed

lemma claim_advance:
  assumes "probe_Claim cfg env p skipped db = Inr (x, d)"
  shows "advance db d"
  using assms
proof (rule probe_Claim_Inr)
  fix f
  assume d: "d = db\<lparr>t_jobs := map f (t_jobs db)\<rparr>" and f: "\<And>j. pj_id (f j) = pj_id j" "\<And>j. pj_probe_id (f j) = pj_probe_id j \<or> pj_probe_id (f j) = pr_ProbeID p"
    "\<And>j. pj_status j \<notin> open_status \<Longrightarrow> f j = j" and o: "\<exists>j \<in> set (t_jobs db). pj_probe_id j = pr_ProbeID p \<and> pj_status j \<in> open_status"
  have "opens db (map f (t_jobs db))" by (rule opens_map [OF f(3,2) o])
  moreover have "evolves pj_id (\<lambda>j. pj_status j \<notin> open_status) (t_jobs db) (map f (t_jobs db))" by (rule jobs_evolve [OF f(1,3)])
  ultimately show ?thesis unfolding d advance_def by simp
qed

lemma submit_advance:
  assumes "SubmitResult L cfg env p i envelope db = Inr (x, d)"
  shows "advance db d"
  using assms
proof (rule SubmitResult_Inr)
  fix f
  assume d: "t_jobs d = map f (t_jobs db)" "t_nodes d = t_nodes db" "t_registrations d = t_registrations db" "t_challenges d = t_challenges db"
    and f: "\<And>j. pj_id (f j) = pj_id j \<and> pj_probe_id (f j) = pj_probe_id j" "\<And>j. pj_status j \<notin> open_status \<Longrightarrow> f j = j"
  have "opens db (map f (t_jobs db))" by (rule opens_map_same [OF f(2) conjunct2 [OF f(1)]])
  moreover have "evolves pj_id (\<lambda>j. pj_status j \<notin> open_status) (t_jobs db) (map f (t_jobs db))" by (rule jobs_evolve [OF conjunct1 [OF f(1)] f(2)])
  ultimately show ?thesis unfolding advance_def d by simp
qed

lemma monitoring_advance: "probe_exec L cfg (DoMonitoring m) db = d \<Longrightarrow> advance db d"
  unfolding probe_exec.simps using extend_tables advance_refl [of db] unfolding advance_def opens_def open_probe_def by auto

lemmas advances = token_advance register_advance challenge_advance issue_advance heartbeat_advance revoke_advance dispatch_advance
  claim_advance submit_advance

lemma probe_step_tables: "probe_trans L cfg e db db' \<Longrightarrow> advance db db'"
  unfolding probe_trans_def
  by (cases e) (auto intro!: settle_cases [where P = "advance db"] advance_refl intro: advances monitoring_advance)

interpretation registration: latching "probe_trans L cfg" t_registrations rt_hash "\<lambda>r. rt_used_at r \<noteq> None" for L cfg
  by unfold_locales (drule probe_step_tables, simp add: advance_def)

interpretation revocation: latching "probe_trans L cfg" t_nodes pn_id revoked_node for L cfg
  by unfold_locales (drule probe_step_tables, simp add: advance_def)

interpretation challenge: latching "probe_trans L cfg" t_challenges ch_id "\<lambda>c. ch_used_at c \<noteq> None" for L cfg
  by unfold_locales (drule probe_step_tables, simp add: advance_def)

interpretation job: latching "probe_trans L cfg" t_jobs pj_id "\<lambda>j. pj_status j \<notin> open_status" for L cfg
  by unfold_locales (drule probe_step_tables, simp add: advance_def)

section \<open>Signed results\<close>

text \<open>What a probe signs is accepted under its key, and the payload arrives as it was signed, provided that the encodings are inverse to
  their decoders and the signature scheme is correct.\<close>

lemma SignResult_verified:
  assumes "SignResult L privateKey payload = Some e"
    and "\<And>raw. pl_marshal L payload = Some raw \<Longrightarrow> raw \<noteq> [] \<and> pl_payload L raw = Some payload" "\<And>s. length (pl_sha256 L s) = 32"
    and "\<And>h. length h = 32 \<Longrightarrow> pl_unhex L (trim_space (pl_hex L h)) = Some h" "\<And>s. pl_decode L (trim_space (pl_encode L s)) = Some s"
    and "\<And>msg. length (pl_sign L privateKey msg) = 64 \<and> pl_verify L publicKey msg (pl_sign L privateKey msg)"
  shows "VerifyResult L publicKey e = Some (payload, pl_sha256 L (ev_Payload e))"
proof -
  obtain raw where raw: "pl_marshal L payload = Some raw" using assms(1) by (cases "pl_marshal L payload") (simp_all add: SignResult_def)
  have e: "e = \<lparr>ev_Payload = raw, ev_PayloadSHA256 = pl_hex L (pl_sha256 L raw),
      ev_Signature = pl_encode L (pl_sign L privateKey (ResultSigningMessage L (pl_sha256 L raw) (py_Nonce payload)))\<rparr>"
    using assms(1) by (simp add: SignResult_def raw EncodeSignature_def Let_def)
  show ?thesis
    by (simp add: e VerifyResult_def Let_def EqualHash_def DecodeSignature_def decode_bytes_def assms(3-6) assms(2) [OF raw])
qed

section \<open>Revoked probes\<close>

text \<open>A retired probe is revoked and has no open job.\<close>

definition retired :: "uuid \<Rightarrow> probe_db \<Rightarrow> bool" where
  "retired i db = (sealed pn_id revoked_node i (t_nodes db) \<and> (\<forall>j \<in> set (t_jobs db). pj_probe_id j = i \<longrightarrow> pj_status j \<notin> open_status))"

lemma retired_node: "retired i db \<Longrightarrow> n \<in> set (t_nodes db) \<Longrightarrow> pn_id n = i \<Longrightarrow> pn_status n = ''REVOKED'' \<and> pn_revoked_at n \<noteq> None"
  unfolding retired_def sealed_def by blast

lemma retired_job: "retired i db \<Longrightarrow> j \<in> set (t_jobs db) \<Longrightarrow> pj_probe_id j = i \<Longrightarrow> pj_status j \<notin> open_status"
  unfolding retired_def by blast

lemma retired_not_open:
  assumes "retired i db"
  shows "\<not> open_probe db i"
proof
  assume "open_probe db i"
  then consider j where "j \<in> set (t_jobs db)" "pj_probe_id j = i" "pj_status j \<in> open_status"
    | n where "n \<in> set (t_nodes db)" "pn_id n = i" "pn_revoked_at n = None" unfolding open_probe_def by blast
  then show False
  proof cases
    case (1 j)
    show ?thesis using retired_job [OF assms 1(1,2)] 1(3) by contradiction
  next
    case (2 n)
    then show ?thesis using retired_node [OF assms 2(1,2)] by simp
  qed
qed

lemma retired_step:
  assumes "probe_trans L cfg e db db'" "retired i db"
  shows "retired i db'"
proof -
  have a: "evolves pn_id revoked_node (t_nodes db) (t_nodes db')" "opens db (t_jobs db')"
    using probe_step_tables [OF assms(1)] unfolding advance_def by blast+
  have "sealed pn_id revoked_node i (t_nodes db')" using a(1) assms(2) unfolding retired_def by (blast intro: evolves_sealed)
  moreover have "\<forall>j \<in> set (t_jobs db'). pj_probe_id j = i \<longrightarrow> pj_status j \<notin> open_status"
    using a(2) retired_not_open [OF assms(2)] unfolding opens_def by blast
  ultimately show ?thesis by (simp only: retired_def)
qed

lemma retired_runs: "runs (probe_trans L cfg) db es db' \<Longrightarrow> retired i db \<Longrightarrow> retired i db'"
  by (induction rule: runs.induct) (auto intro: retired_step)

lemma start_distinct:
  assumes "probe_start db0" "runs (probe_trans L cfg) db0 es db"
  shows "distinct (map pn_id (t_nodes db))" "distinct (map rt_hash (t_registrations db))" "distinct (map ch_id (t_challenges db))" "distinct (map pj_id (t_jobs db))"
  using assms(1) revocation.distinct_runs [OF assms(2)] registration.distinct_runs [OF assms(2)] challenge.distinct_runs [OF assms(2)] job.distinct_runs [OF assms(2)]
  by (simp_all add: probe_start_def)

lemma Revoke_retires:
  assumes "distinct (map pn_id (t_nodes db))" "Revoke L env i actor requestID reason db = Inr db'"
  shows "retired i db'"
proof -
  let ?f = "\<lambda>n. if pn_id n = i \<and> pn_revoked_at n = None then n\<lparr>pn_status := ''REVOKED'', pn_revoked_at := Some (stored_time (pe_now env))\<rparr> else n"
  obtain n where n: "n \<in> set (t_nodes db)" "pn_id n = i" "pn_revoked_at n = None" using Revoke_Inr [OF assms(2)] by blast
  have t: "t_nodes db' = map ?f (t_nodes db)" "t_jobs db' = map (cancelled_job i) (t_jobs db)" using Revoke_Inr [OF assms(2)] by auto
  have "sealed pn_id revoked_node (pn_id n) (map ?f (t_nodes db))" by (rule sealed_map [OF assms(1) n(1)]) (simp_all add: n)
  moreover have "pj_status (cancelled_job i j) \<notin> open_status" if "pj_probe_id (cancelled_job i j) = i" for j
    using that unfolding job_steps(6) by (simp add: cancelled_job_def open_status_def)
  then have "\<forall>j \<in> set (map (cancelled_job i) (t_jobs db)). pj_probe_id j = i \<longrightarrow> pj_status j \<notin> open_status" by auto
  ultimately show ?thesis unfolding retired_def t n(2) by (rule conjI)
qed

lemma retired_Authenticate:
  assumes "retired i db" "Authenticate L env bearer db = Inr p"
  shows "pr_ProbeID p \<noteq> i"
proof -
  obtain j n where n: "node_of db j = Some n" "pn_status n \<noteq> ''REVOKED''" "pr_ProbeID p = pn_id n"
    using assms(2) unfolding Authenticate_def by (auto simp only: bind_result_Inr ensure_Inr require_Inr sum.inject principal.simps) blast
  have "n \<in> set (t_nodes db)" using n(1) by (auto simp: node_of_def find_Some_iff)
  then show ?thesis using retired_node [OF assms(1)] n(2,3) by metis
qed

lemma retired_node_of: "retired i db \<Longrightarrow> node_of db i = Some n \<Longrightarrow> pn_status n = ''REVOKED''"
  using retired_node [of i db n] by (simp add: node_of_def find_Some_iff) (metis nth_mem)

lemma retired_CreateChallenge: "retired i db \<Longrightarrow> CreateChallenge L cfg env i db \<noteq> Inr x"
proof
  assume q: "retired i db" "CreateChallenge L cfg env i db = Inr x"
  obtain n where "node_of db i = Some n" "pn_status n \<noteq> ''REVOKED''"
    using q(2) unfolding CreateChallenge_def Let_def by (auto simp only: bind_result_Inr ensure_Inr require_Inr de_Morgan_disj)
  then show False using retired_node_of [OF q(1)] by metis
qed

lemma retired_IssueToken: "retired (tr_ProbeID request) db \<Longrightarrow> IssueToken L cfg env request db \<noteq> Inr x"
proof
  assume q: "retired (tr_ProbeID request) db" "IssueToken L cfg env request db = Inr x"
  obtain c n where c: "find (\<lambda>c. ch_id c = tr_ChallengeID request \<and> ch_probe_id c = tr_ProbeID request) (t_challenges db) = Some c"
    and n: "node_of db (ch_probe_id c) = Some n" "pn_status n \<noteq> ''REVOKED''"
    using q(2) unfolding IssueToken_def Let_def split_def by (auto simp only: bind_result_Inr ensure_Inr require_Inr de_Morgan_disj)
  have "ch_probe_id c = tr_ProbeID request" using c by (auto simp: find_Some_iff)
  then show False using retired_node_of [OF q(1)] n by metis
qed

lemma retired_Heartbeat: "retired (pr_ProbeID p) db \<Longrightarrow> Heartbeat L cfg env p request db \<noteq> Inr x"
proof
  assume q: "retired (pr_ProbeID p) db" "Heartbeat L cfg env p request db = Inr x"
  obtain y d where x: "x = (y, d)" by (cases x)
  obtain n where n: "n \<in> set (t_nodes db)" "pn_id n = pr_ProbeID p" "pn_revoked_at n = None" using Heartbeat_Inr q(2) unfolding x by blast
  show False using retired_node [OF q(1) n(1,2)] n(3) by simp
qed

lemma retired_Claim: "retired (pr_ProbeID p) db \<Longrightarrow> probe_Claim cfg env p skipped db \<noteq> Inr x"
proof
  assume q: "retired (pr_ProbeID p) db" "probe_Claim cfg env p skipped db = Inr x"
  obtain y d where x: "x = (y, d)" by (cases x)
  obtain j where j: "j \<in> set (t_jobs db)" "pj_probe_id j = pr_ProbeID p" "pj_status j \<in> open_status" using q(2) unfolding x by (rule probe_Claim_Inr) blast
  show False using retired_job [OF q(1) j(1,2)] j(3) by contradiction
qed

lemma retired_Submit: "retired (pr_ProbeID p) db \<Longrightarrow> SubmitResult L cfg env p k envelope db \<noteq> Inr x"
proof
  assume q: "retired (pr_ProbeID p) db" "SubmitResult L cfg env p k envelope db = Inr x"
  obtain y d where x: "x = (y, d)" by (cases x)
  obtain j where j: "j \<in> set (t_jobs db)" "pj_probe_id j = pr_ProbeID p" "pj_status j = ''leased''" using q(2) unfolding x by (rule SubmitResult_Inr)
  show False using retired_job [OF q(1) j(1,2)] unfolding j(3) by simp
qed

lemma not_Inr: "(\<And>y. r \<noteq> Inr y) \<Longrightarrow> \<exists>e. r = Inl e"
  by (cases r) auto

lemmas retired_calls = retired_CreateChallenge retired_IssueToken retired_Heartbeat retired_Claim retired_Submit

text \<open>C7. Revocation is final. The service starts without probes and runs any calls, with the monitoring beside it; a
  revocation of probe \<open>i\<close> succeeds; any calls follow, a registration, a dispatch or another claim included. Then no
  bearer token authenticates as the probe, even one issued before. The probe gets no challenge and no new token. And
  the calls of a request that was authenticated before the revocation are refused as well: a heartbeat, which would
  set the probe online again, a claim, and the result of a job it had leased.\<close>

theorem revocation_final:
  assumes "probe_start db0" "runs (probe_trans L cfg) db0 es db" "Revoke L env i actor requestID reason db = Inr db1" "runs (probe_trans L cfg) db1 es' db2"
  shows "(\<forall>env bearer p. Authenticate L env bearer db2 = Inr p \<longrightarrow> pr_ProbeID p \<noteq> i) \<and>
    (\<forall>env. \<exists>err. CreateChallenge L cfg env i db2 = Inl err) \<and>
    (\<forall>env request. tr_ProbeID request = i \<longrightarrow> (\<exists>err. IssueToken L cfg env request db2 = Inl err)) \<and>
    (\<forall>env p request. pr_ProbeID p = i \<longrightarrow> (\<exists>err. Heartbeat L cfg env p request db2 = Inl err)) \<and>
    (\<forall>env p skipped. pr_ProbeID p = i \<longrightarrow> (\<exists>err. probe_Claim cfg env p skipped db2 = Inl err)) \<and>
    (\<forall>env p jobID envelope. pr_ProbeID p = i \<longrightarrow> (\<exists>err. SubmitResult L cfg env p jobID envelope db2 = Inl err))"
proof -
  have "retired i db2" using retired_runs [OF assms(4)] Revoke_retires [OF start_distinct(1) [OF assms(1,2)] assms(3)] by blast
  then show ?thesis by (intro conjI allI impI) ((rule retired_Authenticate; assumption) | (rule not_Inr, simp only: retired_calls not_False_eq_True))+
qed

section \<open>Credentials\<close>

text \<open>What a call spends when it is accepted: a registration token, a challenge or a leased job.\<close>

datatype spendable = SpentToken string | SpentChallenge uuid | SpentJob uuid

fun credential :: "probe_lib \<Rightarrow> probe_step \<Rightarrow> spendable option" where
  "credential L (DoRegister env request) = map_option SpentToken (HashSecret L (rq_RegistrationToken request))"
| "credential L (DoIssue env request) = Some (SpentChallenge (tr_ChallengeID request))"
| "credential L (DoSubmit env p jobID envelope) = Some (SpentJob jobID)"
| "credential L _ = None"

fun accepted :: "probe_lib \<Rightarrow> probe_config \<Rightarrow> probe_step \<Rightarrow> probe_db \<Rightarrow> bool" where
  "accepted L cfg (DoToken env spec) db = (\<not> isl (CreateRegistrationToken L env spec db))"
| "accepted L cfg (DoRegister env request) db = (\<not> isl (Register L env request db))"
| "accepted L cfg (DoChallenge env probeID) db = (\<not> isl (CreateChallenge L cfg env probeID db))"
| "accepted L cfg (DoIssue env request) db = (\<not> isl (IssueToken L cfg env request db))"
| "accepted L cfg (DoHeartbeat env p request) db = (\<not> isl (Heartbeat L cfg env p request db))"
| "accepted L cfg (DoRevoke env probeID actorID requestID reason) db = (\<not> isl (Revoke L env probeID actorID requestID reason db))"
| "accepted L cfg (DoDispatch env skipped) db = (\<not> isl (DispatchPending L cfg env skipped db))"
| "accepted L cfg (DoProbeClaim env p skipped) db = (\<not> isl (probe_Claim cfg env p skipped db))"
| "accepted L cfg (DoSubmit env p jobID envelope) db = (\<not> isl (SubmitResult L cfg env p jobID envelope db))"
| "accepted L cfg (DoMonitoring m) db = True"

text \<open>A credential is spent when the row that stands for it is closed.\<close>

fun spent :: "spendable \<Rightarrow> probe_db \<Rightarrow> bool" where
  "spent (SpentToken hash) db = sealed rt_hash (\<lambda>r. rt_used_at r \<noteq> None) hash (t_registrations db)"
| "spent (SpentChallenge i) db = sealed ch_id (\<lambda>c. ch_used_at c \<noteq> None) i (t_challenges db)"
| "spent (SpentJob i) db = sealed pj_id (\<lambda>j. pj_status j \<notin> open_status) i (t_jobs db)"

lemma spent_runs: "runs (probe_trans L cfg) db es db' \<Longrightarrow> spent c db \<Longrightarrow> spent c db'"
  by (cases c) (simp_all only: spent.simps registration.sealed_runs challenge.sealed_runs job.sealed_runs)

lemma not_isl: "\<not> isl r \<longleftrightarrow> (\<exists>x. r = Inr x)"
  by (cases r) auto

lemma Register_spends:
  assumes "distinct (map rt_hash (t_registrations db))" "Register L env request db = Inr (x, t, db')" "HashSecret L (rq_RegistrationToken request) = Some h"
  shows "spent (SpentToken h) db'"
proof -
  obtain hash r n log where hash: "HashSecret L (rq_RegistrationToken request) = Some hash" and r: "find (\<lambda>r. rt_hash r = hash) (t_registrations db) = Some r"
    and db': "db' = db\<lparr>t_nodes := t_nodes db @ [n], t_registrations := map (used_token (rt_id r) (stored_time (pe_now env))) (t_registrations db), t_audit := log\<rparr>"
    by (rule Register_Inr [OF assms(2)])
  have "r \<in> set (t_registrations db)" "rt_hash r = h" using r hash assms(3) by (auto simp: find_Some_iff)
  then show ?thesis using sealed_map [OF assms(1), of r "\<lambda>r. rt_used_at r \<noteq> None" "used_token (rt_id r) (stored_time (pe_now env))"] by (simp add: db')
qed

lemma IssueToken_spends:
  assumes "distinct (map ch_id (t_challenges db))" "IssueToken L cfg env request db = Inr (x, db')"
  shows "spent (SpentChallenge (tr_ChallengeID request)) db'"
proof -
  obtain c a where c: "c \<in> set (t_challenges db)" "ch_id c = tr_ChallengeID request" and db': "db' = db\<lparr>t_access_tokens := t_access_tokens db @ [a],
      t_challenges := map (used_challenge (tr_ChallengeID request) (stored_time (pe_now env))) (t_challenges db)\<rparr>" by (rule IssueToken_Inr [OF assms(2)])
  show ?thesis using sealed_map [OF assms(1) c(1), of "\<lambda>c. ch_used_at c \<noteq> None" "used_challenge (tr_ChallengeID request) (stored_time (pe_now env))"]
    by (simp add: db' c(2))
qed

lemma SubmitResult_spends:
  assumes "distinct (map pj_id (t_jobs db))" "SubmitResult L cfg env p k envelope db = Inr (x, db')"
  shows "spent (SpentJob k) db'"
  using assms(2)
proof (rule SubmitResult_Inr)
  fix f j
  assume d: "t_jobs db' = map f (t_jobs db)" and f: "\<And>q. pj_id (f q) = pj_id q \<and> pj_probe_id (f q) = pj_probe_id q"
    and j: "j \<in> set (t_jobs db)" "pj_id j = k" "pj_status (f j) = ''completed''"
  have "sealed pj_id (\<lambda>j. pj_status j \<notin> open_status) (pj_id j) (map f (t_jobs db))"
    by (rule sealed_map [OF assms(1) j(1)]) (simp_all only: j open_statuses conjunct1 [OF f] not_False_eq_True)
  then show ?thesis by (simp only: spent.simps d j(2))
qed

lemma accepted_spends:
  assumes "distinct (map rt_hash (t_registrations db))" "distinct (map ch_id (t_challenges db))" "distinct (map pj_id (t_jobs db))"
    and "accepted L cfg e db" "credential L e = Some c"
  shows "spent c (probe_exec L cfg e db)"
proof (cases e)
  case (DoRegister env request)
  then obtain h x t db' where "c = SpentToken h" "HashSecret L (rq_RegistrationToken request) = Some h" "Register L env request db = Inr (x, t, db')"
    using assms(4,5) by (auto simp only: accepted.simps credential.simps not_isl map_option_eq_Some)
  then show ?thesis using Register_spends [OF assms(1)] unfolding DoRegister probe_exec.simps settle_def by (simp del: spent.simps)
next
  case (DoIssue env request)
  then obtain x db' where "IssueToken L cfg env request db = Inr (x, db')" using assms(4) by (auto simp only: accepted.simps not_isl)
  then show ?thesis using IssueToken_spends [OF assms(2), of L cfg env request x db'] assms(5) unfolding DoIssue probe_exec.simps settle_def by (auto simp del: spent.simps)
next
  case (DoSubmit env p k envelope)
  then obtain x db' where "SubmitResult L cfg env p k envelope db = Inr (x, db')" using assms(4) by (auto simp only: accepted.simps not_isl)
  then show ?thesis using SubmitResult_spends [OF assms(3), of L cfg env p k envelope x db'] assms(5) unfolding DoSubmit probe_exec.simps settle_def by (auto simp del: spent.simps)
qed (use assms(5) in simp_all)

lemma spent_refuses:
  assumes "spent c db" "credential L e = Some c"
  shows "\<not> accepted L cfg e db"
proof
  assume a: "accepted L cfg e db"
  show False
  proof (cases e)
    case (DoRegister env request)
    then obtain h x t db' where c: "c = SpentToken h" "HashSecret L (rq_RegistrationToken request) = Some h" and q: "Register L env request db = Inr (x, t, db')"
      using a assms(2) by (auto simp only: accepted.simps credential.simps not_isl map_option_eq_Some)
    obtain hash r where "HashSecret L (rq_RegistrationToken request) = Some hash" "find (\<lambda>r. rt_hash r = hash) (t_registrations db) = Some r" "rt_used_at r = None"
      by (rule Register_Inr [OF q])
    then show ?thesis using assms(1) c sealed_find [of rt_hash "\<lambda>r. rt_used_at r \<noteq> None" h "t_registrations db" r] by simp
  next
    case (DoIssue env request)
    then obtain x db' where q: "IssueToken L cfg env request db = Inr (x, db')" using a by (auto simp only: accepted.simps not_isl)
    obtain r where r: "r \<in> set (t_challenges db)" "ch_id r = tr_ChallengeID request" "ch_used_at r = None" by (rule IssueToken_Inr [OF q])
    have "spent (SpentChallenge (tr_ChallengeID request)) db" using assms DoIssue by simp
    then have "ch_used_at r \<noteq> None" using r(1,2) unfolding spent.simps sealed_def by blast
    then show ?thesis using r(3) by contradiction
  next
    case (DoSubmit env p k envelope)
    then obtain x db' where q: "SubmitResult L cfg env p k envelope db = Inr (x, db')" using a by (auto simp only: accepted.simps not_isl)
    obtain j where j: "j \<in> set (t_jobs db)" "pj_id j = k" "pj_status j = ''leased''" by (rule SubmitResult_Inr [OF q])
    have "spent (SpentJob k) db" using assms DoSubmit by simp
    then have "pj_status j \<notin> open_status" using j(1,2) unfolding spent.simps sealed_def by blast
    then show ?thesis unfolding j(3) by simp
  qed (use assms(2) in simp_all)
qed

text \<open>C8. Credentials are spent once. The service starts without probes and runs any calls; then a call is accepted that
  registers a probe, exchanges a signed challenge for an access token, or submits the result of a job, and any calls
  follow. No later call with the same credential is accepted: not a registration with a token that decodes to the same
  secret, not another exchange of the challenge, whoever signs it, and not a second result of the job, whether the
  calls come from the same probe or from another and whatever the clock says.\<close>

theorem probe_single_use:
  assumes "probe_start db0" "runs (probe_trans L cfg) db0 es db" "accepted L cfg e db" "credential L e = Some c"
    and "runs (probe_trans L cfg) (probe_exec L cfg e db) es' db2" "credential L e' = Some c"
  shows "\<not> accepted L cfg e' db2"
proof -
  have "spent c (probe_exec L cfg e db)" by (rule accepted_spends [OF start_distinct(2-4) [OF assms(1,2)] assms(3,4)])
  then show ?thesis using spent_runs [OF assms(5)] spent_refuses assms(6) by blast
qed

section \<open>A sample\<close>

text \<open>A token is made, a probe registers with it and exchanges a challenge for an access token; then the probe is revoked.\<close>

definition sample_probe_lib :: probe_lib where
  "sample_probe_lib = \<lparr>pl_decode = Some, pl_encode = (\<lambda>s. s), pl_sha256 = (\<lambda>s. s), pl_hex = (\<lambda>s. s), pl_unhex = Some,
     pl_verify = (\<lambda>_ _ _. True), pl_sign = (\<lambda>_ _. replicate 64 CHR ''s''), pl_marshal = (\<lambda>_. None), pl_payload = (\<lambda>_. None), pl_jsonb = (\<lambda>_. True), pl_time = (\<lambda>_. ''t''), pl_uuid = (\<lambda>_. ''u''),
     pl_audit = \<lparr>al_marshal = (\<lambda>_. Some ''{}''), al_canonical = hp_ID, al_sha256 = (\<lambda>s. s), al_hex = (\<lambda>s. s),
       al_uuid_string = (\<lambda>i. replicate 32 (if i = 1 then CHR ''a'' else if i = 2 then CHR ''b'' else CHR ''c'')), al_rfc3339nano = (\<lambda>_. ''t''), al_jsonb = Some\<rparr>\<rparr>"

definition sample_probe_env :: "int \<Rightarrow> uuid \<Rightarrow> probe_env" where
  "sample_probe_env t i = \<lparr>pe_now = t, pe_db_now = t, pe_random = (\<lambda>_. replicate 32 CHR ''k''), pe_newID = (\<lambda>_. i), pe_checkID = (\<lambda>_. i),
     pe_auditID = i, pe_audit_now = t\<rparr>"

definition sample_probe_config :: probe_config where
  "sample_probe_config = \<lparr>pc_TokenTTL = hour, pc_ChallengeTTL = minute, pc_JobTTL = hour, pc_JobLease = minute, pc_StaleAfter = minute,
     pc_MaxClockSkew = minute, pc_EvidenceFresh = hour, pc_DispatchBatch = 10, pc_RequiredRegion = ''BKK'', pc_MaxPayloadBytes = 1000,
     pc_Policy = \<lparr>pp_DeadlineMS = 1000, pp_MaxRedirects = 5, pp_MaxBodyBytes = 100, pp_StoreExcerptBytes = 10\<rparr>\<rparr>"

definition sample_probe_db :: probe_db where
  "sample_probe_db = monitor_db.extend sample_tables \<lparr>t_registrations = [], t_nodes = [], t_challenges = [], t_access_tokens = [],
     t_heartbeats = [], t_jobs = [], t_remote_results = [], t_isp_reasons = []\<rparr>"

definition sample_token :: probe_step where
  "sample_token = DoToken (sample_probe_env 0 1) \<lparr>sp_Name = ''p'', sp_Region = ''BKK'', sp_Country = ''TH'', sp_Network = [], sp_TTL = 0,
     sp_CreatedBy = 1, sp_RequestID = ''r''\<rparr>"

definition sample_register :: probe_step where
  "sample_register = DoRegister (sample_probe_env 1000 2) \<lparr>rq_RegistrationToken = replicate 32 CHR ''k'', rq_Name = ''p'', rq_RegionCode = ''BKK'',
     rq_CountryCode = ''TH'', rq_NetworkName = [], rq_PublicKey = replicate 32 CHR ''q'', rq_ProtocolVersion = probe_version, rq_AgentVersion = ''1'',
     rq_Capabilities = Some ''{}''\<rparr>"

definition sample_revoke :: probe_step where
  "sample_revoke = DoRevoke (sample_probe_env 2000 3) 2 1 ''r'' ''lost''"

definition sample_challenge :: probe_step where
  "sample_challenge = DoChallenge (sample_probe_env 1000 4) 2"

definition sample_token_request :: token_request where
  "sample_token_request = \<lparr>tr_ProbeID = 2, tr_ChallengeID = 4, tr_Signature = replicate 64 CHR ''s''\<rparr>"

definition sample_issue :: probe_step where
  "sample_issue = DoIssue (sample_probe_env 2000 5) sample_token_request"

definition sample_principal :: principal where
  "sample_principal = \<lparr>pr_TokenID = 5, pr_ProbeID = 2, pr_Name = ''p'', pr_RegionCode = ''BKK'', pr_CountryCode = ''TH'', pr_NetworkName = [],
     pr_AgentVersion = ''1'', pr_Status = ''OFFLINE'', pr_PublicKey = replicate 32 CHR ''q''\<rparr>"

definition sample_heartbeat :: heartbeat_request where
  "sample_heartbeat = \<lparr>hq_ProtocolVersion = probe_version, hq_AgentVersion = ''1'', hq_ClockOffsetMS = 0, hq_QueueCapacity = 1, hq_Capabilities = Some ''{}''\<rparr>"

definition sample_exec :: "probe_step list \<Rightarrow> probe_db" where
  "sample_exec es = fold (probe_exec sample_probe_lib sample_probe_config) es sample_probe_db"

lemma sample_exec_runs: "runs (probe_trans sample_probe_lib sample_probe_config) sample_probe_db es (sample_exec es)"
  by (induction es rule: rev_induct) (auto simp: sample_exec_def runs_snoc_iff probe_trans_def)

lemma sample_probe_start: "probe_start sample_probe_db"
  by (simp add: probe_start_def sample_probe_db_def monitor_db.extend_def)

lemma sample_token_accepted: "accepted sample_probe_lib sample_probe_config sample_token sample_probe_db"
  by code_simp

lemma sample_register_accepted: "accepted sample_probe_lib sample_probe_config sample_register (sample_exec [sample_token])"
  by code_simp

lemma sample_revoke_accepted: "\<not> isl (Revoke sample_probe_lib (sample_probe_env 2000 3) 2 1 ''r'' ''lost'' (sample_exec [sample_token, sample_register, sample_challenge, sample_issue]))"
  by code_simp

text \<open>Before the revocation the probe authenticates and its heartbeat is accepted.\<close>

lemma sample_authenticates:
  "Authenticate sample_probe_lib (sample_probe_env 2500 6) (replicate 32 CHR ''k'') (sample_exec [sample_token, sample_register, sample_challenge, sample_issue])
    = Inr sample_principal"
  by code_simp

lemma sample_heartbeat_accepted:
  "\<not> isl (Heartbeat sample_probe_lib sample_probe_config (sample_probe_env 2500 6) sample_principal sample_heartbeat
    (sample_exec [sample_token, sample_register, sample_challenge, sample_issue]))"
  by code_simp

theorem revocation_final_witness:
  "(let before = sample_exec [sample_token, sample_register, sample_challenge, sample_issue];
        after = sample_exec [sample_token, sample_register, sample_challenge, sample_issue, sample_revoke, sample_token];
        env = sample_probe_env 2500 6
    in Authenticate sample_probe_lib env (replicate 32 CHR ''k'') before = Inr sample_principal \<and>
      Authenticate sample_probe_lib env (replicate 32 CHR ''k'') after \<noteq> Inr sample_principal \<and>
      \<not> isl (Heartbeat sample_probe_lib sample_probe_config env sample_principal sample_heartbeat before) \<and>
      (\<exists>err. Heartbeat sample_probe_lib sample_probe_config env sample_principal sample_heartbeat after = Inl err) \<and>
      (\<exists>err. CreateChallenge sample_probe_lib sample_probe_config env 2 after = Inl err) \<and>
      (\<exists>err. IssueToken sample_probe_lib sample_probe_config env sample_token_request after = Inl err) \<and>
      (\<exists>err. probe_Claim sample_probe_config env sample_principal {} after = Inl err) \<and>
      (\<exists>err. SubmitResult sample_probe_lib sample_probe_config env sample_principal 7
        \<lparr>ev_Payload = ''{}'', ev_PayloadSHA256 = ''{}'', ev_Signature = []\<rparr> after = Inl err))"
proof -
  let ?t = "probe_trans sample_probe_lib sample_probe_config" and ?db = "sample_exec [sample_token, sample_register, sample_challenge, sample_issue]"
    and ?db1 = "sample_exec [sample_token, sample_register, sample_challenge, sample_issue, sample_revoke]"
    and ?db2 = "sample_exec [sample_token, sample_register, sample_challenge, sample_issue, sample_revoke, sample_token]"
  have v: "Revoke sample_probe_lib (sample_probe_env 2000 3) 2 1 ''r'' ''lost'' ?db = Inr ?db1"
    using sample_revoke_accepted by (auto simp: not_isl sample_exec_def sample_revoke_def settle_def)
  have n: "runs ?t ?db1 [sample_token] ?db2"
    using runs_snoc_iff [of ?t ?db1 "[]" sample_token] by (simp add: probe_trans_def sample_exec_def)
  have i: "pr_ProbeID sample_principal = 2" "tr_ProbeID sample_token_request = 2" by (simp_all add: sample_principal_def sample_token_request_def)
  show ?thesis unfolding Let_def
    using revocation_final [OF sample_probe_start sample_exec_runs v n] i sample_authenticates sample_heartbeat_accepted by blast
qed

theorem probe_single_use_witness:
  "accepted sample_probe_lib sample_probe_config sample_register (sample_exec [sample_token]) \<and>
   \<not> accepted sample_probe_lib sample_probe_config sample_register (sample_exec [sample_token, sample_register, sample_revoke])"
proof -
  let ?t = "probe_trans sample_probe_lib sample_probe_config" and ?db1 = "probe_exec sample_probe_lib sample_probe_config sample_register (sample_exec [sample_token])"
  have c: "credential sample_probe_lib sample_register = Some (SpentToken (replicate 32 CHR ''k''))" by code_simp
  have "runs ?t ?db1 [sample_revoke] (sample_exec [sample_token, sample_register, sample_revoke])"
    using runs_snoc_iff [of ?t ?db1 "[]" sample_revoke] by (simp add: probe_trans_def sample_exec_def)
  then show ?thesis using probe_single_use [OF sample_probe_start sample_exec_runs sample_register_accepted c _ c] sample_register_accepted by blast
qed

end
