(* ===== verification/Spec2Isabelle.thy ===== *)
theory Spec2Isabelle
  imports Classification Safedial Ispclass Queue Auditlog Finance Recommendation Probes
begin

text \<open>
  The domain monitoring platform: a verification library for the Go services under \<^verbatim>\<open>internal/\<close>.

  \<^bold>\<open>The program.\<close>  An inventory holds domain names.  A scheduler creates a monitoring run for each domain that is due and puts
  an event for it in an outbox; users may ask for further runs.  Dispatchers move the events to a queue.  A worker that receives one claims
  the run, queries DNS over two resolvers, fetches the site over HTTPS and HTTP through a dialer that refuses special-purpose addresses,
  classifies what it saw, and records the evidence, the new state of the domain, its history and its incident in one transaction.  Every
  change that a user makes is appended to a hash-chained audit log.  Remote probes repeat the checks of completed runs elsewhere and sign
  what they saw; with it the verdict on a block by the provider is reached.  A rule engine recommends what to do with a domain, and a decimal
  arithmetic computes its costs.

  \<^bold>\<open>The theories\<close>, in the order of their imports.

  \<^item> \<^verbatim>\<open>Prelude\<close>: Go strings as byte lists, integers with the wrap-around of \<^verbatim>\<open>int64\<close>, durations and times in nanoseconds, and the functions of
    the packages \<^verbatim>\<open>strings\<close>, \<^verbatim>\<open>sort\<close> and \<^verbatim>\<open>slices\<close> that the code uses.  \<^verbatim>\<open>Netip\<close>: addresses, prefixes and their parsers (\<^verbatim>\<open>net/netip\<close>).
  \<^item> \<^verbatim>\<open>Netcheck\<close> (\<^verbatim>\<open>netcheck/errors.go\<close>): error codes and the chain of wrapped errors.  \<^verbatim>\<open>Retry\<close> (\<^verbatim>\<open>retry/policy.go\<close>): backoff with jitter; the
    ceiling of a delay is exact and no product overflows.  Its locale \<open>retrying\<close> is the contract of a loop that retries an operation; the
    DNS and the HTTP checker interpret it.
  \<^item> \<^verbatim>\<open>Safedial\<close> (\<^verbatim>\<open>safedial/\<close>): only addresses that the policy accepts are dialed, and which these are.
  \<^item> \<^verbatim>\<open>Dnscheck\<close> (\<^verbatim>\<open>dnscheck/\<close>): queries, CNAME traces, the comparison of the resolvers and both exchanges, which interpret the locale
    \<open>exchanging\<close>.  \<^verbatim>\<open>Tlscheck\<close> (\<^verbatim>\<open>tlscheck/inspector.go\<close>): the verdict on a certificate.  \<^verbatim>\<open>Httpcheck\<close> (\<^verbatim>\<open>httpcheck/\<close>): requests, redirects,
    fallback to HTTP and the evidence, which fits the bounds of the configuration.
  \<^item> \<^verbatim>\<open>Classification\<close> (\<^verbatim>\<open>classification/\<close>): the decision on one run and the effective state, which refines a specification on the history of
    the observations.  \<^verbatim>\<open>Ispclass\<close> (\<^verbatim>\<open>ispclass/classifier.go\<close>): when a block by the provider is reported.
  \<^item> \<^verbatim>\<open>Database\<close>: transactions as functions on tables with an error, the runs of a state machine, and the locales \<open>leasing\<close> and
    \<open>fenced_leasing\<close> for entries that a worker holds for a time.  \<^verbatim>\<open>Queue\<close> (\<^verbatim>\<open>queue/outbox.go\<close>) interprets them for the outbox: its invariant,
    exclusive leases, and what one round of a dispatcher achieves.  \<^verbatim>\<open>Auditlog\<close> (\<^verbatim>\<open>audit/store.go\<close>): the chain of the entries, what it
    commits to, and when it forks.
  \<^item> \<^verbatim>\<open>Normalize\<close> and \<^verbatim>\<open>Domains\<close> (\<^verbatim>\<open>domain/\<close>): canonical names, and the inventory as a sequence of transactions with optimistic versions.
  \<^item> \<^verbatim>\<open>Persistence\<close> (\<^verbatim>\<open>monitor/complete.go\<close>, the evidence), \<^verbatim>\<open>Monitor\<close> (\<^verbatim>\<open>monitor/scheduler.go\<close>, \<^verbatim>\<open>service.go\<close>, \<^verbatim>\<open>store.go\<close>, \<^verbatim>\<open>complete.go\<close>,
    \<^verbatim>\<open>engine.go\<close>): the runs.  \<^verbatim>\<open>Monitorinv\<close>: the invariant of the tables and that every step keeps it.  \<^verbatim>\<open>Monitoring\<close>: what follows.  Here the
    components meet: the steps of the state machine \<open>monitor_trans\<close> are those of schedulers, users, workers, the dispatchers of \<^verbatim>\<open>Queue\<close> and the
    calls of \<^verbatim>\<open>Domains\<close>, in any order.
  \<^item> \<^verbatim>\<open>Probe\<close> (\<^verbatim>\<open>probeprotocol/protocol.go\<close>, \<^verbatim>\<open>probe/\<close>): registration, challenges, access tokens, heartbeats, jobs and signed results of remote
    probes, on tables that extend those of the monitoring, up to the input of \<^verbatim>\<open>Ispclass\<close> and the ISP state of the domain.  \<^verbatim>\<open>Probes\<close>: in any
    sequence of calls a credential is spent once and a revocation is final.  The locale \<open>latching\<close> is the contract of a table whose closed rows
    stay closed; the tables of tokens, challenges, probes and jobs interpret it.
  \<^item> \<^verbatim>\<open>Finance\<close> (\<^verbatim>\<open>finance/decimal.go\<close>, \<^verbatim>\<open>engine.go\<close>): decimals that print and parse back, and the cost of a domain.  \<^verbatim>\<open>Recommendation\<close>
    (\<^verbatim>\<open>recommendation/engine.go\<close>): the policy that the rules amount to.

  \<^bold>\<open>State and errors.\<close>  A struct is a record and an enumeration a datatype or the strings of the source.  A table is the list of its rows in
  the order of insertion; a statement that violates a constraint of \<^verbatim>\<open>migrations/\<close> fails, and a transaction that fails leaves the tables as
  they were.  Transactions follow one another: the code locks the rows it reads (\<^verbatim>\<open>FOR UPDATE\<close>, \<^verbatim>\<open>SKIP LOCKED\<close>, advisory locks), and the rows
  that another transaction holds are arguments of the step.  Errors are values of a sum type, one for each return of the code.

  \<^bold>\<open>Loops.\<close>  There is no fuel.  The loops over attempts, redirects and CNAME records recurse with a measure on the bound that the code itself
  counts to; that a check returns, and after how many attempts, is proved for each of them.

  \<^bold>\<open>Parameters.\<close>  What the code takes from outside is an argument: clocks, random draws and fresh ids (the \<open>_env\<close> records), and the packages
  that are not part of the sources (the \<open>_lib\<close> records): the DNS codec and sockets, \<^verbatim>\<open>net/http\<close>, \<^verbatim>\<open>crypto/tls\<close>, \<^verbatim>\<open>x509\<close>, \<^verbatim>\<open>net/url\<close>, IDNA, the
  public suffix list, \<^verbatim>\<open>encoding/json\<close>, base64, SHA-256, Ed25519, Redis, and the collation of PostgreSQL.  Where a property needs something of them it is a
  named premise, and the witness of the property instantiates it.  The times that steps read from the database do not run backwards.

  \<^bold>\<open>Not modelled.\<close>  Of \<^verbatim>\<open>dnscheck\<close> the discovery of the system resolvers, of \<^verbatim>\<open>httpcheck\<close> the extraction of text and titles from a page, of
  \<^verbatim>\<open>monitor\<close> and \<^verbatim>\<open>domain\<close> the queries that only read for display.  The references to users and registrars are assumed to be kept.  The
  consumer of the queue, the commands, the HTTP API, the configuration and the wiring call the modelled operations and decide little of their
  own.  The state machine of the monitoring and that of the remote probes are not joined: a step of the probes leaves the monitoring as it is
  except for results of their own vantage, their evidence, entries of the history and the ISP column of a domain, and the properties of the monitoring are
  stated so that they do not speak of these; in the machine of the probes the monitoring may change its tables in any way.  The agent that
  runs at a probe is not modelled.  The services of finance and recommendations, the import of sheets, RDAP,
  reports, Drive and sessions are SQL, JSON and calls of third-party packages around the modelled engines.
\<close>

end
